(* ===== verification/Prelude.thy ===== *)
theory Prelude
  imports Main "HOL-Library.Word"
begin

text \<open>
  What every component of the development shares: the result type of fallible Rust code and
  its \<open>?\<close> sequencing, state passing for code that acts on a state, and generic facts about
  lists that several components use.  Collections of simplification rules that the component
  theories fill are declared here.
\<close>

named_theorems result_simps \<open>unfolding of the result and state combinators\<close>
named_theorems str_simps \<open>evaluation rules of the string layer\<close>
named_theorems phase_simps \<open>lifecycle phases after an operation\<close>

section \<open>Results\<close>

text \<open>\<open>Result<T, E>\<close> is the sum type, the error on the left.\<close>

abbreviation Ok :: "'a \<Rightarrow> 'e + 'a" where
  "Ok \<equiv> Inr"

abbreviation Err :: "'e \<Rightarrow> 'e + 'a" where
  "Err \<equiv> Inl"

definition is_ok :: "'e + 'a \<Rightarrow> bool" where
  "is_ok r = (case r of Inl _ \<Rightarrow> False | Inr _ \<Rightarrow> True)"

definition is_err :: "'e + 'a \<Rightarrow> bool" where
  "is_err r = (case r of Inl _ \<Rightarrow> True | Inr _ \<Rightarrow> False)"

definition map_err :: "('e \<Rightarrow> 'f) \<Rightarrow> 'e + 'a \<Rightarrow> 'f + 'a" where
  "map_err f r = (case r of Inl e \<Rightarrow> Inl (f e) | Inr a \<Rightarrow> Inr a)"

definition ok_or :: "'e \<Rightarrow> 'a option \<Rightarrow> 'e + 'a" where
  "ok_or e o' = (case o' of None \<Rightarrow> Inl e | Some a \<Rightarrow> Inr a)"

definition res_ok :: "'e + 'a \<Rightarrow> 'a option" where
  "res_ok r = (case r of Inl _ \<Rightarrow> None | Inr a \<Rightarrow> Some a)"

text \<open>The \<open>?\<close> operator: go on with the value, or return the error.\<close>

definition try_then :: "'e + 'a \<Rightarrow> ('a \<Rightarrow> 'e + 'b) \<Rightarrow> 'e + 'b" where
  "try_then r f = (case r of Inl e \<Rightarrow> Inl e | Inr a \<Rightarrow> f a)"

lemma is_ok_simps [simp]: "is_ok (Inr a)" "\<not> is_ok (Inl e)"
  by (simp_all add: is_ok_def)

lemma is_err_simps [simp]: "is_err (Inl e)" "\<not> is_err (Inr a)"
  by (simp_all add: is_err_def)

lemma is_err_iff: "is_err r \<longleftrightarrow> \<not> is_ok r"
  by (cases r) simp_all

lemma is_ok_cases: "is_ok r \<Longrightarrow> (\<And>a. r = Inr a \<Longrightarrow> P) \<Longrightarrow> P"
  by (cases r) simp_all

lemma map_err_simps [simp, result_simps]:
  "map_err f (Inl e) = Inl (f e)" "map_err f (Inr a) = Inr a"
  by (simp_all add: map_err_def)

lemma ok_or_simps [simp, result_simps]:
  "ok_or e None = Inl e" "ok_or e (Some a) = Inr a"
  by (simp_all add: ok_or_def)

lemma ok_or_eq_Inr [simp]: "ok_or e x = Inr a \<longleftrightarrow> x = Some a"
  by (cases x) simp_all

lemma res_ok_simps [simp, result_simps]: "res_ok (Inl e) = None" "res_ok (Inr a) = Some a"
  by (simp_all add: res_ok_def)

lemma map_err_eq_Inr [simp]: "map_err f r = Inr a \<longleftrightarrow> r = Inr a"
  by (cases r) simp_all

lemma try_then_simps [simp, result_simps]:
  "try_then (Inl e) f = Inl e" "try_then (Inr a) f = f a"
  by (simp_all add: try_then_def)

lemma try_then_eq_Inr: "try_then r f = Inr b \<longleftrightarrow> (\<exists>a. r = Inr a \<and> f a = Inr b)"
  by (cases r) simp_all

lemma try_then_cong [fundef_cong]:
  "r = r' \<Longrightarrow> (\<And>a. r' = Inr a \<Longrightarrow> f a = g a) \<Longrightarrow> try_then r f = try_then r' g"
  by (cases r') simp_all

text \<open>\<open>iter().map(f).collect::<Result<Vec<_>, _>>()\<close>: the first error, or every value.\<close>

fun collect_results :: "('a \<Rightarrow> 'e + 'b) \<Rightarrow> 'a list \<Rightarrow> 'e + 'b list" where
  "collect_results f [] = Ok []"
| "collect_results f (x # xs) =
     try_then (f x) (\<lambda>y. try_then (collect_results f xs) (\<lambda>ys. Ok (y # ys)))"

lemma collect_results_Inr:
  "collect_results f xs = Inr ys \<longleftrightarrow> list_all2 (\<lambda>x y. f x = Inr y) xs ys"
  by (induction xs arbitrary: ys) (auto simp: try_then_eq_Inr list_all2_Cons1)

lemma collect_results_length: "collect_results f xs = Inr ys \<Longrightarrow> length ys = length xs"
  by (auto simp: collect_results_Inr dest: list_all2_lengthD)

section \<open>State passing\<close>

text \<open>
  Code with effects takes the state it acts on and returns its result with the new state;
  \<open>then_io\<close> is plain sequencing and \<open>try_io\<close> is sequencing with \<open>?\<close>.
\<close>

type_synonym ('w, 'a) io = "'w \<Rightarrow> 'a \<times> 'w"

definition then_io :: "('w, 'a) io \<Rightarrow> ('a \<Rightarrow> ('w, 'b) io) \<Rightarrow> ('w, 'b) io" where
  "then_io m k w = (case m w of (a, w') \<Rightarrow> k a w')"

definition try_io :: "('w, 'e + 'a) io \<Rightarrow> ('a \<Rightarrow> ('w, 'e + 'b) io) \<Rightarrow> ('w, 'e + 'b) io" where
  "try_io m k w = (case m w of (Inl e, w') \<Rightarrow> (Inl e, w') | (Inr a, w') \<Rightarrow> k a w')"

definition return_io :: "'a \<Rightarrow> ('w, 'a) io" where
  "return_io a w = (a, w)"

lemma return_io_apply [simp, result_simps]: "return_io a w = (a, w)"
  by (simp add: return_io_def)

lemma then_io_eq [result_simps]: "m w = (a, w') \<Longrightarrow> then_io m k w = k a w'"
  by (simp add: then_io_def)

lemma try_io_err [result_simps]: "m w = (Inl e, w') \<Longrightarrow> try_io m k w = (Inl e, w')"
  by (simp add: try_io_def)

lemma try_io_ok [result_simps]: "m w = (Inr a, w') \<Longrightarrow> try_io m k w = k a w'"
  by (simp add: try_io_def)

text \<open>
  A state predicate that both parts keep is kept by the sequence, whatever they return.
\<close>

lemma then_io_keeps:
  assumes "\<And>w a w'. m w = (a, w') \<Longrightarrow> P w \<Longrightarrow> P w'"
    and "\<And>a w b w'. k a w = (b, w') \<Longrightarrow> P w \<Longrightarrow> P w'"
    and "then_io m k w = (b, w')" and "P w"
  shows "P w'"
  using assms by (cases "m w") (auto simp: then_io_def)

lemma try_io_keeps:
  assumes "\<And>w r w'. m w = (r, w') \<Longrightarrow> P w \<Longrightarrow> P w'"
    and "\<And>a w r w'. k a w = (r, w') \<Longrightarrow> P w \<Longrightarrow> P w'"
    and "try_io m k w = (r, w')" and "P w"
  shows "P w'"
proof -
  obtain q w1 where m: "m w = (q, w1)" by fastforce
  with assms(1,4) have "P w1" by blast
  with m assms(2,3) show ?thesis by (cases q) (auto simp: try_io_def)
qed

section \<open>Lists\<close>

text \<open>\<open>iter().find_map(f)\<close>.\<close>

fun find_map :: "('a \<Rightarrow> 'b option) \<Rightarrow> 'a list \<Rightarrow> 'b option" where
  "find_map f [] = None"
| "find_map f (x # xs) = (case f x of Some y \<Rightarrow> Some y | None \<Rightarrow> find_map f xs)"

lemma find_map_Some: "find_map f xs = Some y \<Longrightarrow> \<exists>x\<in>set xs. f x = Some y"
  by (induction xs) (auto split: option.splits)

lemma find_map_None: "find_map f xs = None \<longleftrightarrow> (\<forall>x\<in>set xs. f x = None)"
  by (induction xs) (auto split: option.splits)

text \<open>\<open>slice.windows(2)\<close>.\<close>

fun windows2 :: "'a list \<Rightarrow> ('a \<times> 'a) list" where
  "windows2 (x # y # xs) = (x, y) # windows2 (y # xs)"
| "windows2 _ = []"

text \<open>Splitting a list at the elements a predicate accepts, as \<open>split\<close> does: never empty.\<close>

fun split_by :: "('a \<Rightarrow> bool) \<Rightarrow> 'a list \<Rightarrow> 'a list list" where
  "split_by P [] = [[]]"
| "split_by P (x # xs) =
     (if P x then [] # split_by P xs
      else (case split_by P xs of [] \<Rightarrow> [[x]] | y # ys \<Rightarrow> (x # y) # ys))"

lemma split_by_not_Nil [simp]: "split_by P xs \<noteq> []"
  by (induction xs) (auto split: list.splits)

lemma split_by_pieces: "ys \<in> set (split_by P xs) \<Longrightarrow> y \<in> set ys \<Longrightarrow> \<not> P y \<and> y \<in> set xs"
  by (induction xs arbitrary: ys) (fastforce split: if_splits list.splits)+

lemma split_by_none: "(\<And>x. x \<in> set xs \<Longrightarrow> \<not> P x) \<Longrightarrow> split_by P xs = [xs]"
  by (induction xs) auto

lemma split_by_append_sep:
  "(\<And>x. x \<in> set xs \<Longrightarrow> \<not> P x) \<Longrightarrow> P s \<Longrightarrow> split_by P (xs @ s # ys) = xs # split_by P ys"
  by (induction xs) auto

lemma length_concat_split_by: "length (concat (split_by P xs)) \<le> length xs"
  by (induction xs) (auto split: list.splits)

text \<open>Joining with a separator, and its inverse.\<close>

fun join_with :: "'a list \<Rightarrow> 'a list list \<Rightarrow> 'a list" where
  "join_with sep [] = []"
| "join_with sep [x] = x"
| "join_with sep (x # y # xs) = x @ sep @ join_with sep (y # xs)"

lemma split_by_join_with:
  "P s \<Longrightarrow> xss \<noteq> [] \<Longrightarrow> (\<And>xs x. xs \<in> set xss \<Longrightarrow> x \<in> set xs \<Longrightarrow> \<not> P x) \<Longrightarrow>
   split_by P (join_with [s] xss) = xss"
proof (induction xss rule: induct_list012)
  case 1
  then show ?case by simp
next
  case (2 xs)
  have "split_by P xs = [xs]" by (rule split_by_none) (use 2 in auto)
  then show ?case by simp
next
  case (3 xs ys zss)
  have *: "\<And>x. x \<in> set xs \<Longrightarrow> \<not> P x" using 3 by auto
  have "split_by P (join_with [s] (ys # zss)) = ys # zss" using 3 by auto
  then show ?case using split_by_append_sep [of xs P s, OF *] 3(3) by simp
qed

lemma set_join_with: "set (join_with sep xss) \<subseteq> set sep \<union> (\<Union>xs\<in>set xss. set xs)"
  by (induction sep xss rule: join_with.induct) auto

text \<open>Keeping the first occurrence of each element, as an insertion into a seen-set does.\<close>

fun dedup_from :: "'a list \<Rightarrow> 'a list \<Rightarrow> 'a list" where
  "dedup_from seen [] = []"
| "dedup_from seen (x # xs) =
     (if x \<in> set seen then dedup_from seen xs else x # dedup_from (x # seen) xs)"

lemma set_dedup_from: "set (dedup_from seen xs) = set xs - set seen"
  by (induction xs arbitrary: seen) auto

lemma distinct_dedup_from: "distinct (dedup_from seen xs)"
  by (induction xs arbitrary: seen) (auto simp: set_dedup_from)

lemma dedup_from_append:
  "dedup_from seen (xs @ ys) = dedup_from seen xs @ dedup_from (rev xs @ seen) ys"
proof (induction xs arbitrary: seen)
  case Nil
  then show ?case by simp
next
  case (Cons x xs)
  have insert_seen: "\<And>s t. set s = set t \<Longrightarrow> dedup_from s ys = dedup_from t ys" for ys :: "'a list"
  proof (induction ys)
    case Nil then show ?case by simp
  next
    case (Cons y ys)
    then show ?case by (metis dedup_from.simps(2) list.simps(15))
  qed
  have same: "x \<in> set seen \<Longrightarrow> dedup_from (rev xs @ seen) ys = dedup_from (rev xs @ x # seen) ys"
    by (rule insert_seen) auto
  show ?case using Cons same by simp
qed

end
