(* ===== verification/Rust_Str.thy ===== *)
theory Rust_Str
  imports Prelude
begin

text \<open>
  The part of Rust's string library the program uses.  A \<open>String\<close> or \<open>&str\<close> is the
  list of its UTF-8 bytes (an Isabelle \<open>char\<close> is a byte), so \<open>len()\<close> is \<open>length\<close>; a
  character is a group of bytes.  Slicing off a character boundary panics in Rust and is
  \<open>None\<close> here.
\<close>

section \<open>Bytes and UTF-8\<close>

abbreviation byte_val :: "char \<Rightarrow> nat" where
  "byte_val \<equiv> of_char"

definition is_cont :: "char \<Rightarrow> bool" where
  "is_cont c = (128 \<le> byte_val c \<and> byte_val c < 192)"

definition byte_in :: "nat \<Rightarrow> nat \<Rightarrow> char \<Rightarrow> bool" where
  "byte_in lo hi c = (lo \<le> byte_val c \<and> byte_val c \<le> hi)"

text \<open>The characters of a well-formed text, each as the list of its bytes.\<close>

function utf8_chars :: "string \<Rightarrow> string list" where
  "utf8_chars [] = []"
| "utf8_chars (c # cs) = (c # takeWhile is_cont cs) # utf8_chars (dropWhile is_cont cs)"
  by pat_completeness auto
termination
  by (relation "measure length") (auto simp: less_Suc_eq_le length_dropWhile_le)

lemma concat_utf8_chars [simp]: "concat (utf8_chars s) = s"
  by (induction s rule: utf8_chars.induct) simp_all

lemma utf8_chars_nonempty: "g \<in> set (utf8_chars s) \<Longrightarrow> g \<noteq> []"
  by (induction s rule: utf8_chars.induct) auto

lemma length_utf8_chars: "length (utf8_chars s) \<le> length s"
proof (induction s rule: utf8_chars.induct)
  case (2 c cs)
  then show ?case using length_dropWhile_le [of is_cont cs] by simp
qed simp

text \<open>\<open>chars().count()\<close> and \<open>is_char_boundary\<close>.\<close>

definition chars_count :: "string \<Rightarrow> nat" where
  "chars_count s = length (utf8_chars s)"

definition is_char_boundary :: "string \<Rightarrow> nat \<Rightarrow> bool" where
  "is_char_boundary s k =
     (k = 0 \<or> k = length s \<or> (k < length s \<and> \<not> is_cont (s ! k)))"

text \<open>\<open>&s[k..]\<close>: a panic (\<open>None\<close>) off a boundary or past the end.\<close>

definition slice_from :: "string \<Rightarrow> nat \<Rightarrow> string option" where
  "slice_from s k = (if is_char_boundary s k then Some (drop k s) else None)"

text \<open>
  Decoding: the length of the first character of a byte sequence when it is well formed
  (\<open>Inr\<close>), else the length of the maximal invalid prefix that is replaced as one (\<open>Inl\<close>).
\<close>

definition second_ok :: "nat \<Rightarrow> char \<Rightarrow> bool" where
  "second_ok b c =
     (if b = 224 then byte_in 160 191 c
      else if b = 237 then byte_in 128 159 c
      else if b = 240 then byte_in 144 191 c
      else if b = 244 then byte_in 128 143 c
      else is_cont c)"

definition seq_len :: "nat \<Rightarrow> nat" where
  "seq_len b =
     (if b < 128 then 1 else if b < 194 then 0 else if b < 224 then 2
      else if b < 240 then 3 else if b < 245 then 4 else 0)"

fun utf8_step :: "string \<Rightarrow> nat + nat" where
  "utf8_step [] = Inl 0"
| "utf8_step (c # cs) =
     (let n = seq_len (byte_val c) in
      if n = 0 then Inl 1
      else if n = 1 then Inr 1
      else (case cs of
        [] \<Rightarrow> Inl 1
      | d # ds \<Rightarrow>
          if \<not> second_ok (byte_val c) d then Inl 1
          else if n = 2 then Inr 2
          else (case ds of
            [] \<Rightarrow> Inl 2
          | e # es \<Rightarrow>
              if \<not> is_cont e then Inl 2
              else if n = 3 then Inr 3
              else (case es of
                [] \<Rightarrow> Inl 3
              | f # _ \<Rightarrow> if is_cont f then Inr 4 else Inl 3))))"

definition step_len :: "string \<Rightarrow> nat" where
  "step_len s = max 1 (case utf8_step s of Inl n \<Rightarrow> n | Inr n \<Rightarrow> n)"

definition replacement_char :: string where
  "replacement_char = map char_of [239, 191, 189 :: nat]"

function valid_utf8 :: "string \<Rightarrow> bool" where
  "valid_utf8 s =
     (if s = [] then True
      else if is_ok (utf8_step s) then valid_utf8 (drop (step_len s) s) else False)"
  by pat_completeness auto
termination
  by (relation "measure length") (auto simp: step_len_def)

text \<open>\<open>String::from_utf8_lossy\<close>.\<close>

function from_utf8_lossy :: "string \<Rightarrow> string" where
  "from_utf8_lossy s =
     (if s = [] then []
      else (if is_ok (utf8_step s) then take (step_len s) s else replacement_char)
             @ from_utf8_lossy (drop (step_len s) s))"
  by pat_completeness auto
termination
  by (relation "measure length") (auto simp: step_len_def)

declare valid_utf8.simps [simp del] from_utf8_lossy.simps [simp del]

lemma valid_utf8_Nil [simp]: "valid_utf8 []"
  by (simp add: valid_utf8.simps)

lemma from_utf8_lossy_Nil [simp]: "from_utf8_lossy [] = []"
  by (simp add: from_utf8_lossy.simps)

lemma from_utf8_lossy_valid: "valid_utf8 s \<Longrightarrow> from_utf8_lossy s = s"
proof (induction s rule: valid_utf8.induct)
  case (1 s)
  show ?case
  proof (cases "s = []")
    case False
    with 1(2) have ok: "is_ok (utf8_step s)" and v: "valid_utf8 (drop (step_len s) s)"
      by (auto simp: valid_utf8.simps [of s] split: if_splits)
    with 1(1) False have "from_utf8_lossy (drop (step_len s) s) = drop (step_len s) s" by blast
    with ok False show ?thesis by (subst from_utf8_lossy.simps) simp
  qed simp
qed

section \<open>Comparison and search\<close>

definition lower_byte :: "char \<Rightarrow> char" where
  "lower_byte c = (if byte_in 65 90 c then char_of (byte_val c + 32) else c)"

definition eq_ignore_ascii_case :: "string \<Rightarrow> string \<Rightarrow> bool" where
  "eq_ignore_ascii_case a b = (map lower_byte a = map lower_byte b)"

lemma eq_ignore_ascii_case_refl [simp]: "eq_ignore_ascii_case a a"
  by (simp add: eq_ignore_ascii_case_def)

lemma eq_ignore_ascii_case_sym: "eq_ignore_ascii_case a b \<longleftrightarrow> eq_ignore_ascii_case b a"
  by (auto simp: eq_ignore_ascii_case_def)

lemma eq_ignore_ascii_case_trans:
  "eq_ignore_ascii_case a b \<Longrightarrow> eq_ignore_ascii_case b c \<Longrightarrow> eq_ignore_ascii_case a c"
  by (simp add: eq_ignore_ascii_case_def)

lemma eq_ignore_ascii_case_length: "eq_ignore_ascii_case a b \<Longrightarrow> length a = length b"
  by (auto simp: eq_ignore_ascii_case_def dest: map_eq_imp_length_eq)

definition starts_with :: "string \<Rightarrow> string \<Rightarrow> bool" where
  "starts_with p s = (take (length p) s = p)"

definition strip_prefix :: "string \<Rightarrow> string \<Rightarrow> string option" where
  "strip_prefix p s = (if starts_with p s then Some (drop (length p) s) else None)"

fun str_contains :: "string \<Rightarrow> string \<Rightarrow> bool" where
  "str_contains p [] = (p = [])"
| "str_contains p (c # cs) = (starts_with p (c # cs) \<or> str_contains p cs)"

lemma starts_with_append [simp]: "starts_with p (p @ s)"
  by (simp add: starts_with_def)

lemma starts_with_iff: "starts_with p s \<longleftrightarrow> (\<exists>t. s = p @ t)"
  by (auto simp: starts_with_def) (metis append_take_drop_id)

lemma str_contains_iff: "str_contains p s \<longleftrightarrow> (\<exists>a b. s = a @ p @ b)"
proof (induction s)
  case Nil
  then show ?case by simp
next
  case (Cons c s)
  show ?case
  proof
    assume "str_contains p (c # s)"
    then consider t where "c # s = [] @ p @ t" | a b where "c # s = (c # a) @ p @ b"
      using Cons.IH by (auto simp: starts_with_iff)
    then show "\<exists>a b. c # s = a @ p @ b" by cases blast+
  next
    assume "\<exists>a b. c # s = a @ p @ b"
    then obtain a b where ab: "c # s = a @ p @ b" by blast
    show "str_contains p (c # s)"
    proof (cases a)
      case Nil
      with ab have "starts_with p (c # s)" by (auto simp: starts_with_iff)
      then show ?thesis by simp
    next
      case (Cons x a')
      with ab have "s = a' @ p @ b" by simp
      with Cons.IH show ?thesis by auto
    qed
  qed
qed

lemma str_contains_append1: "str_contains p a \<Longrightarrow> str_contains p (a @ b)"
  unfolding str_contains_iff by (metis append_assoc)

lemma str_contains_append2: "str_contains p b \<Longrightarrow> str_contains p (a @ b)"
  by (induction a) simp_all

section \<open>White space, splitting, lines\<close>

definition ws_codes :: "nat list list" where
  "ws_codes =
     [[9], [10], [11], [12], [13], [32], [194, 133], [194, 160], [225, 154, 128],
      [226, 128, 128], [226, 128, 129], [226, 128, 130], [226, 128, 131], [226, 128, 132],
      [226, 128, 133], [226, 128, 134], [226, 128, 135], [226, 128, 136], [226, 128, 137],
      [226, 128, 138], [226, 128, 168], [226, 128, 169], [226, 128, 175], [226, 129, 159],
      [227, 128, 128]]"

text \<open>\<open>char::is_whitespace\<close>: Unicode \<open>White_Space\<close>, on the bytes of one character.\<close>

definition is_ws :: "string \<Rightarrow> bool" where
  "is_ws g = (map byte_val g \<in> set ws_codes)"

definition trim :: "string \<Rightarrow> string" where
  "trim s = concat (rev (dropWhile is_ws (rev (dropWhile is_ws (utf8_chars s)))))"

definition split_whitespace :: "string \<Rightarrow> string list" where
  "split_whitespace s = filter (\<lambda>w. w \<noteq> []) (map concat (split_by is_ws (utf8_chars s)))"

definition split_on :: "char \<Rightarrow> string \<Rightarrow> string list" where
  "split_on c = split_by (\<lambda>x. x = c)"

definition newline :: char where
  "newline = char_of (10 :: nat)"

definition strip_cr :: "string \<Rightarrow> string" where
  "strip_cr l = (if l \<noteq> [] \<and> last l = char_of (13 :: nat) then butlast l else l)"

definition str_lines :: "string \<Rightarrow> string list" where
  "str_lines s = (let ps = split_on newline s in
     map strip_cr (butlast ps) @ (if last ps = [] then [] else [last ps]))"

text \<open>\<open>split_once(c)\<close>, \<open>rsplit_once(c)\<close>, and the last piece of \<open>rsplit(pred)\<close>.\<close>

definition split_once :: "char \<Rightarrow> string \<Rightarrow> (string \<times> string) option" where
  "split_once c s =
     (case dropWhile (\<lambda>x. x \<noteq> c) s of [] \<Rightarrow> None
      | _ # r \<Rightarrow> Some (takeWhile (\<lambda>x. x \<noteq> c) s, r))"

fun split_once_str :: "string \<Rightarrow> string \<Rightarrow> (string \<times> string) option" where
  "split_once_str p [] = (if p = [] then Some ([], []) else None)"
| "split_once_str p (c # cs) =
     (if starts_with p (c # cs) then Some ([], drop (length p) (c # cs))
      else map_option (\<lambda>(a, b). (c # a, b)) (split_once_str p cs))"

definition after_last :: "(char \<Rightarrow> bool) \<Rightarrow> string \<Rightarrow> string" where
  "after_last P s = rev (takeWhile (\<lambda>x. \<not> P x) (rev s))"

definition rsplit_once :: "char \<Rightarrow> string \<Rightarrow> (string \<times> string) option" where
  "rsplit_once c s =
     (if c \<in> set s
      then Some (take (length s - length (after_last (\<lambda>x. x = c) s) - 1) s,
                 after_last (\<lambda>x. x = c) s)
      else None)"

lemma after_last_no_sep: "x \<in> set (after_last P s) \<Longrightarrow> \<not> P x"
  by (auto simp: after_last_def dest: set_takeWhileD)

lemma after_last_none: "(\<And>x. x \<in> set s \<Longrightarrow> \<not> P x) \<Longrightarrow> after_last P s = s"
  unfolding after_last_def by (subst takeWhile_eq_all_conv [THEN iffD2]) auto

lemma after_last_append: "P c \<Longrightarrow> (\<And>x. x \<in> set b \<Longrightarrow> \<not> P x) \<Longrightarrow> after_last P (a @ c # b) = b"
  by (simp add: after_last_def takeWhile_append)

lemma split_on_pieces: "p \<in> set (split_on c s) \<Longrightarrow> c \<notin> set p"
  by (auto simp: split_on_def dest: split_by_pieces)

lemma split_on_not_Nil [simp]: "split_on c s \<noteq> []"
  by (simp add: split_on_def)

lemma split_once_Some: "split_once c s = Some (a, b) \<Longrightarrow> s = a @ c # b \<and> c \<notin> set a"
  unfolding split_once_def
  by (auto split: list.splits dest: set_takeWhileD)
     (metis (mono_tags, lifting) dropWhile_eq_Cons_conv takeWhile_dropWhile_id)

lemma split_whitespace_nonempty: "w \<in> set (split_whitespace s) \<Longrightarrow> w \<noteq> []"
  by (simp add: split_whitespace_def)

section \<open>Paths\<close>

text \<open>
  \<open>Path::components\<close>: a leading root or \<open>.\<close>, then the named components; repeated
  separators and inner \<open>.\<close> are dropped.  Two paths are equal when their components are.
\<close>

definition is_absolute :: "string \<Rightarrow> bool" where
  "is_absolute p = starts_with ''/'' p"

definition path_comps :: "string \<Rightarrow> string list" where
  "path_comps p =
     (if is_absolute p then [''/''] else if hd (split_on (CHR ''/'') p) = ''.'' then [''.''] else [])
     @ filter (\<lambda>c. c \<noteq> [] \<and> c \<noteq> ''.'') (split_on (CHR ''/'') p)"

definition path_eq :: "string \<Rightarrow> string \<Rightarrow> bool" where
  "path_eq p q = (path_comps p = path_comps q)"

definition file_name :: "string \<Rightarrow> string option" where
  "file_name p =
     (let cs = filter (\<lambda>c. c \<noteq> [] \<and> c \<noteq> ''.'') (split_on (CHR ''/'') p)
      in if cs = [] \<or> last cs = ''..'' then None else Some (last cs))"

text \<open>\<open>file_name().and_then(|p| p.to_str())\<close>.\<close>

definition file_name_str :: "string \<Rightarrow> string option" where
  "file_name_str p =
     (case file_name p of None \<Rightarrow> None | Some n \<Rightarrow> if valid_utf8 n then Some n else None)"

lemma path_eq_refl [simp]: "path_eq p p"
  by (simp add: path_eq_def)

lemma path_eq_sym: "path_eq p q \<longleftrightarrow> path_eq q p"
  by (auto simp: path_eq_def)

lemma path_eq_trans: "path_eq p q \<Longrightarrow> path_eq q r \<Longrightarrow> path_eq p r"
  by (simp add: path_eq_def)

section \<open>Numbers\<close>

definition is_digit :: "char \<Rightarrow> bool" where
  "is_digit c = byte_in 48 57 c"

definition is_alpha :: "char \<Rightarrow> bool" where
  "is_alpha c = (byte_in 65 90 c \<or> byte_in 97 122 c)"

definition is_alnum :: "char \<Rightarrow> bool" where
  "is_alnum c = (is_digit c \<or> is_alpha c)"

definition digit_val :: "nat \<Rightarrow> char \<Rightarrow> nat option" where
  "digit_val radix c =
     (let v = (if is_digit c then byte_val c - 48
               else if byte_in 97 122 c then byte_val c - 87
               else if byte_in 65 90 c then byte_val c - 55 else radix)
      in if v < radix then Some v else None)"

fun digits_val :: "nat \<Rightarrow> nat \<Rightarrow> string \<Rightarrow> nat option" where
  "digits_val radix acc [] = Some acc"
| "digits_val radix acc (c # cs) =
     (case digit_val radix c of None \<Rightarrow> None | Some v \<Rightarrow> digits_val radix (acc * radix + v) cs)"

text \<open>
  \<open>u16/u32/u64::from_str_radix\<close>: an optional \<open>+\<close>, at least one digit, and no overflow of
  the type, whose largest value is \<open>hi\<close>.
\<close>

definition parse_uint_radix :: "nat \<Rightarrow> nat \<Rightarrow> string \<Rightarrow> nat option" where
  "parse_uint_radix radix hi s =
     (let ds = (case s of [] \<Rightarrow> [] | c # cs \<Rightarrow> if c = CHR ''+'' then cs else s)
      in if ds = [] then None
         else (case digits_val radix 0 ds of
                 None \<Rightarrow> None
               | Some n \<Rightarrow> if n \<le> hi then Some n else None))"

definition u16_max :: nat where "u16_max = 65535"
definition u32_max :: nat where "u32_max = 4294967295"
definition u64_max :: nat where "u64_max = 18446744073709551615"
definition i32_max :: nat where "i32_max = 2147483647"

abbreviation parse_u16 :: "string \<Rightarrow> nat option" where
  "parse_u16 \<equiv> parse_uint_radix 10 u16_max"

abbreviation parse_u32 :: "string \<Rightarrow> nat option" where
  "parse_u32 \<equiv> parse_uint_radix 10 u32_max"

abbreviation parse_u64 :: "string \<Rightarrow> nat option" where
  "parse_u64 \<equiv> parse_uint_radix 10 u64_max"

lemma parse_uint_radix_le: "parse_uint_radix r hi s = Some n \<Longrightarrow> n \<le> hi"
  by (auto simp: parse_uint_radix_def Let_def split: option.splits if_splits list.splits)

text \<open>\<open>to_string()\<close> of an unsigned number.\<close>

definition dec_digit :: "nat \<Rightarrow> char" where
  "dec_digit d = ''0123456789'' ! d"

fun dec :: "nat \<Rightarrow> string" where
  "dec n = (if n < 10 then [dec_digit n] else dec (n div 10) @ [dec_digit (n mod 10)])"

declare dec.simps [simp del]

lemma byte_dec_digit:
  assumes "d < 10"
  shows "byte_val (dec_digit d) = 48 + d"
proof -
  from assms have "d \<in> set [0..<10]" by simp
  then show ?thesis by (auto simp: dec_digit_def upt_rec)
qed

lemma digit_val_dec_digit: "d < 10 \<Longrightarrow> digit_val 10 (dec_digit d) = Some d"
  by (simp add: digit_val_def is_digit_def byte_in_def byte_dec_digit)

lemma digits_val_append:
  "digits_val r acc (xs @ ys) =
     (case digits_val r acc xs of None \<Rightarrow> None | Some m \<Rightarrow> digits_val r m ys)"
  by (induction xs arbitrary: acc) (auto split: option.splits)

lemma digits_val_dec: "digits_val 10 0 (dec n) = Some n"
proof (induction n rule: dec.induct)
  case (1 n)
  show ?case
  proof (cases "n < 10")
    case True
    then show ?thesis by (subst dec.simps) (simp add: digit_val_dec_digit)
  next
    case False
    with 1 have "digits_val 10 0 (dec (n div 10)) = Some (n div 10)" by simp
    with False show ?thesis
      by (subst dec.simps) (simp add: digits_val_append digit_val_dec_digit)
  qed
qed

lemma dec_digits: "c \<in> set (dec n) \<Longrightarrow> is_digit c"
proof (induction n rule: dec.induct)
  case (1 n)
  then show ?case
    by (subst (asm) (2) dec.simps)
       (auto simp: is_digit_def byte_in_def byte_dec_digit split: if_splits)
qed

lemma dec_nonempty [simp]: "dec n \<noteq> []"
  by (subst dec.simps) simp

lemma dec_hd_not_plus: "dec n = c # cs \<Longrightarrow> c \<noteq> CHR ''+''"
  using dec_digits [of c n] by (auto simp: is_digit_def byte_in_def)

lemma parse_uint_dec [simp]: "n \<le> hi \<Longrightarrow> parse_uint_radix 10 hi (dec n) = Some n"
  using digits_val_dec [of n] dec_hd_not_plus [of n]
  by (cases "dec n") (auto simp: parse_uint_radix_def)

lemma dec_inject [simp]: "dec m = dec n \<longleftrightarrow> m = n"
  by (metis digits_val_dec option.inject)

end
