(* ===== verification/Net_Types.thy ===== *)
theory Net_Types
  imports Rust_Str
begin

text \<open>
  IP addresses of \<open>std::net\<close>: their text form, their parser (\<open>FromStr\<close>) and the classes
  of addresses the program asks about.  An IPv4 address is its four octets, an IPv6 address
  its eight segments.  Socket addresses are an address and a port.
\<close>

type_synonym u8 = "8 word"
type_synonym u16 = "16 word"
type_synonym u32 = "32 word"
type_synonym u64 = "64 word"

datatype ip_addr = V4 u8 u8 u8 u8 | V6 "u16 list"

record socket_addr =
  sa_ip :: ip_addr
  sa_port :: u16

fun ip_wf :: "ip_addr \<Rightarrow> bool" where
  "ip_wf (V4 _ _ _ _) = True"
| "ip_wf (V6 ss) = (length ss = 8)"

section \<open>Parsing\<close>

text \<open>\<open>read_number(radix, Some(max_digits), allow_zero_prefix)\<close>: the number and the rest.\<close>

fun read_digits :: "nat \<Rightarrow> string \<Rightarrow> nat list \<times> string" where
  "read_digits r [] = ([], [])"
| "read_digits r (c # cs) =
     (case digit_val r c of
        None \<Rightarrow> ([], c # cs)
      | Some v \<Rightarrow> (case read_digits r cs of (vs, rest) \<Rightarrow> (v # vs, rest)))"

definition digits_num :: "nat \<Rightarrow> nat list \<Rightarrow> nat" where
  "digits_num r vs = foldl (\<lambda>acc v. acc * r + v) 0 vs"

definition read_number :: "nat \<Rightarrow> nat \<Rightarrow> bool \<Rightarrow> nat \<Rightarrow> string \<Rightarrow> (nat \<times> string) option" where
  "read_number r max_digits allow_zero_prefix hi s =
     (case read_digits r s of (vs, rest) \<Rightarrow>
        if vs = [] \<or> length vs > max_digits \<or> digits_num r vs > hi
             \<or> (\<not> allow_zero_prefix \<and> hd vs = 0 \<and> length vs > 1)
        then None else Some (digits_num r vs, rest))"

definition read_char :: "char \<Rightarrow> string \<Rightarrow> string option" where
  "read_char c s = (case s of [] \<Rightarrow> None | x # xs \<Rightarrow> if x = c then Some xs else None)"

definition read_octet :: "string \<Rightarrow> (nat \<times> string) option" where
  "read_octet = read_number 10 3 False 255"

definition read_dot_octet :: "string \<Rightarrow> (nat \<times> string) option" where
  "read_dot_octet s = Option.bind (read_char (CHR ''.'') s) read_octet"

definition read_ipv4 :: "string \<Rightarrow> (ip_addr \<times> string) option" where
  "read_ipv4 s =
     Option.bind (read_octet s) (\<lambda>(a, s).
     Option.bind (read_dot_octet s) (\<lambda>(b, s).
     Option.bind (read_dot_octet s) (\<lambda>(c, s).
     Option.bind (read_dot_octet s) (\<lambda>(d, s).
       Some (V4 (of_nat a) (of_nat b) (of_nat c) (of_nat d), s)))))"

definition read_sep :: "bool \<Rightarrow> (string \<Rightarrow> ('a \<times> string) option) \<Rightarrow> string \<Rightarrow> ('a \<times> string) option" where
  "read_sep first p s = (if first then p s else Option.bind (read_char (CHR '':'') s) p)"

text \<open>
  \<open>read_groups\<close>: up to \<open>limit\<close> groups, an embedded IPv4 address counting as two.  The
  result is the groups read, whether they end in an IPv4 address, and the rest.
\<close>

fun read_groups :: "nat \<Rightarrow> bool \<Rightarrow> string \<Rightarrow> u16 list \<times> bool \<times> string" where
  "read_groups 0 first s = ([], False, s)"
| "read_groups (Suc limit) first s =
     (case (if limit = 0 then None else read_sep first read_ipv4 s) of
        Some (V4 a b c d, rest) \<Rightarrow>
          ([ucast a * 256 + ucast b, ucast c * 256 + ucast d], True, rest)
      | _ \<Rightarrow>
          (case read_sep first (read_number 16 4 True 65535) s of
             None \<Rightarrow> ([], False, s)
           | Some (g, rest) \<Rightarrow>
               (case read_groups limit False rest of
                  (gs, v4, rest') \<Rightarrow> (of_nat g # gs, v4, rest'))))"

definition read_ipv6 :: "string \<Rightarrow> (ip_addr \<times> string) option" where
  "read_ipv6 s =
     (case read_groups 8 True s of (hs, v4, rest) \<Rightarrow>
        if length hs = 8 then Some (V6 hs, rest)
        else if v4 then None
        else Option.bind (read_char (CHR '':'') rest) (\<lambda>r1.
             Option.bind (read_char (CHR '':'') r1) (\<lambda>r2.
               (case read_groups (8 - (length hs + 1)) True r2 of (ts, _, r3) \<Rightarrow>
                  Some (V6 (hs @ replicate (8 - length hs - length ts) 0 @ ts), r3)))))"

text \<open>\<open>str::parse::<IpAddr>()\<close>: the whole text must be consumed.\<close>

definition parse_ip :: "string \<Rightarrow> ip_addr option" where
  "parse_ip s =
     (case (case read_ipv4 s of Some r \<Rightarrow> Some r | None \<Rightarrow> read_ipv6 s) of
        Some (ip, []) \<Rightarrow> Some ip
      | _ \<Rightarrow> None)"

section \<open>Display\<close>

definition show_v4 :: "u8 \<Rightarrow> u8 \<Rightarrow> u8 \<Rightarrow> u8 \<Rightarrow> string" where
  "show_v4 a b c d =
     dec (unat a) @ ''.'' @ dec (unat b) @ ''.'' @ dec (unat c) @ ''.'' @ dec (unat d)"

definition hex_digit :: "nat \<Rightarrow> char" where
  "hex_digit d = ''0123456789abcdef'' ! d"

fun hex :: "nat \<Rightarrow> string" where
  "hex n = (if n < 16 then [hex_digit n] else hex (n div 16) @ [hex_digit (n mod 16)])"

declare hex.simps [simp del]

text \<open>The longest run of zero segments (the first of the longest), its start and length.\<close>

fun zero_runs :: "nat \<Rightarrow> nat \<Rightarrow> nat \<Rightarrow> nat \<Rightarrow> nat \<Rightarrow> u16 list \<Rightarrow> nat \<times> nat" where
  "zero_runs i cs cl bs bl [] = (bs, bl)"
| "zero_runs i cs cl bs bl (x # xs) =
     (if x = 0
      then let cs' = (if cl = 0 then i else cs); cl' = Suc cl in
           (if cl' > bl then zero_runs (Suc i) cs' cl' cs' cl' xs
            else zero_runs (Suc i) cs' cl' bs bl xs)
      else zero_runs (Suc i) 0 0 bs bl xs)"

definition show_segments :: "u16 list \<Rightarrow> string" where
  "show_segments ss = join_with '':'' (map (\<lambda>x. hex (unat x)) ss)"

definition show_v6 :: "u16 list \<Rightarrow> string" where
  "show_v6 ss =
     (if take 6 ss = [0, 0, 0, 0, 0, 0xffff]
      then ''::ffff:'' @ show_v4 (ucast (drop_bit 8 (ss ! 6))) (ucast (ss ! 6))
                                 (ucast (drop_bit 8 (ss ! 7))) (ucast (ss ! 7))
      else (case zero_runs 0 0 0 0 0 ss of (st, len) \<Rightarrow>
              if len > 1 then show_segments (take st ss) @ ''::'' @ show_segments (drop (st + len) ss)
              else show_segments ss))"

fun show_ip :: "ip_addr \<Rightarrow> string" where
  "show_ip (V4 a b c d) = show_v4 a b c d"
| "show_ip (V6 ss) = show_v6 ss"

section \<open>Classes\<close>

fun is_loopback :: "ip_addr \<Rightarrow> bool" where
  "is_loopback (V4 a _ _ _) = (a = 127)"
| "is_loopback (V6 ss) = (ss = [0, 0, 0, 0, 0, 0, 0, 1])"

fun is_unspecified :: "ip_addr \<Rightarrow> bool" where
  "is_unspecified (V4 a b c d) = (a = 0 \<and> b = 0 \<and> c = 0 \<and> d = 0)"
| "is_unspecified (V6 ss) = (ss = [0, 0, 0, 0, 0, 0, 0, 0])"

fun is_multicast :: "ip_addr \<Rightarrow> bool" where
  "is_multicast (V4 a _ _ _) = (224 \<le> a \<and> a \<le> 239)"
| "is_multicast (V6 ss) = (case ss of [] \<Rightarrow> False | s # _ \<Rightarrow> drop_bit 8 s = 0xff)"

fun is_link_local_v4 :: "ip_addr \<Rightarrow> bool" where
  "is_link_local_v4 (V4 a b _ _) = (a = 169 \<and> b = 254)"
| "is_link_local_v4 (V6 _) = False"

section \<open>Round trip\<close>

lemma read_digits_stop:
  "(\<And>c. c \<in> set ds \<Longrightarrow> digit_val r c \<noteq> None) \<Longrightarrow>
   (rest = [] \<or> digit_val r (hd rest) = None) \<Longrightarrow>
   read_digits r (ds @ rest) = (map (\<lambda>c. the (digit_val r c)) ds, rest)"
proof (induction ds)
  case Nil
  then show ?case by (cases rest) auto
next
  case (Cons c ds)
  then show ?case by fastforce
qed

lemma digits_num_digits_val:
  "digits_val r acc s = Some n \<Longrightarrow> foldl (\<lambda>a v. a * r + v) acc (map (\<lambda>c. the (digit_val r c)) s) = n"
  by (induction s arbitrary: acc) (auto split: option.splits)

lemma is_digit_digit_val: "is_digit c \<Longrightarrow> digit_val 10 c \<noteq> None"
  by (auto simp: digit_val_def is_digit_def byte_in_def Let_def)

lemma dec_length_3:
  assumes "n < 1000"
  shows "length (dec n) \<le> 3"
proof -
  have 1: "m < 10 \<Longrightarrow> length (dec m) = 1" for m by (subst dec.simps) simp
  have 2: "length (dec m) \<le> 2" if "m < 100" for m
  proof (cases "m < 10")
    case False
    with that have "m div 10 < 10" by simp
    with False 1 show ?thesis by (subst dec.simps) simp
  qed (simp add: 1)
  show ?thesis
  proof (cases "n < 10")
    case False
    from assms have "n div 10 < 100" by simp
    with False 2 show ?thesis by (subst dec.simps) simp
  qed (simp add: 1)
qed

lemma hd_dec_zero: "the (digit_val 10 (hd (dec n))) = 0 \<Longrightarrow> n = 0"
proof (induction n rule: dec.induct)
  case (1 n)
  show ?case
  proof (cases "n < 10")
    case True
    with 1(2) show ?thesis by (subst (asm) dec.simps) (simp add: digit_val_dec_digit)
  next
    case False
    have "hd (dec n) = hd (dec (n div 10))"
      using False by (subst dec.simps) (simp add: hd_append)
    with 1 False show ?thesis by fastforce
  qed
qed

lemma read_octet_dec:
  assumes "n \<le> 255" and "rest = [] \<or> \<not> is_digit (hd rest)"
  shows "read_octet (dec n @ rest) = Some (n, rest)"
proof -
  have rest: "rest = [] \<or> digit_val 10 (hd rest) = None"
    using assms(2) by (auto simp: digit_val_def is_digit_def byte_in_def Let_def)
  have rd: "read_digits 10 (dec n @ rest) = (map (\<lambda>c. the (digit_val 10 c)) (dec n), rest)"
    by (rule read_digits_stop) (use rest in \<open>auto dest: dec_digits is_digit_digit_val\<close>)
  have num: "digits_num 10 (map (\<lambda>c. the (digit_val 10 c)) (dec n)) = n"
    unfolding digits_num_def by (rule digits_num_digits_val [OF digits_val_dec])
  have len: "length (dec n) \<le> 3" by (rule dec_length_3) (use assms in simp)
  have lead: "hd (map (\<lambda>c. the (digit_val 10 c)) (dec n)) = 0 \<Longrightarrow> length (dec n) = 1"
    using hd_dec_zero [of n] by (simp add: list.map_sel(1)) (simp add: dec.simps)
  show ?thesis
    using num len lead assms(1) by (auto simp: read_octet_def read_number_def rd)
qed

lemma unat_u8_le: "unat (a :: u8) \<le> 255"
  using unsigned_less [of a, where ?'a = nat] by simp

lemma not_digit_dot: "\<not> is_digit (CHR ''.'')"
  by (simp add: is_digit_def byte_in_def)

lemma read_ipv4_show:
  assumes "rest = [] \<or> \<not> is_digit (hd rest)"
  shows "read_ipv4 (show_v4 a b c d @ rest) = Some (V4 a b c d, rest)"
proof -
  have dot: "read_dot_octet (''.'' @ dec (unat x) @ r) = Some (unat x, r)"
    if "r = [] \<or> \<not> is_digit (hd r)" for x :: u8 and r
    using read_octet_dec [OF unat_u8_le that] by (simp add: read_dot_octet_def read_char_def)
  have oct: "read_octet (dec (unat x) @ r) = Some (unat x, r)"
    if "r = [] \<or> \<not> is_digit (hd r)" for x :: u8 and r
    using read_octet_dec [OF unat_u8_le that] .
  show ?thesis
    using assms by (simp add: read_ipv4_def show_v4_def oct dot [simplified] not_digit_dot)
qed

lemma parse_ip_show_v4 [simp]: "parse_ip (show_v4 a b c d) = Some (V4 a b c d)"
  using read_ipv4_show [of "[]"] by (simp add: parse_ip_def)

lemma show_v4_chars: "x \<in> set (show_v4 a b c d) \<Longrightarrow> is_digit x \<or> x = CHR ''.''"
  by (auto simp: show_v4_def dest: dec_digits)

end
