(* ===== verification/Protocol.thy ===== *)
theory Protocol
  imports Net_Types
begin

text \<open>
  \<open>daemon/src/protocol.rs\<close>: the messages between the desktop client and the root daemon,
  the bounds every request is checked against, and the framing.  \<open>serde_json\<close> and the URL
  parser of \<open>reqwest\<close> are not part of the repository: they are arguments (\<open>ser\<close>,
  \<open>de\<close>, \<open>url_parse\<close>) of the definitions that call them.
\<close>

section \<open>Limits\<close>

definition PROTOCOL_VERSION :: u16 where "PROTOCOL_VERSION = 3"
definition MAX_FRAME_BYTES :: nat where "MAX_FRAME_BYTES = 1024 * 1024"
definition MAX_CONFIG_BYTES :: nat where "MAX_CONFIG_BYTES = 384 * 1024"
definition MAX_SERVER_IPS :: nat where "MAX_SERVER_IPS = 64"
definition MAX_EXCLUDED_APPS :: nat where "MAX_EXCLUDED_APPS = 256"
definition MAX_APP_SELECTOR_BYTES :: nat where "MAX_APP_SELECTOR_BYTES = 4096"
definition MAX_PING_HOST_BYTES :: nat where "MAX_PING_HOST_BYTES = 253"
definition MAX_DNS_PROBE_URLS :: nat where "MAX_DNS_PROBE_URLS = 8"
definition MAX_DNS_PROBE_URL_BYTES :: nat where "MAX_DNS_PROBE_URL_BYTES = 2048"
definition MIN_PING_TIMEOUT_MS :: u32 where "MIN_PING_TIMEOUT_MS = 100"
definition MAX_PING_TIMEOUT_MS :: u32 where "MAX_PING_TIMEOUT_MS = 15000"

lemmas limit_defs =
  PROTOCOL_VERSION_def MAX_FRAME_BYTES_def MAX_CONFIG_BYTES_def MAX_SERVER_IPS_def
  MAX_EXCLUDED_APPS_def MAX_APP_SELECTOR_BYTES_def MAX_PING_HOST_BYTES_def
  MAX_DNS_PROBE_URLS_def MAX_DNS_PROBE_URL_BYTES_def MIN_PING_TIMEOUT_MS_def
  MAX_PING_TIMEOUT_MS_def

section \<open>Messages\<close>

datatype connection_mode = Tun | Proxy

record connect_request =
  cr_mode :: connection_mode
  cr_xray_config :: string
  cr_validation_config :: string
  cr_server_ips :: "ip_addr list"
  cr_excluded_apps :: "string list"
  cr_killswitch :: bool
  cr_allow_lan :: bool

record tcp_ping_request =
  tp_host :: string
  tp_port :: u16
  tp_timeout_ms :: u32

record proxy_ping_request =
  pp_xray_config :: string
  pp_socks_port :: u16
  pp_socks_ports :: "u16 list"
  pp_dns_probe_urls :: "string list"
  pp_timeout_ms :: u32

definition effective_socks_ports :: "proxy_ping_request \<Rightarrow> u16 list" where
  "effective_socks_ports r =
     (if pp_socks_ports r = [] then [pp_socks_port r] else pp_socks_ports r)"

definition effective_dns_probe_urls :: "proxy_ping_request \<Rightarrow> string list" where
  "effective_dns_probe_urls r = pp_dns_probe_urls r"

datatype daemon_command =
    Status
  | Connect connect_request
  | Disconnect
  | UpdateSplit "string list"
  | TcpPing tcp_ping_request
  | ProxyPing proxy_ping_request
  | LogTail
  | ClearLog

record request_envelope =
  rq_version :: u16
  rq_operation_id :: u64
  rq_command :: daemon_command

datatype connection_phase =
    Disconnected | Preparing | Connected | Blocking | Reconnecting | RecoveryRequired

record daemon_state =
  ds_phase :: connection_phase
  ds_split_active :: bool
  ds_dns_protected :: bool
  ds_rtt_ms :: "u32 option"
  ds_log_tail :: "string option"

datatype daemon_error_code =
    UnsupportedVersion | FrameTooLarge | InvalidFrame | Unauthorized | HoldBlockFailed
  | HoldBlockVerificationFailed | HoldBlockRemovalFailed | TunnelPreparationFailed
  | TunnelCommitFailed | TunnelCleanupFailed | DnsInstallFailed | DnsVerificationFailed
  | InvalidRequest | XrayUnavailable | XrayValidationFailed | XrayStartFailed
  | SplitUnavailable | PingFailed | Internal

record daemon_error =
  de_code :: daemon_error_code
  de_message :: string

definition daemon_error :: "daemon_error_code \<Rightarrow> string \<Rightarrow> daemon_error" where
  "daemon_error c m = \<lparr>de_code = c, de_message = m\<rparr>"

lemma daemon_error_sel [simp]:
  "de_code (daemon_error c m) = c" "de_message (daemon_error c m) = m"
  by (simp_all add: daemon_error_def)

record response_envelope =
  rs_version :: u16
  rs_operation_id :: u64
  rs_result :: "daemon_error + daemon_state"

section \<open>Validation\<close>

definition nul :: char where
  "nul = char_of (0 :: nat)"

definition bad_application :: "string \<Rightarrow> bool" where
  "bad_application a =
     (trim a = [] \<or> length a > MAX_APP_SELECTOR_BYTES \<or> nul \<in> set a)"

definition validate_applications :: "string list \<Rightarrow> daemon_error_code + unit" where
  "validate_applications apps =
     (if length apps > MAX_EXCLUDED_APPS \<or> list_ex bad_application apps
      then Err InvalidRequest else Ok ())"

definition validate_connect_request :: "connect_request \<Rightarrow> daemon_error_code + unit" where
  "validate_connect_request r =
     (if cr_xray_config r = []
         \<or> cr_validation_config r = []
         \<or> length (cr_xray_config r) > MAX_CONFIG_BYTES
         \<or> length (cr_validation_config r) > MAX_CONFIG_BYTES
         \<or> cr_server_ips r = []
         \<or> length (cr_server_ips r) > MAX_SERVER_IPS
         \<or> length (cr_excluded_apps r) > MAX_EXCLUDED_APPS
         \<or> list_ex bad_application (cr_excluded_apps r)
         \<or> (cr_mode r = Proxy \<and> cr_excluded_apps r \<noteq> [])
      then Err InvalidRequest else Ok ())"

definition timeout_in_range :: "u32 \<Rightarrow> bool" where
  "timeout_in_range t = (MIN_PING_TIMEOUT_MS \<le> t \<and> t \<le> MAX_PING_TIMEOUT_MS)"

definition validate_tcp_ping_request :: "tcp_ping_request \<Rightarrow> daemon_error_code + unit" where
  "validate_tcp_ping_request r =
     (if trim (tp_host r) = []
         \<or> length (tp_host r) > MAX_PING_HOST_BYTES
         \<or> nul \<in> set (tp_host r)
         \<or> tp_port r = 0
         \<or> \<not> timeout_in_range (tp_timeout_ms r)
      then Err InvalidRequest else Ok ())"

text \<open>A parsed URL, as far as the code looks at one.\<close>

record url =
  url_scheme :: string
  url_username :: string
  url_password :: "string option"
  url_fragment :: "string option"
  url_host :: "string option"

definition dns_probe_url_ok :: "(string \<Rightarrow> url option) \<Rightarrow> string \<Rightarrow> bool" where
  "dns_probe_url_ok url_parse raw =
     (length raw \<le> MAX_DNS_PROBE_URL_BYTES
      \<and> (case url_parse raw of
            None \<Rightarrow> False
          | Some u \<Rightarrow> url_scheme u = ''https'' \<and> url_username u = [] \<and> url_password u = None
                        \<and> url_fragment u = None
                        \<and> (case url_host u of None \<Rightarrow> False | Some h \<Rightarrow> parse_ip h \<noteq> None)))"

definition dns_probe_urls_are_valid :: "(string \<Rightarrow> url option) \<Rightarrow> string list \<Rightarrow> bool" where
  "dns_probe_urls_are_valid url_parse urls =
     (length urls \<le> MAX_DNS_PROBE_URLS \<and> list_all (dns_probe_url_ok url_parse) urls)"

text \<open>\<open>iter().enumerate().any(|(index, port)| ports[..index].contains(port))\<close>.\<close>

definition has_repeat :: "'a list \<Rightarrow> bool" where
  "has_repeat xs = list_ex (\<lambda>i. xs ! i \<in> set (take i xs)) [0..<length xs]"

definition validate_proxy_ping_request ::
    "(string \<Rightarrow> url option) \<Rightarrow> proxy_ping_request \<Rightarrow> daemon_error_code + unit" where
  "validate_proxy_ping_request url_parse r =
     (let ports = effective_socks_ports r; urls = effective_dns_probe_urls r in
      if pp_xray_config r = []
         \<or> length (pp_xray_config r) > MAX_CONFIG_BYTES
         \<or> pp_socks_port r = 0
         \<or> ports = []
         \<or> length ports > MAX_SERVER_IPS
         \<or> ports ! 0 \<noteq> pp_socks_port r
         \<or> 0 \<in> set ports
         \<or> has_repeat ports
         \<or> \<not> dns_probe_urls_are_valid url_parse urls
         \<or> \<not> timeout_in_range (pp_timeout_ms r)
      then Err InvalidRequest else Ok ())"

definition validate_request ::
    "(string \<Rightarrow> url option) \<Rightarrow> request_envelope \<Rightarrow> daemon_error_code + unit" where
  "validate_request url_parse r =
     (if rq_version r \<noteq> PROTOCOL_VERSION then Err UnsupportedVersion
      else (case rq_command r of
              Connect c \<Rightarrow> validate_connect_request c
            | TcpPing p \<Rightarrow> validate_tcp_ping_request p
            | ProxyPing p \<Rightarrow> validate_proxy_ping_request url_parse p
            | UpdateSplit apps \<Rightarrow> validate_applications apps
            | Status \<Rightarrow> Ok ()
            | Disconnect \<Rightarrow> Ok ()
            | LogTail \<Rightarrow> Ok ()
            | ClearLog \<Rightarrow> Ok ()))"

section \<open>Framing\<close>

definition encode_frame :: "('a \<Rightarrow> string option) \<Rightarrow> 'a \<Rightarrow> daemon_error_code + string" where
  "encode_frame ser v =
     try_then (ok_or InvalidFrame (ser v)) (\<lambda>encoded.
       if length encoded > MAX_FRAME_BYTES then Err FrameTooLarge else Ok encoded)"

definition decode_request_frame ::
    "(string \<Rightarrow> url option) \<Rightarrow> (string \<Rightarrow> request_envelope option) \<Rightarrow> string
     \<Rightarrow> daemon_error_code + request_envelope" where
  "decode_request_frame url_parse de bytes =
     (if length bytes > MAX_FRAME_BYTES then Err FrameTooLarge
      else try_then (ok_or InvalidFrame (de bytes)) (\<lambda>request.
           try_then (validate_request url_parse request) (\<lambda>_. Ok request)))"

definition operation_id_of_rejected_request :: "(string \<Rightarrow> u64 option) \<Rightarrow> string \<Rightarrow> u64" where
  "operation_id_of_rejected_request de_id bytes =
     (case de_id bytes of Some i \<Rightarrow> i | None \<Rightarrow> 0)"

definition decode_response_frame ::
    "(string \<Rightarrow> response_envelope option) \<Rightarrow> string \<Rightarrow> daemon_error_code + response_envelope" where
  "decode_response_frame de bytes =
     (if length bytes > MAX_FRAME_BYTES then Err FrameTooLarge
      else try_then (ok_or InvalidFrame (de bytes)) (\<lambda>response.
           if rs_version response \<noteq> PROTOCOL_VERSION then Err UnsupportedVersion
           else Ok response))"

section \<open>What a validated request promises\<close>

lemma has_repeat_iff: "has_repeat xs \<longleftrightarrow> \<not> distinct xs"
proof -
  have taken: "(xs ! i \<in> set (take i xs)) = (\<exists>j < i. xs ! j = xs ! i)" if "i < length xs" for i
    using that by (simp add: in_set_conv_nth min_def) (metis nth_take)
  have "has_repeat xs = (\<exists>i. i < length xs \<and> xs ! i \<in> set (take i xs))"
    by (auto simp: has_repeat_def list_ex_iff)
  also have "\<dots> = (\<exists>i. i < length xs \<and> (\<exists>j < i. xs ! j = xs ! i))"
    by (rule ex_cong1) (use taken in blast)
  also have "\<dots> = (\<not> distinct xs)"
  proof
    assume "\<exists>i. i < length xs \<and> (\<exists>j < i. xs ! j = xs ! i)"
    then obtain i j where "i < length xs" "j < i" "xs ! j = xs ! i" by blast
    then show "\<not> distinct xs" by (metis nat_less_le nth_eq_iff_index_eq order_less_trans)
  next
    assume "\<not> distinct xs"
    then obtain i j where "i < length xs" "j < length xs" "i \<noteq> j" "xs ! i = xs ! j"
      by (auto simp: distinct_conv_nth)
    then show "\<exists>i. i < length xs \<and> (\<exists>j < i. xs ! j = xs ! i)"
      by (cases "i < j") (metis, metis linorder_neqE_nat)
  qed
  finally show ?thesis .
qed

text \<open>The bounds the daemon relies on, stated of the request and not of the checks.\<close>

definition application_bounded :: "string \<Rightarrow> bool" where
  "application_bounded a \<longleftrightarrow> trim a \<noteq> [] \<and> length a \<le> 4096 \<and> nul \<notin> set a"

definition command_bounded :: "daemon_command \<Rightarrow> bool" where
  "command_bounded c \<longleftrightarrow>
     (case c of
        Connect r \<Rightarrow>
          0 < length (cr_xray_config r) \<and> length (cr_xray_config r) \<le> 393216
          \<and> 0 < length (cr_validation_config r) \<and> length (cr_validation_config r) \<le> 393216
          \<and> 1 \<le> length (cr_server_ips r) \<and> length (cr_server_ips r) \<le> 64
          \<and> length (cr_excluded_apps r) \<le> 256
          \<and> (\<forall>a \<in> set (cr_excluded_apps r). application_bounded a)
          \<and> (cr_mode r = Proxy \<longrightarrow> cr_excluded_apps r = [])
      | UpdateSplit apps \<Rightarrow>
          length apps \<le> 256 \<and> (\<forall>a \<in> set apps. application_bounded a)
      | TcpPing p \<Rightarrow>
          trim (tp_host p) \<noteq> [] \<and> length (tp_host p) \<le> 253 \<and> nul \<notin> set (tp_host p)
          \<and> tp_port p \<noteq> 0 \<and> 100 \<le> unat (tp_timeout_ms p) \<and> unat (tp_timeout_ms p) \<le> 15000
      | ProxyPing p \<Rightarrow>
          0 < length (pp_xray_config p) \<and> length (pp_xray_config p) \<le> 393216
          \<and> hd (effective_socks_ports p) = pp_socks_port p
          \<and> 1 \<le> length (effective_socks_ports p) \<and> length (effective_socks_ports p) \<le> 64
          \<and> distinct (effective_socks_ports p) \<and> 0 \<notin> set (effective_socks_ports p)
          \<and> length (pp_dns_probe_urls p) \<le> 8
          \<and> 100 \<le> unat (pp_timeout_ms p) \<and> unat (pp_timeout_ms p) \<le> 15000
      | _ \<Rightarrow> True)"

lemma not_bad_application: "\<not> bad_application a \<longleftrightarrow> application_bounded a"
  by (auto simp: bad_application_def application_bounded_def limit_defs)

lemma list_ex_bad_application:
  "\<not> list_ex bad_application apps \<longleftrightarrow> (\<forall>a \<in> set apps. application_bounded a)"
  by (auto simp: list_ex_iff not_bad_application [symmetric])

lemma timeout_in_range_iff: "timeout_in_range t \<longleftrightarrow> 100 \<le> unat t \<and> unat t \<le> 15000"
  by (simp add: timeout_in_range_def limit_defs word_le_nat_alt)

lemma effective_socks_ports_not_Nil [simp]: "effective_socks_ports r \<noteq> []"
  by (simp add: effective_socks_ports_def)

lemma validate_connect_bounded:
  "validate_connect_request r = Ok () \<longleftrightarrow> command_bounded (Connect r)"
  unfolding validate_connect_request_def command_bounded_def
  by (auto simp: limit_defs list_ex_bad_application [symmetric] Suc_le_eq split: if_splits)

lemma validate_applications_bounded:
  "validate_applications apps = Ok () \<longleftrightarrow> command_bounded (UpdateSplit apps)"
  unfolding validate_applications_def command_bounded_def
  by (auto simp: limit_defs list_ex_bad_application [symmetric] split: if_splits)

lemma validate_tcp_ping_bounded:
  "validate_tcp_ping_request r = Ok () \<longleftrightarrow> command_bounded (TcpPing r)"
  unfolding validate_tcp_ping_request_def command_bounded_def
  by (auto simp: limit_defs timeout_in_range_iff)

lemma validate_proxy_ping_bounded:
  "validate_proxy_ping_request up r = Ok () \<longleftrightarrow>
     command_bounded (ProxyPing r) \<and> list_all (dns_probe_url_ok up) (pp_dns_probe_urls r)"
proof -
  have "pp_socks_port r = hd (effective_socks_ports r) \<Longrightarrow> 0 \<notin> set (effective_socks_ports r) \<Longrightarrow>
        pp_socks_port r \<noteq> 0"
    by (metis effective_socks_ports_not_Nil list.set_sel(1))
  then show ?thesis
    unfolding validate_proxy_ping_request_def command_bounded_def Let_def
    by (auto simp: limit_defs timeout_in_range_iff has_repeat_iff effective_dns_probe_urls_def
          dns_probe_urls_are_valid_def hd_conv_nth Suc_le_eq split: if_splits)
qed

lemma validate_request_bounded:
  "validate_request up r = Ok () \<Longrightarrow> rq_version r = 3 \<and> command_bounded (rq_command r)"
  unfolding validate_request_def
  by (cases "rq_command r")
     (auto simp: PROTOCOL_VERSION_def validate_connect_bounded validate_applications_bounded
        validate_tcp_ping_bounded validate_proxy_ping_bounded command_bounded_def
        split: if_splits)

lemma validate_request_codes:
  "validate_request up r = Err e \<Longrightarrow> e = UnsupportedVersion \<or> e = InvalidRequest"
  unfolding validate_request_def validate_connect_request_def validate_tcp_ping_request_def
    validate_proxy_ping_request_def validate_applications_def
  by (auto simp: Let_def split: if_splits daemon_command.splits)

lemma decode_request_frame_Ok:
  "decode_request_frame up de bytes = Ok r \<longleftrightarrow>
     length bytes \<le> MAX_FRAME_BYTES \<and> de bytes = Some r \<and> validate_request up r = Ok ()"
  by (auto simp: decode_request_frame_def try_then_eq_Inr not_less split: if_splits)

lemma encode_frame_Ok:
  "encode_frame ser v = Ok bytes \<longleftrightarrow> ser v = Some bytes \<and> length bytes \<le> MAX_FRAME_BYTES"
  by (auto simp: encode_frame_def try_then_eq_Inr not_less split: if_splits)

end
