(* ===== verification/Lifecycle.thy ===== *)
theory Lifecycle
  imports Protocol
begin

text \<open>
  \<open>daemon/src/lifecycle.rs\<close>: the manager that brings the tunnel up and down over a backend.
  The trait \<open>LifecycleBackend\<close> is a record of operations on a backend state \<open>'b\<close>; the
  manager's methods take the record and return their result with the new manager.  The
  contract of the kill switch is the locale \<open>hold_contract\<close>: what the backend operations do
  to the hold block.  The lemmas about the manager are proved once under the contract and
  rest on it alone.
\<close>

section \<open>The backend trait and the manager\<close>

record 'b lifecycle_backend =
  lb_data_plane_alive :: "('b, bool) io"
  lb_validate :: "connect_request \<Rightarrow> ('b, daemon_error + unit) io"
  lb_install_hold_block :: "connect_request \<Rightarrow> ('b, daemon_error + unit) io"
  lb_verify_hold_block :: "('b, daemon_error + unit) io"
  lb_stop_data_plane :: "bool \<Rightarrow> ('b, daemon_error + unit) io"
  lb_start_data_plane :: "connect_request \<Rightarrow> ('b, daemon_error + unit) io"
  lb_activate_network :: "connect_request \<Rightarrow> ('b, daemon_error + unit) io"
  lb_update_split :: "string list \<Rightarrow> ('b, daemon_error + bool) io"
  lb_verify_connection :: "connect_request \<Rightarrow> ('b, daemon_error + unit) io"
  lb_remove_hold_block :: "('b, daemon_error + unit) io"

record 'b lifecycle_manager =
  lm_backend :: 'b
  lm_state :: daemon_state
  lm_block_on_failure :: bool

definition idle_state :: "connection_phase \<Rightarrow> daemon_state" where
  "idle_state p = \<lparr>ds_phase = p, ds_split_active = False, ds_dns_protected = False,
                   ds_rtt_ms = None, ds_log_tail = None\<rparr>"

definition new_manager :: "'b \<Rightarrow> connection_phase \<Rightarrow> 'b lifecycle_manager" where
  "new_manager b p = \<lparr>lm_backend = b, lm_state = idle_state p, lm_block_on_failure = False\<rparr>"

abbreviation phase_of :: "'b lifecycle_manager \<Rightarrow> connection_phase" where
  "phase_of m \<equiv> ds_phase (lm_state m)"

definition set_phase :: "connection_phase \<Rightarrow> 'b lifecycle_manager \<Rightarrow> 'b lifecycle_manager" where
  "set_phase p m = m\<lparr>lm_state := (lm_state m)\<lparr>ds_phase := p\<rparr>\<rparr>"

definition on_backend :: "('b, 'r) io \<Rightarrow> ('b lifecycle_manager, 'r) io" where
  "on_backend f m = (case f (lm_backend m) of (r, b) \<Rightarrow> (r, m\<lparr>lm_backend := b\<rparr>))"

definition mark_recovery_required :: "'b lifecycle_manager \<Rightarrow> 'b lifecycle_manager" where
  "mark_recovery_required m =
     m\<lparr>lm_state := (lm_state m)\<lparr>ds_phase := RecoveryRequired, ds_split_active := False,
                                 ds_dns_protected := False\<rparr>\<rparr>"

section \<open>connect\<close>

text \<open>The phase is announced and the protection flags are cleared before anything is tried.\<close>

definition connect_begin :: "bool \<Rightarrow> 'b lifecycle_manager \<Rightarrow> 'b lifecycle_manager" where
  "connect_begin was_connected m =
     m\<lparr>lm_state := (lm_state m)\<lparr>ds_phase := (if was_connected then Reconnecting else Preparing),
                                 ds_split_active := False, ds_dns_protected := False\<rparr>\<rparr>"

definition fallback_phase :: "bool \<Rightarrow> connection_phase" where
  "fallback_phase was_connected = (if was_connected then Connected else Disconnected)"

definition connect_validate ::
    "'b lifecycle_backend \<Rightarrow> connect_request \<Rightarrow> bool
     \<Rightarrow> ('b lifecycle_manager, daemon_error + unit) io" where
  "connect_validate ops req was_connected m =
     (case on_backend (lb_validate ops req) m of
        (Inl e, m') \<Rightarrow> (Inl e, set_phase (fallback_phase was_connected) m')
      | (Inr _, m') \<Rightarrow> (Inr (), m'))"

definition connect_guard ::
    "'b lifecycle_backend \<Rightarrow> connect_request \<Rightarrow> bool
     \<Rightarrow> ('b lifecycle_manager, daemon_error + unit) io" where
  "connect_guard ops req was_connected m =
     (if cr_mode req \<noteq> Tun then (Inr (), m)
      else (case on_backend (lb_install_hold_block ops req) m of
              (Inl e, m1) \<Rightarrow> (Inl e, set_phase (fallback_phase was_connected) m1)
            | (Inr _, m1) \<Rightarrow>
                (case on_backend (lb_verify_hold_block ops) m1 of
                   (Inl e, m2) \<Rightarrow>
                     (case on_backend (lb_remove_hold_block ops) m2 of
                        (Inr _, m3) \<Rightarrow> (Inl e, set_phase (fallback_phase was_connected) m3)
                      | (Inl _, m3) \<Rightarrow> (Inl e, set_phase RecoveryRequired m3))
                 | (Inr _, m2) \<Rightarrow> (Inr (), set_phase Blocking m2))))"

definition connect_stop_old ::
    "'b lifecycle_backend \<Rightarrow> connect_request \<Rightarrow> bool
     \<Rightarrow> ('b lifecycle_manager, daemon_error + unit) io" where
  "connect_stop_old ops req was_connected m =
     (if \<not> was_connected then (Inr (), m)
      else (case on_backend (lb_stop_data_plane ops True) m of
              (Inl e, m') \<Rightarrow>
                (Inl e, set_phase (if cr_mode req = Tun then Blocking else RecoveryRequired) m')
            | (Inr _, m') \<Rightarrow> (Inr (), m')))"

definition bring_up ::
    "'b lifecycle_backend \<Rightarrow> connect_request \<Rightarrow> ('b, daemon_error + unit) io" where
  "bring_up ops req =
     try_io (lb_start_data_plane ops req) (\<lambda>_.
     try_io (lb_activate_network ops req) (\<lambda>_.
     lb_verify_connection ops req))"

definition connect_cleanup ::
    "'b lifecycle_backend \<Rightarrow> connect_request \<Rightarrow> bool
     \<Rightarrow> 'b lifecycle_manager \<Rightarrow> 'b lifecycle_manager" where
  "connect_cleanup ops req was_connected m =
     (case on_backend (lb_stop_data_plane ops False) m of
        (Inl _, m1) \<Rightarrow> set_phase RecoveryRequired m1
      | (Inr _, m1) \<Rightarrow>
          if cr_mode req = Tun \<and> (was_connected \<or> cr_killswitch req)
          then set_phase Blocking m1
          else set_phase Disconnected
                 (if cr_mode req = Tun then snd (on_backend (lb_remove_hold_block ops) m1) else m1))"

definition connected_state :: "connect_request \<Rightarrow> daemon_state" where
  "connected_state req =
     \<lparr>ds_phase = Connected, ds_split_active = (cr_excluded_apps req \<noteq> []),
      ds_dns_protected = (cr_mode req = Tun), ds_rtt_ms = None, ds_log_tail = None\<rparr>"

definition connect_commit ::
    "'b lifecycle_backend \<Rightarrow> connect_request
     \<Rightarrow> ('b lifecycle_manager, daemon_error + daemon_state) io" where
  "connect_commit ops req m =
     (case (if cr_mode req = Tun \<and> \<not> cr_killswitch req
            then on_backend (lb_remove_hold_block ops) m else (Inr (), m)) of
        (Inl e, m1) \<Rightarrow> (Inl e, set_phase RecoveryRequired m1)
      | (Inr _, m1) \<Rightarrow>
          (Inr (connected_state req),
           m1\<lparr>lm_state := connected_state req,
              lm_block_on_failure := (cr_mode req = Tun \<and> cr_killswitch req)\<rparr>))"

definition connect_switch ::
    "'b lifecycle_backend \<Rightarrow> connect_request \<Rightarrow> bool
     \<Rightarrow> ('b lifecycle_manager, daemon_error + daemon_state) io" where
  "connect_switch ops req was_connected m =
     (case on_backend (bring_up ops req) m of
        (Inl e, m1) \<Rightarrow> (Inl e, connect_cleanup ops req was_connected m1)
      | (Inr _, m1) \<Rightarrow> connect_commit ops req m1)"

definition lifecycle_connect ::
    "'b lifecycle_backend \<Rightarrow> connect_request
     \<Rightarrow> ('b lifecycle_manager, daemon_error + daemon_state) io" where
  "lifecycle_connect ops req m =
     (let was_connected = (phase_of m = Connected) in
      try_io (connect_validate ops req was_connected) (\<lambda>_.
      try_io (connect_guard ops req was_connected) (\<lambda>_.
      try_io (connect_stop_old ops req was_connected) (\<lambda>_.
      connect_switch ops req was_connected)))
      (connect_begin was_connected m))"

section \<open>The other operations\<close>

definition lifecycle_update_split ::
    "'b lifecycle_backend \<Rightarrow> string list
     \<Rightarrow> ('b lifecycle_manager, daemon_error + daemon_state) io" where
  "lifecycle_update_split ops apps m =
     (if phase_of m \<noteq> Connected
      then (Inl (daemon_error InvalidRequest ''the tunnel is not connected''), m)
      else (case on_backend (lb_update_split ops apps) m of
              (Inl e, m1) \<Rightarrow> (Inl e, m1)
            | (Inr active, m1) \<Rightarrow>
                (let s = (lm_state m1)\<lparr>ds_split_active := active\<rparr> in (Inr s, m1\<lparr>lm_state := s\<rparr>))))"

definition lifecycle_disconnect ::
    "'b lifecycle_backend \<Rightarrow> ('b lifecycle_manager, daemon_error + daemon_state) io" where
  "lifecycle_disconnect ops m =
     (case on_backend (lb_stop_data_plane ops False) m of
        (data_plane, m1) \<Rightarrow>
          (case on_backend (lb_remove_hold_block ops) m1 of
             (hold_block, m2) \<Rightarrow>
               if is_err data_plane \<or> is_err hold_block
               then (Inl (daemon_error TunnelCleanupFailed
                           ''VPN cleanup did not reach a verified empty state''),
                     set_phase RecoveryRequired m2)
               else (Inr (idle_state Disconnected),
                     m2\<lparr>lm_state := idle_state Disconnected, lm_block_on_failure := False\<rparr>)))"

definition lifecycle_reconcile_health ::
    "'b lifecycle_backend \<Rightarrow> ('b lifecycle_manager, daemon_error + daemon_state) io" where
  "lifecycle_reconcile_health ops m =
     (if phase_of m \<noteq> Connected then (Inr (lm_state m), m)
      else (case on_backend (lb_data_plane_alive ops) m of
              (True, m1) \<Rightarrow> (Inr (lm_state m1), m1)
            | (False, m1) \<Rightarrow>
                (case on_backend (lb_stop_data_plane ops False) m1 of
                   (Inl _, m2) \<Rightarrow>
                     (Inl (daemon_error TunnelCleanupFailed
                            ''Xray exited and stale network state could not be removed''),
                      mark_recovery_required m2)
                 | (Inr _, m2) \<Rightarrow>
                     (let s = idle_state (if lm_block_on_failure m2 then Blocking else Disconnected)
                      in (Inr s, m2\<lparr>lm_state := s\<rparr>)))))"

section \<open>Unfolding one operation\<close>

lemmas connect_defs =
  connect_validate_def connect_guard_def connect_stop_old_def connect_switch_def
  connect_cleanup_def connect_commit_def connect_begin_def fallback_phase_def set_phase_def
  on_backend_def connected_state_def

lemma set_phase_sel [simp, phase_simps]:
  "lm_backend (set_phase p m) = lm_backend m"
  "phase_of (set_phase p m) = p"
  "lm_block_on_failure (set_phase p m) = lm_block_on_failure m"
  "ds_dns_protected (lm_state (set_phase p m)) = ds_dns_protected (lm_state m)"
  "ds_split_active (lm_state (set_phase p m)) = ds_split_active (lm_state m)"
  by (simp_all add: set_phase_def)

lemma idle_state_sel [simp]:
  "ds_phase (idle_state p) = p" "\<not> ds_split_active (idle_state p)"
  "\<not> ds_dns_protected (idle_state p)"
  by (simp_all add: idle_state_def)

lemma connected_state_sel [simp]: "ds_phase (connected_state req) = Connected"
  by (simp add: connected_state_def)

lemma connect_begin_sel [simp]:
  "lm_backend (connect_begin w m) = lm_backend m"
  "phase_of (connect_begin w m) = (if w then Reconnecting else Preparing)"
  "lm_block_on_failure (connect_begin w m) = lm_block_on_failure m"
  "\<not> ds_dns_protected (lm_state (connect_begin w m))"
  "\<not> ds_split_active (lm_state (connect_begin w m))"
  by (simp_all add: connect_begin_def)

lemma mark_recovery_required_sel [simp]:
  "lm_backend (mark_recovery_required m) = lm_backend m"
  "phase_of (mark_recovery_required m) = RecoveryRequired"
  "\<not> ds_dns_protected (lm_state (mark_recovery_required m))"
  "\<not> ds_split_active (lm_state (mark_recovery_required m))"
  "lm_block_on_failure (mark_recovery_required m) = lm_block_on_failure m"
  by (simp_all add: mark_recovery_required_def)

lemma on_backend_eq:
  "on_backend f m = (r, m') \<longleftrightarrow> (\<exists>b. f (lm_backend m) = (r, b) \<and> m' = m\<lparr>lm_backend := b\<rparr>)"
  by (auto simp: on_backend_def split: prod.splits)

lemma fallback_phase_simps [simp]:
  "fallback_phase True = Connected" "fallback_phase False = Disconnected"
  by (simp_all add: fallback_phase_def)

end
