(* ===== verification/Hold_Contract.thy ===== *)
theory Hold_Contract
  imports Lifecycle
begin

text \<open>
  The contract between the lifecycle manager and its backend about the hold block (the kill
  switch), and what the manager promises under it.  \<open>hold\<close> reads off a backend state
  whether the block is in force.  Only installing and removing may change it, and only when
  they report success.
\<close>

locale hold_contract =
  fixes ops :: "'b lifecycle_backend"
    and hold :: "'b \<Rightarrow> bool"
  assumes install_ok: "lb_install_hold_block ops req b = (Inr u, b') \<Longrightarrow> hold b'"
    and install_err: "lb_install_hold_block ops req b = (Inl e, b') \<Longrightarrow> hold b' = hold b"
    and remove_ok: "lb_remove_hold_block ops b = (Inr u, b') \<Longrightarrow> \<not> hold b'"
    and remove_err: "lb_remove_hold_block ops b = (Inl e, b') \<Longrightarrow> hold b' = hold b"
    and alive_keeps: "lb_data_plane_alive ops b = (a, b') \<Longrightarrow> hold b' = hold b"
    and validate_keeps: "lb_validate ops req b = (r, b') \<Longrightarrow> hold b' = hold b"
    and verify_keeps: "lb_verify_hold_block ops b = (r, b') \<Longrightarrow> hold b' = hold b"
    and stop_keeps: "lb_stop_data_plane ops p b = (r, b') \<Longrightarrow> hold b' = hold b"
    and start_keeps: "lb_start_data_plane ops req b = (r, b') \<Longrightarrow> hold b' = hold b"
    and activate_keeps: "lb_activate_network ops req b = (r, b') \<Longrightarrow> hold b' = hold b"
    and update_split_keeps: "lb_update_split ops apps b = (q, b') \<Longrightarrow> hold b' = hold b"
    and verify_connection_keeps: "lb_verify_connection ops req b = (r, b') \<Longrightarrow> hold b' = hold b"

definition held :: "('b \<Rightarrow> bool) \<Rightarrow> 'b lifecycle_manager \<Rightarrow> bool" where
  "held hold m = hold (lm_backend m)"

text \<open>
  What the phase promises: \<open>Blocking\<close> says the block is in force, and a connection that
  was armed to block on failure still has it.
\<close>

definition guarded_ok :: "('b \<Rightarrow> bool) \<Rightarrow> 'b lifecycle_manager \<Rightarrow> bool" where
  "guarded_ok hold m \<longleftrightarrow>
     (phase_of m = Blocking \<or> (phase_of m = Connected \<and> lm_block_on_failure m)
        \<longrightarrow> held hold m)"

text \<open>
  The one path of \<open>connect\<close> that takes the block away under an armed connection: the block
  was re-installed for a reconnect, could not be verified, and was removed again.
\<close>

definition guard_revoked ::
    "'b lifecycle_backend \<Rightarrow> connect_request \<Rightarrow> 'b lifecycle_manager \<Rightarrow> bool" where
  "guard_revoked ops req m =
     (phase_of m = Connected \<and> lm_block_on_failure m \<and> cr_mode req = Tun
      \<and> (case lb_validate ops req (lm_backend m) of
            (Inl _, _) \<Rightarrow> False
          | (Inr _, b1) \<Rightarrow> (case lb_install_hold_block ops req b1 of
              (Inl _, _) \<Rightarrow> False
            | (Inr _, b2) \<Rightarrow> (case lb_verify_hold_block ops b2 of
                (Inr _, _) \<Rightarrow> False
              | (Inl _, b3) \<Rightarrow> is_ok (fst (lb_remove_hold_block ops b3))))))"

lemma held_simps [simp]:
  "held hold (set_phase p m) = held hold m"
  "held hold (connect_begin w m) = held hold m"
  "held hold (mark_recovery_required m) = held hold m"
  "held hold (m\<lparr>lm_state := s\<rparr>) = held hold m"
  "held hold (m\<lparr>lm_block_on_failure := k\<rparr>) = held hold m"
  "held hold (m\<lparr>lm_backend := b\<rparr>) = hold b"
  by (simp_all add: held_def)

section \<open>Under the contract\<close>

context hold_contract
begin

lemma bring_up_keeps: "bring_up ops req b = (r, b') \<Longrightarrow> hold b' = hold b"
  unfolding bring_up_def try_io_def
  by (auto split: prod.splits sum.splits
        dest: start_keeps activate_keeps verify_connection_keeps)

lemma connect_validate_effect:
  assumes "connect_validate ops req w m = (r, m')"
  shows "held hold m' = held hold m" and "lm_block_on_failure m' = lm_block_on_failure m"
    and "is_err r \<Longrightarrow> phase_of m' = fallback_phase w"
    and "is_ok r \<Longrightarrow> lm_state m' = lm_state m"
  using assms unfolding connect_validate_def
  by (auto simp: on_backend_eq held_def split: prod.splits sum.splits dest: validate_keeps)

lemma connect_guard_ok:
  assumes "connect_guard ops req w m = (Inr u, m')"
  shows "if cr_mode req = Tun then held hold m' \<and> phase_of m' = Blocking else m' = m"
    and "lm_block_on_failure m' = lm_block_on_failure m"
  using assms unfolding connect_guard_def
  by (auto simp: on_backend_eq split: prod.splits sum.splits if_splits
        dest: install_ok verify_keeps)

lemma connect_guard_err:
  assumes "connect_guard ops req w m = (Inl e, m')"
  shows "phase_of m' \<in> {fallback_phase w, RecoveryRequired}"
    and "lm_block_on_failure m' = lm_block_on_failure m"
    and "cr_mode req = Tun"
  using assms unfolding connect_guard_def
  by (auto simp: on_backend_eq split: prod.splits sum.splits if_splits)

lemma connect_guard_err_held:
  assumes "connect_guard ops req w m = (Inl e, m')"
    and "held hold m" and "\<not> held hold m'" and "phase_of m' \<noteq> RecoveryRequired"
  obtains b2 v b3 where "lb_install_hold_block ops req (lm_backend m) = (Inr (), b2)"
    and "lb_verify_hold_block ops b2 = (Inl v, b3)"
    and "is_ok (fst (lb_remove_hold_block ops b3))"
  using assms unfolding connect_guard_def
  by (auto simp: on_backend_eq held_def split: prod.splits sum.splits if_splits
        dest: install_err)

lemma connect_stop_old_effect:
  assumes "connect_stop_old ops req w m = (r, m')"
  shows "held hold m' = held hold m" and "lm_block_on_failure m' = lm_block_on_failure m"
    and "is_err r \<Longrightarrow> phase_of m' = (if cr_mode req = Tun then Blocking else RecoveryRequired)"
    and "is_ok r \<Longrightarrow> lm_state m' = lm_state m"
  using assms unfolding connect_stop_old_def
  by (auto simp: on_backend_eq held_def split: prod.splits sum.splits if_splits dest: stop_keeps)

lemma connect_cleanup_effect:
  assumes "cr_mode req = Tun \<Longrightarrow> held hold m"
  shows "guarded_ok hold (connect_cleanup ops req w m)"
    and "phase_of (connect_cleanup ops req w m) \<in> {RecoveryRequired, Blocking, Disconnected}"
  using assms unfolding connect_cleanup_def guarded_ok_def
  by (auto simp: on_backend_eq held_def split: prod.splits sum.splits if_splits dest: stop_keeps)

lemma connect_commit_effect:
  assumes "connect_commit ops req m = (r, m')" and "cr_mode req = Tun \<Longrightarrow> held hold m"
  shows "guarded_ok hold m'"
    and "is_err r \<Longrightarrow> phase_of m' = RecoveryRequired"
    and "is_ok r \<Longrightarrow> r = Inr (connected_state req) \<and> lm_state m' = connected_state req
           \<and> lm_block_on_failure m' = (cr_mode req = Tun \<and> cr_killswitch req)"
    and "is_ok r \<Longrightarrow> cr_mode req = Tun \<Longrightarrow> held hold m' = cr_killswitch req"
  using assms unfolding connect_commit_def guarded_ok_def
  by (auto simp: on_backend_eq split: prod.splits sum.splits if_splits dest: remove_ok)

lemma connect_switch_effect:
  assumes "connect_switch ops req w m = (r, m')" and "cr_mode req = Tun \<Longrightarrow> held hold m"
  shows "guarded_ok hold m'"
    and "is_err r \<Longrightarrow> phase_of m' \<in> {RecoveryRequired, Blocking, Disconnected}"
    and "is_ok r \<Longrightarrow> r = Inr (connected_state req) \<and> lm_state m' = connected_state req
           \<and> lm_block_on_failure m' = (cr_mode req = Tun \<and> cr_killswitch req)"
    and "is_ok r \<Longrightarrow> cr_mode req = Tun \<Longrightarrow> held hold m' = cr_killswitch req"
proof -
  obtain q m1 where up: "on_backend (bring_up ops req) m = (q, m1)" by fastforce
  then have h1: "cr_mode req = Tun \<Longrightarrow> held hold m1"
    using assms(2) by (auto simp: on_backend_eq held_def dest: bring_up_keeps)
  have split: "(\<exists>e. q = Inl e \<and> r = Inl e \<and> m' = connect_cleanup ops req w m1)
      \<or> (is_ok q \<and> connect_commit ops req m1 = (r, m'))"
    using assms(1) up by (auto simp: connect_switch_def split: sum.splits)
  show "guarded_ok hold m'"
    using split connect_cleanup_effect(1) [OF h1] connect_commit_effect(1) [OF _ h1] by auto
  show "is_err r \<Longrightarrow> phase_of m' \<in> {RecoveryRequired, Blocking, Disconnected}"
    using split connect_cleanup_effect(2) [OF h1] connect_commit_effect(2) [OF _ h1] by auto
  show "is_ok r \<Longrightarrow> r = Inr (connected_state req) \<and> lm_state m' = connected_state req
          \<and> lm_block_on_failure m' = (cr_mode req = Tun \<and> cr_killswitch req)"
    using split connect_commit_effect(3) [OF _ h1] by auto
  show "is_ok r \<Longrightarrow> cr_mode req = Tun \<Longrightarrow> held hold m' = cr_killswitch req"
    using split connect_commit_effect(4) [OF _ h1] by auto
qed

text \<open>
  The four ways through \<open>connect\<close>: refused by validation, refused by the guard, stuck
  stopping the old data plane, or decided by the switch to the new one.
\<close>

lemma connect_paths:
  assumes "lifecycle_connect ops req m = (r, m')"
  obtains (refused) e where "r = Inl e" and "phase_of m' = fallback_phase (phase_of m = Connected)"
      and "held hold m' = held hold m" and "lm_block_on_failure m' = lm_block_on_failure m"
  | (unguarded) e m1 where "r = Inl e" and "held hold m1 = held hold m"
      and "lm_block_on_failure m' = lm_block_on_failure m"
      and "connect_validate ops req (phase_of m = Connected)
             (connect_begin (phase_of m = Connected) m) = (Inr (), m1)"
      and "connect_guard ops req (phase_of m = Connected) m1 = (Inl e, m')"
  | (stuck) e where "r = Inl e" and "cr_mode req = Tun \<Longrightarrow> held hold m'"
      and "phase_of m' = (if cr_mode req = Tun then Blocking else RecoveryRequired)"
  | (switched) m3 where "connect_switch ops req (phase_of m = Connected) m3 = (r, m')"
      and "cr_mode req = Tun \<Longrightarrow> held hold m3"
proof -
  let ?w = "phase_of m = Connected"
  obtain r1 m1 where v: "connect_validate ops req ?w (connect_begin ?w m) = (r1, m1)" by fastforce
  note ve = connect_validate_effect [OF v]
  show thesis
  proof (cases r1)
    case (Inl e)
    with assms v have "r = Inl e" "m' = m1" by (auto simp: lifecycle_connect_def result_simps)
    with refused ve Inl show ?thesis by simp
  next
    case (Inr u1)
    then have v': "connect_validate ops req ?w (connect_begin ?w m) = (Inr (), m1)" using v by simp
    obtain r2 m2 where g: "connect_guard ops req ?w m1 = (r2, m2)" by fastforce
    show ?thesis
    proof (cases r2)
      case (Inl e)
      with assms v' g have "r = Inl e" "m' = m2" by (auto simp: lifecycle_connect_def result_simps)
      then show ?thesis using unguarded [OF _ _ _ v'] ve g Inl connect_guard_err(2) by auto
    next
      case (Inr u2)
      then have g': "connect_guard ops req ?w m1 = (Inr (), m2)" using g by simp
      have h2: "cr_mode req = Tun \<Longrightarrow> held hold m2" using connect_guard_ok(1) [OF g'] by simp
      obtain r3 m3 where s: "connect_stop_old ops req ?w m2 = (r3, m3)" by fastforce
      note se = connect_stop_old_effect [OF s]
      show ?thesis
      proof (cases r3)
        case (Inl e)
        with assms v' g' s have "r = Inl e" "m' = m3"
          by (auto simp: lifecycle_connect_def result_simps)
        with stuck se h2 Inl show ?thesis by simp
      next
        case (Inr u3)
        with assms v' g' s have "connect_switch ops req ?w m3 = (r, m')"
          by (auto simp: lifecycle_connect_def result_simps)
        with switched se h2 show ?thesis by simp
      qed
    qed
  qed
qed

lemma connect_guarded_ok:
  assumes "lifecycle_connect ops req m = (r, m')" and "guarded_ok hold m"
    and "\<not> guard_revoked ops req m"
  shows "guarded_ok hold m'"
  using assms(1)
proof (cases rule: connect_paths)
  case refused
  with assms(2) show ?thesis by (auto simp: guarded_ok_def fallback_phase_def)
next
  case (unguarded e m1)
  have ph: "phase_of m' \<in> {fallback_phase (phase_of m = Connected), RecoveryRequired}"
    and tun: "cr_mode req = Tun"
    using connect_guard_err [OF unguarded(5)] by auto
  have "held hold m'" if "phase_of m' = Connected" "lm_block_on_failure m'"
  proof (rule ccontr)
    assume "\<not> held hold m'"
    have nr: "phase_of m' \<noteq> RecoveryRequired" using that(1) by simp
    have c: "phase_of m = Connected" using that(1) ph by (auto simp: fallback_phase_def split: if_splits)
    have b: "lm_block_on_failure m" using that(2) unguarded(3) by simp
    have "held hold m1" using assms(2) b c unguarded(2) by (simp add: guarded_ok_def)
    then obtain b2 v b3 where "lb_install_hold_block ops req (lm_backend m1) = (Inr (), b2)"
      and "lb_verify_hold_block ops b2 = (Inl v, b3)" and "is_ok (fst (lb_remove_hold_block ops b3))"
      by (rule connect_guard_err_held [OF unguarded(5) _ \<open>\<not> held hold m'\<close> nr])
    moreover have "\<exists>u b1. lb_validate ops req (lm_backend m) = (Inr u, b1) \<and> lm_backend m1 = b1"
      using unguarded(4) by (auto simp: connect_validate_def on_backend_eq split: prod.splits sum.splits)
    ultimately have "guard_revoked ops req m"
      using b c tun by (auto simp: guard_revoked_def)
    with assms(3) show False by contradiction
  qed
  with ph show ?thesis by (auto simp: guarded_ok_def fallback_phase_def split: if_splits)
next
  case stuck
  then show ?thesis by (auto simp: guarded_ok_def)
next
  case (switched m3)
  then show ?thesis using connect_switch_effect(1) by blast
qed

lemma connect_phases:
  assumes "lifecycle_connect ops req m = (r, m')"
  shows "phase_of m' \<in> {Connected, Disconnected, Blocking, RecoveryRequired}"
  using assms
proof (cases rule: connect_paths)
  case (unguarded e m1)
  then show ?thesis using connect_guard_err(1) [OF unguarded(5)] by (auto simp: fallback_phase_def split: if_splits)
next
  case (switched m3)
  then show ?thesis using connect_switch_effect(2,3) [OF switched] by (cases r) auto
qed (auto simp: fallback_phase_def)

lemma connect_ok:
  assumes "lifecycle_connect ops req m = (Inr s, m')"
  shows "s = connected_state req \<and> lm_state m' = s
         \<and> lm_block_on_failure m' = (cr_mode req = Tun \<and> cr_killswitch req)
         \<and> (cr_mode req = Tun \<longrightarrow> held hold m' = cr_killswitch req)"
  using assms
proof (cases rule: connect_paths)
  case (switched m3)
  then show ?thesis using connect_switch_effect(3,4) [OF switched] by auto
qed auto

lemma disconnect_effect:
  assumes "lifecycle_disconnect ops m = (r, m')"
  shows "is_ok r \<Longrightarrow> phase_of m' = Disconnected \<and> \<not> held hold m' \<and> \<not> lm_block_on_failure m'"
    and "is_err r \<Longrightarrow> phase_of m' = RecoveryRequired"
  using assms unfolding lifecycle_disconnect_def
  by (auto simp: on_backend_eq is_err_iff split: prod.splits if_splits dest: remove_ok
        elim!: is_ok_cases)

lemma reconcile_health_effect:
  assumes "lifecycle_reconcile_health ops m = (r, m')"
  shows "held hold m' = held hold m" and "lm_block_on_failure m' = lm_block_on_failure m"
    and "phase_of m' = phase_of m
         \<or> (phase_of m = Connected
            \<and> phase_of m' \<in> {RecoveryRequired, if lm_block_on_failure m then Blocking else Disconnected})"
  using assms unfolding lifecycle_reconcile_health_def
  by (auto simp: on_backend_eq held_def Let_def split: prod.splits sum.splits if_splits bool.splits
        dest: stop_keeps alive_keeps)

lemma reconcile_guarded_ok:
  "lifecycle_reconcile_health ops m = (r, m') \<Longrightarrow> guarded_ok hold m \<Longrightarrow> guarded_ok hold m'"
  using reconcile_health_effect [of m r m'] by (auto simp: guarded_ok_def split: if_splits)

lemma update_split_effect:
  assumes "lifecycle_update_split ops apps m = (r, m')"
  shows "held hold m' = held hold m" and "lm_block_on_failure m' = lm_block_on_failure m"
    and "phase_of m' = phase_of m"
    and "ds_dns_protected (lm_state m') = ds_dns_protected (lm_state m)"
  using assms unfolding lifecycle_update_split_def
  by (auto simp: on_backend_eq held_def Let_def split: prod.splits sum.splits if_splits
        dest: update_split_keeps)

end

end
