(* ===== verification/Lifecycle_Machine.thy ===== *)
theory Lifecycle_Machine
  imports Hold_Contract
begin

text \<open>
  The lifecycle manager as a state machine: what it can be asked for are the events, a run is any
  sequence of them, and \<open>reachable\<close> collects the managers a run leads to.  The invariants say
  what a reachable state promises.
\<close>

section \<open>Events and reachable states\<close>

text \<open>\<open>Ev_Mark\<close> is \<open>mark_recovery_required\<close>, which the controller calls when the state file cannot be written.\<close>

datatype lifecycle_event =
    Ev_Connect connect_request
  | Ev_Update_Split "string list"
  | Ev_Disconnect
  | Ev_Health
  | Ev_Mark

fun lifecycle_event_step ::
    "'b lifecycle_backend \<Rightarrow> lifecycle_event \<Rightarrow> 'b lifecycle_manager \<Rightarrow> 'b lifecycle_manager" where
  "lifecycle_event_step ops (Ev_Connect req) m = snd (lifecycle_connect ops req m)"
| "lifecycle_event_step ops (Ev_Update_Split apps) m = snd (lifecycle_update_split ops apps m)"
| "lifecycle_event_step ops Ev_Disconnect m = snd (lifecycle_disconnect ops m)"
| "lifecycle_event_step ops Ev_Health m = snd (lifecycle_reconcile_health ops m)"
| "lifecycle_event_step ops Ev_Mark m = mark_recovery_required m"

text \<open>\<open>allowed\<close> restricts the runs that are looked at.\<close>

inductive reachable ::
    "'b lifecycle_backend \<Rightarrow> (lifecycle_event \<Rightarrow> 'b lifecycle_manager \<Rightarrow> bool)
     \<Rightarrow> 'b lifecycle_manager \<Rightarrow> 'b lifecycle_manager \<Rightarrow> bool"
  for ops allowed m0 where
  start: "reachable ops allowed m0 m0"
| event: "reachable ops allowed m0 m \<Longrightarrow> allowed ev m \<Longrightarrow>
          reachable ops allowed m0 (lifecycle_event_step ops ev m)"

lemma reachable_invariant:
  assumes "reachable ops allowed m0 m" and "I m0"
    and "\<And>ev m. allowed ev m \<Longrightarrow> I m \<Longrightarrow> I (lifecycle_event_step ops ev m)"
  shows "I m"
  using assms(1) by (induction rule: reachable.induct) (use assms(2,3) in auto)

lemma reachable_trans:
  assumes "reachable ops allowed m1 m2" and "reachable ops allowed m0 m1"
  shows "reachable ops allowed m0 m2"
  using assms by (induction rule: reachable.induct) (auto intro: reachable.intros)

text \<open>A run of several events, for concrete reachable states.\<close>

lemma reachable_run:
  "list_all (\<lambda>ev. \<forall>m. allowed ev m) evs \<Longrightarrow>
   reachable ops allowed m0 (fold (lifecycle_event_step ops) evs m0)"
proof (induction evs rule: rev_induct)
  case Nil
  then show ?case by (simp add: reachable.start)
next
  case (snoc ev evs)
  then show ?case by (auto intro: reachable.event)
qed

definition any_event :: "lifecycle_event \<Rightarrow> 'b lifecycle_manager \<Rightarrow> bool" where
  "any_event ev m = True"

text \<open>All runs but those through \<open>guard_revoked\<close>.\<close>

definition unrevoked :: "'b lifecycle_backend \<Rightarrow> lifecycle_event \<Rightarrow> 'b lifecycle_manager \<Rightarrow> bool" where
  "unrevoked ops ev m = (case ev of Ev_Connect req \<Rightarrow> \<not> guard_revoked ops req m | _ \<Rightarrow> True)"

section \<open>Invariants of every backend\<close>

text \<open>
  Between two requests the phase is never a transient one, and the protection flags are only
  shown for a connection or for a state that asks for recovery.
\<close>

definition phase_settled :: "'b lifecycle_manager \<Rightarrow> bool" where
  "phase_settled m = (phase_of m \<notin> {Preparing, Reconnecting})"

definition flags_honest :: "'b lifecycle_manager \<Rightarrow> bool" where
  "flags_honest m =
     (if phase_of m \<in> {Connected, RecoveryRequired} then True
      else \<not> ds_split_active (lm_state m) \<and> \<not> ds_dns_protected (lm_state m))"

text \<open>The steps of \<open>connect\<close> change no more of the state than its phase.\<close>

definition flags_clear :: "'b lifecycle_manager \<Rightarrow> bool" where
  "flags_clear m = (\<not> ds_split_active (lm_state m) \<and> \<not> ds_dns_protected (lm_state m))"

lemma flags_clear_simps [simp]:
  "flags_clear (set_phase p m) = flags_clear m"
  "flags_clear (m\<lparr>lm_backend := b\<rparr>) = flags_clear m"
  "flags_clear (connect_begin w m)"
  by (simp_all add: flags_clear_def)

lemma on_backend_state:
  "on_backend f m = (r, m') \<Longrightarrow> lm_state m' = lm_state m \<and> lm_block_on_failure m' = lm_block_on_failure m"
  by (auto simp: on_backend_eq)

lemma snd_on_backend [simp]:
  "lm_state (snd (on_backend f m)) = lm_state m" "flags_clear (snd (on_backend f m)) = flags_clear m"
  by (simp_all add: on_backend_def flags_clear_def split: prod.splits)

lemma connect_prepare_clear:
  "connect_validate ops req w m = (r, m') \<Longrightarrow> flags_clear m' = flags_clear m \<and> (is_ok r \<or> phase_settled m')"
  "connect_guard ops req w m = (r, m') \<Longrightarrow> flags_clear m' = flags_clear m \<and> (is_ok r \<or> phase_settled m')"
  "connect_stop_old ops req w m = (r, m') \<Longrightarrow> flags_clear m' = flags_clear m \<and> (is_ok r \<or> phase_settled m')"
  "flags_clear (connect_cleanup ops req w m) = flags_clear m \<and> phase_settled (connect_cleanup ops req w m)"
  unfolding connect_validate_def connect_guard_def connect_stop_old_def connect_cleanup_def
    fallback_phase_def phase_settled_def
  by (auto simp: on_backend_eq split: prod.splits sum.splits if_splits)

lemma connect_switch_clear:
  assumes "connect_switch ops req w m = (r, m')" and "flags_clear m"
  shows "is_err r \<Longrightarrow> flags_clear m' \<and> phase_settled m'"
    and "is_ok r \<Longrightarrow> lm_state m' = connected_state req"
proof -
  have rr: "phase_settled (set_phase RecoveryRequired m1)" for m1 :: "'a lifecycle_manager"
    by (simp add: phase_settled_def)
  show "is_err r \<Longrightarrow> flags_clear m' \<and> phase_settled m'"
    and "is_ok r \<Longrightarrow> lm_state m' = connected_state req"
    using assms unfolding connect_switch_def connect_commit_def
    by (auto simp: connect_prepare_clear(4) rr on_backend_eq split: prod.splits sum.splits if_splits)
qed

lemma connect_clear:
  assumes "lifecycle_connect ops req m = (r, m')"
  shows "is_err r \<Longrightarrow> flags_clear m' \<and> phase_settled m'"
    and "is_ok r \<Longrightarrow> lm_state m' = connected_state req"
proof -
  let ?w = "phase_of m = Connected"
  obtain r1 m1 where v: "connect_validate ops req ?w (connect_begin ?w m) = (r1, m1)" by fastforce
  note p1 = connect_prepare_clear(1) [OF v]
  obtain r2 m2 where g: "connect_guard ops req ?w m1 = (r2, m2)" by fastforce
  note p2 = connect_prepare_clear(2) [OF g]
  obtain r3 m3 where s: "connect_stop_old ops req ?w m2 = (r3, m3)" by fastforce
  note p3 = connect_prepare_clear(3) [OF s]
  have "(is_err r \<and> ((is_err r1 \<and> m' = m1) \<or> (is_err r2 \<and> m' = m2) \<or> (is_err r3 \<and> m' = m3)))
      \<or> connect_switch ops req ?w m3 = (r, m')"
    using assms v g s
    by (cases r1; cases r2; cases r3) (auto simp: lifecycle_connect_def result_simps)
  then show "is_err r \<Longrightarrow> flags_clear m' \<and> phase_settled m'"
    and "is_ok r \<Longrightarrow> lm_state m' = connected_state req"
    using connect_switch_clear [of ops req ?w m3] p1 p2 p3 by (auto simp: is_err_iff)
qed

lemma connect_settled:
  "lifecycle_connect ops req m = (r, m') \<Longrightarrow> phase_settled m' \<and> flags_honest m'"
  using connect_clear [of ops req m r m']
  by (cases r) (auto simp: phase_settled_def flags_honest_def flags_clear_def)

lemma disconnect_settled:
  "lifecycle_disconnect ops m = (r, m') \<Longrightarrow> phase_settled m' \<and> flags_honest m'"
  unfolding lifecycle_disconnect_def phase_settled_def flags_honest_def
  by (auto simp: on_backend_eq split: prod.splits if_splits)

lemma update_split_settled:
  "lifecycle_update_split ops apps m = (r, m') \<Longrightarrow> phase_settled m \<and> flags_honest m \<Longrightarrow>
     phase_settled m' \<and> flags_honest m'"
  unfolding lifecycle_update_split_def phase_settled_def flags_honest_def Let_def
  by (auto simp: on_backend_eq split: prod.splits sum.splits if_splits)

lemma health_settled:
  "lifecycle_reconcile_health ops m = (r, m') \<Longrightarrow> phase_settled m \<and> flags_honest m \<Longrightarrow>
     phase_settled m' \<and> flags_honest m'"
  unfolding lifecycle_reconcile_health_def phase_settled_def flags_honest_def Let_def
  by (auto simp: on_backend_eq split: prod.splits sum.splits if_splits bool.splits)

lemmas event_settled = connect_settled disconnect_settled update_split_settled health_settled

lemma reachable_settled:
  assumes "reachable ops allowed m0 m" and "phase_settled m0 \<and> flags_honest m0"
  shows "phase_settled m \<and> flags_honest m"
  using assms
proof (rule reachable_invariant)
  fix ev :: lifecycle_event and m :: "'a lifecycle_manager"
  assume I: "phase_settled m \<and> flags_honest m"
  show "phase_settled (lifecycle_event_step ops ev m) \<and> flags_honest (lifecycle_event_step ops ev m)"
  proof (cases ev)
    case Ev_Mark
    then show ?thesis by (simp add: phase_settled_def flags_honest_def)
  qed (use I event_settled in \<open>metis lifecycle_event_step.simps prod.collapse\<close>)+
qed

section \<open>Under the contract of the hold block\<close>

context hold_contract
begin

lemma step_guarded_ok:
  assumes "guarded_ok hold m" and "unrevoked ops ev m"
  shows "guarded_ok hold (lifecycle_event_step ops ev m)"
proof (cases ev)
  case (Ev_Connect req)
  then show ?thesis
    using assms connect_guarded_ok [of req m] by (cases "lifecycle_connect ops req m") (auto simp: unrevoked_def)
next
  case (Ev_Update_Split apps)
  then show ?thesis
    using assms update_split_effect [of apps m]
    by (cases "lifecycle_update_split ops apps m") (auto simp: guarded_ok_def)
next
  case Ev_Disconnect
  obtain r m' where "lifecycle_disconnect ops m = (r, m')" by fastforce
  then show ?thesis
    using Ev_Disconnect disconnect_effect [of m r m'] by (cases r) (auto simp: guarded_ok_def)
next
  case Ev_Health
  then show ?thesis
    using assms reconcile_guarded_ok [of m] by (cases "lifecycle_reconcile_health ops m") auto
next
  case Ev_Mark
  then show ?thesis by (simp add: guarded_ok_def)
qed

lemma reachable_guarded_ok:
  "reachable ops (unrevoked ops) m0 m \<Longrightarrow> guarded_ok hold m0 \<Longrightarrow> guarded_ok hold m"
  by (erule reachable_invariant [where I = "guarded_ok hold"]) (auto intro: step_guarded_ok)

end

end
