(* ===== verification/Lifecycle_Fake.thy ===== *)
theory Lifecycle_Fake
  imports Lifecycle_Machine
begin

text \<open>
  The backend of the tests of \<open>daemon/src/lifecycle.rs\<close>: it records what it is asked and can be
  told to fail one action.  It meets the contract of the hold block, and concrete runs of the
  manager over it are evaluated here.
\<close>

datatype fake_action =
    Validate | InstallHold | VerifyHold | StopPreservingSplit | StopFully | Start | Activate
  | UpdateSplitAction | VerifyConnection | RemoveHold

text \<open>\<open>fk_actions\<close> is the recorded queue with the newest action first.\<close>

record fake_backend =
  fk_actions :: "fake_action list"
  fk_fail_on :: "fake_action option"
  fk_alive :: bool

definition fake_healthy :: fake_backend where
  "fake_healthy = \<lparr>fk_actions = [], fk_fail_on = None, fk_alive = True\<rparr>"

definition fake_failing :: "fake_action \<Rightarrow> fake_backend" where
  "fake_failing a = \<lparr>fk_actions = [], fk_fail_on = Some a, fk_alive = True\<rparr>"

definition fake_record :: "fake_action \<Rightarrow> (fake_backend, daemon_error + unit) io" where
  "fake_record a b =
     ((if fk_fail_on b = Some a then Err (daemon_error Internal ''injected lifecycle failure'') else Ok ()),
      b\<lparr>fk_actions := a # fk_actions b\<rparr>)"

definition fake_ops :: "fake_backend lifecycle_backend" where
  "fake_ops =
     \<lparr>lb_data_plane_alive = (\<lambda>b. (fk_alive b, b)),
      lb_validate = (\<lambda>_. fake_record Validate),
      lb_install_hold_block = (\<lambda>_. fake_record InstallHold),
      lb_verify_hold_block = fake_record VerifyHold,
      lb_stop_data_plane = (\<lambda>p. fake_record (if p then StopPreservingSplit else StopFully)),
      lb_start_data_plane = (\<lambda>_. fake_record Start),
      lb_activate_network = (\<lambda>_. fake_record Activate),
      lb_update_split = (\<lambda>apps. try_io (fake_record UpdateSplitAction) (\<lambda>_. return_io (Ok (apps \<noteq> [])))),
      lb_verify_connection = (\<lambda>_. fake_record VerifyConnection),
      lb_remove_hold_block = fake_record RemoveHold\<rparr>"

text \<open>The block is in force when the newest of its actions that did not fail installed it.\<close>

fun fake_hold_in :: "fake_action option \<Rightarrow> fake_action list \<Rightarrow> bool" where
  "fake_hold_in f [] = False"
| "fake_hold_in f (a # as) =
     (if a = InstallHold \<and> f \<noteq> Some a then True
      else if a = RemoveHold \<and> f \<noteq> Some a then False
      else fake_hold_in f as)"

definition fake_hold :: "fake_backend \<Rightarrow> bool" where
  "fake_hold b = fake_hold_in (fk_fail_on b) (fk_actions b)"

lemma fake_record_hold:
  "fake_record a b = (r, b') \<Longrightarrow>
     fake_hold b' = (if is_ok r \<and> a = InstallHold then True
                     else if is_ok r \<and> a = RemoveHold then False else fake_hold b)"
  by (auto simp: fake_record_def fake_hold_def split: if_splits)

interpretation fake: hold_contract fake_ops fake_hold
  by unfold_locales
     (auto simp: fake_ops_def try_io_def split: prod.splits if_splits sum.splits dest!: fake_record_hold)

end
