(* ===== verification/Json.thy ===== *)
theory Json
  imports Protocol "HOL-Library.List_Lexorder" "HOL-Library.Char_ord"
begin

text \<open>
  The value type of \<open>serde_json\<close> and the accessors the daemon uses on it, as documented: a
  map is a \<open>BTreeMap\<close> (the crate is built without \<open>preserve_order\<close>), so its entries
  are in key order without repeats.  The parser and the printer are not modelled; they are
  arguments of the definitions that call them.
\<close>

datatype json =
    JNull
  | JBool bool
  | JInt int
  | JFloat u64
  | JStr string
  | JArr "json list"
  | JObj "(string \<times> json) list"

type_synonym json_map = "(string \<times> json) list"

section \<open>Accessors\<close>

fun json_get :: "string \<Rightarrow> json \<Rightarrow> json option" where
  "json_get k (JObj kvs) = map_of kvs k"
| "json_get k _ = None"

fun as_str :: "json \<Rightarrow> string option" where
  "as_str (JStr s) = Some s"
| "as_str _ = None"

fun as_bool :: "json \<Rightarrow> bool option" where
  "as_bool (JBool b) = Some b"
| "as_bool _ = None"

fun as_u64 :: "json \<Rightarrow> nat option" where
  "as_u64 (JInt i) = (if 0 \<le> i \<and> i \<le> int u64_max then Some (nat i) else None)"
| "as_u64 _ = None"

fun as_array :: "json \<Rightarrow> json list option" where
  "as_array (JArr xs) = Some xs"
| "as_array _ = None"

fun as_object :: "json \<Rightarrow> json_map option" where
  "as_object (JObj kvs) = Some kvs"
| "as_object _ = None"

text \<open>\<open>pointer("/a/b")\<close> for names that are not array indices.\<close>

fun json_pointer :: "string list \<Rightarrow> json \<Rightarrow> json option" where
  "json_pointer [] v = Some v"
| "json_pointer (k # ks) v = Option.bind (json_get k v) (json_pointer ks)"

definition get_str :: "string \<Rightarrow> json \<Rightarrow> string option" where
  "get_str k v = Option.bind (json_get k v) as_str"

definition get_u64 :: "string \<Rightarrow> json \<Rightarrow> nat option" where
  "get_u64 k v = Option.bind (json_get k v) as_u64"

definition get_array :: "string \<Rightarrow> json \<Rightarrow> json list option" where
  "get_array k v = Option.bind (json_get k v) as_array"

definition get_object :: "string \<Rightarrow> json \<Rightarrow> json_map option" where
  "get_object k v = Option.bind (json_get k v) as_object"

section \<open>Maps in key order\<close>

fun obj_insert :: "string \<Rightarrow> json \<Rightarrow> json_map \<Rightarrow> json_map" where
  "obj_insert k v [] = [(k, v)]"
| "obj_insert k v ((k', v') # kvs) =
     (if k = k' then (k, v) # kvs
      else if k < k' then (k, v) # (k', v') # kvs
      else (k', v') # obj_insert k v kvs)"

definition obj_keys :: "json_map \<Rightarrow> string list" where
  "obj_keys kvs = map fst kvs"

fun json_wf :: "json \<Rightarrow> bool" where
  "json_wf (JArr xs) = list_all json_wf xs"
| "json_wf (JObj kvs) =
     (sorted_wrt (<) (map fst kvs) \<and> list_all (\<lambda>(k, v). json_wf v) kvs)"
| "json_wf _ = True"

text \<open>\<open>value[key] = v\<close>: a panic (\<open>None\<close>) on anything but an object or \<open>null\<close>.\<close>

fun index_assign :: "string \<Rightarrow> json \<Rightarrow> json \<Rightarrow> json option" where
  "index_assign k v (JObj kvs) = Some (JObj (obj_insert k v kvs))"
| "index_assign k v JNull = Some (JObj [(k, v)])"
| "index_assign k v _ = None"

lemma map_of_obj_insert [simp]:
  "map_of (obj_insert k v kvs) k' = (if k' = k then Some v else map_of kvs k')"
  by (induction k v kvs rule: obj_insert.induct) auto

lemma set_obj_insert: "set (obj_insert k v kvs) \<subseteq> insert (k, v) (set kvs)"
  by (induction k v kvs rule: obj_insert.induct) auto

lemma fst_set_obj_insert: "fst ` set (obj_insert k v kvs) = insert k (fst ` set kvs)"
  by (induction k v kvs rule: obj_insert.induct) auto

lemma sorted_obj_insert:
  "sorted_wrt (<) (map fst kvs) \<Longrightarrow> sorted_wrt (<) (map fst (obj_insert k v kvs))"
proof (induction k v kvs rule: obj_insert.induct)
  case (2 k v k' v' kvs)
  have keys: "a \<in> fst ` set (obj_insert k v kvs) \<longleftrightarrow> a = k \<or> a \<in> fst ` set kvs" for a
    by (simp add: fst_set_obj_insert)
  consider "k = k'" | "k < k'" | "k' < k" by (meson linorder_neqE)
  then show ?case
  proof cases
    case 3
    with 2 keys show ?thesis by (auto simp flip: set_map)
  qed (use 2 in \<open>auto intro: less_trans\<close>)
qed simp

lemma obj_insert_list_all:
  "P (k, v) \<Longrightarrow> list_all P kvs \<Longrightarrow> list_all P (obj_insert k v kvs)"
  by (induction k v kvs rule: obj_insert.induct) auto

lemma json_wf_insert:
  "json_wf (JObj kvs) \<Longrightarrow> json_wf v \<Longrightarrow> json_wf (JObj (obj_insert k v kvs))"
  by (auto intro: sorted_obj_insert obj_insert_list_all)

lemma json_get_insert [simp]:
  "json_get k' (JObj (obj_insert k v kvs)) = (if k' = k then Some v else json_get k' (JObj kvs))"
  by simp

section \<open>Keys that name files\<close>

definition forbidden_file_keys :: "string list" where
  "forbidden_file_keys = [''certificateFile'', ''keyFile'', ''certificatePath'', ''keyPath'']"

fun contains_forbidden_file_key :: "json \<Rightarrow> bool" where
  "contains_forbidden_file_key (JObj kvs) =
     list_ex (\<lambda>(k, v). k \<in> set forbidden_file_keys \<or> contains_forbidden_file_key v) kvs"
| "contains_forbidden_file_key (JArr vs) = list_ex contains_forbidden_file_key vs"
| "contains_forbidden_file_key _ = False"

text \<open>
  What the check means: \<open>key_occurs k v\<close> says that an object somewhere inside \<open>v\<close>, at any
  depth, has the key \<open>k\<close>.
\<close>

inductive key_occurs :: "string \<Rightarrow> json \<Rightarrow> bool" where
  here: "(k, v) \<in> set kvs \<Longrightarrow> key_occurs k (JObj kvs)"
| in_object: "(k', v) \<in> set kvs \<Longrightarrow> key_occurs k v \<Longrightarrow> key_occurs k (JObj kvs)"
| in_array: "v \<in> set vs \<Longrightarrow> key_occurs k v \<Longrightarrow> key_occurs k (JArr vs)"

inductive_simps key_occurs_simps [simp]:
  "key_occurs k JNull" "key_occurs k (JBool b)" "key_occurs k (JInt i)"
  "key_occurs k (JFloat f)" "key_occurs k (JStr s)" "key_occurs k (JArr vs)"
  "key_occurs k (JObj kvs)"

lemma contains_forbidden_iff:
  "contains_forbidden_file_key v \<longleftrightarrow> (\<exists>k \<in> set forbidden_file_keys. key_occurs k v)"
proof (induction v rule: contains_forbidden_file_key.induct)
  case (1 kvs)
  show ?case
  proof
    assume "contains_forbidden_file_key (JObj kvs)"
    then obtain k v where "(k, v) \<in> set kvs"
      and "k \<in> set forbidden_file_keys \<or> contains_forbidden_file_key v"
      by (auto simp: list_ex_iff)
    with 1 show "\<exists>k \<in> set forbidden_file_keys. key_occurs k (JObj kvs)" by fastforce
  next
    assume "\<exists>k \<in> set forbidden_file_keys. key_occurs k (JObj kvs)"
    with 1 show "contains_forbidden_file_key (JObj kvs)" by (fastforce simp: list_ex_iff)
  qed
qed (auto simp: list_ex_iff)

lemma contains_forbidden_insert:
  "\<not> contains_forbidden_file_key (JObj kvs) \<Longrightarrow> k \<notin> set forbidden_file_keys \<Longrightarrow>
   \<not> contains_forbidden_file_key v \<Longrightarrow> \<not> contains_forbidden_file_key (JObj (obj_insert k v kvs))"
  using set_obj_insert [of k v kvs] by (fastforce simp: list_ex_iff)

end
