(* ===== verification/Xray_Doc.thy ===== *)
theory Xray_Doc
  imports Json
begin

text \<open>
  \<open>daemon/src/system.rs\<close>: the checks a configuration from the desktop client passes before
  the root daemon starts Xray on it, and the rewriting of the ports of a validation
  configuration.  \<open>parse\<close> is \<open>serde_json::from_str\<close> (its error already rendered as
  text) and \<open>print\<close> is \<open>serde_json::to_string\<close>.
\<close>

type_synonym json_parser = "string \<Rightarrow> string + json"
type_synonym json_printer = "json \<Rightarrow> string + string"

definition ensure :: "bool \<Rightarrow> daemon_error_code \<Rightarrow> string \<Rightarrow> daemon_error + unit" where
  "ensure c code msg = (if c then Ok () else Err (daemon_error code msg))"

lemma ensure_Inr [simp]: "ensure c code msg = Inr u \<longleftrightarrow> c"
  by (simp add: ensure_def)

lemma ensure_True [simp]: "ensure True code msg = Inr ()"
  by (simp add: ensure_def)

definition require :: "'a option \<Rightarrow> string \<Rightarrow> daemon_error + 'a" where
  "require x msg = ok_or (daemon_error InvalidRequest msg) x"

lemma require_Inr [simp]: "require x msg = Inr a \<longleftrightarrow> x = Some a"
  by (simp add: require_def)

definition parse_document :: "json_parser \<Rightarrow> string \<Rightarrow> string \<Rightarrow> daemon_error + json" where
  "parse_document parse prefix raw =
     map_err (\<lambda>e. daemon_error InvalidRequest (prefix @ '': '' @ e)) (parse raw)"

lemma parse_document_Inr [simp]: "parse_document parse p raw = Inr d \<longleftrightarrow> parse raw = Inr d"
  by (simp add: parse_document_def)

definition TUN_INTERFACE :: string where "TUN_INTERFACE = ''varmlen0''"
definition PROXY_PORT :: nat where "PROXY_PORT = 2081"
definition XRAY_DIAL_MARK :: nat where "XRAY_DIAL_MARK = 0x2024"

definition proxy_protocols :: "string list" where
  "proxy_protocols =
     [''http'', ''socks'', ''shadowsocks'', ''vmess'', ''vless'', ''trojan'', ''hysteria'',
      ''wireguard'']"

definition is_proxy_protocol :: "string option \<Rightarrow> bool" where
  "is_proxy_protocol p = (case p of None \<Rightarrow> False | Some s \<Rightarrow> s \<in> set proxy_protocols)"

definition has_tag_protocol :: "string \<Rightarrow> string \<Rightarrow> json \<Rightarrow> bool" where
  "has_tag_protocol tag protocol v =
     (get_str ''tag'' v = Some tag \<and> get_str ''protocol'' v = Some protocol)"

definition inbound_by_tag :: "json list \<Rightarrow> string \<Rightarrow> string \<Rightarrow> daemon_error + json" where
  "inbound_by_tag inbounds tag protocol =
     ok_or (daemon_error InvalidRequest (''required Xray inbound '' @ tag @ '' is missing''))
       (find (has_tag_protocol tag protocol) inbounds)"

section \<open>The configuration of the data plane\<close>

text \<open>\<open>iter().all(tag is a non-empty string and tags.insert(tag))\<close>.\<close>

fun tags_valid :: "string list \<Rightarrow> json list \<Rightarrow> bool" where
  "tags_valid seen [] = True"
| "tags_valid seen (o' # os) =
     (case get_str ''tag'' o' of
        None \<Rightarrow> False
      | Some t \<Rightarrow> t \<noteq> [] \<and> t \<notin> set seen \<and> tags_valid (t # seen) os)"

definition required_system_outbounds :: "(string \<times> string) list" where
  "required_system_outbounds =
     [(''direct'', ''freedom''), (''dns-out'', ''dns''), (''block'', ''blackhole'')]"

definition system_outbounds_are_exact :: "json list \<Rightarrow> bool" where
  "system_outbounds_are_exact outs =
     list_all (\<lambda>(tag, protocol). length (filter (has_tag_protocol tag protocol) outs) = 1)
       required_system_outbounds"

definition proxy_count :: "json list \<Rightarrow> nat" where
  "proxy_count outs = length (filter (\<lambda>v. is_proxy_protocol (get_str ''protocol'' v)) outs)"

definition data_inbound_ok :: "bool \<Rightarrow> json \<Rightarrow> daemon_error + unit" where
  "data_inbound_ok expects_tun data =
     (if expects_tun
      then ensure (Option.bind (json_pointer [''settings'', ''name''] data) as_str = Some TUN_INTERFACE)
             InvalidRequest ''Xray TUN interface name is not permitted''
      else ensure (get_str ''listen'' data = Some ''127.0.0.1''
                   \<and> get_u64 ''port'' data = Some PROXY_PORT)
             InvalidRequest ''Xray SOCKS inbound must remain loopback-only'')"

definition xray_sections :: "string list" where
  "xray_sections =
     [''log'', ''dns'', ''inbounds'', ''outbounds'', ''routing'', ''observatory'',
      ''burstObservatory'']"

definition validate_xray_document :: "json_parser \<Rightarrow> string \<Rightarrow> bool \<Rightarrow> daemon_error + unit" where
  "validate_xray_document parse raw expects_tun =
     try_then (parse_document parse ''invalid generated Xray JSON'' raw) (\<lambda>document.
     try_then (require (as_object document) ''Xray configuration must be an object'') (\<lambda>obj.
     try_then (ensure (list_all (\<lambda>k. k \<in> set xray_sections) (obj_keys obj)) InvalidRequest
                ''Xray configuration contains an unsupported privileged section'') (\<lambda>_.
     try_then (require (get_object ''log'' document) ''Xray log section is missing'') (\<lambda>log.
     try_then (ensure (list_all (\<lambda>k. k = ''loglevel'') (obj_keys log)) InvalidRequest
                ''Xray file logging is not permitted'') (\<lambda>_.
     try_then (require (get_array ''inbounds'' document) ''Xray inbounds are missing'') (\<lambda>inbounds.
     try_then (ensure (length inbounds = 1) InvalidRequest
                ''Xray must contain exactly one data inbound'') (\<lambda>_.
     try_then (inbound_by_tag inbounds (if expects_tun then ''tun-in'' else ''socks-in'')
                (if expects_tun then ''tun'' else ''socks'')) (\<lambda>data.
     try_then (data_inbound_ok expects_tun data) (\<lambda>_.
     try_then (require (get_array ''outbounds'' document) ''Xray outbounds are missing'') (\<lambda>outs.
     try_then (ensure (tags_valid [] outs
                       \<and> 1 \<le> proxy_count outs \<and> proxy_count outs \<le> MAX_SERVER_IPS
                       \<and> length outs = proxy_count outs + length required_system_outbounds
                       \<and> system_outbounds_are_exact outs)
                InvalidRequest ''Xray outbound set is not permitted'') (\<lambda>_.
     try_then (ensure (get_object ''dns'' document \<noteq> None \<and> get_object ''routing'' document \<noteq> None)
                InvalidRequest ''Xray DNS or routing section is missing'') (\<lambda>_.
     ensure (\<not> contains_forbidden_file_key document) InvalidRequest
       ''Xray configuration may not reference privileged files''))))))))))))"

section \<open>The ports of a validation configuration\<close>

definition validation_port :: "json \<Rightarrow> daemon_error + u16" where
  "validation_port inbound =
     (case get_u64 ''port'' inbound of
        Some p \<Rightarrow> if p \<le> u16_max \<and> p \<ge> 1024 then Ok (of_nat p)
                  else Err (daemon_error InvalidRequest ''validation config contains an invalid port'')
      | None \<Rightarrow> Err (daemon_error InvalidRequest ''validation config contains an invalid port''))"

definition validation_config_ports :: "json_parser \<Rightarrow> string \<Rightarrow> daemon_error + u16 list" where
  "validation_config_ports parse raw =
     try_then (parse_document parse ''invalid validation Xray JSON'' raw) (\<lambda>document.
     try_then (require (case get_array ''inbounds'' document of
                          None \<Rightarrow> None
                        | Some xs \<Rightarrow> if 1 \<le> length xs \<and> length xs \<le> MAX_SERVER_IPS
                                    then Some xs else None)
                ''validation config must contain between one and 64 loopback inbounds'') (\<lambda>inbounds.
     collect_results validation_port inbounds))"

text \<open>
  \<open>for (inbound, port) in inbounds.iter_mut().zip(ports) { inbound["port"] = json!(port); }\<close>:
  \<open>None\<close> is the panic of an index assignment on something that is not an object.
\<close>

fun set_ports :: "json list \<Rightarrow> u16 list \<Rightarrow> json list option" where
  "set_ports (v # vs) (p # ps) =
     Option.bind (index_assign ''port'' (JInt (uint p)) v) (\<lambda>v'.
     map_option (\<lambda>vs'. v' # vs') (set_ports vs ps))"
| "set_ports vs _ = Some vs"

datatype 'a outcome = Panic | Returned "daemon_error + 'a"

definition ports_usable :: "u16 list \<Rightarrow> bool" where
  "ports_usable ports =
     (ports \<noteq> [] \<and> length ports \<le> MAX_SERVER_IPS \<and> list_all (\<lambda>p. p \<ge> 1024) ports
      \<and> length (remdups ports) = length ports)"

definition set_document_ports :: "json \<Rightarrow> json list \<Rightarrow> json" where
  "set_document_ports document inbounds =
     (case document of
        JObj kvs \<Rightarrow> JObj (obj_insert ''inbounds'' (JArr inbounds) kvs)
      | _ \<Rightarrow> document)"

definition validation_config_with_ports ::
    "json_parser \<Rightarrow> json_printer \<Rightarrow> string \<Rightarrow> u16 list \<Rightarrow> string outcome" where
  "validation_config_with_ports parse print raw ports =
     (if \<not> ports_usable ports
      then Returned (Err (daemon_error InvalidRequest ''validation ports must be unique and unprivileged''))
      else (case parse_document parse ''invalid validation Xray JSON'' raw of
              Inl e \<Rightarrow> Returned (Err e)
            | Inr document \<Rightarrow>
                (case (case get_array ''inbounds'' document of
                         None \<Rightarrow> None
                       | Some xs \<Rightarrow> if length xs = length ports then Some xs else None) of
                   None \<Rightarrow> Returned (Err (daemon_error InvalidRequest
                             ''validation config port count does not match its inbounds''))
                 | Some inbounds \<Rightarrow>
                     (case set_ports inbounds ports of
                        None \<Rightarrow> Panic
                      | Some inbounds' \<Rightarrow>
                          Returned (map_err
                            (\<lambda>e. daemon_error Internal
                                   (''could not serialize validation Xray JSON: '' @ e))
                            (print (set_document_ports document inbounds')))))))"

section \<open>The configuration of a probe\<close>

definition ping_sections :: "string list" where
  "ping_sections =
     [''log'', ''inbounds'', ''outbounds'', ''routing'', ''observatory'', ''burstObservatory'']"

definition ping_inbound_tag_ok :: "nat \<Rightarrow> nat \<Rightarrow> string option \<Rightarrow> bool" where
  "ping_inbound_tag_ok count index tag =
     ((count = 1 \<and> tag = Some ''socks-in'') \<or> tag = Some (''socks-in-'' @ dec index))"

definition ping_inbound_ok :: "nat \<Rightarrow> nat \<Rightarrow> u16 \<Rightarrow> json \<Rightarrow> bool" where
  "ping_inbound_ok count index port v =
     (ping_inbound_tag_ok count index (get_str ''tag'' v)
      \<and> get_str ''protocol'' v = Some ''socks''
      \<and> get_str ''listen'' v = Some ''127.0.0.1''
      \<and> get_u64 ''port'' v = Some (unat port)
      \<and> Option.bind (json_pointer [''settings'', ''auth''] v) as_str = Some ''noauth''
      \<and> Option.bind (json_pointer [''settings'', ''udp''] v) as_bool = Some False)"

fun ping_inbounds :: "nat \<Rightarrow> nat \<Rightarrow> json list \<Rightarrow> u16 list \<Rightarrow> daemon_error + string list" where
  "ping_inbounds count index (v # vs) (p # ps) =
     try_then (ensure (ping_inbound_ok count index p v) InvalidRequest
                ''ping Xray SOCKS inbound must be loopback-only on the requested port'') (\<lambda>_.
     try_then (ping_inbounds count (Suc index) vs ps) (\<lambda>tags.
     Ok (the (get_str ''tag'' v) # tags)))"
| "ping_inbounds count index _ _ = Ok []"

definition ping_outbound_set_ok :: "json list \<Rightarrow> bool" where
  "ping_outbound_set_ok outs =
     (2 \<le> length outs \<and> length outs \<le> MAX_SERVER_IPS + 1
      \<and> has_tag_protocol ''direct'' ''freedom'' (last outs))"

definition outbound_marked :: "json \<Rightarrow> bool" where
  "outbound_marked v =
     (Option.bind (json_pointer [''streamSettings'', ''sockopt'', ''mark''] v) as_u64
        = Some XRAY_DIAL_MARK)"

text \<open>The loop over the proxy outbounds; the tags seen so far are the accumulator.\<close>

fun ping_proxy_tags :: "string list \<Rightarrow> json list \<Rightarrow> daemon_error + string list" where
  "ping_proxy_tags seen [] = Ok seen"
| "ping_proxy_tags seen (v # vs) =
     (case get_str ''tag'' v of
        Some t \<Rightarrow>
          if is_proxy_protocol (get_str ''protocol'' v) \<and> t \<noteq> [] \<and> t \<notin> set seen
             \<and> (get_str ''protocol'' v = Some ''wireguard'' \<or> outbound_marked v)
          then ping_proxy_tags (t # seen) vs
          else Err (daemon_error InvalidRequest
                 ''ping Xray proxy outbound or bypass mark is not permitted'')
      | None \<Rightarrow> Err (daemon_error InvalidRequest
                 ''ping Xray proxy outbound or bypass mark is not permitted''))"

definition selector_matches :: "string list \<Rightarrow> json list \<Rightarrow> bool" where
  "selector_matches proxy_tags selectors =
     list_ex (\<lambda>s. list_ex (starts_with s) proxy_tags) (List.map_filter as_str selectors)"

fun ping_balancers :: "string list \<Rightarrow> string list \<Rightarrow> json list \<Rightarrow> daemon_error + string list" where
  "ping_balancers proxy_tags seen [] = Ok seen"
| "ping_balancers proxy_tags seen (b # bs) =
     try_then (require (case get_str ''tag'' b of None \<Rightarrow> None | Some t \<Rightarrow> if t = [] then None else Some t)
                ''ping Xray balancer tag is missing'') (\<lambda>tag.
     try_then (require (get_array ''selector'' b) ''ping Xray balancer selector is missing'') (\<lambda>selectors.
     if tag \<in> set seen \<or> selectors = [] \<or> \<not> selector_matches proxy_tags selectors
     then Err (daemon_error InvalidRequest ''ping Xray balancer does not select a proxy'')
     else ping_balancers proxy_tags (tag # seen) bs))"

definition ping_balancer_tags :: "string list \<Rightarrow> json_map \<Rightarrow> daemon_error + string list" where
  "ping_balancer_tags proxy_tags routing =
     (case map_of routing ''balancers'' of
        None \<Rightarrow> Ok []
      | Some value \<Rightarrow>
          try_then (require (as_array value) ''ping Xray balancers must be an array'') (\<lambda>items.
          if length items > MAX_SERVER_IPS
          then Err (daemon_error InvalidRequest ''ping Xray has too many balancers'')
          else ping_balancers proxy_tags [] items))"

definition rule_targets :: "string \<Rightarrow> string list \<Rightarrow> json \<Rightarrow> bool" where
  "rule_targets key tags rule = (case get_str key rule of None \<Rightarrow> False | Some t \<Rightarrow> t \<in> set tags)"

definition rule_inbound_matches :: "nat \<Rightarrow> string \<Rightarrow> json \<Rightarrow> bool" where
  "rule_inbound_matches count inbound_tag rule =
     (case json_get ''inboundTag'' rule of
        Some (JArr tags) \<Rightarrow> length tags = 1 \<and> as_str (tags ! 0) = Some inbound_tag
      | None \<Rightarrow> count = 1
      | _ \<Rightarrow> False)"

definition ping_rule_ok :: "nat \<Rightarrow> string list \<Rightarrow> string list \<Rightarrow> string \<Rightarrow> json \<Rightarrow> bool" where
  "ping_rule_ok count proxy_tags balancer_tags inbound_tag rule =
     (get_str ''type'' rule = Some ''field''
      \<and> get_str ''network'' rule = Some ''tcp,udp''
      \<and> rule_inbound_matches count inbound_tag rule
      \<and> rule_targets ''outboundTag'' proxy_tags rule \<noteq> rule_targets ''balancerTag'' balancer_tags rule)"

definition validate_ping_xray_document ::
    "json_parser \<Rightarrow> string \<Rightarrow> u16 list \<Rightarrow> daemon_error + unit" where
  "validate_ping_xray_document parse raw socks_ports =
     try_then (parse_document parse ''invalid ping Xray JSON'' raw) (\<lambda>document.
     try_then (require (as_object document) ''ping Xray configuration must be an object'') (\<lambda>obj.
     try_then (ensure (list_all (\<lambda>k. k \<in> set ping_sections) (obj_keys obj)) InvalidRequest
                ''ping Xray configuration contains an unsupported privileged section'') (\<lambda>_.
     try_then (require (get_object ''log'' document) ''ping Xray log is missing'') (\<lambda>log.
     try_then (ensure (list_all (\<lambda>k. k = ''loglevel'') (obj_keys log)) InvalidRequest
                ''ping Xray file logging is not permitted'') (\<lambda>_.
     try_then (require (get_array ''inbounds'' document) ''ping Xray inbound is missing'') (\<lambda>inbounds.
     try_then (ensure (length inbounds = length socks_ports) InvalidRequest
                ''ping Xray must contain one inbound per requested port'') (\<lambda>_.
     try_then (ping_inbounds (length socks_ports) 0 inbounds socks_ports) (\<lambda>inbound_tags.
     try_then (require (get_array ''outbounds'' document) ''ping Xray outbounds are missing'') (\<lambda>outs.
     try_then (ensure (ping_outbound_set_ok outs) InvalidRequest
                ''ping Xray outbound set or bypass mark is not permitted'') (\<lambda>_.
     try_then (ping_proxy_tags [] (butlast outs)) (\<lambda>proxy_tags.
     try_then (require (get_object ''routing'' document) ''ping Xray routing section is missing'') (\<lambda>routing.
     try_then (ensure (list_all (\<lambda>k. k = ''rules'' \<or> k = ''balancers'') (obj_keys routing))
                InvalidRequest ''ping Xray routing contains unsupported policy'') (\<lambda>_.
     try_then (ping_balancer_tags proxy_tags routing) (\<lambda>balancer_tags.
     try_then (require (Option.bind (map_of routing ''rules'') as_array)
                ''ping Xray routing rule is missing'') (\<lambda>rules.
     try_then (ensure (length rules = length socks_ports) InvalidRequest
                ''ping Xray must contain one routing rule per requested port'') (\<lambda>_.
     try_then (ensure (list_all (\<lambda>(t, r). ping_rule_ok (length socks_ports) proxy_tags balancer_tags t r)
                        (zip inbound_tags rules)) InvalidRequest
                ''ping Xray must route every request through its measured server'') (\<lambda>_.
     ensure (\<not> contains_forbidden_file_key document) InvalidRequest
       ''ping Xray configuration may not reference privileged files'')))))))))))))))))"

section \<open>TUN devices\<close>

definition configured_tun_devices :: "json_parser \<Rightarrow> string \<Rightarrow> string list" where
  "configured_tun_devices parse raw =
     (case parse raw of
        Inl _ \<Rightarrow> []
      | Inr document \<Rightarrow>
          (case get_array ''inbounds'' document of
             None \<Rightarrow> []
           | Some inbounds \<Rightarrow>
               List.map_filter (\<lambda>v. Option.bind (json_pointer [''settings'', ''name''] v) as_str)
                 (filter (\<lambda>v. get_str ''protocol'' v = Some ''tun'') inbounds)))"

definition tun_devices_already_live :: "json_parser \<Rightarrow> string \<Rightarrow> (string \<Rightarrow> bool) \<Rightarrow> bool" where
  "tun_devices_already_live parse raw exists_dev =
     (let devices = configured_tun_devices parse raw
      in devices \<noteq> [] \<and> list_all exists_dev devices)"

end
