(* ===== verification/Xray_Doc_Props.thy ===== *)
theory Xray_Doc_Props
  imports Xray_Doc
begin

text \<open>
  What the document checks of \<open>Xray_Doc\<close> guarantee of an accepted document, stated of the
  document itself, and that moving a probe configuration to other ports keeps it acceptable
  (and never reaches the panic of an index assignment).
\<close>

lemma map_of_Some_set: "map_of kvs k = Some v \<Longrightarrow> (k, v) \<in> set kvs"
  by (rule map_of_SomeD)

lemma get_str_Some: "get_str k v = Some s \<longleftrightarrow> json_get k v = Some (JStr s)"
proof -
  have "as_str x = Some s \<longleftrightarrow> x = JStr s" for x by (cases x) auto
  then show ?thesis by (auto simp: get_str_def bind_eq_Some_conv)
qed

lemma get_array_Some: "get_array k v = Some xs \<longleftrightarrow> json_get k v = Some (JArr xs)"
proof -
  have "as_array x = Some xs \<longleftrightarrow> x = JArr xs" for x by (cases x) auto
  then show ?thesis by (auto simp: get_array_def bind_eq_Some_conv)
qed

lemma get_object_Some: "get_object k v = Some m \<longleftrightarrow> json_get k v = Some (JObj m)"
proof -
  have "as_object x = Some m \<longleftrightarrow> x = JObj m" for x by (cases x) auto
  then show ?thesis by (auto simp: get_object_def bind_eq_Some_conv)
qed

lemma get_u64_Some:
  "get_u64 k v = Some n \<longleftrightarrow> json_get k v = Some (JInt (int n)) \<and> n \<le> u64_max"
proof -
  have "as_u64 x = Some n \<longleftrightarrow> x = JInt (int n) \<and> n \<le> u64_max" for x by (cases x) auto
  then show ?thesis by (auto simp: get_u64_def bind_eq_Some_conv)
qed

lemma json_get_object: "json_get k v = Some x \<Longrightarrow> \<exists>kvs. v = JObj kvs"
  by (cases v) auto

lemma as_object_Some: "as_object v = Some m \<longleftrightarrow> v = JObj m"
  by (cases v) auto

section \<open>Accepted probe documents\<close>

lemma ping_inbounds_Inr:
  "length vs = length ps \<Longrightarrow>
   ping_inbounds count i vs ps = Inr tags \<longleftrightarrow>
     length tags = length vs
     \<and> (\<forall>j < length vs. ping_inbound_ok count (i + j) (ps ! j) (vs ! j)
                         \<and> get_str ''tag'' (vs ! j) = Some (tags ! j))"
proof (induction vs ps arbitrary: i tags rule: list_induct2)
  case Nil
  then show ?case by auto
next
  case (Cons v vs p ps)
  have tag: "ping_inbound_ok count i p v \<Longrightarrow> \<exists>t. get_str ''tag'' v = Some t"
    by (auto simp: ping_inbound_ok_def ping_inbound_tag_ok_def)
  show ?case
  proof (cases tags)
    case Nil
    then show ?thesis by (auto simp: try_then_eq_Inr)
  next
    case (Cons t ts)
    then show ?thesis
      using tag by (auto simp: try_then_eq_Inr Cons.IH All_less_Suc2)
  qed
qed

lemma ping_proxy_tags_Inr:
  "ping_proxy_tags seen vs = Inr tags \<Longrightarrow>
     set tags = set seen \<union> {t. \<exists>v \<in> set vs. get_str ''tag'' v = Some t}
     \<and> (\<forall>v \<in> set vs. is_proxy_protocol (get_str ''protocol'' v)
          \<and> (\<exists>t. get_str ''tag'' v = Some t \<and> t \<noteq> [])
          \<and> (get_str ''protocol'' v = Some ''wireguard'' \<or> outbound_marked v))"
proof (induction vs arbitrary: seen)
  case (Cons v vs)
  then obtain t where t: "get_str ''tag'' v = Some t" "t \<noteq> []"
    and v: "is_proxy_protocol (get_str ''protocol'' v)"
      "get_str ''protocol'' v = Some ''wireguard'' \<or> outbound_marked v"
    and rest: "ping_proxy_tags (t # seen) vs = Inr tags"
    by (simp split: option.splits if_splits)
  have all: "(\<forall>w \<in> set (v # vs). Q w) \<longleftrightarrow> Q v \<and> (\<forall>w \<in> set vs. Q w)" for Q by simp
  have tags: "{s. \<exists>w \<in> set (v # vs). get_str ''tag'' w = Some s}
      = insert t {s. \<exists>w \<in> set vs. get_str ''tag'' w = Some s}" using t(1) by auto
  from Cons.IH [OF rest] show ?case unfolding all tags using t v by simp
qed simp

lemma ping_balancers_Inr:
  "ping_balancers ptags seen bs = Inr tags \<Longrightarrow>
     set tags = set seen \<union> {t. \<exists>b \<in> set bs. get_str ''tag'' b = Some t}
     \<and> (\<forall>b \<in> set bs. \<exists>sels. get_array ''selector'' b = Some sels \<and> selector_matches ptags sels)"
proof (induction bs arbitrary: seen)
  case (Cons b bs)
  then obtain t sels where t: "get_str ''tag'' b = Some t" and s: "get_array ''selector'' b = Some sels"
    and m: "selector_matches ptags sels" and rest: "ping_balancers ptags (t # seen) bs = Inr tags"
    by (auto simp: try_then_eq_Inr split: option.splits if_splits)
  from Cons.IH [OF rest] t s m show ?case by auto
qed auto

text \<open>Every check of the probe document, as one condition.\<close>

definition ping_checks :: "json \<Rightarrow> u16 list \<Rightarrow> bool" where
  "ping_checks document ports \<longleftrightarrow>
     (\<exists>kvs log inbounds tags outs ptags routing btags rules.
        document = JObj kvs
        \<and> set (obj_keys kvs) \<subseteq> set ping_sections
        \<and> get_object ''log'' document = Some log \<and> set (obj_keys log) \<subseteq> {''loglevel''}
        \<and> get_array ''inbounds'' document = Some inbounds \<and> length inbounds = length ports
        \<and> ping_inbounds (length ports) 0 inbounds ports = Inr tags
        \<and> get_array ''outbounds'' document = Some outs \<and> ping_outbound_set_ok outs
        \<and> ping_proxy_tags [] (butlast outs) = Inr ptags
        \<and> get_object ''routing'' document = Some routing
        \<and> set (obj_keys routing) \<subseteq> {''rules'', ''balancers''}
        \<and> ping_balancer_tags ptags routing = Inr btags
        \<and> Option.bind (map_of routing ''rules'') as_array = Some rules \<and> length rules = length ports
        \<and> list_all (\<lambda>(t, r). ping_rule_ok (length ports) ptags btags t r) (zip tags rules)
        \<and> \<not> contains_forbidden_file_key document)"

lemma validate_ping_iff:
  "validate_ping_xray_document parse raw ports = Inr () \<longleftrightarrow>
     (\<exists>document. parse raw = Inr document \<and> ping_checks document ports)"
proof -
  have subset: "list_all (\<lambda>k. k \<in> set S) ks \<longleftrightarrow> set ks \<subseteq> set S"
      "list_all (\<lambda>k. k = a) ks \<longleftrightarrow> set ks \<subseteq> {a}"
      "list_all (\<lambda>k. k = a \<or> k = b) ks \<longleftrightarrow> set ks \<subseteq> {a, b}" for ks S and a b :: string
    by (auto simp: list_all_iff)
  show ?thesis
    unfolding validate_ping_xray_document_def ping_checks_def try_then_eq_Inr subset
    by (simp add: as_object_Some)
qed

section \<open>Moving a probe document to other ports\<close>

lemma set_ports_objects:
  assumes "length vs = length ps" and "\<And>v. v \<in> set vs \<Longrightarrow> \<exists>kvs. v = JObj kvs"
  obtains vs' where "set_ports vs ps = Some vs'" and "length vs' = length vs"
    and "\<And>j. j < length vs \<Longrightarrow> \<exists>kvs. vs ! j = JObj kvs
           \<and> vs' ! j = JObj (obj_insert ''port'' (JInt (uint (ps ! j))) kvs)"
proof -
  have "\<exists>vs'. set_ports vs ps = Some vs' \<and> length vs' = length vs
      \<and> (\<forall>j < length vs. \<exists>kvs. vs ! j = JObj kvs
           \<and> vs' ! j = JObj (obj_insert ''port'' (JInt (uint (ps ! j))) kvs))"
    using assms
  proof (induction vs ps rule: list_induct2)
    case (Cons v vs p ps)
    obtain kvs where v: "v = JObj kvs" using Cons.prems by fastforce
    from Cons obtain vs' where IH: "set_ports vs ps = Some vs'" "length vs' = length vs"
      "\<forall>j < length vs. \<exists>kvs. vs ! j = JObj kvs
           \<and> vs' ! j = JObj (obj_insert ''port'' (JInt (uint (ps ! j))) kvs)" by auto
    let ?v' = "JObj (obj_insert ''port'' (JInt (uint p)) kvs)"
    have "set_ports (v # vs) (p # ps) = Some (?v' # vs')" using IH v by simp
    moreover have "\<forall>j < length (v # vs). \<exists>kvs. (v # vs) ! j = JObj kvs
           \<and> (?v' # vs') ! j = JObj (obj_insert ''port'' (JInt (uint ((p # ps) ! j))) kvs)"
      using IH(3) v by (auto simp: All_less_Suc2)
    ultimately show ?case using IH(2) by auto
  qed simp
  with that show thesis by blast
qed

lemma get_str_port_insert [simp]:
  "k \<noteq> ''port'' \<Longrightarrow> get_str k (JObj (obj_insert ''port'' x kvs)) = get_str k (JObj kvs)"
  "k \<noteq> ''port'' \<Longrightarrow> json_pointer (k # ks) (JObj (obj_insert ''port'' x kvs)) = json_pointer (k # ks) (JObj kvs)"
  by (simp_all add: get_str_def)

lemma ping_inbound_ok_new_port:
  assumes "ping_inbound_ok count i p (JObj kvs)"
  shows "ping_inbound_ok count i q (JObj (obj_insert ''port'' (JInt (uint q)) kvs))"
proof -
  have q: "uint q \<le> int u64_max" using uint_lt2p [of q] by (simp add: u64_max_def)
  have "get_u64 ''port'' (JObj (obj_insert ''port'' (JInt (uint q)) kvs)) = Some (unat q)"
    using q by (simp add: get_u64_def)
  with assms show ?thesis by (simp add: ping_inbound_ok_def del: json_pointer.simps)
qed

lemma ping_checks_new_ports:
  assumes checks: "ping_checks document ports" and len: "length ports' = length ports"
  obtains inbounds inbounds' where "get_array ''inbounds'' document = Some inbounds"
    and "length inbounds = length ports" and "set_ports inbounds ports' = Some inbounds'"
    and "ping_checks (set_document_ports document inbounds') ports'"
proof -
  obtain kvs log inbounds tags outs ptags routing btags rules where
    doc: "document = JObj kvs" and keys: "set (obj_keys kvs) \<subseteq> set ping_sections"
    and log: "get_object ''log'' document = Some log" "set (obj_keys log) \<subseteq> {''loglevel''}"
    and ins: "get_array ''inbounds'' document = Some inbounds" "length inbounds = length ports"
    and tags: "ping_inbounds (length ports) 0 inbounds ports = Inr tags"
    and outs: "get_array ''outbounds'' document = Some outs" "ping_outbound_set_ok outs"
    and ptags: "ping_proxy_tags [] (butlast outs) = Inr ptags"
    and routing: "get_object ''routing'' document = Some routing"
      "set (obj_keys routing) \<subseteq> {''rules'', ''balancers''}"
    and btags: "ping_balancer_tags ptags routing = Inr btags"
    and rules: "Option.bind (map_of routing ''rules'') as_array = Some rules"
      "length rules = length ports"
      "list_all (\<lambda>(t, r). ping_rule_ok (length ports) ptags btags t r) (zip tags rules)"
    and clean: "\<not> contains_forbidden_file_key document"
    using checks unfolding ping_checks_def by blast
  have t: "length tags = length inbounds"
    "\<And>j. j < length inbounds \<Longrightarrow> ping_inbound_ok (length ports) j (ports ! j) (inbounds ! j)
        \<and> get_str ''tag'' (inbounds ! j) = Some (tags ! j)"
    using tags ping_inbounds_Inr [OF ins(2)] by auto
  have objs: "\<exists>m. v = JObj m" if "v \<in> set inbounds" for v
  proof -
    from that obtain j where "j < length inbounds" "v = inbounds ! j" by (metis in_set_conv_nth)
    then show ?thesis using t(2) by (auto simp: get_str_Some dest: json_get_object)
  qed
  obtain inbounds' where ins': "set_ports inbounds ports' = Some inbounds'"
    "length inbounds' = length inbounds"
    and each: "\<And>j. j < length inbounds \<Longrightarrow> \<exists>m. inbounds ! j = JObj m
           \<and> inbounds' ! j = JObj (obj_insert ''port'' (JInt (uint (ports' ! j))) m)"
    using set_ports_objects [of inbounds ports'] ins(2) len objs by auto
  let ?doc' = "JObj (obj_insert ''inbounds'' (JArr inbounds') kvs)"
  have tags': "ping_inbounds (length ports') 0 inbounds' ports' = Inr tags"
  proof -
    have "ping_inbound_ok (length ports') j (ports' ! j) (inbounds' ! j)
        \<and> get_str ''tag'' (inbounds' ! j) = Some (tags ! j)" if "j < length inbounds'" for j
      using that each [of j] t(2) [of j] ins'(2) len by (auto intro: ping_inbound_ok_new_port)
    then show ?thesis
      using ping_inbounds_Inr [of inbounds' ports'] ins' ins len t(1) by auto
  qed
  have clean': "\<not> contains_forbidden_file_key ?doc'"
  proof -
    have "(''inbounds'', JArr inbounds) \<in> set kvs"
      using ins(1) doc by (auto simp: get_array_Some dest: map_of_SomeD)
    then have each_clean: "\<not> contains_forbidden_file_key v" if "v \<in> set inbounds" for v
      using clean doc that by (fastforce simp: list_ex_iff)
    have "\<not> contains_forbidden_file_key v" if v: "v \<in> set inbounds'" for v
    proof -
      from v obtain j where j: "j < length inbounds'" "v = inbounds' ! j" by (metis in_set_conv_nth)
      then obtain m where "inbounds ! j = JObj m"
        "v = JObj (obj_insert ''port'' (JInt (uint (ports' ! j))) m)" using each ins'(2) by metis
      moreover have "\<not> contains_forbidden_file_key (inbounds ! j)"
        using each_clean j ins'(2) by simp
      ultimately show ?thesis
        using contains_forbidden_insert [of m "''port''"] by (simp add: forbidden_file_keys_def)
    qed
    then have "\<not> contains_forbidden_file_key (JArr inbounds')" by (simp add: list_ex_iff)
    with clean doc show ?thesis
      using contains_forbidden_insert [of kvs "''inbounds''"] by (simp add: forbidden_file_keys_def)
  qed
  have "ping_checks ?doc' ports'"
    unfolding ping_checks_def
  proof (intro exI conjI)
    show "?doc' = JObj (obj_insert ''inbounds'' (JArr inbounds') kvs)" ..
    show "set (obj_keys (obj_insert ''inbounds'' (JArr inbounds') kvs)) \<subseteq> set ping_sections"
      using keys by (simp add: obj_keys_def fst_set_obj_insert ping_sections_def)
    show "get_object ''log'' ?doc' = Some log" using log doc by (simp add: get_object_def)
    show "get_array ''inbounds'' ?doc' = Some inbounds'" by (simp add: get_array_def)
    show "length inbounds' = length ports'" using ins' ins len by simp
    show "ping_inbounds (length ports') 0 inbounds' ports' = Inr tags" by (rule tags')
    show "get_array ''outbounds'' ?doc' = Some outs" using outs doc by (simp add: get_array_def)
    show "get_object ''routing'' ?doc' = Some routing" using routing doc by (simp add: get_object_def)
    show "length rules = length ports'" using rules len by simp
    show "list_all (\<lambda>(t, r). ping_rule_ok (length ports') ptags btags t r) (zip tags rules)"
      using rules len by simp
    show "\<not> contains_forbidden_file_key ?doc'" by (rule clean')
  qed (use log outs ptags routing btags rules in simp_all)
  then show thesis
    using that [OF ins ins'(1)] doc by (simp add: set_document_ports_def)
qed

text \<open>
  A validated probe configuration, moved to fresh ports, is printed without a panic and is
  accepted again on those ports.
\<close>

lemma with_ports_revalidates:
  assumes valid: "validate_ping_xray_document parse raw ports = Inr ()"
    and usable: "ports_usable ports'" and len: "length ports' = length ports"
    and reparse: "\<And>v s. print v = Inr s \<Longrightarrow> parse s = Inr v"
  shows "(\<exists>s. validation_config_with_ports parse print raw ports' = Returned (Inr s)
              \<and> validate_ping_xray_document parse s ports' = Inr ())
         \<or> (\<exists>e. validation_config_with_ports parse print raw ports' = Returned (Inl e)
              \<and> de_code e = Internal)"
proof -
  obtain document where doc: "parse raw = Inr document" "ping_checks document ports"
    using valid by (auto simp: validate_ping_iff)
  obtain inbounds inbounds' where ins: "get_array ''inbounds'' document = Some inbounds"
    "length inbounds = length ports" "set_ports inbounds ports' = Some inbounds'"
    and new: "ping_checks (set_document_ports document inbounds') ports'"
    by (rule ping_checks_new_ports [OF doc(2) len])
  have out: "validation_config_with_ports parse print raw ports' =
      Returned (map_err (\<lambda>e. daemon_error Internal
                 (''could not serialize validation Xray JSON: '' @ e))
                 (print (set_document_ports document inbounds')))"
    using usable doc ins len by (simp add: validation_config_with_ports_def parse_document_def)
  show ?thesis
  proof (cases "print (set_document_ports document inbounds')")
    case (Inl e)
    with out show ?thesis by simp
  next
    case (Inr s)
    with reparse have "parse s = Inr (set_document_ports document inbounds')" by blast
    with new have "validate_ping_xray_document parse s ports' = Inr ()"
      by (auto simp: validate_ping_iff)
    with out Inr show ?thesis by simp
  qed
qed

end
