(* ===== verification/Os.thy ===== *)
theory Os
  imports Net_Types
begin

text \<open>
  The operating system as the program sees it.  Every effect is a call; the environment is
  one function that answers a call from the history of all calls and answers before it, so a
  theorem for every \<open>os\<close> holds for every behaviour of the machine, the kernel, the external
  programs and the clock.  The history is the state that effectful code threads through
  (newest call first).  An answer of the wrong kind counts as a failed call.
\<close>

record cmd_output =
  out_success :: bool
  out_stdout :: string
  out_stderr :: string

record metadata =
  md_is_file :: bool
  md_is_dir :: bool
  md_is_symlink :: bool
  md_uid :: nat
  md_mode :: u32

datatype (plugins only: code size) call =
    Run string "string list" string    \<comment> \<open>program, arguments, standard input\<close>
  | ReadFile string
  | ReadDir string                     \<comment> \<open>the names in a directory\<close>
  | ReadHead string nat                \<comment> \<open>exactly that many leading bytes\<close>
  | ReadLink string
  | Canonicalize string
  | Lstat string
  | PathExists string
  | IsFile string                      \<comment> \<open>a regular file, links followed\<close>
  | WriteFile string string            \<comment> \<open>\<open>fs::write\<close>: create or truncate\<close>
  | WriteExisting string string        \<comment> \<open>open for writing without following links, write all\<close>
  | CreateNew string                   \<comment> \<open>create exclusively, mode 0600, links not followed\<close>
  | WriteAll string string             \<comment> \<open>write everything to the file just opened\<close>
  | SyncFile string
  | OpenRead string                    \<comment> \<open>links not followed; answers the descriptor\<close>
  | FileLen nat
  | ReadUpTo nat nat                   \<comment> \<open>at most that many bytes of a descriptor\<close>
  | ReadFrom nat nat                   \<comment> \<open>everything from that offset of a descriptor\<close>
  | FileSize string
  | AppendFile string string           \<comment> \<open>open for appending (create, 0600, no links), write all\<close>
  | Rename string string
  | SyncDir string
  | RemoveFile string
  | MakeDir string
  | MakeDirAll string
  | SetMode string nat
  | RemoveDir string
  | OpenDir string                     \<comment> \<open>a directory, links not followed; answers the descriptor\<close>
  | StatFs nat                         \<comment> \<open>answers the file-system magic\<close>
  | CloseFd nat
  | SpawnXray string string            \<comment> \<open>executable and configuration; answers the process id\<close>
  | ChildExited nat                    \<comment> \<open>\<open>try_wait\<close> gives an exit status\<close>
  | ChildRunning nat                   \<comment> \<open>\<open>try_wait\<close> says the child has not exited\<close>
  | Kill nat nat                       \<comment> \<open>process and signal\<close>
  | WaitChild nat                      \<comment> \<open>wait for the exit, with the caller's time limit\<close>
  | KillChild nat
  | ConnectLoopback u16
  | BindLoopback                       \<comment> \<open>reserve a free loopback port; answers it\<close>
  | ProbeHttp u16 string               \<comment> \<open>HEAD through the SOCKS port; answers status and time\<close>
  | ProbeDoh u16 string string         \<comment> \<open>POST through the SOCKS port; answers the status\<close>
  | ProbeDns string                    \<comment> \<open>a query through the tunnel; answers the response\<close>
  | BindSocket bool ip_addr u16        \<comment> \<open>TCP or UDP listener\<close>
  | ExchangeDns bool socket_addr string \<comment> \<open>TCP or UDP exchange on a marked socket\<close>
  | BpfCall nat "u8 list"              \<comment> \<open>command and attributes; answers the result\<close>
  | FanotifyInit
  | FanotifyMark bool string bool      \<comment> \<open>a whole mount?, path, plain opens too?\<close>
  | FanotifyRespond nat bool           \<comment> \<open>event descriptor, allow?\<close>
  | SpawnThread string
  | StopThread string
  | ThreadRunning string
  | PidfdOpen nat
  | PidfdGetfd nat nat
  | IsSocket nat
  | SetSocketMark nat u32
  | Sleep nat                          \<comment> \<open>milliseconds\<close>
  | DeadlinePassed nat                 \<comment> \<open>is the enclosing time limit, in milliseconds, over?\<close>
  | WriteNoFollow string string        \<comment> \<open>create or truncate without following links, write all\<close>
  | MakeDirMode string nat             \<comment> \<open>with all parents, created with that mode\<close>
  | ListInterfaces                     \<comment> \<open>names with their IPv4 addresses\<close>
  | ResolveHost string u16
  | ConnectMarked ip_addr u16 "string option" nat
      \<comment> \<open>a dial with the mark of Xray, bound to an interface; answers the milliseconds\<close>
  | OpenProcEvents                     \<comment> \<open>subscribe to the process events of the kernel\<close>
  | ParentPid
  | EffectiveUid
  | GetEnv string
  | LockFile string                    \<comment> \<open>create the file and lock it exclusively, without waiting\<close>
  | ListenUnix string
  | Chown string nat
  | NextReady nat                      \<comment> \<open>of that many pending tasks, the one that finishes next\<close>
  | AcceptClient                       \<comment> \<open>answers the connection\<close>
  | PeerUid nat                        \<comment> \<open>the user at the other end of a connection\<close>
  | ReadExact nat nat                  \<comment> \<open>exactly that many bytes of a connection\<close>
  | WriteBytes nat string
  | HttpBody u16 string                \<comment> \<open>the body of the answer that \<open>ProbeDoh\<close> began\<close>
  | RaiseAmbient                       \<comment> \<open>\<open>CAP_NET_ADMIN\<close> into the inheritable and ambient sets\<close>
  | SetEnv string string
  | PrintOut string
  | PrintErr string
  | BindNetlink nat nat                \<comment> \<open>socket and groups\<close>
  | SendBytes nat string
  | RecvBytes nat nat                  \<comment> \<open>at most that many bytes of a datagram\<close>
  | ConnectUnix string                 \<comment> \<open>answers the connection\<close>
  | StartProgram string "string list"  \<comment> \<open>answers the process id\<close>
  | TryWait nat                        \<comment> \<open>\<open>Done\<close> while the child runs, else the text of its status\<close>
  | CopyFile string string
  | RemoveDirAll string
  | ModifiedAt string                  \<comment> \<open>answers the seconds since the epoch\<close>
  | HttpGet string "(string \<times> string) list" "ip_addr list"
      \<comment> \<open>URL, headers, the addresses to dial (none: those of the resolver)\<close>
  | HttpChunk                          \<comment> \<open>the next piece of the body, \<open>Done\<close> at its end\<close>
  | DialTcp ip_addr u16 nat            \<comment> \<open>connect within that many milliseconds; answers the descriptor\<close>
  | BindUdp                            \<comment> \<open>a datagram socket; answers the descriptor\<close>
  | SendTo nat string ip_addr u16
  | Now                                \<comment> \<open>the monotonic clock, in nanoseconds\<close>
  | ProcessId

datatype (plugins only: code size) reply =
    Output cmd_output
  | Text string
  | Names "string list"
  | Done
  | Flag bool
  | Number nat
  | Meta metadata
  | Http nat nat string                \<comment> \<open>status, milliseconds, the status as it is displayed\<close>
  | Addrs "(string \<times> ip_addr) list"
  | Answer nat string "(string \<times> string) list" "nat option"
      \<comment> \<open>status, as it is displayed, headers by lower-case name, length of the body\<close>
  | Failed nat string                  \<comment> \<open>\<open>errno\<close> (0 for none) and text\<close>

type_synonym trace = "(call \<times> reply) list"
type_synonym os = "trace \<Rightarrow> call \<Rightarrow> reply"

datatype os_error = Os_Error (errno: nat) (err_text: string)

definition ask :: "os \<Rightarrow> call \<Rightarrow> (trace, reply) io" where
  "ask os c tr = (let r = os tr c in (r, (c, r) # tr))"

text \<open>The typed forms of a call.\<close>

definition failure_of :: "reply \<Rightarrow> os_error" where
  "failure_of r = (case r of Failed n e \<Rightarrow> Os_Error n e | _ \<Rightarrow> Os_Error 0 [])"

definition ask_as :: "(reply \<Rightarrow> 'a option) \<Rightarrow> os \<Rightarrow> call \<Rightarrow> (trace, os_error + 'a) io" where
  "ask_as f os c tr =
     (case ask os c tr of (r, tr') \<Rightarrow>
        ((case f r of Some a \<Rightarrow> Inr a | None \<Rightarrow> Inl (failure_of r)), tr'))"

fun as_output :: "reply \<Rightarrow> cmd_output option" where
  "as_output (Output out) = Some out"
| "as_output _ = None"

fun as_done :: "reply \<Rightarrow> unit option" where
  "as_done Done = Some ()"
| "as_done _ = None"

fun as_text :: "reply \<Rightarrow> string option" where
  "as_text (Text s) = Some s"
| "as_text _ = None"

fun as_names :: "reply \<Rightarrow> string list option" where
  "as_names (Names ns) = Some ns"
| "as_names _ = None"

fun as_number :: "reply \<Rightarrow> nat option" where
  "as_number (Number n) = Some n"
| "as_number _ = None"

fun as_meta :: "reply \<Rightarrow> metadata option" where
  "as_meta (Meta m) = Some m"
| "as_meta _ = None"

fun as_http :: "reply \<Rightarrow> (nat \<times> nat \<times> string) option" where
  "as_http (Http st ms body) = Some (st, ms, body)"
| "as_http _ = None"

fun as_addrs :: "reply \<Rightarrow> (string \<times> ip_addr) list option" where
  "as_addrs (Addrs xs) = Some xs"
| "as_addrs _ = None"

definition run_command :: "os \<Rightarrow> string \<Rightarrow> string list \<Rightarrow> string \<Rightarrow> (trace, os_error + cmd_output) io" where
  "run_command os prog args input = ask_as as_output os (Run prog args input)"

definition do_call :: "os \<Rightarrow> call \<Rightarrow> (trace, os_error + unit) io" where
  "do_call = ask_as as_done"

definition ask_flag :: "os \<Rightarrow> call \<Rightarrow> (trace, bool) io" where
  "ask_flag os c tr = (case ask os c tr of (r, tr') \<Rightarrow> (r = Flag True, tr'))"

definition ask_text :: "os \<Rightarrow> call \<Rightarrow> (trace, os_error + string) io" where
  "ask_text = ask_as as_text"

definition ask_names :: "os \<Rightarrow> call \<Rightarrow> (trace, os_error + string list) io" where
  "ask_names = ask_as as_names"

definition ask_number :: "os \<Rightarrow> call \<Rightarrow> (trace, os_error + nat) io" where
  "ask_number = ask_as as_number"

definition ask_meta :: "os \<Rightarrow> call \<Rightarrow> (trace, os_error + metadata) io" where
  "ask_meta = ask_as as_meta"

definition ask_http :: "os \<Rightarrow> call \<Rightarrow> (trace, os_error + nat \<times> nat \<times> string) io" where
  "ask_http = ask_as as_http"

definition ask_addrs :: "os \<Rightarrow> call \<Rightarrow> (trace, os_error + (string \<times> ip_addr) list) io" where
  "ask_addrs = ask_as as_addrs"

lemmas ask_defs =
  ask_def ask_as_def run_command_def do_call_def ask_flag_def ask_text_def ask_names_def
  ask_number_def ask_meta_def ask_http_def ask_addrs_def

lemma as_output_Some [simp]: "as_output r = Some out \<longleftrightarrow> r = Output out"
  by (cases r) auto

lemma as_output_None [simp]: "as_output r = None \<longleftrightarrow> (\<forall>out. r \<noteq> Output out)"
  by (cases r) auto

lemma as_done_Some [simp]: "as_done r = Some u \<longleftrightarrow> r = Done"
  by (cases r) auto

lemma as_number_Some [simp]: "as_number r = Some n \<longleftrightarrow> r = Number n"
  by (cases r) auto

lemma as_text_Some [simp]: "as_text r = Some t \<longleftrightarrow> r = Text t"
  by (cases r) auto

text \<open>A run of a program is one call, and it went well exactly when the answer says so.\<close>

lemma run_command_trace:
  assumes "run_command os prog args input tr = (r, tr')"
  obtains a where "tr' = (Run prog args input, a) # tr"
    and "r = (case as_output a of Some out \<Rightarrow> Inr out | None \<Rightarrow> Inl (failure_of a))"
  using assms by (auto simp: run_command_def ask_as_def ask_def Let_def)

section \<open>Which calls a piece of code makes\<close>

text \<open>
  \<open>calls_only P f\<close>: whatever the environment answers, \<open>f\<close> extends the history by calls that
  all satisfy \<open>P\<close>.
\<close>

definition extends_by :: "(call \<Rightarrow> bool) \<Rightarrow> trace \<Rightarrow> trace \<Rightarrow> bool" where
  "extends_by P tr tr' \<longleftrightarrow> (\<exists>es. tr' = es @ tr \<and> (\<forall>(c, r) \<in> set es. P c))"

definition calls_only :: "(call \<Rightarrow> bool) \<Rightarrow> (trace, 'a) io \<Rightarrow> bool" where
  "calls_only P f \<longleftrightarrow> (\<forall>tr r tr'. f tr = (r, tr') \<longrightarrow> extends_by P tr tr')"

named_theorems calls_intro \<open>rules that show which calls a piece of code makes\<close>

lemma extends_by_refl [simp]: "extends_by P tr tr"
  by (simp add: extends_by_def)

lemma extends_by_trans:
  "extends_by P a b \<Longrightarrow> extends_by P b c \<Longrightarrow> extends_by P a c"
  unfolding extends_by_def by fastforce

lemma extends_by_step [simp]: "extends_by P tr ((c, r) # tr) \<longleftrightarrow> P c"
  by (auto simp: extends_by_def)

lemma extends_by_mono: "extends_by P a b \<Longrightarrow> (\<And>c. P c \<Longrightarrow> Q c) \<Longrightarrow> extends_by Q a b"
  unfolding extends_by_def by fastforce

lemma calls_onlyD: "calls_only P f \<Longrightarrow> f tr = (r, tr') \<Longrightarrow> extends_by P tr tr'"
  by (simp add: calls_only_def)

lemma calls_only_mono: "calls_only P f \<Longrightarrow> (\<And>c. P c \<Longrightarrow> Q c) \<Longrightarrow> calls_only Q f"
  unfolding calls_only_def using extends_by_mono by blast

lemma calls_only_return [calls_intro]: "calls_only P (return_io a)" "calls_only P (Pair a)"
  by (simp_all add: calls_only_def)

lemma calls_only_ask [calls_intro]: "P c \<Longrightarrow> calls_only P (ask os c)"
  by (simp add: calls_only_def ask_def Let_def)

lemma calls_only_then [calls_intro]:
  "calls_only P m \<Longrightarrow> (\<And>a. calls_only P (k a)) \<Longrightarrow> calls_only P (then_io m k)"
  unfolding calls_only_def then_io_def
  by (fastforce split: prod.splits intro: extends_by_trans)

lemma calls_only_try [calls_intro]:
  "calls_only P m \<Longrightarrow> (\<And>a. calls_only P (k a)) \<Longrightarrow> calls_only P (try_io m k)"
  unfolding calls_only_def try_io_def
  by (fastforce split: prod.splits sum.splits intro: extends_by_trans)

lemma calls_only_ask_as: "P c \<Longrightarrow> calls_only P (ask_as f os c)"
  by (auto simp: calls_only_def ask_as_def ask_def Let_def)

lemma calls_only_typed [calls_intro]:
  "P (Run prog args input) \<Longrightarrow> calls_only P (run_command os prog args input)"
  "P c \<Longrightarrow> calls_only P (do_call os c)"
  "P c \<Longrightarrow> calls_only P (ask_flag os c)"
  "P c \<Longrightarrow> calls_only P (ask_text os c)"
  "P c \<Longrightarrow> calls_only P (ask_names os c)"
  "P c \<Longrightarrow> calls_only P (ask_number os c)"
  "P c \<Longrightarrow> calls_only P (ask_meta os c)"
  "P c \<Longrightarrow> calls_only P (ask_http os c)"
  "P c \<Longrightarrow> calls_only P (ask_addrs os c)"
  unfolding run_command_def do_call_def ask_text_def ask_names_def ask_number_def ask_meta_def
    ask_http_def ask_addrs_def
  by (simp_all add: calls_only_ask_as)
     (auto simp: calls_only_def ask_flag_def ask_def Let_def)

lemma calls_only_if [calls_intro]:
  "(b \<Longrightarrow> calls_only P f) \<Longrightarrow> (\<not> b \<Longrightarrow> calls_only P g) \<Longrightarrow> calls_only P (if b then f else g)"
  by simp

lemma calls_only_sum [calls_intro]:
  "(\<And>e. r = Inl e \<Longrightarrow> calls_only P (f e)) \<Longrightarrow> (\<And>a. r = Inr a \<Longrightarrow> calls_only P (g a)) \<Longrightarrow>
   calls_only P (case r of Inl e \<Rightarrow> f e | Inr a \<Rightarrow> g a)"
  by (cases r) simp_all

lemma calls_only_option [calls_intro]:
  "(r = None \<Longrightarrow> calls_only P f) \<Longrightarrow> (\<And>a. r = Some a \<Longrightarrow> calls_only P (g a)) \<Longrightarrow>
   calls_only P (case r of None \<Rightarrow> f | Some a \<Rightarrow> g a)"
  by (cases r) simp_all

lemma calls_only_let [calls_intro]: "calls_only P (f x) \<Longrightarrow> calls_only P (let y = x in f y)"
  by simp

text \<open>Mapping the error or value of a result.\<close>

definition map_io :: "('a \<Rightarrow> 'b) \<Rightarrow> ('w, 'a) io \<Rightarrow> ('w, 'b) io" where
  "map_io f m w = (case m w of (a, w') \<Rightarrow> (f a, w'))"

lemma calls_only_map [calls_intro]: "calls_only P m \<Longrightarrow> calls_only P (map_io f m)"
  by (auto simp: calls_only_def map_io_def split: prod.splits)

text \<open>Running several pieces in a row, ignoring or stopping at failures.\<close>

fun ignore_all :: "('w, 'a) io list \<Rightarrow> ('w, unit) io" where
  "ignore_all [] w = ((), w)"
| "ignore_all (m # ms) w = ignore_all ms (snd (m w))"

fun all_ok :: "('w, 'e + unit) io list \<Rightarrow> ('w, 'e + unit) io" where
  "all_ok [] = return_io (Inr ())"
| "all_ok (m # ms) = try_io m (\<lambda>_. all_ok ms)"

lemma calls_only_ignore_all [calls_intro]:
  "(\<And>m. m \<in> set ms \<Longrightarrow> calls_only P m) \<Longrightarrow> calls_only P (ignore_all ms)"
proof (induction ms)
  case Nil
  then show ?case by (simp add: calls_only_def)
next
  case (Cons m ms)
  show ?case
    unfolding calls_only_def
  proof (intro allI impI)
    fix tr r tr'
    assume eq: "ignore_all (m # ms) tr = (r, tr')"
    obtain a tr1 where m: "m tr = (a, tr1)" by fastforce
    from Cons have "extends_by P tr tr1" using m by (auto dest: calls_onlyD)
    moreover have "extends_by P tr1 tr'" using Cons eq m by (auto dest: calls_onlyD)
    ultimately show "extends_by P tr tr'" by (rule extends_by_trans)
  qed
qed

lemma calls_only_all_ok [calls_intro]:
  "(\<And>m. m \<in> set ms \<Longrightarrow> calls_only P m) \<Longrightarrow> calls_only P (all_ok ms)"
  by (induction ms) (auto intro!: calls_intro)

lemma calls_only_pair [calls_intro]:
  "(\<And>a b. calls_only P (f a b)) \<Longrightarrow> calls_only P (case p of (a, b) \<Rightarrow> f a b)"
  by (cases p) simp

lemma calls_only_list [calls_intro]:
  "(xs = [] \<Longrightarrow> calls_only P f) \<Longrightarrow> (\<And>y ys. xs = y # ys \<Longrightarrow> calls_only P (g y ys)) \<Longrightarrow>
   calls_only P (case xs of [] \<Rightarrow> f | y # ys \<Rightarrow> g y ys)"
  by (cases xs) simp_all

text \<open>Running a piece for each element, threading a value.\<close>

fun fold_io :: "('x \<Rightarrow> 'a \<Rightarrow> ('w, 'a) io) \<Rightarrow> 'x list \<Rightarrow> 'a \<Rightarrow> ('w, 'a) io" where
  "fold_io f [] a = return_io a"
| "fold_io f (x # xs) a = then_io (f x a) (fold_io f xs)"

lemma calls_only_fold_io [calls_intro]:
  "(\<And>x a. x \<in> set xs \<Longrightarrow> calls_only P (f x a)) \<Longrightarrow> calls_only P (fold_io f xs a)"
  by (induction xs arbitrary: a) (auto intro!: calls_intro)

fun map_ok :: "('x \<Rightarrow> ('w, 'e + 'y) io) \<Rightarrow> 'x list \<Rightarrow> ('w, 'e + 'y list) io" where
  "map_ok f [] = return_io (Inr [])"
| "map_ok f (x # xs) = try_io (f x) (\<lambda>y. try_io (map_ok f xs) (\<lambda>ys. return_io (Inr (y # ys))))"

lemma map_ok_length: "map_ok f xs w = (Inr ys, w') \<Longrightarrow> length ys = length xs"
  by (induction xs arbitrary: w ys) (auto simp: try_io_def split: prod.splits sum.splits)

lemma calls_only_map_ok [calls_intro]:
  "(\<And>x. x \<in> set xs \<Longrightarrow> calls_only P (f x)) \<Longrightarrow> calls_only P (map_ok f xs)"
  by (induction xs) (auto intro!: calls_intro)

text \<open>
  Tasks that run side by side until one succeeds (\<open>FuturesUnordered\<close>): the environment says which
  one finishes next, and what the others had begun is dropped then.  All errors are given in the
  order of completion.
\<close>

definition next_ready :: "os \<Rightarrow> nat \<Rightarrow> (trace, nat) io" where
  "next_ready os n = map_io (\<lambda>r. (case r of Inl _ \<Rightarrow> 0 | Inr i \<Rightarrow> i) mod n) (ask_number os (NextReady n))"

definition without_nth :: "nat \<Rightarrow> 'a list \<Rightarrow> 'a list" where
  "without_nth i xs = take i xs @ drop (Suc i) xs"

fun race_ok :: "os \<Rightarrow> nat \<Rightarrow> (trace, 'e + 'a) io list \<Rightarrow> 'e list \<Rightarrow> (trace, 'e list + 'a) io" where
  "race_ok os 0 ms failures = return_io (Err failures)"
| "race_ok os (Suc n) ms failures =
     then_io (next_ready os (Suc n)) (\<lambda>i.
     then_io (ms ! i) (\<lambda>r. case r of
       Inr a \<Rightarrow> return_io (Ok a)
     | Inl e \<Rightarrow> race_ok os n (without_nth i ms) (failures @ [e])))"

definition first_success_with_reason ::
    "os \<Rightarrow> (trace, 'e + 'a) io list \<Rightarrow> (trace, 'e list + 'a) io" where
  "first_success_with_reason os ms = race_ok os (length ms) ms []"

lemma next_ready_less: "next_ready os (Suc n) tr = (i, tr') \<Longrightarrow> i < Suc n"
  by (auto simp: next_ready_def map_io_def split: prod.splits)

lemma set_without_nth: "set (without_nth i xs) \<subseteq> set xs"
  by (auto simp: without_nth_def dest: in_set_takeD in_set_dropD)

lemma calls_only_next_ready [calls_intro]: "P (NextReady n) \<Longrightarrow> calls_only P (next_ready os n)"
  unfolding next_ready_def by (intro calls_intro)

lemma calls_only_race_ok:
  assumes "\<And>m. m \<in> set ms \<Longrightarrow> calls_only P m" and "\<And>k. P (NextReady k)" and "length ms = n"
  shows "calls_only P (race_ok os n ms failures)"
  using assms(1,3)
proof (induction n arbitrary: ms failures)
  case 0
  then show ?case by (auto intro!: calls_intro)
next
  case (Suc n)
  show ?case
    unfolding calls_only_def
  proof (intro allI impI)
    fix tr r tr' assume eq: "race_ok os (Suc n) ms failures tr = (r, tr')"
    obtain i tr1 where i: "next_ready os (Suc n) tr = (i, tr1)" by fastforce
    obtain q tr2 where q: "(ms ! i) tr1 = (q, tr2)" by fastforce
    have "i < length ms" using next_ready_less [OF i] Suc.prems(2) by simp
    then have e2: "extends_by P tr1 tr2"
      using Suc.prems(1) [OF nth_mem] q unfolding calls_only_def by blast
    have e1: "extends_by P tr tr1"
      by (rule calls_onlyD [OF calls_only_next_ready i]) (rule assms(2))
    have "calls_only P (race_ok os n (without_nth i ms) (failures @ [e]))" for e
      by (rule Suc.IH) (use Suc.prems \<open>i < length ms\<close> set_without_nth [of i ms] in
        \<open>auto simp: without_nth_def\<close>)
    then have "extends_by P tr2 tr'"
      using eq i q by (cases q) (auto simp: then_io_def dest: calls_onlyD)
    then show "extends_by P tr tr'" using e1 e2 extends_by_trans by blast
  qed
qed

lemma calls_only_first_success [calls_intro]:
  "(\<And>m. m \<in> set ms \<Longrightarrow> calls_only P m) \<Longrightarrow> (\<And>k. P (NextReady k)) \<Longrightarrow>
   calls_only P (first_success_with_reason os ms)"
  unfolding first_success_with_reason_def by (rule calls_only_race_ok) auto

section \<open>A component's own state beside the history\<close>

text \<open>
  A component that keeps state of its own acts on the pair of that state and the history.
  \<open>emits\<close> is \<open>calls_only\<close> for such code.
\<close>

type_synonym ('s, 'a) sys = "('s \<times> trace, 'a) io"

definition lift_os :: "(trace, 'a) io \<Rightarrow> ('s, 'a) sys" where
  "lift_os m w = (case w of (s, tr) \<Rightarrow> (case m tr of (a, tr') \<Rightarrow> (a, (s, tr'))))"

definition get_st :: "('s, 's) sys" where
  "get_st w = (fst w, w)"

definition modify_st :: "('s \<Rightarrow> 's) \<Rightarrow> ('s, unit) sys" where
  "modify_st f w = ((), (f (fst w), snd w))"

definition emits :: "(call \<Rightarrow> bool) \<Rightarrow> ('s, 'a) sys \<Rightarrow> bool" where
  "emits P m \<longleftrightarrow> (\<forall>w a w'. m w = (a, w') \<longrightarrow> extends_by P (snd w) (snd w'))"

lemma emitsD: "emits P m \<Longrightarrow> m w = (a, w') \<Longrightarrow> extends_by P (snd w) (snd w')"
  unfolding emits_def by blast

lemma emits_mono: "emits P m \<Longrightarrow> (\<And>c. P c \<Longrightarrow> Q c) \<Longrightarrow> emits Q m"
  unfolding emits_def using extends_by_mono by blast

lemma emits_lift [calls_intro]: "calls_only P m \<Longrightarrow> emits P (lift_os m)"
  by (auto simp: emits_def lift_os_def calls_only_def split: prod.splits)

lemma emits_basic [calls_intro]:
  "emits P (return_io a)" "emits P (Pair a)" "emits P get_st" "emits P (modify_st f)"
  by (auto simp: emits_def get_st_def modify_st_def)

lemma lift_os_fst: "lift_os m w = (a, (s, tr)) \<Longrightarrow> s = fst w"
  by (auto simp: lift_os_def split: prod.splits)

lemma emits_then [calls_intro]:
  "emits P m \<Longrightarrow> (\<And>a. emits P (k a)) \<Longrightarrow> emits P (then_io m k)"
  unfolding emits_def then_io_def
  by (fastforce split: prod.splits intro: extends_by_trans)

lemma emits_try [calls_intro]:
  "emits P m \<Longrightarrow> (\<And>a. emits P (k a)) \<Longrightarrow> emits P (try_io m k)"
  unfolding emits_def try_io_def
  by (fastforce split: prod.splits sum.splits intro: extends_by_trans)

lemma emits_map [calls_intro]: "emits P m \<Longrightarrow> emits P (map_io f m)"
  unfolding emits_def map_io_def by (fastforce split: prod.splits)

lemma emits_if [calls_intro]:
  "(b \<Longrightarrow> emits P f) \<Longrightarrow> (\<not> b \<Longrightarrow> emits P g) \<Longrightarrow> emits P (if b then f else g)"
  by simp

lemma emits_sum [calls_intro]:
  "(\<And>e. r = Inl e \<Longrightarrow> emits P (f e)) \<Longrightarrow> (\<And>a. r = Inr a \<Longrightarrow> emits P (g a)) \<Longrightarrow>
   emits P (case r of Inl e \<Rightarrow> f e | Inr a \<Rightarrow> g a)"
  by (cases r) simp_all

lemma emits_option [calls_intro]:
  "(r = None \<Longrightarrow> emits P f) \<Longrightarrow> (\<And>a. r = Some a \<Longrightarrow> emits P (g a)) \<Longrightarrow>
   emits P (case r of None \<Rightarrow> f | Some a \<Rightarrow> g a)"
  by (cases r) simp_all

lemma emits_let [calls_intro]: "emits P (f x) \<Longrightarrow> emits P (let y = x in f y)"
  by simp

lemma emits_ignore_all [calls_intro]:
  fixes ms :: "('s, 'a) sys list"
  shows "(\<And>m. m \<in> set ms \<Longrightarrow> emits P m) \<Longrightarrow> emits P (ignore_all ms)"
proof (induction ms)
  case Nil
  then show ?case by (simp add: emits_def)
next
  case (Cons m ms)
  then have hd: "emits P m" and tl: "emits P (ignore_all ms)" by auto
  show ?case
    unfolding emits_def
  proof (intro allI impI)
    fix w :: "'s \<times> trace" and a :: unit and w' assume eq: "ignore_all (m # ms) w = (a, w')"
    obtain b w1 where m: "m w = (b, w1)" by (cases "m w")
    then have "ignore_all ms w1 = (a, w')" using eq by simp
    then show "extends_by P (snd w) (snd w')"
      using emitsD [OF hd m] emitsD [OF tl] extends_by_trans by blast
  qed
qed

text \<open>Running code on a component that is part of a larger state.\<close>

definition zoom :: "('s \<Rightarrow> 'p) \<Rightarrow> ('p \<Rightarrow> 's \<Rightarrow> 's) \<Rightarrow> ('p, 'a) sys \<Rightarrow> ('s, 'a) sys" where
  "zoom getp putp m w =
     (case m (getp (fst w), snd w) of (a, (p, tr)) \<Rightarrow> (a, (putp p (fst w), tr)))"

lemma emits_zoom [calls_intro]: "emits P m \<Longrightarrow> emits P (zoom getp putp m)"
  unfolding emits_def zoom_def by (fastforce split: prod.splits)

lemmas sys_defs =
  then_io_def try_io_def map_io_def lift_os_def get_st_def modify_st_def zoom_def return_io_def

section \<open>State predicates that code keeps\<close>

definition keeps :: "('w \<Rightarrow> bool) \<Rightarrow> ('w, 'a) io \<Rightarrow> bool" where
  "keeps I m \<longleftrightarrow> (\<forall>w. I w \<longrightarrow> I (snd (m w)))"

named_theorems keeps_intro \<open>rules that show that code keeps a state predicate\<close>

lemma keepsD: "keeps I m \<Longrightarrow> m w = (a, w') \<Longrightarrow> I w \<Longrightarrow> I w'"
  unfolding keeps_def by (metis snd_conv)

lemma keeps_return [keeps_intro]: "keeps I (return_io a)" "keeps I (Pair a)"
  by (simp_all add: keeps_def)

lemma keeps_basic [keeps_intro]:
  "keeps I get_st" "(\<And>w. I w \<Longrightarrow> I (f (fst w), snd w)) \<Longrightarrow> keeps I (modify_st f)"
  by (auto simp: keeps_def get_st_def modify_st_def)

lemma keeps_then [keeps_intro]:
  "keeps I m \<Longrightarrow> (\<And>a. keeps I (k a)) \<Longrightarrow> keeps I (then_io m k)"
  unfolding keeps_def then_io_def by (simp add: case_prod_beta)

lemma keeps_try [keeps_intro]:
  "keeps I m \<Longrightarrow> (\<And>a. keeps I (k a)) \<Longrightarrow> keeps I (try_io m k)"
  unfolding keeps_def try_io_def by (fastforce split: prod.splits sum.splits)

lemma keeps_map [keeps_intro]: "keeps I m \<Longrightarrow> keeps I (map_io f m)"
  unfolding keeps_def map_io_def by (simp add: case_prod_beta)

lemma keeps_cases [keeps_intro]:
  "(b \<Longrightarrow> keeps I f) \<Longrightarrow> (\<not> b \<Longrightarrow> keeps I g) \<Longrightarrow> keeps I (if b then f else g)"
  "(\<And>e. r = Inl e \<Longrightarrow> keeps I (p e)) \<Longrightarrow> (\<And>a. r = Inr a \<Longrightarrow> keeps I (q a)) \<Longrightarrow>
   keeps I (case r of Inl e \<Rightarrow> p e | Inr a \<Rightarrow> q a)"
  "(x = None \<Longrightarrow> keeps I f) \<Longrightarrow> (\<And>c. x = Some c \<Longrightarrow> keeps I (h c)) \<Longrightarrow>
   keeps I (case x of None \<Rightarrow> f | Some c \<Rightarrow> h c)"
  by (auto split: sum.splits option.splits)

lemma keeps_let [keeps_intro]: "keeps I (f x) \<Longrightarrow> keeps I (let y = x in f y)"
  by simp

lemma keeps_ignore_all [keeps_intro]:
  "(\<And>m. m \<in> set ms \<Longrightarrow> keeps I m) \<Longrightarrow> keeps I (ignore_all ms)"
  by (induction ms) (auto simp: keeps_def)

lemma keeps_all_ok [keeps_intro]:
  "(\<And>m. m \<in> set ms \<Longrightarrow> keeps I m) \<Longrightarrow> keeps I (all_ok ms)"
  by (induction ms) (auto intro!: keeps_intro)

lemma keeps_fold_io [keeps_intro]:
  "(\<And>x a. x \<in> set xs \<Longrightarrow> keeps I (f x a)) \<Longrightarrow> keeps I (fold_io f xs a)"
  by (induction xs arbitrary: a) (auto intro!: keeps_intro)

lemma keeps_lift: "keeps J m \<Longrightarrow> keeps (\<lambda>w. J (snd w)) (lift_os m)"
  unfolding keeps_def lift_os_def by (simp add: case_prod_beta)

text \<open>What a function of the state was before, it is after.\<close>

lemma keeps_eq: "(\<And>v. keeps (\<lambda>w. f w = v) m) \<Longrightarrow> m w = (a, w') \<Longrightarrow> f w' = f w"
  using keepsD by fastforce

lemma keeps_lift_fst [keeps_intro]: "keeps (\<lambda>w. J (fst w)) (lift_os m)"
  unfolding keeps_def lift_os_def by (simp add: case_prod_beta)

text \<open>A part of the component's state that code does not change.\<close>

definition unchanged :: "('s \<Rightarrow> 'v) \<Rightarrow> ('s, 'a) sys \<Rightarrow> bool" where
  "unchanged f m \<longleftrightarrow> (\<forall>w. f (fst (snd (m w))) = f (fst w))"

named_theorems unchanged_intro \<open>rules that show that code does not change a part of the state\<close>

lemma unchangedD: "unchanged f m \<Longrightarrow> m w = (a, w') \<Longrightarrow> f (fst w') = f (fst w)"
  unfolding unchanged_def by (metis snd_conv)

lemma unchanged_return [unchanged_intro]: "unchanged f (return_io a)" "unchanged f (Pair a)"
  by (simp_all add: unchanged_def)

lemma unchanged_basic [unchanged_intro]:
  "unchanged f get_st" "unchanged f (lift_os m)" "(\<And>s. f (g s) = f s) \<Longrightarrow> unchanged f (modify_st g)"
  by (auto simp: unchanged_def get_st_def modify_st_def lift_os_def case_prod_beta)

lemma unchanged_then [unchanged_intro]:
  "unchanged f m \<Longrightarrow> (\<And>a. unchanged f (k a)) \<Longrightarrow> unchanged f (then_io m k)"
  unfolding unchanged_def then_io_def by (simp add: case_prod_beta del: split_paired_All)

lemma unchanged_try [unchanged_intro]:
  "unchanged f m \<Longrightarrow> (\<And>a. unchanged f (k a)) \<Longrightarrow> unchanged f (try_io m k)"
  unfolding unchanged_def try_io_def
  by (auto simp del: split_paired_All split: prod.splits sum.splits) (metis fst_conv snd_conv)+

lemma unchanged_map [unchanged_intro]: "unchanged f m \<Longrightarrow> unchanged f (map_io g m)"
  unfolding unchanged_def map_io_def by (simp add: case_prod_beta del: split_paired_All)

lemma unchanged_cases [unchanged_intro]:
  "(b \<Longrightarrow> unchanged f m) \<Longrightarrow> (\<not> b \<Longrightarrow> unchanged f n) \<Longrightarrow> unchanged f (if b then m else n)"
  "(\<And>e. r = Inl e \<Longrightarrow> unchanged f (p e)) \<Longrightarrow> (\<And>a. r = Inr a \<Longrightarrow> unchanged f (q a)) \<Longrightarrow>
   unchanged f (case r of Inl e \<Rightarrow> p e | Inr a \<Rightarrow> q a)"
  "(x = None \<Longrightarrow> unchanged f m) \<Longrightarrow> (\<And>c. x = Some c \<Longrightarrow> unchanged f (h c)) \<Longrightarrow>
   unchanged f (case x of None \<Rightarrow> m | Some c \<Rightarrow> h c)"
  by (auto split: sum.splits option.splits)

lemma unchanged_let [unchanged_intro]: "unchanged f (g x) \<Longrightarrow> unchanged f (let y = x in g y)"
  by simp

lemma unchanged_zoom [unchanged_intro]:
  "(\<And>p s. f (putp p s) = f s) \<Longrightarrow> unchanged f (zoom getp putp m)"
  by (auto simp: unchanged_def zoom_def case_prod_beta)

text \<open>A predicate on histories that the calls in question extend is kept.\<close>

lemma keeps_calls_only:
  assumes "calls_only P m" and "\<And>c r tr. P c \<Longrightarrow> I tr \<Longrightarrow> I ((c, r) # tr)"
  shows "keeps I m"
proof -
  have "I tr \<Longrightarrow> I (es @ tr)" if "\<forall>(c, r) \<in> set es. P c" for es tr
    using that by (induction es) (auto intro: assms(2))
  then show ?thesis
    using assms(1) unfolding keeps_def calls_only_def extends_by_def
    by (metis prod.collapse)
qed

section \<open>The last call of a kind\<close>

text \<open>
  What a history says of a switch that one kind of call turns on and another turns off: the
  newest successful call of either kind decides.
\<close>

fun switched_on :: "(call \<times> reply \<Rightarrow> bool) \<Rightarrow> (call \<times> reply \<Rightarrow> bool) \<Rightarrow> trace \<Rightarrow> bool" where
  "switched_on up down [] = False"
| "switched_on up down (e # tr) =
     (if up e then True else if down e then False else switched_on up down tr)"

lemma switched_on_append:
  "(\<And>e. e \<in> set es \<Longrightarrow> \<not> up e \<and> \<not> down e) \<Longrightarrow>
   switched_on up down (es @ tr) = switched_on up down tr"
  by (induction es) auto

lemma switched_on_extends:
  "extends_by P tr tr' \<Longrightarrow> (\<And>c r. P c \<Longrightarrow> \<not> up (c, r) \<and> \<not> down (c, r)) \<Longrightarrow>
   switched_on up down tr' = switched_on up down tr"
  unfolding extends_by_def by (auto intro!: switched_on_append)

end
