(* ===== verification/Nft_Dns.thy ===== *)
theory Nft_Dns
  imports Os Protocol
begin

text \<open>
  \<open>daemon/src/nft.rs\<close> and \<open>daemon/src/dns.rs\<close>: the nftables transaction that keeps system
  DNS inside the tunnel, and the guard that installs it, probes it and takes it away again
  when the probe fails.  The trait \<open>DnsBackend\<close> is a record of operations with the contract
  \<open>dns_contract\<close>; the system backend is its interpretation.
\<close>

unbundle bit_operations_syntax

section \<open>Rulesets\<close>

definition dquote :: char where "dquote = CHR 0x22"

definition quoted :: "string \<Rightarrow> string" where
  "quoted s = dquote # s @ [dquote]"

definition unlines :: "string list \<Rightarrow> string" where
  "unlines ls = concat (map (\<lambda>l. l @ [newline]) ls)"

definition dns_rule_lines :: "string list" where
  "dns_rule_lines =
     [''table inet varmlen_dns {'',
      ''  chain mark_output {'',
      ''    type route hook output priority mangle + 10; policy accept;'',
      ''    ip daddr 127.0.0.0/8 return'',
      ''    ip6 daddr ::1 return'',
      ''    meta mark & 0x0000ffff != 0x2024 meta mark & 0x0000ffff != 0x2025 udp dport 53 meta mark set 0x2023 ct mark set meta mark'',
      ''    meta mark & 0x0000ffff != 0x2024 meta mark & 0x0000ffff != 0x2025 tcp dport 53 meta mark set 0x2023 ct mark set meta mark'',
      ''  }'',
      ''  chain guard_output {'',
      ''    type filter hook output priority filter - 10; policy accept;'',
      ''    oifname '' @ quoted ''lo'' @ '' accept'',
      ''    meta mark & 0x0000ffff == 0x2025 udp dport 53 accept'',
      ''    meta mark & 0x0000ffff == 0x2025 tcp dport 53 accept'',
      ''    meta mark & 0x0000ffff == 0x2025 tcp dport 853 accept'',
      ''    meta mark & 0x0000ffff == 0x2023 oifname '' @ quoted ''varmlen0'' @ '' udp dport 53 accept'',
      ''    meta mark & 0x0000ffff == 0x2023 oifname '' @ quoted ''varmlen0'' @ '' tcp dport 53 accept'',
      ''    oifname '' @ quoted ''varmlen0'' @ '' tcp dport 853 accept'',
      ''    udp dport 53 reject'',
      ''    tcp dport 53 reject'',
      ''    tcp dport 853 reject'',
      ''  }'',
      ''}'']"

definition render_dns_rules :: string where
  "render_dns_rules = unlines dns_rule_lines"

text \<open>
  A transaction through \<open>nft -f -\<close>.  The text of a failure to start, write or wait is the
  environment's.
\<close>

definition apply_ruleset_with_code ::
    "os \<Rightarrow> string \<Rightarrow> daemon_error_code \<Rightarrow> (trace, daemon_error + unit) io" where
  "apply_ruleset_with_code os ruleset code tr =
     (case run_command os ''nft'' [''-f'', ''-''] ruleset tr of
        (Inl e, tr') \<Rightarrow> (Err (daemon_error code (err_text e)), tr')
      | (Inr out, tr') \<Rightarrow>
          if \<not> out_success out
          then (Err (daemon_error code (''nft rejected DNS transaction: ''
                       @ trim (from_utf8_lossy (out_stderr out)))), tr')
          else (Ok (), tr'))"

definition apply_ruleset :: "os \<Rightarrow> string \<Rightarrow> (trace, daemon_error + unit) io" where
  "apply_ruleset os ruleset = apply_ruleset_with_code os ruleset DnsInstallFailed"

definition remove_dns_table :: "os \<Rightarrow> (trace, daemon_error + unit) io" where
  "remove_dns_table os tr =
     (case run_command os ''nft'' [''delete'', ''table'', ''inet'', ''varmlen_dns''] [] tr of
        (Inl e, tr') \<Rightarrow> (Err (daemon_error DnsInstallFailed (''could not remove DNS table: '' @ err_text e)), tr')
      | (Inr out, tr') \<Rightarrow>
          if out_success out
             \<or> str_contains ''No such file or directory'' (from_utf8_lossy (out_stderr out))
          then (Ok (), tr')
          else (Err (daemon_error DnsInstallFailed (''could not remove DNS table: ''
                       @ trim (from_utf8_lossy (out_stderr out)))), tr'))"

section \<open>DNS messages\<close>

definition byte_word :: "char \<Rightarrow> u8" where
  "byte_word c = of_nat (byte_val c)"

definition be16 :: "nat \<Rightarrow> string" where
  "be16 n = [char_of (n div 256), char_of (n mod 256)]"

definition is_ascii :: "string \<Rightarrow> bool" where
  "is_ascii s = list_all (\<lambda>c. byte_val c < 128) s"

definition probe_error :: "string \<Rightarrow> daemon_error" where
  "probe_error m = daemon_error DnsVerificationFailed m"

fun dns_labels :: "string list \<Rightarrow> daemon_error + string" where
  "dns_labels [] = Ok []"
| "dns_labels (l # ls) =
     (if l = [] \<or> length l > 63 \<or> \<not> is_ascii l
      then Err (probe_error ''invalid DNS probe domain'')
      else try_then (dns_labels ls) (\<lambda>rest. Ok (char_of (length l) # l @ rest)))"

definition dns_header :: "u16 \<Rightarrow> string" where
  "dns_header ident =
     be16 (unat ident) @ [char_of (1 :: nat), char_of (0 :: nat)]
       @ be16 1 @ be16 0 @ be16 0 @ be16 0"

definition build_dns_query :: "u16 \<Rightarrow> string \<Rightarrow> daemon_error + string" where
  "build_dns_query ident domain =
     try_then (dns_labels (split_on (CHR ''.'') domain)) (\<lambda>labels.
       let query = dns_header ident @ labels @ [char_of (0 :: nat)] @ be16 1 @ be16 1 in
       if length query > 512 then Err (probe_error ''DNS probe query is too large'') else Ok query)"

definition validate_dns_response :: "u16 \<Rightarrow> string \<Rightarrow> bool" where
  "validate_dns_response ident response =
     (length response \<ge> 12 \<and> take 2 response = be16 (unat ident)
      \<and> byte_word (response ! 2) AND 0x80 \<noteq> 0)"

text \<open>Reading a name back: the labels up to the root, and what follows (RFC 1035, 3.1).\<close>

function read_labels :: "string \<Rightarrow> (string list \<times> string) option" where
  "read_labels [] = None"
| "read_labels (c # cs) =
     (let n = byte_val c in
      if n = 0 then Some ([], cs)
      else if length cs < n then None
      else map_option (\<lambda>(ls, r). (take n cs # ls, r)) (read_labels (drop n cs)))"
  by pat_completeness auto
termination
  by (relation "measure length") auto

section \<open>The guard\<close>

record 'b dns_backend =
  db_apply :: "('b, daemon_error + unit) io"
  db_probe_through_tunnel :: "('b, daemon_error + bool) io"
  db_remove :: "('b, daemon_error + unit) io"

definition dns_guard_install :: "'b dns_backend \<Rightarrow> ('b, daemon_error + unit) io" where
  "dns_guard_install ops =
     try_io (db_apply ops) (\<lambda>_.
     then_io (db_probe_through_tunnel ops) (\<lambda>probe.
       if probe = Ok True then return_io (Ok ())
       else then_io (db_remove ops) (\<lambda>cleanup.
         return_io (try_then probe (\<lambda>_. try_then cleanup (\<lambda>_.
           Err (probe_error ''DNS interception could not be verified'')))))))"

definition probe_transaction_id :: "nat \<Rightarrow> u16" where
  "probe_transaction_id pid = of_nat pid XOR 0x564d"

definition system_dns_probe :: "os \<Rightarrow> nat \<Rightarrow> (trace, daemon_error + bool) io" where
  "system_dns_probe os pid =
     (case build_dns_query (probe_transaction_id pid) ''mullvad.net'' of
        Inl e \<Rightarrow> return_io (Inl e)
      | Inr query \<Rightarrow>
          map_io (\<lambda>r. map_err (\<lambda>e. probe_error (err_text e))
                    (try_then r (\<lambda>resp. Ok (validate_dns_response (probe_transaction_id pid) resp))))
            (ask_text os (ProbeDns query)))"

definition system_dns_backend :: "os \<Rightarrow> nat \<Rightarrow> trace dns_backend" where
  "system_dns_backend os pid =
     \<lparr>db_apply = apply_ruleset os render_dns_rules,
      db_probe_through_tunnel = system_dns_probe os pid,
      db_remove = remove_dns_table os\<rparr>"

section \<open>The contract of the guard\<close>

locale dns_contract =
  fixes ops :: "'b dns_backend"
    and protected :: "'b \<Rightarrow> bool"
  assumes apply_ok: "db_apply ops b = (Inr u, b') \<Longrightarrow> protected b'"
    and apply_err: "db_apply ops b = (Inl e, b') \<Longrightarrow> protected b' = protected b"
    and probe_keeps: "db_probe_through_tunnel ops b = (r, b') \<Longrightarrow> protected b' = protected b"
    and remove_ok: "db_remove ops b = (Inr u, b') \<Longrightarrow> \<not> protected b'"
begin

text \<open>
  Success means the table is in force and answered through the tunnel; failure after the
  table was applied leaves it in force only when removing it failed too.
\<close>

lemma install_ok:
  assumes "dns_guard_install ops b = (Inr u, b')"
  shows "protected b'"
  using assms unfolding dns_guard_install_def try_io_def then_io_def
  by (auto split: prod.splits sum.splits if_splits dest!: apply_ok probe_keeps)
     (auto simp: try_then_def split: sum.splits)

lemma install_err:
  assumes "dns_guard_install ops b = (Inl e, b')" and "protected b'" and "\<not> protected b"
  obtains b1 b2 r f where "db_apply ops b = (Inr (), b1)"
    and "db_probe_through_tunnel ops b1 = (r, b2)" and "r \<noteq> Inr True"
    and "db_remove ops b2 = (Inl f, b')"
proof -
  obtain q b1 where a: "db_apply ops b = (q, b1)" by fastforce
  then have q: "q = Inr ()"
    using assms by (cases q) (auto simp: dns_guard_install_def try_io_def dest: apply_err)
  obtain r b2 where p: "db_probe_through_tunnel ops b1 = (r, b2)" by fastforce
  obtain c b3 where c: "db_remove ops b2 = (c, b3)" by fastforce
  have out: "dns_guard_install ops b =
      (if r = Inr True then (Inr (), b2)
       else (try_then r (\<lambda>_. try_then c (\<lambda>_. Err (probe_error ''DNS interception could not be verified''))), b3))"
    using a q p c by (simp add: dns_guard_install_def try_io_def then_io_def)
  have r: "r \<noteq> Inr True" and b': "b' = b3" using out assms(1) by (auto split: if_splits)
  have "\<exists>f. c = Inl f" using assms(2) b' c by (cases c) (auto dest: remove_ok)
  then show thesis using that a q p r c b' by auto
qed

end

section \<open>The system backend meets it\<close>

definition dns_up :: "call \<times> reply \<Rightarrow> bool" where
  "dns_up e = (case e of
     (Run p args i, Output o') \<Rightarrow> p = ''nft'' \<and> args = [''-f'', ''-''] \<and> i = render_dns_rules \<and> out_success o'
   | _ \<Rightarrow> False)"

text \<open>A delete that reports success, or that there is nothing to delete.\<close>

definition dns_down :: "call \<times> reply \<Rightarrow> bool" where
  "dns_down e = (case e of
     (Run p args i, Output o') \<Rightarrow> p = ''nft'' \<and> args = [''delete'', ''table'', ''inet'', ''varmlen_dns'']
        \<and> (out_success o' \<or> str_contains ''No such file or directory'' (from_utf8_lossy (out_stderr o')))
   | _ \<Rightarrow> False)"

definition dns_table :: "trace \<Rightarrow> bool" where
  "dns_table = switched_on dns_up dns_down"

lemma apply_ruleset_trace:
  assumes "apply_ruleset_with_code os rules code tr = (r, tr')"
  obtains a where "tr' = (Run ''nft'' [''-f'', ''-''] rules, a) # tr"
    and "is_ok r \<longleftrightarrow> (\<exists>o'. a = Output o' \<and> out_success o')"
  using assms unfolding apply_ruleset_with_code_def
  by (auto split: prod.splits sum.splits if_splits option.splits elim!: run_command_trace)

lemma calls_only_apply_ruleset [calls_intro]:
  "P (Run ''nft'' [''-f'', ''-''] rules) \<Longrightarrow> calls_only P (apply_ruleset_with_code os rules code)"
  unfolding calls_only_def by (auto elim!: apply_ruleset_trace)

lemma remove_dns_table_trace:
  assumes "remove_dns_table os tr = (r, tr')"
  obtains a where "tr' = (Run ''nft'' [''delete'', ''table'', ''inet'', ''varmlen_dns''] [], a) # tr"
    and "is_ok r \<longleftrightarrow> (\<exists>o'. a = Output o' \<and> (out_success o'
           \<or> str_contains ''No such file or directory'' (from_utf8_lossy (out_stderr o'))))"
  using assms unfolding remove_dns_table_def
  by (auto split: prod.splits sum.splits if_splits option.splits elim!: run_command_trace)

lemma system_dns_probe_calls:
  "calls_only (\<lambda>c. \<exists>q. c = ProbeDns q) (system_dns_probe os pid)"
  unfolding system_dns_probe_def by (auto intro!: calls_intro split: sum.splits)

interpretation system_dns: dns_contract "system_dns_backend os pid" dns_table for os pid
proof unfold_locales
  fix b u b'
  assume "db_apply (system_dns_backend os pid) b = (Inr u, b')"
  then show "dns_table b'"
    unfolding system_dns_backend_def apply_ruleset_def
    by (auto simp: dns_table_def dns_up_def elim!: apply_ruleset_trace)
next
  fix b e b'
  assume "db_apply (system_dns_backend os pid) b = (Inl e, b')"
  then have "apply_ruleset_with_code os render_dns_rules DnsInstallFailed b = (Inl e, b')"
    by (simp add: system_dns_backend_def apply_ruleset_def)
  then show "dns_table b' = dns_table b"
    by (elim apply_ruleset_trace) (auto simp: dns_table_def dns_up_def dns_down_def split: reply.splits)
next
  fix b r b'
  assume "db_probe_through_tunnel (system_dns_backend os pid) b = (r, b')"
  then have "extends_by (\<lambda>c. \<exists>q. c = ProbeDns q) b b'"
    using calls_onlyD [OF system_dns_probe_calls] by (simp add: system_dns_backend_def)
  then show "dns_table b' = dns_table b"
    unfolding dns_table_def by (rule switched_on_extends) (auto simp: dns_up_def dns_down_def)
next
  fix b u b'
  assume "db_remove (system_dns_backend os pid) b = (Inr u, b')"
  then have "remove_dns_table os b = (Inr u, b')" by (simp add: system_dns_backend_def)
  then show "\<not> dns_table b'"
    by (elim remove_dns_table_trace) (auto simp: dns_table_def dns_up_def dns_down_def)
qed

section \<open>Queries read back\<close>

lemma dns_labels_read:
  "dns_labels ls = Ok bs \<Longrightarrow> read_labels (bs @ char_of (0 :: nat) # rest) = Some (ls, rest)"
proof (induction ls arbitrary: bs)
  case Nil
  then show ?case by simp
next
  case (Cons l ls)
  then obtain bs' where l: "l \<noteq> []" "length l \<le> 63" and bs': "dns_labels ls = Ok bs'"
    and bs: "bs = char_of (length l) # l @ bs'"
    by (auto simp: try_then_eq_Inr split: if_splits)
  have "length l mod 256 = length l" using l(2) by simp
  with l bs Cons.IH [OF bs'] show ?case by simp
qed

lemma length_dns_header: "length (dns_header ident) = 12"
  by (simp add: dns_header_def be16_def)

lemma build_dns_query_read:
  assumes "build_dns_query ident domain = Ok q"
  shows "length q \<le> 512" and "take 2 q = be16 (unat ident)"
    and "read_labels (drop 12 q) = Some (split_on (CHR ''.'') domain, be16 1 @ be16 1)"
proof -
  obtain ls where ls: "dns_labels (split_on (CHR ''.'') domain) = Ok ls"
    and q: "q = dns_header ident @ ls @ [char_of (0 :: nat)] @ be16 1 @ be16 1" "length q \<le> 512"
    using assms by (auto simp: build_dns_query_def try_then_eq_Inr Let_def split: if_splits)
  show "length q \<le> 512" by (rule q(2))
  show "take 2 q = be16 (unat ident)" using q(1) by (simp add: dns_header_def be16_def)
  show "read_labels (drop 12 q) = Some (split_on (CHR ''.'') domain, be16 1 @ be16 1)"
    using dns_labels_read [OF ls, of "be16 1 @ be16 1"] q(1) by (simp add: length_dns_header)
qed

end
