(* ===== verification/Split_Process.thy ===== *)
theory Split_Process
  imports Net_Types
begin

text \<open>
  \<open>daemon/src/split/process.rs\<close>, the errors of \<open>daemon/src/split/mod.rs\<close>, the component
  check of \<open>daemon/src/split/cgroup.rs\<close> and the decision of \<open>daemon/src/split/watcher.rs\<close>:
  which processes an exception rule names, and what happens to one that is about to run.
\<close>

datatype split_error =
    InvalidApplication string
  | CgroupUnavailable
  | BpfUnavailable
  | RoutingUnavailable
  | DirectDnsUnavailable
  | WatcherUnavailable
  | ReconciliationFailed
  | RollbackFailed

section \<open>Rules\<close>

datatype app_selector = ExactPath string | ProcessName string

record process_snapshot =
  ps_comm :: string
  ps_executable :: string
  ps_argument_zero :: string
  ps_arguments :: "string list"
  ps_cgroup :: string

definition empty_snapshot :: process_snapshot where
  "empty_snapshot = \<lparr>ps_comm = [], ps_executable = [], ps_argument_zero = [],
                     ps_arguments = [], ps_cgroup = []\<rparr>"

definition slash :: char where "slash = CHR ''/''"
definition backslash :: char where "backslash = CHR 0x5C"

definition selector_parse :: "string \<Rightarrow> split_error + app_selector" where
  "selector_parse raw =
     (let v = trim raw in
      if v = [] \<or> length v > 4096 \<or> char_of (0 :: nat) \<in> set v then Err (InvalidApplication v)
      else if is_absolute v then Ok (ExactPath v)
      else if slash \<in> set v \<or> backslash \<in> set v then Err (InvalidApplication v)
      else Ok (ProcessName v))"

definition argument_is_named :: "string \<Rightarrow> string \<Rightarrow> bool" where
  "argument_is_named argument name =
     eq_ignore_ascii_case (after_last (\<lambda>c. c = slash \<or> c = backslash) argument) name"

definition command_words :: "string list \<Rightarrow> string list" where
  "command_words args = concat (map (\<lambda>a. a # split_whitespace a) args)"

definition is_windows_image :: "string \<Rightarrow> bool" where
  "is_windows_image name =
     (case rsplit_once (CHR ''.'') name of
        None \<Rightarrow> False | Some (_, ext) \<Rightarrow> eq_ignore_ascii_case ext ''exe'')"

definition is_application_id :: "string \<Rightarrow> bool" where
  "is_application_id name =
     (CHR ''-'' \<notin> set name \<and> \<not> is_windows_image name
      \<and> length (filter (\<lambda>p. p \<noteq> []) (split_on (CHR ''.'') name)) \<ge> 3)"

definition executable_name :: "process_snapshot \<Rightarrow> string" where
  "executable_name p = (case file_name_str (ps_executable p) of None \<Rightarrow> [] | Some n \<Rightarrow> n)"

fun selector_matches_process :: "app_selector \<Rightarrow> process_snapshot \<Rightarrow> bool" where
  "selector_matches_process (ExactPath path) p = path_eq (ps_executable p) path"
| "selector_matches_process (ProcessName name) p =
     (if eq_ignore_ascii_case (ps_comm p) name
         \<or> eq_ignore_ascii_case (executable_name p) name
         \<or> argument_is_named (ps_argument_zero p) name
      then True
      else if is_windows_image name
      then list_ex (\<lambda>w. argument_is_named w name) (command_words (ps_arguments p))
      else False)"

fun application_id :: "app_selector \<Rightarrow> string option" where
  "application_id (ExactPath _) = None"
| "application_id (ProcessName name) = (if is_application_id name then Some name else None)"

definition cgroup_paths_contain :: "process_snapshot \<Rightarrow> string \<Rightarrow> bool" where
  "cgroup_paths_contain p ident = list_ex (str_contains ident) (rev (split_on slash (ps_cgroup p)))"

fun matched_application_id :: "app_selector \<Rightarrow> process_snapshot \<Rightarrow> string option" where
  "matched_application_id (ExactPath _) p = None"
| "matched_application_id (ProcessName name) p =
     (if is_application_id name
      then (if cgroup_paths_contain p name then Some name else None)
      else None)"

fun selector_matches_target :: "app_selector \<Rightarrow> string \<Rightarrow> bool" where
  "selector_matches_target (ExactPath path) target = path_eq path target"
| "selector_matches_target (ProcessName name) target =
     (case file_name_str target of None \<Rightarrow> False | Some n \<Rightarrow> eq_ignore_ascii_case n name)"

section \<open>Reading /proc\<close>

definition parse_real_uid :: "string \<Rightarrow> nat option" where
  "parse_real_uid status =
     (case find (starts_with ''Uid:'') (str_lines status) of
        None \<Rightarrow> None
      | Some line \<Rightarrow>
          (case split_whitespace line of _ # u # _ \<Rightarrow> parse_u32 u | _ \<Rightarrow> None))"

definition parse_command_line :: "string \<Rightarrow> string list" where
  "parse_command_line bytes =
     map from_utf8_lossy (filter (\<lambda>v. v \<noteq> []) (split_on (char_of (0 :: nat)) bytes))"

definition cgroup_from_raw :: "string \<Rightarrow> string" where
  "cgroup_from_raw raw =
     (case find_map (\<lambda>line. map_option snd (split_once_str ''::'' line)) (str_lines raw) of
        None \<Rightarrow> [] | Some p \<Rightarrow> p)"

definition fd_number :: "string \<Rightarrow> nat option" where
  "fd_number v =
     (if v = [] \<or> \<not> list_all is_digit v then None else parse_uint_radix 10 i32_max v)"

definition EBADF :: int where "EBADF = 9"
definition ENOENT :: int where "ENOENT = 2"
definition ESRCH :: int where "ESRCH = 3"

definition is_transient_fd_error :: "int option \<Rightarrow> bool" where
  "is_transient_fd_error code =
     (code = Some EBADF \<or> code = Some ENOENT \<or> code = Some ESRCH)"

text \<open>
  \<open>snapshot\<close>: the four files read for it; \<open>None\<close> is a failed read (a text read fails on
  invalid UTF-8 too).  A failed cgroup read leaves the field empty.
\<close>

definition snapshot_of ::
    "string option \<Rightarrow> string option \<Rightarrow> string option \<Rightarrow> string option \<Rightarrow> split_error + process_snapshot" where
  "snapshot_of comm exe cmdline raw_cgroup =
     try_then (ok_or ReconciliationFailed comm) (\<lambda>c.
     try_then (ok_or ReconciliationFailed exe) (\<lambda>e.
     try_then (ok_or ReconciliationFailed cmdline) (\<lambda>l.
       let args = parse_command_line l in
       Ok \<lparr>ps_comm = trim c, ps_executable = e,
           ps_argument_zero = (case args of [] \<Rightarrow> [] | a # _ \<Rightarrow> a),
           ps_arguments = args,
           ps_cgroup = (case raw_cgroup of None \<Rightarrow> [] | Some r \<Rightarrow> cgroup_from_raw r)\<rparr>)))"

section \<open>Cgroup components\<close>

definition validated_component :: "string \<Rightarrow> split_error + string" where
  "validated_component v =
     (if v = [] \<or> v = ''.'' \<or> v = ''..'' \<or> length v > 128 \<or> slash \<in> set v \<or> backslash \<in> set v
         \<or> char_of (0 :: nat) \<in> set v
      then Err (InvalidApplication v) else Ok v)"

definition bypass_cgroup_path :: "nat \<Rightarrow> string" where
  "bypass_cgroup_path uid = ''/sys/fs/cgroup/varmlen/user-'' @ dec uid @ ''/bypass''"

section \<open>The permission decision\<close>

datatype permission_decision = Allow | MoveAndAllow | Deny

definition selected :: "app_selector list \<Rightarrow> string \<Rightarrow> process_snapshot \<Rightarrow> bool" where
  "selected selectors target p =
     list_ex (\<lambda>s. selector_matches_target s target \<or> selector_matches_process s p) selectors"

definition permission_decision ::
    "nat \<Rightarrow> nat \<Rightarrow> string \<Rightarrow> process_snapshot \<Rightarrow> app_selector list \<Rightarrow> bool \<Rightarrow> permission_decision" where
  "permission_decision process_uid owner_uid target p selectors move_succeeded =
     (if process_uid \<noteq> owner_uid \<or> \<not> selected selectors target p then Allow
      else if move_succeeded then MoveAndAllow else Deny)"

section \<open>Facts about rules\<close>

lemma selector_parse_name:
  assumes "selector_parse raw = Ok (ProcessName n)"
  shows "n = trim raw" and "n \<noteq> []" and "length n \<le> 4096"
    and "slash \<notin> set n" and "backslash \<notin> set n" and "char_of (0 :: nat) \<notin> set n"
  using assms by (auto simp: selector_parse_def Let_def split: if_splits)

lemma selector_parse_path:
  assumes "selector_parse raw = Ok (ExactPath p)"
  shows "p = trim raw" and "is_absolute p" and "length p \<le> 4096" and "char_of (0 :: nat) \<notin> set p"
  using assms by (auto simp: selector_parse_def Let_def split: if_splits)

lemma selector_parse_err:
  "selector_parse raw = Err e \<Longrightarrow> e = InvalidApplication (trim raw)"
  by (auto simp: selector_parse_def Let_def split: if_splits)

lemma argument_is_named_case:
  "eq_ignore_ascii_case n n' \<Longrightarrow> argument_is_named a n \<longleftrightarrow> argument_is_named a n'"
  unfolding argument_is_named_def
  by (meson eq_ignore_ascii_case_sym eq_ignore_ascii_case_trans)

lemma lower_byte_idem [simp]: "lower_byte (lower_byte c) = lower_byte c"
  by (auto simp: lower_byte_def byte_in_def)

lemma lower_byte_dot: "lower_byte c = CHR ''.'' \<longleftrightarrow> c = CHR ''.''"
proof (cases "byte_in 65 90 c")
  case True
  then have "byte_val (lower_byte c) \<ge> 97" by (simp add: lower_byte_def byte_in_def)
  then have "lower_byte c \<noteq> CHR ''.''" by auto
  moreover from True have "c \<noteq> CHR ''.''" by (auto simp: byte_in_def)
  ultimately show ?thesis by simp
qed (simp add: lower_byte_def)

lemma after_last_map:
  "(\<And>x. P (f x) = P x) \<Longrightarrow> after_last P (map f s) = map f (after_last P s)"
proof -
  assume P: "\<And>x. P (f x) = P x"
  have "takeWhile (\<lambda>x. \<not> P x) (map f xs) = map f (takeWhile (\<lambda>x. \<not> P x) xs)" for xs
    by (induction xs) (auto simp: P)
  then show ?thesis by (simp add: after_last_def rev_map)
qed

lemma is_windows_image_iff:
  "is_windows_image n \<longleftrightarrow> CHR ''.'' \<in> set n
     \<and> map lower_byte (after_last (\<lambda>x. x = CHR ''.'') n) = map lower_byte ''exe''"
  by (auto simp: is_windows_image_def rsplit_once_def eq_ignore_ascii_case_def)

lemma is_windows_image_case:
  assumes "eq_ignore_ascii_case n n'"
  shows "is_windows_image n \<longleftrightarrow> is_windows_image n'"
proof -
  have canon: "is_windows_image x \<longleftrightarrow> is_windows_image (map lower_byte x)" for x
  proof -
    have "CHR ''.'' \<in> set (map lower_byte x) \<longleftrightarrow> CHR ''.'' \<in> set x"
      by (auto simp: image_iff) (metis lower_byte_dot)+
    moreover have "map lower_byte (after_last (\<lambda>x. x = CHR ''.'') (map lower_byte x))
        = map lower_byte (after_last (\<lambda>x. x = CHR ''.'') x)"
      by (subst after_last_map) (simp_all add: lower_byte_dot o_def)
    ultimately show ?thesis by (simp add: is_windows_image_iff)
  qed
  from assms have "map lower_byte n = map lower_byte n'" by (simp add: eq_ignore_ascii_case_def)
  then show ?thesis using canon [of n] canon [of n'] by simp
qed

text \<open>A rule does not depend on the case its name is written in.\<close>

lemma selector_matches_case:
  assumes "eq_ignore_ascii_case n n'"
  shows "selector_matches_process (ProcessName n) p \<longleftrightarrow> selector_matches_process (ProcessName n') p"
    and "selector_matches_target (ProcessName n) t \<longleftrightarrow> selector_matches_target (ProcessName n') t"
proof -
  have eq: "eq_ignore_ascii_case x n \<longleftrightarrow> eq_ignore_ascii_case x n'" for x
    using assms by (meson eq_ignore_ascii_case_sym eq_ignore_ascii_case_trans)
  show "selector_matches_process (ProcessName n) p \<longleftrightarrow> selector_matches_process (ProcessName n') p"
    using assms by (simp add: eq argument_is_named_case [OF assms] is_windows_image_case [OF assms])
  show "selector_matches_target (ProcessName n) t \<longleftrightarrow> selector_matches_target (ProcessName n') t"
    by (simp add: eq split: option.split)
qed

text \<open>
  A rule that is not a Windows image only ever matches on one of the three identities of a
  process, each compared whole.
\<close>

lemma plain_rule_identity:
  assumes "selector_matches_process (ProcessName n) p" and "\<not> is_windows_image n"
  shows "\<exists>i \<in> {ps_comm p, executable_name p,
               after_last (\<lambda>c. c = slash \<or> c = backslash) (ps_argument_zero p)}.
           length i = length n \<and> map lower_byte i = map lower_byte n"
  using assms
  by (auto simp: argument_is_named_def eq_ignore_ascii_case_def dest: map_eq_imp_length_eq
        split: if_splits)

lemma permission_decision_iff:
  "permission_decision pu ou t p ss mv = Deny \<longleftrightarrow> pu = ou \<and> selected ss t p \<and> \<not> mv"
  "permission_decision pu ou t p ss mv = MoveAndAllow \<longleftrightarrow> pu = ou \<and> selected ss t p \<and> mv"
  "permission_decision pu ou t p ss mv = Allow \<longleftrightarrow> pu \<noteq> ou \<or> \<not> selected ss t p"
  by (auto simp: permission_decision_def)

lemma validated_component_Ok:
  "validated_component v = Ok w \<Longrightarrow>
     w = v \<and> split_on slash w = [w] \<and> w \<noteq> [] \<and> w \<noteq> ''.'' \<and> w \<noteq> ''..'' \<and> length w \<le> 128"
  unfolding validated_component_def
  by (auto simp: split_on_def intro!: split_by_none split: if_splits)

lemma parse_command_line_nonempty:
  "parse_command_line b = [] \<longleftrightarrow> (\<forall>c \<in> set b. c = char_of (0 :: nat))"
proof -
  have "filter (\<lambda>v. v \<noteq> []) (split_by (\<lambda>x. x = z) b) = [] \<longleftrightarrow> (\<forall>c \<in> set b. c = z)" for z :: char
    by (induction b) (auto split: list.splits simp: filter_empty_conv)
  then show ?thesis by (simp add: parse_command_line_def split_on_def)
qed

lemma fd_number_dec: "n \<le> i32_max \<Longrightarrow> fd_number (dec n) = Some n"
  by (simp add: fd_number_def list_all_iff dec_digits)

lemma fd_number_Some: "fd_number v = Some n \<Longrightarrow> list_all is_digit v \<and> n \<le> i32_max"
  by (auto simp: fd_number_def dest: parse_uint_radix_le split: if_splits)

end
