(* ===== verification/Split_Routing.thy ===== *)
theory Split_Routing
  imports Nft_Dns Split_Process
begin

text \<open>
  \<open>daemon/src/split/routing.rs\<close> and \<open>daemon/src/split/bpf.rs\<close>: finding the physical default
  route, the nftables rules and \<open>ip\<close> commands of the per-application split, and the socket
  program that marks what an excluded application opens.
\<close>

section \<open>The physical route\<close>

record physical_route =
  pr_interface :: string
  pr_gateway :: "string option"

definition IFNAMSIZ :: nat where "IFNAMSIZ = 16"

definition interface_char :: "char \<Rightarrow> bool" where
  "interface_char c = (is_alnum c \<or> c = CHR ''.'' \<or> c = CHR ''_'' \<or> c = CHR ''-'')"

text \<open>The word after the first occurrence of a keyword.\<close>

definition word_after :: "string \<Rightarrow> string list \<Rightarrow> string option" where
  "word_after key ws = find_map (\<lambda>(a, b). if a = key then Some b else None) (windows2 ws)"

definition parse_default_route :: "string \<Rightarrow> physical_route option" where
  "parse_default_route line =
     (let ws = split_whitespace line in
      case ws of
        [] \<Rightarrow> None
      | f # _ \<Rightarrow>
          if f \<noteq> ''default'' then None
          else (case word_after ''dev'' ws of
                  None \<Rightarrow> None
                | Some interface \<Rightarrow>
                    if interface = [] \<or> length interface > IFNAMSIZ
                       \<or> \<not> list_all interface_char interface then None
                    else (case word_after ''via'' ws of
                            None \<Rightarrow> Some \<lparr>pr_interface = interface, pr_gateway = None\<rparr>
                          | Some g \<Rightarrow> if parse_ip g = None then None
                                     else Some \<lparr>pr_interface = interface, pr_gateway = Some g\<rparr>)))"

definition detect_default_route :: "os \<Rightarrow> (trace, split_error + physical_route) io" where
  "detect_default_route os tr =
     (case run_command os ''ip'' [''-4'', ''route'', ''show'', ''default''] [] tr of
        (Inl _, tr') \<Rightarrow> (Err RoutingUnavailable, tr')
      | (Inr out, tr') \<Rightarrow>
          (if \<not> out_success out then Err RoutingUnavailable
           else ok_or RoutingUnavailable
                  (find_map parse_default_route (str_lines (from_utf8_lossy (out_stdout out)))), tr'))"

section \<open>Rules\<close>

definition component_char :: "char \<Rightarrow> bool" where
  "component_char c = (interface_char c \<or> c = CHR ''@'')"

definition split_rule_lines :: "nat \<Rightarrow> string \<Rightarrow> string \<Rightarrow> string list" where
  "split_rule_lines level cgroup interface =
     [''table inet varmlen_split {'',
      ''  chain mark_output {'',
      ''    type route hook output priority mangle; policy accept;'',
      ''    socket cgroupv2 level '' @ dec level @ '' '' @ quoted cgroup @ '' meta mark set 0x2025'',
      ''    meta mark 0x2025 ct mark set meta mark'',
      ''  }'',
      ''  chain nat_postrouting {'',
      ''    type nat hook postrouting priority srcnat; policy accept;'',
      ''    meta mark 0x2025 oifname '' @ quoted interface @ '' masquerade'',
      ''  }'',
      ''}'']"

definition render_split_rules :: "string \<Rightarrow> physical_route \<Rightarrow> split_error + string" where
  "render_split_rules cgroup_relative route =
     (let components = split_on (CHR ''/'') cgroup_relative in
      if components = []
         \<or> list_ex (\<lambda>c. c = [] \<or> c = ''.'' \<or> c = ''..'' \<or> \<not> list_all component_char c) components
      then Err RoutingUnavailable
      else if parse_default_route (''default dev '' @ pr_interface route) = None
      then Err RoutingUnavailable
      else Ok (unlines (split_rule_lines (length components) cgroup_relative (pr_interface route))))"

section \<open>Commands\<close>

definition SPLIT_TABLE :: string where "SPLIT_TABLE = ''102''"
definition SPLIT_RULE_PRIORITY :: string where "SPLIT_RULE_PRIORITY = ''100''"

definition LOCAL_THROWS :: "string list" where
  "LOCAL_THROWS =
     [''10.0.0.0/8'', ''172.16.0.0/12'', ''192.168.0.0/16'', ''169.254.0.0/16'',
      ''100.64.0.0/10'', ''224.0.0.0/4'', ''255.255.255.255/32'']"

definition routing_setup_commands :: "physical_route \<Rightarrow> string list list" where
  "routing_setup_commands route =
     [[''route'', ''replace'', ''default'']
        @ (case pr_gateway route of None \<Rightarrow> [] | Some g \<Rightarrow> [''via'', g])
        @ [''dev'', pr_interface route, ''table'', SPLIT_TABLE]]
     @ map (\<lambda>n. [''route'', ''replace'', ''throw'', n, ''table'', SPLIT_TABLE]) LOCAL_THROWS
     @ [[''rule'', ''add'', ''priority'', SPLIT_RULE_PRIORITY, ''fwmark'', ''0x2025'',
         ''lookup'', SPLIT_TABLE]]"

definition routing_teardown_commands :: "string list list" where
  "routing_teardown_commands =
     [[''rule'', ''del'', ''priority'', SPLIT_RULE_PRIORITY, ''fwmark'', ''0x2025'',
       ''lookup'', SPLIT_TABLE],
      [''route'', ''flush'', ''table'', SPLIT_TABLE]]"

definition run_ip :: "os \<Rightarrow> string list \<Rightarrow> (trace, split_error + unit) io" where
  "run_ip os args =
     map_io (\<lambda>r. case r of
               Inl _ \<Rightarrow> Err RoutingUnavailable
             | Inr out \<Rightarrow> if out_success out then Ok () else Err RoutingUnavailable)
       (run_command os ''ip'' args [])"

definition install_routing :: "os \<Rightarrow> string \<Rightarrow> physical_route \<Rightarrow> (trace, split_error + unit) io" where
  "install_routing os cgroup_relative route =
     (case render_split_rules cgroup_relative route of
        Inl e \<Rightarrow> return_io (Inl e)
      | Inr rules \<Rightarrow>
          then_io (ignore_all (map (run_ip os) routing_teardown_commands)) (\<lambda>_.
          try_io (all_ok (map (run_ip os) (routing_setup_commands route))) (\<lambda>_.
          map_io (map_err (\<lambda>_. RoutingUnavailable)) (apply_ruleset_with_code os rules Internal))))"

definition remove_routing :: "os \<Rightarrow> (trace, split_error + unit) io" where
  "remove_routing os =
     then_io (ignore_all (map (run_ip os) routing_teardown_commands)) (\<lambda>_.
     map_io (\<lambda>r. case r of Inl _ \<Rightarrow> Err RollbackFailed | Inr _ \<Rightarrow> Ok ())
       (run_command os ''nft'' [''delete'', ''table'', ''inet'', ''varmlen_split''] []))"

section \<open>The socket-mark program\<close>

definition BYPASS_MARK :: u32 where "BYPASS_MARK = 0x2025"

text \<open>\<open>to_ne_bytes\<close> of an n-byte number, for a little-endian or a big-endian machine.\<close>

fun le_bytes :: "nat \<Rightarrow> nat \<Rightarrow> u8 list" where
  "le_bytes 0 v = []"
| "le_bytes (Suc n) v = of_nat v # le_bytes n (v div 256)"

definition ne_bytes :: "bool \<Rightarrow> nat \<Rightarrow> nat \<Rightarrow> u8 list" where
  "ne_bytes little n v = (if little then le_bytes n v else rev (le_bytes n v))"

definition instruction :: "bool \<Rightarrow> u8 \<Rightarrow> u8 \<Rightarrow> u8 \<Rightarrow> u16 \<Rightarrow> u32 \<Rightarrow> u8 list" where
  "instruction little code dst src off imm =
     [code, (push_bit 4 src) OR (dst AND 0x0f)]
       @ ne_bytes little 2 (unat off) @ ne_bytes little 4 (unat imm)"

definition socket_mark_program :: "bool \<Rightarrow> u8 list" where
  "socket_mark_program little =
     instruction little 0xb4 2 0 0 BYPASS_MARK
     @ instruction little 0x63 1 2 16 0
     @ instruction little 0xb4 0 0 0 1
     @ instruction little 0x95 0 0 0 0"

text \<open>\<open>buffer[offset..offset + n].copy_from_slice(value.to_ne_bytes())\<close>; \<open>None\<close> is the panic.\<close>

definition put_bytes :: "bool \<Rightarrow> nat \<Rightarrow> u8 list \<Rightarrow> nat \<Rightarrow> nat \<Rightarrow> u8 list option" where
  "put_bytes little n buffer off v =
     (if off + n \<le> length buffer
      then Some (take off buffer @ ne_bytes little n v @ drop (off + n) buffer) else None)"

abbreviation put_u32 where "put_u32 little \<equiv> put_bytes little 4"
abbreviation put_u64 where "put_u64 little \<equiv> put_bytes little 8"

definition BPF_PROG_TYPE_CGROUP_SOCK :: nat where "BPF_PROG_TYPE_CGROUP_SOCK = 9"
definition BPF_CGROUP_INET_SOCK_CREATE :: nat where "BPF_CGROUP_INET_SOCK_CREATE = 2"

definition detach_attributes :: "bool \<Rightarrow> nat \<Rightarrow> u8 list option" where
  "detach_attributes little cgroup_fd =
     Option.bind (put_u32 little (replicate 16 0) 0 cgroup_fd) (\<lambda>a.
     put_u32 little a 8 BPF_CGROUP_INET_SOCK_CREATE)"

definition load_attributes :: "bool \<Rightarrow> nat \<Rightarrow> nat \<Rightarrow> u8 list option" where
  "load_attributes little program_ptr license_ptr =
     Option.bind (put_u32 little (replicate 128 0) 0 BPF_PROG_TYPE_CGROUP_SOCK) (\<lambda>a.
     Option.bind (put_u32 little a 4 (length (socket_mark_program little) div 8)) (\<lambda>a.
     Option.bind (put_u64 little a 8 program_ptr) (\<lambda>a.
     Option.bind (put_u64 little a 16 license_ptr) (\<lambda>a.
     put_u32 little a 68 BPF_CGROUP_INET_SOCK_CREATE))))"

definition attach_attributes :: "bool \<Rightarrow> nat \<Rightarrow> nat \<Rightarrow> u8 list option" where
  "attach_attributes little cgroup_fd program_fd =
     Option.bind (put_u32 little (replicate 16 0) 0 cgroup_fd) (\<lambda>a.
     Option.bind (put_u32 little a 4 program_fd) (\<lambda>a.
     put_u32 little a 8 BPF_CGROUP_INET_SOCK_CREATE))"

section \<open>Nothing injected\<close>

lemma parse_default_route_Some:
  assumes "parse_default_route line = Some r"
  shows "pr_interface r \<noteq> []" and "length (pr_interface r) \<le> 16"
    and "list_all interface_char (pr_interface r)"
    and "pr_gateway r = Some g \<Longrightarrow> parse_ip g \<noteq> None"
  using assms
  by (auto simp: parse_default_route_def Let_def IFNAMSIZ_def split: list.splits if_splits option.splits)

lemma utf8_chars_ascii:
  "list_all (\<lambda>c. \<not> is_cont c) s \<Longrightarrow> utf8_chars s = map (\<lambda>c. [c]) s"
proof (induction s)
  case (Cons c s)
  have "takeWhile is_cont s = []" "dropWhile is_cont s = s"
    using Cons.prems by (cases s; simp)+
  with Cons show ?case by simp
qed simp

lemma safe_char_facts:
  assumes "interface_char c"
  shows "\<not> is_cont c" and "\<not> is_ws [c]" and "c \<noteq> dquote" and "c \<noteq> newline"
    and "c \<noteq> CHR ''/''" and "c \<noteq> CHR ''{''" and "c \<noteq> CHR ''}''" and "c \<noteq> CHR '';''"
proof -
  from assms have r: "byte_in 48 57 c \<or> byte_in 65 90 c \<or> byte_in 97 122 c \<or> byte_val c \<in> {45, 46, 95}"
    by (auto simp: interface_char_def is_alnum_def is_digit_def is_alpha_def)
  then show "\<not> is_cont c" by (auto simp: is_cont_def byte_in_def)
  from r show "\<not> is_ws [c]" by (auto simp: is_ws_def ws_codes_def byte_in_def)
  from r show "c \<noteq> dquote" "c \<noteq> CHR ''/''" "c \<noteq> CHR ''{''" "c \<noteq> CHR ''}''" "c \<noteq> CHR '';''"
    by (auto simp: dquote_def byte_in_def)
  from r show "c \<noteq> newline" by (auto simp: newline_def byte_in_def)
qed

lemma count_list_append_sep: "count_list (xs @ ys) c = count_list xs c + count_list ys c"
  by simp

lemma count_list_safe: "(\<And>x. x \<in> set s \<Longrightarrow> x \<noteq> c) \<Longrightarrow> count_list s c = 0"
  by (induction s) auto

text \<open>The structural characters of a rendered ruleset are those of the template.\<close>

definition structure_counts :: "string \<Rightarrow> nat list" where
  "structure_counts s = map (count_list s) [dquote, newline, CHR ''{'', CHR ''}'', CHR '';'']"

lemma split_by_covers: "x \<in> set xs \<Longrightarrow> P x \<or> (\<exists>p \<in> set (split_by P xs). x \<in> set p)"
  by (induction xs) (auto split: list.splits)

lemma render_split_rules_Ok:
  assumes "render_split_rules cg route = Ok rules"
  shows "list_all (\<lambda>c. component_char c \<or> c = CHR ''/'') cg"
    and "rules = unlines (split_rule_lines (length (split_on (CHR ''/'') cg)) cg (pr_interface route))"
    and "parse_default_route (''default dev '' @ pr_interface route) \<noteq> None"
proof -
  have ok: "p \<in> set (split_on (CHR ''/'') cg) \<Longrightarrow> list_all component_char p" for p
    using assms by (auto simp: render_split_rules_def Let_def list_ex_iff split: if_splits)
  show "list_all (\<lambda>c. component_char c \<or> c = CHR ''/'') cg"
    unfolding list_all_iff
  proof
    fix x assume "x \<in> set cg"
    then show "component_char x \<or> x = CHR ''/''"
      using split_by_covers [of x cg "\<lambda>x. x = CHR ''/''"] ok by (auto simp: split_on_def list_all_iff)
  qed
  show "rules = unlines (split_rule_lines (length (split_on (CHR ''/'') cg)) cg (pr_interface route))"
    and "parse_default_route (''default dev '' @ pr_interface route) \<noteq> None"
    using assms by (auto simp: render_split_rules_def Let_def split: if_splits)
qed

lemma unat_off_eq: "length (le_bytes n v) = n"
  by (induction n arbitrary: v) auto

lemma length_ne_bytes [simp]: "length (ne_bytes little n v) = n"
  by (simp add: ne_bytes_def unat_off_eq)

lemma length_instruction [simp]: "length (instruction little code dst src off imm) = 8"
  by (simp add: instruction_def)

lemma length_socket_mark_program [simp]: "length (socket_mark_program little) = 32"
  by (simp add: socket_mark_program_def)

lemma length_put_bytes: "put_bytes little n b off v = Some b' \<Longrightarrow> length b' = length b"
  by (auto simp: put_bytes_def split: if_splits)

lemma put_bytes_read:
  assumes "put_bytes little n b off v = Some b'"
  shows "take n (drop off b') = ne_bytes little n v"
  using assms by (auto simp: put_bytes_def split: if_splits)

lemma attributes_no_panic:
  "detach_attributes little fd \<noteq> None" "load_attributes little p l \<noteq> None"
  "attach_attributes little fd g \<noteq> None"
  by (auto simp: detach_attributes_def load_attributes_def attach_attributes_def put_bytes_def)

lemma calls_only_run_ip [calls_intro]:
  "P (Run ''ip'' args []) \<Longrightarrow> calls_only P (run_ip os args)"
  unfolding run_ip_def by (intro calls_intro)

lemma install_routing_calls:
  "calls_only (\<lambda>c. \<exists>p a i. c = Run p a i \<and> (p = ''ip'' \<or> (p = ''nft'' \<and> a = [''-f'', ''-''])))
     (install_routing os cg route)"
  unfolding install_routing_def by (auto intro!: calls_intro)

lemma remove_routing_calls:
  "calls_only (\<lambda>c. \<exists>p a i. c = Run p a i
       \<and> (p = ''ip'' \<or> (p = ''nft'' \<and> a = [''delete'', ''table'', ''inet'', ''varmlen_split''])))
     (remove_routing os)"
  unfolding remove_routing_def by (auto intro!: calls_intro)

text \<open>Every command names the split's own table, as its last word.\<close>

lemma routing_commands_table:
  "cmd \<in> set (routing_setup_commands route) \<union> set routing_teardown_commands \<Longrightarrow>
     last cmd = SPLIT_TABLE \<and> last (butlast cmd) \<in> {''table'', ''lookup''}"
  by (auto simp: routing_setup_commands_def routing_teardown_commands_def split: option.splits)

lemma structure_counts_append:
  "structure_counts (a @ b) = map2 (+) (structure_counts a) (structure_counts b)"
  by (simp add: structure_counts_def)

lemma structure_counts_safe:
  assumes "list_all (\<lambda>c. component_char c \<or> c = CHR ''/'') s"
  shows "structure_counts s = [0, 0, 0, 0, 0]"
proof -
  have ne: "c \<in> set s \<Longrightarrow> c \<notin> {dquote, newline, CHR ''{'', CHR ''}'', CHR '';''}" for c
  proof -
    assume "c \<in> set s"
    then have "interface_char c \<or> c = CHR ''@'' \<or> c = CHR ''/''"
      using assms by (auto simp: list_all_iff component_char_def)
    moreover have "CHR ''@'' \<notin> {dquote, newline, CHR ''{'', CHR ''}'', CHR '';''}"
      "CHR ''/'' \<notin> {dquote, newline, CHR ''{'', CHR ''}'', CHR '';''}"
      by code_simp+
    ultimately show ?thesis using safe_char_facts [of c] by auto
  qed
  show ?thesis
    unfolding structure_counts_def by (auto intro!: count_list_safe dest: ne)
qed

lemma structure_counts_dec: "structure_counts (dec n) = [0, 0, 0, 0, 0]"
proof (rule structure_counts_safe)
  show "list_all (\<lambda>c. component_char c \<or> c = CHR ''/'') (dec n)"
    by (auto simp: list_all_iff component_char_def interface_char_def is_alnum_def dest: dec_digits)
qed

text \<open>The fixed parts of the text, between the level, the cgroup and the interface.\<close>

definition split_text_parts :: "string list" where
  "split_text_parts =
     [unlines [''table inet varmlen_split {'', ''  chain mark_output {'',
               ''    type route hook output priority mangle; policy accept;'']
        @ ''    socket cgroupv2 level '',
      '' '' @ [dquote],
      dquote # unlines ['' meta mark set 0x2025'', ''    meta mark 0x2025 ct mark set meta mark'', ''  }'',
                        ''  chain nat_postrouting {'',
                        ''    type nat hook postrouting priority srcnat; policy accept;'']
        @ ''    meta mark 0x2025 oifname '' @ [dquote],
      dquote # unlines ['' masquerade'', ''  }'', ''}'']]"

lemma split_text_eq:
  "unlines (split_rule_lines level cg i) =
     split_text_parts ! 0 @ dec level @ split_text_parts ! 1 @ cg @ split_text_parts ! 2 @ i
     @ split_text_parts ! 3"
  by (simp add: split_text_parts_def split_rule_lines_def unlines_def quoted_def)

lemma split_text_counts:
  "map structure_counts split_text_parts =
     [[0, 3, 2, 0, 2], [1, 0, 0, 0, 0], [2, 5, 1, 1, 2], [1, 3, 0, 2, 0]]"
  by code_simp

lemma structure_counts_rules:
  assumes "structure_counts cg = [0, 0, 0, 0, 0]" and "structure_counts i = [0, 0, 0, 0, 0]"
  shows "structure_counts (unlines (split_rule_lines level cg i)) = [4, 11, 3, 3, 4]"
proof -
  have "structure_counts (split_text_parts ! k) = map structure_counts split_text_parts ! k"
    if "k < length split_text_parts" for k
    using that by (simp only: nth_map)
  moreover have "length split_text_parts = 4" by (simp add: split_text_parts_def)
  ultimately have parts: "structure_counts (split_text_parts ! 0) = [0, 3, 2, 0, 2]"
    "structure_counts (split_text_parts ! 1) = [1, 0, 0, 0, 0]"
    "structure_counts (split_text_parts ! 2) = [2, 5, 1, 1, 2]"
    "structure_counts (split_text_parts ! 3) = [1, 3, 0, 2, 0]"
    by (simp_all add: split_text_counts)
  show ?thesis
    unfolding split_text_eq structure_counts_append parts assms structure_counts_dec by simp
qed

lemma rendered_structure:
  assumes "parse_default_route line = Some route" and "render_split_rules cg route = Ok rules"
  shows "structure_counts rules = [4, 11, 3, 3, 4]"
proof -
  have "structure_counts cg = [0, 0, 0, 0, 0]"
    by (rule structure_counts_safe [OF render_split_rules_Ok(1) [OF assms(2)]])
  moreover have "structure_counts (pr_interface route) = [0, 0, 0, 0, 0]"
    using parse_default_route_Some(3) [OF assms(1)]
    by (intro structure_counts_safe) (auto simp: list_all_iff component_char_def)
  ultimately show ?thesis
    unfolding render_split_rules_Ok(2) [OF assms(2)] by (rule structure_counts_rules)
qed

end
