(* ===== verification/Split_Reconcile.thy ===== *)
theory Split_Reconcile
  imports Split_Routing "HOL-Library.AList"
begin

text \<open>
  What \<open>daemon/src/split/process.rs\<close> and \<open>daemon/src/split/cgroup.rs\<close> read and write, and the
  pass over the process tree of \<open>daemon/src/split/system.rs\<close>: processes a rule names are moved
  into the bypass cgroup, and processes whose rule is gone are taken out with everything below
  them.
\<close>

section \<open>Processes\<close>

definition proc_file :: "nat \<Rightarrow> string \<Rightarrow> string" where
  "proc_file pid name = ''/proc/'' @ dec pid @ ''/'' @ name"

definition read_or :: "split_error \<Rightarrow> os \<Rightarrow> call \<Rightarrow> (trace, split_error + string) io" where
  "read_or e os c = map_io (map_err (\<lambda>_. e)) (ask_text os c)"

definition real_uid :: "os \<Rightarrow> nat \<Rightarrow> (trace, split_error + nat) io" where
  "real_uid os pid =
     map_io (\<lambda>r. try_then r (\<lambda>status. ok_or ReconciliationFailed (parse_real_uid status)))
       (read_or ReconciliationFailed os (ReadFile (proc_file pid ''status'')))"

definition process_cgroup :: "os \<Rightarrow> nat \<Rightarrow> (trace, split_error + string) io" where
  "process_cgroup os pid =
     map_io (\<lambda>r. try_then r (\<lambda>raw. Ok (cgroup_from_raw raw)))
       (read_or ReconciliationFailed os (ReadFile (proc_file pid ''cgroup'')))"

definition snapshot :: "os \<Rightarrow> nat \<Rightarrow> (trace, split_error + process_snapshot) io" where
  "snapshot os pid =
     try_io (read_or ReconciliationFailed os (ReadFile (proc_file pid ''comm''))) (\<lambda>comm.
     try_io (read_or ReconciliationFailed os (ReadLink (proc_file pid ''exe''))) (\<lambda>exe.
     try_io (read_or ReconciliationFailed os (ReadFile (proc_file pid ''cmdline''))) (\<lambda>cmdline.
     then_io (read_or ReconciliationFailed os (ReadFile (proc_file pid ''cgroup''))) (\<lambda>cg.
       return_io (snapshot_of (Some comm) (Some exe) (Some cmdline) (res_ok cg))))))"

text \<open>
  \<open>mark_existing_sockets\<close>: one descriptor of the process; whether it was a socket that is
  now marked.
\<close>

definition mark_one_fd :: "os \<Rightarrow> nat \<Rightarrow> u32 \<Rightarrow> nat \<Rightarrow> (trace, split_error + bool) io" where
  "mark_one_fd os pidfd mark fd =
     then_io (ask_number os (PidfdGetfd pidfd fd)) (\<lambda>r. case r of
       Inl e \<Rightarrow> return_io (if is_transient_fd_error (if errno e = 0 then None else Some (int (errno e)))
                          then Ok False else Err ReconciliationFailed)
     | Inr dup \<Rightarrow>
         then_io (do_call os (IsSocket dup)) (\<lambda>is_socket.
         if is_err is_socket then then_io (ask os (CloseFd dup)) (\<lambda>_. return_io (Ok False))
         else then_io (do_call os (SetSocketMark dup mark)) (\<lambda>set.
              then_io (ask os (CloseFd dup)) (\<lambda>_.
              return_io (if is_err set then Err ReconciliationFailed else Ok True)))))"

fun mark_fds :: "os \<Rightarrow> nat \<Rightarrow> u32 \<Rightarrow> string list \<Rightarrow> nat \<Rightarrow> (trace, split_error + nat) io" where
  "mark_fds os pidfd mark [] marked = return_io (Ok marked)"
| "mark_fds os pidfd mark (name # names) marked =
     (case fd_number name of
        None \<Rightarrow> mark_fds os pidfd mark names marked
      | Some fd \<Rightarrow> try_io (mark_one_fd os pidfd mark fd) (\<lambda>m.
                    mark_fds os pidfd mark names (if m then marked + 1 else marked)))"

definition mark_existing_sockets :: "os \<Rightarrow> nat \<Rightarrow> u32 \<Rightarrow> (trace, split_error + nat) io" where
  "mark_existing_sockets os pid mark =
     then_io (ask_number os (PidfdOpen pid)) (\<lambda>r. case r of
       Inl _ \<Rightarrow> return_io (Err ReconciliationFailed)
     | Inr pidfd \<Rightarrow>
         then_io (try_io (map_io (map_err (\<lambda>_. ReconciliationFailed))
                           (ask_names os (ReadDir (''/proc/'' @ dec pid @ ''/fd''))))
                   (\<lambda>names. mark_fds os pidfd mark names 0)) (\<lambda>result.
         then_io (ask os (CloseFd pidfd)) (\<lambda>_. return_io result)))"

section \<open>The bypass cgroup\<close>

record bypass_cgroup =
  bc_owner_uid :: nat
  bc_path :: string
  bc_directory :: nat

definition CGROUP2_SUPER_MAGIC :: nat where "CGROUP2_SUPER_MAGIC = 0x63677270"

definition create_real_directory :: "os \<Rightarrow> string \<Rightarrow> (trace, split_error + unit) io" where
  "create_real_directory os path =
     then_io (ask_meta os (Lstat path)) (\<lambda>r. case r of
       Inr md \<Rightarrow> return_io (if md_is_dir md then Ok () else Err CgroupUnavailable)
     | Inl e \<Rightarrow> if int (errno e) = ENOENT
               then map_io (map_err (\<lambda>_. CgroupUnavailable)) (do_call os (MakeDir path))
               else return_io (Err CgroupUnavailable))"

definition verify_cgroup2 :: "os \<Rightarrow> nat \<Rightarrow> (trace, split_error + unit) io" where
  "verify_cgroup2 os fd =
     map_io (\<lambda>r. if r = Inr CGROUP2_SUPER_MAGIC then Ok () else Err CgroupUnavailable)
       (ask_number os (StatFs fd))"

definition bypass_create :: "os \<Rightarrow> nat \<Rightarrow> (trace, split_error + bypass_cgroup) io" where
  "bypass_create os owner_uid =
     (if owner_uid = 0 then return_io (Err CgroupUnavailable)
      else then_io (ask_flag os (IsFile ''/sys/fs/cgroup/cgroup.controllers'')) (\<lambda>present.
        if \<not> present then return_io (Err CgroupUnavailable)
        else
          let root = ''/sys/fs/cgroup/varmlen'';
              user = root @ ''/user-'' @ dec owner_uid;
              bypass = user @ ''/bypass'' in
          try_io (all_ok (map (create_real_directory os) [root, user, bypass])) (\<lambda>_.
          try_io (map_io (map_err (\<lambda>_. CgroupUnavailable)) (ask_number os (OpenDir bypass))) (\<lambda>fd.
          try_io (verify_cgroup2 os fd) (\<lambda>_.
          return_io (Ok \<lparr>bc_owner_uid = owner_uid, bc_path = bypass, bc_directory = fd\<rparr>))))))"

definition cgroup_root :: string where "cgroup_root = ''/sys/fs/cgroup''"

definition trim_slashes :: "string \<Rightarrow> string" where
  "trim_slashes s = dropWhile (\<lambda>c. c = slash) s"

definition relative_path :: "bypass_cgroup \<Rightarrow> string" where
  "relative_path cg = trim_slashes (drop (length cgroup_root) (bc_path cg))"

definition procs_path :: "bypass_cgroup \<Rightarrow> string" where
  "procs_path cg = bc_path cg @ ''/cgroup.procs''"

definition contains_pid :: "os \<Rightarrow> bypass_cgroup \<Rightarrow> nat \<Rightarrow> (trace, bool) io" where
  "contains_pid os cg pid =
     map_io (\<lambda>r. case r of Inl _ \<Rightarrow> False
                        | Inr path \<Rightarrow> trim_slashes path = trim_slashes (relative_path cg))
       (process_cgroup os pid)"

definition member_pids :: "os \<Rightarrow> bypass_cgroup \<Rightarrow> (trace, nat list) io" where
  "member_pids os cg =
     map_io (\<lambda>r. case r of Inl _ \<Rightarrow> []
                        | Inr text \<Rightarrow> List.map_filter (\<lambda>l. parse_u32 (trim l)) (str_lines text))
       (ask_text os (ReadFile (procs_path cg)))"

definition move_pid_to :: "os \<Rightarrow> bypass_cgroup \<Rightarrow> string \<Rightarrow> nat \<Rightarrow> (trace, split_error + unit) io" where
  "move_pid_to os cg procs pid =
     try_io (real_uid os pid) (\<lambda>uid.
       if uid \<noteq> bc_owner_uid cg then return_io (Err ReconciliationFailed)
       else map_io (map_err (\<lambda>_. ReconciliationFailed)) (do_call os (WriteExisting procs (dec pid))))"

definition move_pid :: "os \<Rightarrow> bypass_cgroup \<Rightarrow> nat \<Rightarrow> (trace, split_error + unit) io" where
  "move_pid os cg pid = move_pid_to os cg (procs_path cg) pid"

text \<open>The parent of a path that has neither repeated nor trailing slashes.\<close>

definition path_parent :: "string \<Rightarrow> string option" where
  "path_parent p =
     (case rsplit_once slash p of
        None \<Rightarrow> if p = [] then None else Some []
      | Some (d, f) \<Rightarrow> if f = [] then None else Some (if d = [] then [slash] else d))"

definition move_out :: "os \<Rightarrow> bypass_cgroup \<Rightarrow> nat \<Rightarrow> (trace, split_error + unit) io" where
  "move_out os cg pid =
     (let tunneled = (case path_parent (bc_path cg) of None \<Rightarrow> bc_path cg | Some p \<Rightarrow> p) @ ''/tunneled'' in
      try_io (create_real_directory os tunneled) (\<lambda>_.
      move_pid_to os cg (tunneled @ ''/cgroup.procs'') pid))"

section \<open>The process tree\<close>

text \<open>
  \<open>HashMap<u32, Vec<u32>>\<close> from a process to its children, kept as the list of the entries
  pushed: the children of a process are its entries, in order.
\<close>

type_synonym process_tree = "(nat \<times> nat) list"

definition tree_children :: "process_tree \<Rightarrow> nat \<Rightarrow> nat list" where
  "tree_children tree p = map snd (filter (\<lambda>e. fst e = p) tree)"

definition parse_ppid :: "string \<Rightarrow> nat option" where
  "parse_ppid status =
     Option.bind (find_map (strip_prefix ''PPid:'') (str_lines status)) (\<lambda>v. parse_u32 (trim v))"

definition tree_entry :: "os \<Rightarrow> nat \<Rightarrow> string \<Rightarrow> (trace, (nat \<times> nat) option) io" where
  "tree_entry os owner_uid name =
     (case parse_u32 name of
        None \<Rightarrow> return_io None
      | Some pid \<Rightarrow>
          then_io (real_uid os pid) (\<lambda>uid.
            if uid \<noteq> Inr owner_uid then return_io None
            else map_io (\<lambda>r. case r of Inl _ \<Rightarrow> None
                                  | Inr status \<Rightarrow> map_option (\<lambda>pp. (pp, pid)) (parse_ppid status))
                   (ask_text os (ReadFile (proc_file pid ''status'')))))"

definition process_tree :: "os \<Rightarrow> nat \<Rightarrow> (trace, process_tree) io" where
  "process_tree os owner_uid =
     then_io (ask_names os (ReadDir ''/proc'')) (\<lambda>r. case r of
       Inl _ \<Rightarrow> return_io []
     | Inr names \<Rightarrow>
         fold_io (\<lambda>name tree. map_io (\<lambda>e. case e of None \<Rightarrow> tree | Some p \<Rightarrow> tree @ [p])
                    (tree_entry os owner_uid name)) names [])"

fun visit_children :: "nat list \<Rightarrow> nat list \<Rightarrow> nat list \<Rightarrow> nat list \<times> nat list" where
  "visit_children [] found queue = (found, queue)"
| "visit_children (c # cs) found queue =
     (if c \<in> set found then visit_children cs found queue
      else visit_children cs (found @ [c]) (queue @ [c]))"

lemma visit_children_set:
  "visit_children cs found queue = (f, q) \<Longrightarrow>
   set f = set found \<union> set cs \<and> set q = set queue \<union> (set cs - set found)
   \<and> (distinct found \<longrightarrow> distinct f)
   \<and> length q = length queue + card (set cs - set found)"
proof (induction cs arbitrary: found queue)
  case Nil
  then show ?case by simp
next
  case (Cons c cs)
  show ?case
  proof (cases "c \<in> set found")
    case True
    then have "set (c # cs) - set found = set cs - set found" by auto
    with True Cons show ?thesis by (auto simp: insert_absorb)
  next
    case False
    have "set (c # cs) - set found = insert c (set cs - set (found @ [c]))" using False by auto
    moreover have "card (insert c (set cs - set (found @ [c]))) = Suc (card (set cs - set (found @ [c])))"
      by (rule card_insert_disjoint) auto
    moreover note Cons.IH [of "found @ [c]" "queue @ [c]"]
    ultimately show ?thesis using False Cons.prems by auto
  qed
qed

lemma tree_children_sub: "set (tree_children tree p) \<subseteq> snd ` set tree"
  by (auto simp: tree_children_def)

function subtree_loop :: "process_tree \<Rightarrow> nat list \<Rightarrow> nat list \<Rightarrow> nat list" where
  "subtree_loop tree found queue =
     (if queue = [] then found
      else case visit_children (tree_children tree (last queue)) found (butlast queue) of
        (found', queue') \<Rightarrow> subtree_loop tree found' queue')"
  by pat_completeness auto

termination
proof (relation "measure (\<lambda>(tree, found, queue). 2 * card (snd ` set tree - set found) + length queue)")
  fix tree found queue found' queue'
  assume ne: "queue \<noteq> []"
    and eq: "(found', queue') = visit_children (tree_children tree (last queue)) found (butlast queue)"
  let ?cs = "set (tree_children tree (last queue))" and ?N = "snd ` set tree"
  have "visit_children (tree_children tree (last queue)) found (butlast queue) = (found', queue')"
    using eq by simp
  from visit_children_set [OF this] have v: "set found' = set found \<union> ?cs"
    "length queue' = length (butlast queue) + card (?cs - set found)" by simp_all
  have sub: "?cs \<subseteq> ?N" by (rule tree_children_sub)
  have split: "?N - set found = (?N - set found') \<union> (?cs - set found)" using v(1) sub by auto
  have "card (?N - set found) = card (?N - set found') + card (?cs - set found)"
    unfolding split by (rule card_Un_disjoint) (use v(1) in auto)
  then show "((tree, found', queue'), (tree, found, queue)) \<in>
      measure (\<lambda>(tree, found, queue). 2 * card (snd ` set tree - set found) + length queue)"
    using ne v(2) by (cases queue rule: rev_cases) auto
qed simp

declare subtree_loop.simps [simp del]

definition subtree :: "process_tree \<Rightarrow> nat \<Rightarrow> nat list" where
  "subtree tree root = subtree_loop tree [root] [root]"

section \<open>One pass\<close>

text \<open>Rules are compared as the derived equality does: paths by their components.\<close>

fun selector_eq :: "app_selector \<Rightarrow> app_selector \<Rightarrow> bool" where
  "selector_eq (ExactPath a) (ExactPath b) = path_eq a b"
| "selector_eq (ProcessName a) (ProcessName b) = (a = b)"
| "selector_eq _ _ = False"

type_synonym owned = "(nat \<times> app_selector) list"

definition MAX_OWNED_PIDS :: nat where "MAX_OWNED_PIDS = 8192"

definition remember :: "nat \<Rightarrow> app_selector \<Rightarrow> owned \<Rightarrow> owned" where
  "remember pid sel owned =
     (if length owned < MAX_OWNED_PIDS then AList.update pid sel owned else owned)"

definition names_process :: "process_snapshot \<Rightarrow> app_selector \<Rightarrow> bool" where
  "names_process p sel = (selector_matches_process sel p \<or> matched_application_id sel p \<noteq> None)"

definition reconcile_candidate ::
    "os \<Rightarrow> bypass_cgroup \<Rightarrow> nat \<Rightarrow> app_selector list \<Rightarrow> nat \<Rightarrow> (trace, app_selector option) io" where
  "reconcile_candidate os cg owner_uid sels pid =
     then_io (real_uid os pid) (\<lambda>uid.
       if uid \<noteq> Inr owner_uid then return_io None
       else then_io (contains_pid os cg pid) (\<lambda>inside.
         if inside then return_io None
         else map_io (\<lambda>r. case r of Inl _ \<Rightarrow> None | Inr p \<Rightarrow> List.find (names_process p) sels)
                (snapshot os pid)))"

fun reconcile_moves ::
    "os \<Rightarrow> bypass_cgroup \<Rightarrow> nat \<Rightarrow> app_selector list \<Rightarrow> string list \<Rightarrow> (owned, split_error + unit) sys" where
  "reconcile_moves os cg owner_uid sels [] = return_io (Ok ())"
| "reconcile_moves os cg owner_uid sels (name # names) =
     (case parse_u32 name of
        None \<Rightarrow> reconcile_moves os cg owner_uid sels names
      | Some pid \<Rightarrow>
          then_io (lift_os (reconcile_candidate os cg owner_uid sels pid)) (\<lambda>c. case c of
            None \<Rightarrow> reconcile_moves os cg owner_uid sels names
          | Some sel \<Rightarrow>
              try_io (lift_os (move_pid os cg pid)) (\<lambda>_.
              then_io (lift_os (mark_existing_sockets os pid BYPASS_MARK)) (\<lambda>_.
              then_io (modify_st (remember pid sel)) (\<lambda>_.
              reconcile_moves os cg owner_uid sels names)))))"

definition attribute_member :: "os \<Rightarrow> app_selector list \<Rightarrow> nat \<Rightarrow> (owned, unit) sys" where
  "attribute_member os sels pid =
     then_io (lift_os (snapshot os pid)) (\<lambda>r. case r of
       Inl _ \<Rightarrow> return_io ()
     | Inr p \<Rightarrow> (case List.find (\<lambda>sel. selector_matches_process sel p) sels of
         None \<Rightarrow> return_io ()
       | Some sel \<Rightarrow> modify_st (remember pid sel)))"

definition release_one :: "os \<Rightarrow> bypass_cgroup \<Rightarrow> nat list \<Rightarrow> nat \<Rightarrow> (owned, unit) sys" where
  "release_one os cg members pid =
     then_io (if pid \<in> set members then map_io (\<lambda>_. ()) (lift_os (move_out os cg pid))
              else return_io ()) (\<lambda>_.
     modify_st (AList.delete pid))"

definition stale_pids :: "app_selector list \<Rightarrow> owned \<Rightarrow> nat list" where
  "stale_pids sels owned =
     map fst (filter (\<lambda>(pid, sel). \<not> list_ex (selector_eq sel) sels) owned)"

definition reconcile_with ::
    "os \<Rightarrow> bypass_cgroup \<Rightarrow> nat \<Rightarrow> app_selector list \<Rightarrow> (owned, split_error + unit) sys" where
  "reconcile_with os cg owner_uid sels =
     then_io (lift_os (ask_names os (ReadDir ''/proc''))) (\<lambda>r. case r of
       Inl _ \<Rightarrow> return_io (Err ReconciliationFailed)
     | Inr names \<Rightarrow>
         try_io (reconcile_moves os cg owner_uid sels names) (\<lambda>_.
         then_io (lift_os (member_pids os cg)) (\<lambda>members.
         then_io (modify_st (filter (\<lambda>e. fst e \<in> set members))) (\<lambda>_.
         then_io get_st (\<lambda>owned.
         then_io (ignore_all (map (attribute_member os sels)
                    (filter (\<lambda>pid. map_of owned pid = None) members))) (\<lambda>_.
         then_io get_st (\<lambda>owned.
         let stale = stale_pids sels owned in
         if stale = [] then return_io (Ok ())
         else then_io (lift_os (process_tree os owner_uid)) (\<lambda>tree.
              then_io (ignore_all (map (release_one os cg members)
                         (concat (map (subtree tree) stale)))) (\<lambda>_.
              return_io (Ok ()))))))))))"

end
