(* ===== verification/State_Store.thy ===== *)
theory State_Store
  imports Split_Reconcile
begin

text \<open>
  \<open>daemon/src/state.rs\<close> and the process identity of \<open>daemon/src/recovery.rs\<close>: the small
  state file the daemon leaves for its next start, replaced atomically, and how a process is
  recognised across a restart.  The JSON form of the state is serde's: the theory is
  parameterised by the two conversions.
\<close>

section \<open>Process identity\<close>

record process_identity =
  pi_pid :: nat
  pi_start_time_ticks :: nat
  pi_executable :: string

definition identity_matches :: "process_identity \<Rightarrow> process_identity \<Rightarrow> bool" where
  "identity_matches a b =
     (pi_pid a = pi_pid b \<and> pi_start_time_ticks a = pi_start_time_ticks b
      \<and> path_eq (pi_executable a) (pi_executable b))"

definition parse_start_time_ticks :: "string \<Rightarrow> nat option" where
  "parse_start_time_ticks stat =
     Option.bind (rsplit_once (CHR '')'') stat) (\<lambda>(_, rest).
       let ws = split_whitespace rest in
       if length ws > 19 then parse_u64 (ws ! 19) else None)"

definition identity_from_pid :: "os \<Rightarrow> nat \<Rightarrow> (trace, string + process_identity) io" where
  "identity_from_pid os pid =
     try_io (map_io (map_err (\<lambda>e. ''read process stat: '' @ err_text e))
               (ask_text os (ReadFile (proc_file pid ''stat'')))) (\<lambda>stat.
     case parse_start_time_ticks stat of
       None \<Rightarrow> return_io (Err ''invalid process stat'')
     | Some ticks \<Rightarrow>
         try_io (map_io (map_err (\<lambda>e. ''read process executable: '' @ err_text e))
                   (ask_text os (ReadLink (proc_file pid ''exe'')))) (\<lambda>exe.
         return_io (Ok \<lparr>pi_pid = pid, pi_start_time_ticks = ticks, pi_executable = exe\<rparr>)))"

section \<open>The state file\<close>

definition STATE_VERSION :: nat where "STATE_VERSION = 1"
definition MAX_STATE_BYTES :: nat where "MAX_STATE_BYTES = 1024 * 1024"

record persisted_state =
  pst_version :: nat
  pst_owner_uid :: nat
  pst_phase :: connection_phase
  pst_xray :: "process_identity option"

definition new_persisted_state :: "nat \<Rightarrow> connection_phase \<Rightarrow> persisted_state" where
  "new_persisted_state uid p =
     \<lparr>pst_version = STATE_VERSION, pst_owner_uid = uid, pst_phase = p, pst_xray = None\<rparr>"

datatype io_error = Io_Os os_error | Io_Invalid_Data string | Io_Invalid_Input string

fun io_error_text :: "io_error \<Rightarrow> string" where
  "io_error_text (Io_Os e) = err_text e"
| "io_error_text (Io_Invalid_Data m) = m"
| "io_error_text (Io_Invalid_Input m) = m"

definition os_io :: "(trace, os_error + 'a) io \<Rightarrow> (trace, io_error + 'a) io" where
  "os_io m = map_io (map_err Io_Os) m"

definition state_read ::
    "os \<Rightarrow> (string \<Rightarrow> string + persisted_state) \<Rightarrow> string \<Rightarrow> (trace, io_error + persisted_state option) io" where
  "state_read os de path =
     then_io (ask_number os (OpenRead path)) (\<lambda>opened. case opened of
       Inl e \<Rightarrow> return_io (if int (errno e) = ENOENT then Ok None else Err (Io_Os e))
     | Inr fd \<Rightarrow>
         try_io (os_io (ask_number os (FileLen fd))) (\<lambda>len.
         if len > MAX_STATE_BYTES
         then return_io (Err (Io_Invalid_Data ''Varmlen state file is too large''))
         else try_io (os_io (ask_text os (ReadUpTo fd (MAX_STATE_BYTES + 1)))) (\<lambda>bytes.
         return_io
           (if length bytes > MAX_STATE_BYTES
            then Err (Io_Invalid_Data ''Varmlen state file is too large'')
            else try_then (map_err Io_Invalid_Data (de bytes)) (\<lambda>state.
              if pst_version state \<noteq> STATE_VERSION
              then Err (Io_Invalid_Data ''unsupported Varmlen state version'')
              else Ok (Some state))))))"

text \<open>
  Create a file of that name exclusively, write the content and sync it.  The content is
  computed after the file exists, as the code does.
\<close>

definition write_new :: "os \<Rightarrow> string \<Rightarrow> io_error + string \<Rightarrow> (trace, io_error + unit) io" where
  "write_new os temporary content =
     try_io (os_io (do_call os (CreateNew temporary))) (\<lambda>_.
     try_io (return_io content) (\<lambda>bytes.
     try_io (os_io (do_call os (WriteAll temporary bytes))) (\<lambda>_.
     os_io (do_call os (SyncFile temporary)))))"

definition replace_file ::
    "os \<Rightarrow> string \<Rightarrow> string \<Rightarrow> io_error + string \<Rightarrow> (trace, io_error + unit) io \<Rightarrow> (trace, io_error + unit) io" where
  "replace_file os temporary path content finish =
     then_io (try_io (write_new os temporary content) (\<lambda>_.
              try_io (os_io (do_call os (Rename temporary path))) (\<lambda>_. finish))) (\<lambda>r.
       if is_err r then then_io (ask os (RemoveFile temporary)) (\<lambda>_. return_io r)
       else return_io r)"

definition temporary_path :: "nat \<Rightarrow> nat \<Rightarrow> string \<Rightarrow> string" where
  "temporary_path pid counter parent =
     parent @ ''/.state-'' @ dec pid @ ''-'' @ dec counter @ ''.tmp''"

definition is_symlink :: "os_error + metadata \<Rightarrow> bool" where
  "is_symlink r = (case r of Inl _ \<Rightarrow> False | Inr md \<Rightarrow> md_is_symlink md)"

definition state_write ::
    "os \<Rightarrow> (persisted_state \<Rightarrow> string + string) \<Rightarrow> nat \<Rightarrow> nat \<Rightarrow> string \<Rightarrow> persisted_state
     \<Rightarrow> (trace, io_error + unit) io" where
  "state_write os ser pid counter path state =
     (if pst_version state \<noteq> STATE_VERSION
      then return_io (Err (Io_Invalid_Input ''unsupported Varmlen state version''))
      else then_io (ask_meta os (Lstat path)) (\<lambda>md.
        if is_symlink md
        then return_io (Err (Io_Invalid_Input ''state destination must not be a symlink''))
        else case path_parent path of
          None \<Rightarrow> return_io (Err (Io_Invalid_Input ''state path has no parent''))
        | Some parent \<Rightarrow>
            replace_file os (temporary_path pid counter parent) path
              (map_err Io_Invalid_Data (ser state)) (os_io (do_call os (SyncDir parent)))))"

section \<open>What a read gives\<close>

lemma state_read_Some:
  assumes "state_read os de path tr = (Inr (Some st), tr')"
  shows "pst_version st = STATE_VERSION"
    and "\<exists>bytes. length bytes \<le> MAX_STATE_BYTES \<and> de bytes = Inr st"
  using assms unfolding state_read_def os_io_def map_io_def try_io_def then_io_def
  by (auto simp: try_then_eq_Inr not_less split: prod.splits sum.splits if_splits)

text \<open>
  The history when a file was replaced: the rename is reached only over the complete and
  synced temporary file, and when it is not reached the temporary file is removed.
\<close>

definition complete_write :: "string \<Rightarrow> string \<Rightarrow> trace \<Rightarrow> bool" where
  "complete_write temporary bytes tr \<longleftrightarrow>
     (\<exists>rest. tr = (SyncFile temporary, Done) # (WriteAll temporary bytes, Done)
                  # (CreateNew temporary, Done) # rest)"

lemma do_call_eq:
  "do_call os c tr =
     (if os tr c = Done then Inr () else Inl (failure_of (os tr c)), (c, os tr c) # tr)"
  by (auto simp: do_call_def ask_as_def ask_def Let_def split: option.splits)

lemma write_new_ok:
  assumes "write_new os t content tr = (Inr u, tr')"
  obtains bytes where "content = Inr bytes" and "complete_write t bytes tr'"
  using assms unfolding write_new_def os_io_def map_io_def try_io_def complete_write_def
  by (auto simp: do_call_eq split: sum.splits if_splits)

fun renames_complete :: "string \<Rightarrow> io_error + string \<Rightarrow> trace \<Rightarrow> bool" where
  "renames_complete path content [] = True"
| "renames_complete path content ((c, r) # tr) =
     (renames_complete path content tr
      \<and> (\<forall>t. c = Rename t path \<longrightarrow> (\<exists>bytes. content = Inr bytes \<and> complete_write t bytes tr)))"

lemma keeps_renames:
  "calls_only (\<lambda>c. \<forall>t. c \<noteq> Rename t path) m \<Longrightarrow> keeps (renames_complete path content) m"
  by (erule keeps_calls_only) auto

lemma calls_only_os_io [calls_intro]: "calls_only P m \<Longrightarrow> calls_only P (os_io m)"
  unfolding os_io_def by (intro calls_intro)

lemma calls_only_write_new [calls_intro]:
  "P (CreateNew t) \<Longrightarrow> (\<And>b. P (WriteAll t b)) \<Longrightarrow> P (SyncFile t) \<Longrightarrow> calls_only P (write_new os t content)"
  unfolding write_new_def by (auto intro!: calls_intro)

lemma replace_file_renames:
  assumes fin: "calls_only (\<lambda>c. \<forall>t. c \<noteq> Rename t path) finish"
  shows "keeps (renames_complete path content) (replace_file os t path content finish)"
  unfolding keeps_def
proof (intro allI impI)
  fix tr assume ok: "renames_complete path content tr"
  obtain r tr1 where w: "write_new os t content tr = (r, tr1)" by fastforce
  have ok1: "renames_complete path content tr1"
    by (rule keepsD [of _ "write_new os t content", OF keeps_renames w ok]) (auto intro!: calls_intro)
  have rm: "renames_complete path content ((RemoveFile t, a) # tr2)"
    if "renames_complete path content tr2" for a tr2
    using that by simp
  show "renames_complete path content (snd (replace_file os t path content finish tr))"
  proof (cases r)
    case (Inl e)
    then show ?thesis
      using w ok1 by (simp add: replace_file_def then_io_def try_io_def ask_def Let_def)
  next
    case (Inr u)
    let ?tr2 = "(Rename t path, os tr1 (Rename t path)) # tr1"
    obtain bytes where "content = Inr bytes" "complete_write t bytes tr1"
      by (rule write_new_ok [OF w [unfolded Inr]])
    then have ok2: "renames_complete path content ?tr2" using ok1 by auto
    obtain f tr3 where f: "finish ?tr2 = (f, tr3)" by fastforce
    have ok3: "renames_complete path content tr3" by (rule keepsD [of _ finish, OF keeps_renames [OF fin] f ok2])
    show ?thesis
      using w Inr ok2 f ok3
      by (auto simp: replace_file_def then_io_def try_io_def ask_def Let_def os_io_def map_io_def do_call_eq
            split: sum.splits)
  qed
qed

lemma state_write_renames:
  "keeps (renames_complete path (map_err Io_Invalid_Data (ser st))) (state_write os ser pid n path st)"
proof -
  have "keeps (renames_complete path (map_err Io_Invalid_Data (ser st))) (ask_meta os (Lstat path))"
    by (rule keeps_renames) (auto intro!: calls_intro)
  then show ?thesis
    unfolding state_write_def
    by (auto intro!: keeps_intro replace_file_renames calls_intro)
qed

section \<open>Identity\<close>

lemma identity_from_pid_calls [calls_intro]:
  "P (ReadFile (proc_file pid ''stat'')) \<Longrightarrow> P (ReadLink (proc_file pid ''exe'')) \<Longrightarrow>
   calls_only P (identity_from_pid os pid)"
  unfolding identity_from_pid_def by (auto intro!: calls_intro)

lemma identity_from_pid_Inr:
  assumes "identity_from_pid os pid tr = (Inr i, tr')"
  shows "pi_pid i = pid"
    and "\<exists>stat. tr' = (ReadLink (proc_file pid ''exe''), Text (pi_executable i))
            # (ReadFile (proc_file pid ''stat''), Text stat) # tr
          \<and> parse_start_time_ticks stat = Some (pi_start_time_ticks i)"
  using assms unfolding identity_from_pid_def
  by (auto simp: try_io_def map_io_def ask_text_def ask_as_def ask_def Let_def
        split: prod.splits sum.splits option.splits)

end
