(* ===== verification/Split_Watcher.thy ===== *)
theory Split_Watcher
  imports Split_Reconcile
begin

text \<open>
  \<open>daemon/src/split/watcher.rs\<close>: the fanotify marks that make the kernel ask before a named
  application runs, and the thread that answers.  An application of the owner that a rule
  names runs only once it is in the bypass cgroup.
\<close>

section \<open>Marks\<close>

text \<open>\<open>str::replace(from, to)\<close> for a pattern that is not empty.\<close>

function replace_all :: "string \<Rightarrow> string \<Rightarrow> string \<Rightarrow> string" where
  "replace_all pat rep [] = []"
| "replace_all pat rep (c # cs) =
     (if pat \<noteq> [] \<and> starts_with pat (c # cs) then rep @ replace_all pat rep (drop (length pat) (c # cs))
      else c # replace_all pat rep cs)"
  by pat_completeness auto
termination
  by (relation "measure (\<lambda>(pat, rep, s). length s)") (auto simp: neq_Nil_conv less_Suc_eq_le)

definition skipped_file_systems :: "string list" where
  "skipped_file_systems =
     [''proc'', ''sysfs'', ''cgroup2'', ''devpts'', ''mqueue'', ''securityfs'', ''debugfs'', ''tracefs'']"

definition escaped_space :: string where "escaped_space = backslash # ''040''"

definition executable_mount :: "string \<Rightarrow> string option" where
  "executable_mount line =
     Option.bind (split_once_str '' - '' line) (\<lambda>(left, right).
       let ws = split_whitespace left in
       case split_whitespace right of
         [] \<Rightarrow> None
       | fs_type # _ \<Rightarrow>
           if length ws < 6 \<or> ''noexec'' \<in> set (split_on (CHR '','') (ws ! 5))
              \<or> fs_type \<in> set skipped_file_systems
           then None else Some (replace_all escaped_space '' '' (ws ! 4)))"

definition executable_mount_points :: "os \<Rightarrow> (trace, string list) io" where
  "executable_mount_points os =
     map_io (\<lambda>r. case r of
               Inl _ \<Rightarrow> [''/'']
             | Inr mountinfo \<Rightarrow> List.map_filter executable_mount (str_lines mountinfo))
       (ask_text os (ReadFile ''/proc/self/mountinfo''))"

definition is_portable_executable :: "os \<Rightarrow> string \<Rightarrow> (trace, bool) io" where
  "is_portable_executable os path =
     map_io (\<lambda>r. r = Inr ''MZ'') (ask_text os (ReadHead path 2))"

fun is_process_name :: "app_selector \<Rightarrow> bool" where
  "is_process_name (ProcessName _) = True"
| "is_process_name (ExactPath _) = False"

fun mark_selector :: "os \<Rightarrow> app_selector \<Rightarrow> (trace, split_error + unit) io" where
  "mark_selector os (ProcessName _) = return_io (Ok ())"
| "mark_selector os (ExactPath path) =
     try_io (map_io (map_err (\<lambda>_. InvalidApplication path)) (ask_text os (Canonicalize path))) (\<lambda>canonical.
     then_io (is_portable_executable os canonical) (\<lambda>portable.
     map_io (map_err (\<lambda>_. WatcherUnavailable)) (do_call os (FanotifyMark False canonical portable))))"

definition mark_mounts :: "os \<Rightarrow> (trace, split_error + unit) io" where
  "mark_mounts os =
     then_io (executable_mount_points os) (\<lambda>mounts.
     map_io (\<lambda>marked. if marked = (0 :: nat) then Err WatcherUnavailable else Ok ())
       (fold_io (\<lambda>mount n. map_io (\<lambda>r. if is_ok r then n + 1 else n)
                   (do_call os (FanotifyMark True mount False))) mounts 0))"

definition install_marks :: "os \<Rightarrow> app_selector list \<Rightarrow> (trace, split_error + unit) io" where
  "install_marks os selectors =
     try_io (map_io (map_err (\<lambda>_. WatcherUnavailable)) (ask_number os (OpenDir ''/''))) (\<lambda>_.
     try_io (if list_ex is_process_name selectors then mark_mounts os else return_io (Ok ())) (\<lambda>_.
     all_ok (map (mark_selector os) selectors)))"

definition watcher_thread :: string where "watcher_thread = ''varmlen-split-permission''"

definition watcher_start :: "os \<Rightarrow> app_selector list \<Rightarrow> (trace, split_error + unit) io" where
  "watcher_start os selectors =
     try_io (map_io (map_err (\<lambda>_. WatcherUnavailable)) (do_call os FanotifyInit)) (\<lambda>_.
     try_io (install_marks os selectors) (\<lambda>_.
     map_io (map_err (\<lambda>_. WatcherUnavailable)) (do_call os (SpawnThread watcher_thread))))"

text \<open>The flag the thread keeps, and that the thread has not finished.\<close>

definition watcher_healthy :: "os \<Rightarrow> (trace, bool) io" where
  "watcher_healthy os = ask_flag os (ThreadRunning watcher_thread)"

section \<open>The thread\<close>

record fan_event =
  fe_version_ok :: bool
  fe_fd :: "nat option"
  fe_pid :: int

datatype fan_read = Events "fan_event list" | TryAgain | ReadError

definition fd_link :: "nat \<Rightarrow> string" where
  "fd_link fd = ''/proc/self/fd/'' @ dec fd"

text \<open>
  One event, on the pair of the health flag and the history.  The result says whether the
  thread goes on.
\<close>

definition answer_exec ::
    "os \<Rightarrow> nat \<Rightarrow> app_selector list \<Rightarrow> string \<Rightarrow> nat \<Rightarrow> nat \<Rightarrow> (bool, bool) sys" where
  "answer_exec os owner_uid selectors procs fd pid =
     then_io (lift_os (ask_text os (ReadLink (fd_link fd)))) (\<lambda>link.
     then_io (lift_os (real_uid os pid)) (\<lambda>uid.
     then_io (lift_os (snapshot os pid)) (\<lambda>snap.
     let target = (case link of Inl _ \<Rightarrow> [] | Inr t \<Rightarrow> t);
         process_uid = (case uid of Inl _ \<Rightarrow> u32_max | Inr u \<Rightarrow> u);
         process = (case snap of Inl _ \<Rightarrow> empty_snapshot | Inr p \<Rightarrow> p);
         is_match = (process_uid = owner_uid \<and> selected selectors target process) in
     then_io (if is_match then map_io is_ok (lift_os (do_call os (WriteFile procs (dec pid))))
              else return_io True) (\<lambda>moved.
     let allow = (permission_decision process_uid owner_uid target process selectors moved \<noteq> Deny) in
     then_io (if allow then return_io () else modify_st (\<lambda>_. False)) (\<lambda>_.
     then_io (lift_os (do_call os (FanotifyRespond fd allow))) (\<lambda>sent.
     if is_err sent then then_io (modify_st (\<lambda>_. False)) (\<lambda>_. return_io False)
     else return_io True))))))"

definition handle_event ::
    "os \<Rightarrow> nat \<Rightarrow> app_selector list \<Rightarrow> string \<Rightarrow> fan_event \<Rightarrow> (bool, bool) sys" where
  "handle_event os owner_uid selectors procs ev =
     (if \<not> fe_version_ok ev then then_io (modify_st (\<lambda>_. False)) (\<lambda>_. return_io False)
      else case fe_fd ev of
        None \<Rightarrow> then_io (modify_st (\<lambda>_. False)) (\<lambda>_. return_io True)
      | Some fd \<Rightarrow>
          if fe_pid ev < 0
          then then_io (lift_os (ask os (FanotifyRespond fd True))) (\<lambda>_. return_io True)
          else answer_exec os owner_uid selectors procs fd (nat (fe_pid ev)))"

fun handle_events ::
    "os \<Rightarrow> nat \<Rightarrow> app_selector list \<Rightarrow> string \<Rightarrow> fan_event list \<Rightarrow> (bool, bool) sys" where
  "handle_events os owner_uid selectors procs [] = return_io True"
| "handle_events os owner_uid selectors procs (ev # evs) =
     then_io (handle_event os owner_uid selectors procs ev) (\<lambda>go_on.
       if go_on then handle_events os owner_uid selectors procs evs else return_io False)"

text \<open>
  The loop, on what the reads give until the stop flag is set; the list ends where the flag
  is seen.
\<close>

fun run_permission_loop ::
    "os \<Rightarrow> nat \<Rightarrow> app_selector list \<Rightarrow> string \<Rightarrow> fan_read list \<Rightarrow> (bool, unit) sys" where
  "run_permission_loop os owner_uid selectors procs [] = return_io ()"
| "run_permission_loop os owner_uid selectors procs (Events evs # reads) =
     then_io (handle_events os owner_uid selectors procs evs) (\<lambda>go_on.
       if go_on then run_permission_loop os owner_uid selectors procs reads else return_io ())"
| "run_permission_loop os owner_uid selectors procs (TryAgain # reads) =
     then_io (lift_os (ask os (Sleep 20))) (\<lambda>_.
       run_permission_loop os owner_uid selectors procs reads)"
| "run_permission_loop os owner_uid selectors procs (ReadError # reads) = modify_st (\<lambda>_. False)"

section \<open>A named application runs only inside the cgroup\<close>

lemma lift_ask: "lift_os (ask os c) (s, tr) = (os tr c, (s, (c, os tr c) # tr))"
  by (simp add: lift_os_def ask_def Let_def)

lemma lift_do_call:
  "lift_os (do_call os c) (s, tr) =
     ((if os tr c = Done then Inr () else Inl (failure_of (os tr c))), (s, (c, os tr c) # tr))"
  by (auto simp: lift_os_def do_call_def ask_as_def ask_def Let_def split: option.splits)

lemma lift_os_eq: "m tr = (a, tr') \<Longrightarrow> lift_os m (s, tr) = (a, (s, tr'))"
  by (simp add: lift_os_def)

lemma answer_exec_effect:
  assumes l: "ask_text os (ReadLink (fd_link fd)) tr = (link, tr1)"
    and u: "real_uid os pid tr1 = (uid, tr2)" and s: "snapshot os pid tr2 = (snap, tr3)"
    and m: "named \<longleftrightarrow> (case uid of Inl _ \<Rightarrow> u32_max | Inr u \<Rightarrow> u) = owner
        \<and> selected sels (case link of Inl _ \<Rightarrow> [] | Inr t \<Rightarrow> t)
            (case snap of Inl _ \<Rightarrow> empty_snapshot | Inr p \<Rightarrow> p)"
    and tr4: "tr4 = (if named then (WriteFile procs (dec pid), os tr3 (WriteFile procs (dec pid))) # tr3
                     else tr3)"
    and allow: "allow \<longleftrightarrow> (\<not> named \<or> os tr3 (WriteFile procs (dec pid)) = Done)"
    and sent: "sent \<longleftrightarrow> os tr4 (FanotifyRespond fd allow) = Done"
  shows "answer_exec os owner sels procs fd pid (healthy, tr) =
           (sent, (healthy \<and> allow \<and> sent, (FanotifyRespond fd allow, os tr4 (FanotifyRespond fd allow)) # tr4))"
proof -
  have d: "permission_decision pu owner t p sels mv \<noteq> Deny \<longleftrightarrow> \<not> (pu = owner \<and> selected sels t p) \<or> mv"
    for pu t p mv
    by (auto simp: permission_decision_iff)
  show ?thesis
    unfolding answer_exec_def d
    using m tr4 allow sent
    by (cases named)
       (simp_all add: then_io_def map_io_def modify_st_def lift_do_call Let_def
          lift_os_eq [of "ask_text os (ReadLink (fd_link fd))", OF l]
          lift_os_eq [of "real_uid os pid", OF u] lift_os_eq [of "snapshot os pid", OF s])
qed

lemma handle_event_health:
  "handle_event os owner sels procs ev (h, tr) = (go_on, (h', tr')) \<Longrightarrow> h' \<Longrightarrow> h"
  unfolding handle_event_def answer_exec_def
  by (auto simp: then_io_def map_io_def modify_st_def Let_def lift_os_def
        split: prod.splits if_splits option.splits)

lemma handle_events_health:
  "handle_events os owner sels procs evs (h, tr) = (go_on, (h', tr')) \<Longrightarrow> h' \<Longrightarrow> h"
proof (induction evs arbitrary: h tr)
  case Nil
  then show ?case by simp
next
  case (Cons ev evs)
  then show ?case
    by (auto simp: then_io_def split: prod.splits if_splits dest: handle_event_health)
qed

section \<open>Mounts\<close>

lemma executable_mount_Some:
  assumes "executable_mount line = Some m"
  shows "\<exists>left right fs rest. split_once_str '' - '' line = Some (left, right)
    \<and> split_whitespace right = fs # rest \<and> fs \<notin> set skipped_file_systems
    \<and> length (split_whitespace left) \<ge> 6
    \<and> ''noexec'' \<notin> set (split_on (CHR '','') (split_whitespace left ! 5))"
proof -
  obtain left right where lr: "split_once_str '' - '' line = Some (left, right)"
    using assms by (auto simp: executable_mount_def bind_eq_Some_conv)
  then show ?thesis
    using assms by (cases "split_whitespace right") (auto simp: executable_mount_def Let_def split: if_splits)
qed

lemma mark_mounts_ok:
  assumes "mark_mounts os tr = (Inr u, tr')"
  shows "\<exists>mount. (FanotifyMark True mount False, Done) \<in> set tr'"
proof -
  let ?f = "\<lambda>mount (n :: nat). map_io (\<lambda>r. if is_ok r then n + 1 else n)
                   (do_call os (FanotifyMark True mount False))"
  have step: "n < m \<Longrightarrow> \<exists>mount. (FanotifyMark True mount False, Done) \<in> set tr2"
    if "fold_io ?f ms n tr1 = (m, tr2)" for ms n tr1 m tr2
    using that
  proof (induction ms arbitrary: n tr1)
    case Nil
    then show ?case by simp
  next
    case (Cons mo ms)
    let ?c = "FanotifyMark True mo False"
    obtain n1 where st: "?f mo n tr1 = (n1, (?c, os tr1 ?c) # tr1)"
      and n1: "n1 = (if os tr1 ?c = Done then n + 1 else n)"
      by (auto simp: map_io_def do_call_def ask_as_def ask_def Let_def split: option.splits)
    have rest: "fold_io ?f ms n1 ((?c, os tr1 ?c) # tr1) = (m, tr2)"
      using Cons.prems(2) st by (simp add: then_io_def)
    have ext: "extends_by (\<lambda>_. True) ((?c, os tr1 ?c) # tr1) tr2"
      by (rule calls_onlyD [of _ "fold_io ?f ms n1", OF _ rest]) (auto intro!: calls_intro)
    show ?case
    proof (cases "os tr1 ?c = Done")
      case True
      then show ?thesis using ext by (auto simp: extends_by_def)
    next
      case False
      then show ?thesis using Cons.IH [OF _ rest] n1 Cons.prems(1) by simp
    qed
  qed
  obtain mounts tr1 where "executable_mount_points os tr = (mounts, tr1)" by fastforce
  then show ?thesis
    using assms step unfolding mark_mounts_def
    by (auto simp: then_io_def map_io_def [of "\<lambda>marked. if marked = 0 then _ else _"] split: prod.splits if_splits)
qed

end
