(* ===== verification/Split_Reconcile_Props.thy ===== *)
theory Split_Reconcile_Props
  imports Split_Reconcile
begin

text \<open>
  What one pass over the process tree guarantees: the subtree taken out is everything below
  its root, no process of another user is moved, the record of moved processes stays bounded,
  and no record survives the rule it was made for.
\<close>

section \<open>A subtree is what the root reaches\<close>

lemma tree_children_iff: "c \<in> set (tree_children tree p) \<longleftrightarrow> (p, c) \<in> set tree"
  by (force simp: tree_children_def)

definition closed_but :: "process_tree \<Rightarrow> nat list \<Rightarrow> nat list \<Rightarrow> bool" where
  "closed_but tree found queue \<longleftrightarrow>
     (\<forall>p c. p \<in> set found - set queue \<longrightarrow> (p, c) \<in> set tree \<longrightarrow> c \<in> set found)"

lemma subtree_loop_props:
  assumes "distinct found" and "set queue \<subseteq> set found" and "closed_but tree found queue"
    and "\<forall>p \<in> set found. (root, p) \<in> (set tree)\<^sup>*"
  shows "distinct (subtree_loop tree found queue)
    \<and> set found \<subseteq> set (subtree_loop tree found queue)
    \<and> closed_but tree (subtree_loop tree found queue) []
    \<and> (\<forall>p \<in> set (subtree_loop tree found queue). (root, p) \<in> (set tree)\<^sup>*)"
  using assms
proof (induction tree found queue rule: subtree_loop.induct)
  case (1 tree found queue)
  show ?case
  proof (cases "queue = []")
    case True
    then show ?thesis using 1 by (simp add: subtree_loop.simps)
  next
    case False
    let ?cs = "tree_children tree (last queue)"
    obtain f q where v: "visit_children ?cs found (butlast queue) = (f, q)" by fastforce
    have fs: "set f = set found \<union> set ?cs" "set q = set (butlast queue) \<union> (set ?cs - set found)"
      "distinct f"
      using visit_children_set [OF v] "1.prems"(1) by auto
    have lastq: "last queue \<in> set found" using False "1.prems"(2) by auto
    have bl: "set queue = insert (last queue) (set (butlast queue))"
      using False by (metis Un_insert_right append_butlast_last_id list.set(2) set_append set_empty2 sup_bot_right)
    have "closed_but tree f q"
      unfolding closed_but_def
    proof (intro allI impI)
      fix p c assume "p \<in> set f - set q" and e: "(p, c) \<in> set tree"
      then have p: "p \<in> set found" "p \<notin> set (butlast queue)" using fs by auto
      show "c \<in> set f"
      proof (cases "p = last queue")
        case True
        then show ?thesis using e fs by (simp add: tree_children_iff)
      next
        case False
        then have "p \<in> set found - set queue" using p bl by auto
        then show ?thesis using "1.prems"(3) e fs by (auto simp: closed_but_def)
      qed
    qed
    moreover have "set q \<subseteq> set f" using fs "1.prems"(2) bl by auto
    moreover have "\<forall>p \<in> set f. (root, p) \<in> (set tree)\<^sup>*"
      using fs(1) "1.prems"(4) lastq by (auto simp: tree_children_iff intro: rtrancl_into_rtrancl)
    ultimately have "distinct (subtree_loop tree f q) \<and> set f \<subseteq> set (subtree_loop tree f q)
        \<and> closed_but tree (subtree_loop tree f q) []
        \<and> (\<forall>p \<in> set (subtree_loop tree f q). (root, p) \<in> (set tree)\<^sup>*)"
      using "1.IH" [OF False v [symmetric]] fs(3) by blast
    moreover have "subtree_loop tree found queue = subtree_loop tree f q"
      using False v by (subst subtree_loop.simps) simp
    ultimately show ?thesis using fs(1) by auto
  qed
qed

lemma subtree_reaches:
  "set (subtree tree root) = {p. (root, p) \<in> (set tree)\<^sup>*}" "distinct (subtree tree root)"
proof -
  have p: "distinct (subtree tree root) \<and> set [root] \<subseteq> set (subtree tree root)
      \<and> closed_but tree (subtree tree root) []
      \<and> (\<forall>p \<in> set (subtree tree root). (root, p) \<in> (set tree)\<^sup>*)"
    unfolding subtree_def by (rule subtree_loop_props) (auto simp: closed_but_def)
  then show "distinct (subtree tree root)" by blast
  have "p \<in> set (subtree tree root)" if "(root, p) \<in> (set tree)\<^sup>*" for p
    using that by (induction rule: rtrancl_induct) (use p in \<open>auto simp: closed_but_def\<close>)
  with p show "set (subtree tree root) = {p. (root, p) \<in> (set tree)\<^sup>*}" by blast
qed

section \<open>Only the owner's processes are moved\<close>

text \<open>
  The newest entry of the history is the status file of the process, and the real user it
  names is the owner.
\<close>

definition uid_checked :: "nat \<Rightarrow> trace \<Rightarrow> nat \<Rightarrow> bool" where
  "uid_checked owner tr pid \<longleftrightarrow>
     (\<exists>s rest. tr = (ReadFile (proc_file pid ''status''), Text s) # rest
               \<and> parse_real_uid s = Some owner)"

fun moves_checked :: "nat \<Rightarrow> trace \<Rightarrow> bool" where
  "moves_checked owner [] = True"
| "moves_checked owner ((c, r) # tr) =
     (moves_checked owner tr
      \<and> (\<forall>p t. c = WriteExisting p t \<longrightarrow> (\<exists>pid. t = dec pid \<and> uid_checked owner tr pid)))"

definition no_move :: "call \<Rightarrow> bool" where
  "no_move c \<longleftrightarrow> (\<forall>p t. c \<noteq> WriteExisting p t)"

lemma no_move_simps [simp]:
  "no_move (ReadFile p)" "no_move (ReadLink p)" "no_move (ReadDir p)" "no_move (Lstat p)"
  "no_move (MakeDir p)" "no_move (PidfdOpen n)" "no_move (PidfdGetfd n m)" "no_move (IsSocket n)"
  "no_move (SetSocketMark n k)" "no_move (CloseFd n)"
  by (simp_all add: no_move_def)

lemma keeps_moves_checked: "calls_only no_move m \<Longrightarrow> keeps (moves_checked owner) m"
  by (erule keeps_calls_only) (auto simp: no_move_def)

lemma reads_no_move [calls_intro]:
  "calls_only no_move (real_uid os pid)" "calls_only no_move (process_cgroup os pid)"
  "calls_only no_move (snapshot os pid)" "calls_only no_move (contains_pid os cg pid)"
  "calls_only no_move (member_pids os cg)" "calls_only no_move (create_real_directory os path)"
  unfolding real_uid_def process_cgroup_def snapshot_def contains_pid_def member_pids_def
    create_real_directory_def read_or_def
  by (auto intro!: calls_intro)

lemma mark_no_move [calls_intro]: "calls_only no_move (mark_existing_sockets os pid mark)"
proof -
  have "calls_only no_move (mark_one_fd os pidfd mark fd)" for pidfd fd
    unfolding mark_one_fd_def by (auto intro!: calls_intro)
  then have "calls_only no_move (mark_fds os pidfd mark names n)" for pidfd names n
    by (induction names arbitrary: n) (auto intro!: calls_intro split: option.splits)
  then show ?thesis unfolding mark_existing_sockets_def by (auto intro!: calls_intro)
qed

lemma tree_no_move [calls_intro]: "calls_only no_move (process_tree os uid)"
  unfolding process_tree_def tree_entry_def by (auto intro!: calls_intro)

lemma candidate_no_move [calls_intro]:
  "calls_only no_move (reconcile_candidate os cg uid sels pid)"
  unfolding reconcile_candidate_def by (auto intro!: calls_intro)

lemma real_uid_checked:
  assumes "real_uid os pid tr = (Inr uid, tr')"
  shows "uid_checked uid tr' pid"
  using assms unfolding real_uid_def read_or_def map_io_def uid_checked_def
  by (auto simp: ask_text_def ask_as_def ask_def Let_def try_then_eq_Inr split: option.splits)

lemma keeps_move_pid_to: "keeps (moves_checked (bc_owner_uid cg)) (move_pid_to os cg procs pid)"
  unfolding keeps_def
proof (intro allI impI)
  fix tr assume ok: "moves_checked (bc_owner_uid cg) tr"
  obtain r tr1 where u: "real_uid os pid tr = (r, tr1)" by fastforce
  have ok1: "moves_checked (bc_owner_uid cg) tr1"
    using keepsD [OF keeps_moves_checked [OF reads_no_move(1)] u ok] .
  show "moves_checked (bc_owner_uid cg) (snd (move_pid_to os cg procs pid tr))"
  proof (cases "r = Inr (bc_owner_uid cg)")
    case True
    then show ?thesis
      using u ok1 real_uid_checked [OF u [unfolded True]]
      by (auto simp: move_pid_to_def try_io_def map_io_def do_call_def ask_as_def ask_def Let_def)
  next
    case False
    then show ?thesis using u ok1 by (cases r) (auto simp: move_pid_to_def try_io_def)
  qed
qed

lemma keeps_moves [keeps_intro]:
  "keeps (\<lambda>w. moves_checked (bc_owner_uid cg) (snd w)) (lift_os (move_pid os cg pid))"
  "keeps (\<lambda>w. moves_checked (bc_owner_uid cg) (snd w)) (lift_os (move_out os cg pid))"
  unfolding move_pid_def move_out_def
  by (intro keeps_lift keeps_intro keeps_move_pid_to keeps_moves_checked calls_intro)+

lemma keeps_reads: "calls_only no_move m \<Longrightarrow> keeps (\<lambda>w. moves_checked owner (snd w)) (lift_os m)"
  by (intro keeps_lift keeps_moves_checked)

lemma reconcile_moves_checked:
  "keeps (\<lambda>w. moves_checked (bc_owner_uid cg) (snd w)) (reconcile_moves os cg uid sels names)"
  by (induction names)
     (auto intro!: keeps_intro split: option.splits intro: keeps_reads calls_intro)

lemma reconcile_with_checked:
  "keeps (\<lambda>w. moves_checked (bc_owner_uid cg) (snd w)) (reconcile_with os cg uid sels)"
  unfolding reconcile_with_def attribute_member_def release_one_def
  by (auto intro!: keeps_intro reconcile_moves_checked keeps_reads calls_intro)

section \<open>The record of moved processes\<close>

definition owned_ok :: "owned \<Rightarrow> bool" where
  "owned_ok owned \<longleftrightarrow> distinct (map fst owned) \<and> length owned \<le> MAX_OWNED_PIDS"

lemma length_update_le: "length (AList.update k v al) \<le> Suc (length al)"
  by (induction al) auto

lemma length_delete_le: "length (AList.delete k al) \<le> length al"
  by (simp add: AList.delete_eq)

lemma remember_ok: "owned_ok owned \<Longrightarrow> owned_ok (remember pid sel owned)"
  using length_update_le [of pid sel owned]
  by (auto simp: owned_ok_def remember_def distinct_update)

lemma filter_ok: "owned_ok owned \<Longrightarrow> owned_ok (filter P owned)"
  using length_filter_le [of P owned]
  by (auto simp: owned_ok_def distinct_map_filter simp del: length_filter_le)

lemma delete_ok: "owned_ok owned \<Longrightarrow> owned_ok (AList.delete pid owned)"
  unfolding AList.delete_eq by (rule filter_ok)

lemma reconcile_moves_owned:
  "keeps (\<lambda>w. owned_ok (fst w)) (reconcile_moves os cg uid sels names)"
  by (induction names)
     (auto intro!: keeps_intro split: option.splits simp: remember_ok)

lemma reconcile_with_owned:
  "keeps (\<lambda>w. owned_ok (fst w)) (reconcile_with os cg uid sels)"
  unfolding reconcile_with_def attribute_member_def release_one_def
  by (auto intro!: keeps_intro reconcile_moves_owned simp: remember_ok delete_ok filter_ok)

section \<open>No record outlives its rule\<close>

definition in_plan :: "app_selector list \<Rightarrow> app_selector \<Rightarrow> bool" where
  "in_plan sels sel \<longleftrightarrow> list_ex (selector_eq sel) sels"

lemma selector_eq_refl [simp]: "selector_eq s s"
  by (cases s) (simp_all add: path_eq_def)

lemma ignore_release:
  assumes "ignore_all (map (release_one os cg members) pids) (owned, tr) = (u, (owned', tr'))"
  shows "owned' = filter (\<lambda>e. fst e \<notin> set pids) owned"
  using assms
proof (induction pids arbitrary: owned tr)
  case Nil
  then show ?case by simp
next
  case (Cons pid pids)
  obtain a o1 tr1 where step: "release_one os cg members pid (owned, tr) = (a, (o1, tr1))"
    by (metis prod.exhaust)
  have "o1 = AList.delete pid owned"
    using step by (auto simp: release_one_def sys_defs split: prod.splits if_splits)
  moreover have "owned' = filter (\<lambda>e. fst e \<notin> set pids) o1" using Cons step by simp
  ultimately show ?case by (auto simp: AList.delete_eq intro!: filter_cong)
qed

lemma reconcile_with_in_plan:
  assumes "reconcile_with os cg uid sels (owned, tr) = (Inr u, (owned', tr'))"
  shows "\<forall>(pid, sel) \<in> set owned'. in_plan sels sel"
proof -
  have stale: "stale_pids sels o2 = [] \<Longrightarrow> (pid, sel) \<in> set o2 \<Longrightarrow> in_plan sels sel" for o2 pid sel
    by (auto simp: stale_pids_def in_plan_def filter_empty_conv)
  have released: "in_plan sels sel"
    if "(pid, sel) \<in> set (filter (\<lambda>e. fst e \<notin> set (concat (map (subtree t) (stale_pids sels o2)))) o2)"
    for o2 pid sel t
  proof (rule ccontr)
    assume "\<not> in_plan sels sel"
    with that have "pid \<in> set (stale_pids sels o2)"
      by (force simp: stale_pids_def in_plan_def)
    moreover have "pid \<in> set (subtree t pid)" by (simp add: subtree_reaches)
    ultimately show False using that by auto
  qed
  show ?thesis
    using assms unfolding reconcile_with_def
    by (auto simp: then_io_def try_io_def get_st_def Let_def split: prod.splits sum.splits if_splits
          dest!: ignore_release lift_os_fst [of "process_tree os uid"] dest: stale intro: released)
qed

end
