(* ===== verification/Direct_Dns.thy ===== *)
theory Direct_Dns
  imports Nft_Dns Split_Process
begin

text \<open>
  \<open>daemon/src/direct_dns.rs\<close>: the resolver that answers excluded applications outside the
  tunnel.  It listens on the loopback, sends each query on marked sockets to every upstream
  and gives back the first answer that belongs to the query; nftables redirects the excluded
  applications to it and keeps everyone else out.
\<close>

definition DIRECT_DNS_PORT :: u16 where "DIRECT_DNS_PORT = 15353"
definition MAX_DNS_PACKET :: nat where "MAX_DNS_PACKET = 65535"
definition MAX_IN_FLIGHT :: nat where "MAX_IN_FLIGHT = 128"

abbreviation localhost4 :: ip_addr where "localhost4 \<equiv> V4 127 0 0 1"
abbreviation localhost6 :: ip_addr where "localhost6 \<equiv> V6 [0, 0, 0, 0, 0, 0, 0, 1]"

definition dns_server :: "ip_addr \<Rightarrow> socket_addr" where
  "dns_server ip = \<lparr>sa_ip = ip, sa_port = 53\<rparr>"

definition FALLBACK_UPSTREAMS :: "socket_addr list" where
  "FALLBACK_UPSTREAMS = map dns_server [V4 1 1 1 1, V4 8 8 8 8, V4 9 9 9 9]"

section \<open>Upstreams\<close>

definition parse_nameserver :: "string \<Rightarrow> socket_addr option" where
  "parse_nameserver line =
     (let line = (case split_once (CHR ''#'') line of Some (v, _) \<Rightarrow> v | None \<Rightarrow> line) in
      case split_whitespace line of
        k # a # _ \<Rightarrow>
          if k \<noteq> ''nameserver'' then None
          else (case parse_ip a of
                  None \<Rightarrow> None
                | Some ip \<Rightarrow>
                    if is_loopback ip \<or> is_unspecified ip \<or> is_multicast ip then None
                    else Some (dns_server ip))
      | _ \<Rightarrow> None)"

definition parse_nameservers :: "string \<Rightarrow> socket_addr list" where
  "parse_nameservers contents = List.map_filter parse_nameserver (str_lines contents)"

definition resolv_paths :: "string list" where
  "resolv_paths =
     [''/run/systemd/resolve/resolv.conf'', ''/run/NetworkManager/no-stub-resolv.conf'',
      ''/run/NetworkManager/resolv.conf'', ''/run/resolvconf/resolv.conf'', ''/etc/resolv.conf'']"

text \<open>\<open>if seen.insert(x) { upstreams.push(x) }\<close>, with the list itself as the seen set.\<close>

definition push_new :: "'a list \<Rightarrow> 'a list \<Rightarrow> 'a list" where
  "push_new new acc = acc @ dedup_from acc new"

definition discover_upstreams :: "os \<Rightarrow> (trace, socket_addr list) io" where
  "discover_upstreams os =
     map_io (push_new FALLBACK_UPSTREAMS)
       (fold_io (\<lambda>path acc. map_io (\<lambda>r. case r of
                    Inl _ \<Rightarrow> acc
                  | Inr contents \<Rightarrow> push_new (parse_nameservers contents) acc)
                (ask_text os (ReadFile path)))
          resolv_paths [])"

section \<open>Queries and answers\<close>

definition valid_dns_query :: "string \<Rightarrow> bool" where
  "valid_dns_query packet = (length packet \<ge> 12 \<and> byte_word (packet ! 2) AND 0x80 = 0)"

definition valid_direct_response :: "string \<Rightarrow> string \<Rightarrow> bool" where
  "valid_direct_response query response =
     (length response \<ge> 12 \<and> length query \<ge> 2 \<and> take 2 response = take 2 query
      \<and> byte_word (response ! 2) AND 0x80 \<noteq> 0)"

text \<open>
  \<open>first_udp_response\<close> and \<open>first_tcp_response\<close>: the results in the order the upstreams
  finish, which is the environment's.
\<close>

definition first_response :: "string \<Rightarrow> (os_error + string) list \<Rightarrow> string option" where
  "first_response query results =
     find_map (\<lambda>r. case r of Inl _ \<Rightarrow> None
                          | Inr resp \<Rightarrow> if valid_direct_response query resp then Some resp else None)
       results"

text \<open>One datagram: whether a task is started for it, and what the task sends back.\<close>

definition accepts_datagram :: "nat \<Rightarrow> string \<Rightarrow> bool" where
  "accepts_datagram in_flight packet = (valid_dns_query packet \<and> in_flight < MAX_IN_FLIGHT)"

definition udp_answer :: "nat \<Rightarrow> (string \<Rightarrow> (os_error + string) list) \<Rightarrow> string \<Rightarrow> string option" where
  "udp_answer in_flight upstreams packet =
     (if accepts_datagram in_flight packet then first_response packet (upstreams packet) else None)"

datatype io_kind = UnexpectedEof | InvalidData | TimedOut

definition read_be16 :: "string \<Rightarrow> nat" where
  "read_be16 s = byte_val (s ! 0) * 256 + byte_val (s ! 1)"

text \<open>
  One TCP client: the bytes it sends before it closes its end, and the bytes written to it.
  \<open>upstreams\<close> gives the upstreams' results for a query.
\<close>

function handle_tcp_client ::
    "(string \<Rightarrow> (os_error + string) list) \<Rightarrow> string \<Rightarrow> (io_kind + unit) \<times> string" where
  "handle_tcp_client upstreams input =
     (if length input < 2 then (Ok (), [])
      else let size = read_be16 input; body = drop 2 input in
        if size < 12 \<or> size > MAX_DNS_PACKET then (Err InvalidData, [])
        else if length body < size then (Err UnexpectedEof, [])
        else let query = take size body in
          if \<not> valid_dns_query query then (Err InvalidData, [])
          else case first_response query (upstreams query) of
            None \<Rightarrow> (Err TimedOut, [])
          | Some resp \<Rightarrow>
              (case handle_tcp_client upstreams (drop size body) of
                 (r, out) \<Rightarrow> (r, be16 (length resp) @ resp @ out)))"
  by pat_completeness auto
termination
  by (relation "measure (\<lambda>(_, input). length input)") auto

declare handle_tcp_client.simps [simp del]

section \<open>The rules\<close>

definition direct_dns_rule_lines :: "string \<Rightarrow> string list" where
  "direct_dns_rule_lines port =
     [''table inet varmlen_split_dns {'',
      ''  chain redirect_output {'',
      ''    type nat hook output priority dstnat; policy accept;'']
     @ map (\<lambda>(dst, l4). ''    meta mark & 0x0000ffff == 0x2025 '' @ dst @ '' '' @ l4
               @ '' dport 53 redirect to :'' @ port)
         [(''ip daddr 127.0.0.0/8'', ''udp''), (''ip daddr 127.0.0.0/8'', ''tcp''),
          (''ip6 daddr ::1'', ''udp''), (''ip6 daddr ::1'', ''tcp'')]
     @ [''  }'',
        ''  chain guard_output {'',
        ''    type filter hook output priority filter - 20; policy accept;'']
     @ map (\<lambda>(dst, l4). ''    '' @ dst @ '' '' @ l4 @ '' dport '' @ port
               @ '' meta mark & 0x0000ffff != 0x2025 reject'')
         [(''ip daddr 127.0.0.0/8'', ''udp''), (''ip daddr 127.0.0.0/8'', ''tcp''),
          (''ip6 daddr ::1'', ''udp''), (''ip6 daddr ::1'', ''tcp'')]
     @ [''  }'', ''}'']"

definition render_direct_dns_rules :: "u16 \<Rightarrow> string" where
  "render_direct_dns_rules port = unlines (direct_dns_rule_lines (dec (unat port)))"

definition remove_direct_dns_rules :: "os \<Rightarrow> (trace, split_error + unit) io" where
  "remove_direct_dns_rules os =
     map_io (\<lambda>r. case r of
               Inl _ \<Rightarrow> Err RollbackFailed
             | Inr out \<Rightarrow>
                 if out_success out
                    \<or> str_contains ''No such file or directory'' (from_utf8_lossy (out_stderr out))
                 then Ok () else Err RollbackFailed)
       (run_command os ''nft'' [''delete'', ''table'', ''inet'', ''varmlen_split_dns''] [])"

section \<open>The proxy\<close>

text \<open>\<open>DirectDnsProxy\<close> is the list of its listener tasks.\<close>

record direct_dns_proxy =
  dd_tasks :: "string list"

definition EAFNOSUPPORT :: nat where "EAFNOSUPPORT = 97"
definition EADDRNOTAVAIL :: nat where "EADDRNOTAVAIL = 99"
definition EPROTONOSUPPORT :: nat where "EPROTONOSUPPORT = 93"

definition ipv6_is_unavailable :: "os_error \<Rightarrow> bool" where
  "ipv6_is_unavailable e = (errno e \<in> {EAFNOSUPPORT, EADDRNOTAVAIL, EPROTONOSUPPORT})"

definition bind_listener :: "os \<Rightarrow> bool \<Rightarrow> (trace, split_error + unit) io" where
  "bind_listener os tcp =
     map_io (map_err (\<lambda>_. DirectDnsUnavailable))
       (do_call os (BindSocket tcp localhost4 DIRECT_DNS_PORT))"

definition optional_listener6 :: "os \<Rightarrow> bool \<Rightarrow> (trace, split_error + bool) io" where
  "optional_listener6 os tcp =
     map_io (\<lambda>r. case r of
               Inr _ \<Rightarrow> Ok True
             | Inl e \<Rightarrow> if ipv6_is_unavailable e then Ok False else Err DirectDnsUnavailable)
       (do_call os (BindSocket tcp localhost6 DIRECT_DNS_PORT))"

definition direct_dns_start :: "os \<Rightarrow> (trace, split_error + direct_dns_proxy) io" where
  "direct_dns_start os =
     try_io (bind_listener os False) (\<lambda>_.
     try_io (bind_listener os True) (\<lambda>_.
     try_io (optional_listener6 os False) (\<lambda>udp6.
     try_io (optional_listener6 os True) (\<lambda>tcp6.
     then_io (discover_upstreams os) (\<lambda>_.
     let tasks = [''udp4'', ''tcp4''] @ (if udp6 then [''udp6''] else [])
                   @ (if tcp6 then [''tcp6''] else []) in
     then_io (ignore_all (map (\<lambda>t. ask os (SpawnThread t)) tasks)) (\<lambda>_.
     then_io (apply_ruleset_with_code os (render_direct_dns_rules DIRECT_DNS_PORT) SplitUnavailable) (\<lambda>r.
       if is_err r
       then then_io (ignore_all (map (\<lambda>t. ask os (StopThread t)) tasks)) (\<lambda>_.
              return_io (Err DirectDnsUnavailable))
       else return_io (Ok \<lparr>dd_tasks = tasks\<rparr>))))))))"

fun all_running :: "os \<Rightarrow> string list \<Rightarrow> (trace, bool) io" where
  "all_running os [] = return_io True"
| "all_running os (t # ts) =
     then_io (ask_flag os (ThreadRunning t)) (\<lambda>b. if b then all_running os ts else return_io False)"

definition direct_dns_healthy :: "os \<Rightarrow> direct_dns_proxy \<Rightarrow> (trace, bool) io" where
  "direct_dns_healthy os p =
     (if dd_tasks p = [] then return_io False else all_running os (dd_tasks p))"

text \<open>When the rules cannot be removed the tasks are left to the drop of the proxy.\<close>

definition direct_dns_stop ::
    "os \<Rightarrow> direct_dns_proxy \<Rightarrow> (trace, (split_error + unit) \<times> direct_dns_proxy) io" where
  "direct_dns_stop os p =
     then_io (remove_direct_dns_rules os) (\<lambda>r.
       if is_err r then return_io (r, p)
       else then_io (ignore_all (map (\<lambda>t. ask os (StopThread t)) (dd_tasks p))) (\<lambda>_.
              return_io (Ok (), p\<lparr>dd_tasks := []\<rparr>)))"

section \<open>Upstreams are usable and distinct\<close>

definition usable_upstream :: "socket_addr \<Rightarrow> bool" where
  "usable_upstream u \<longleftrightarrow> sa_port u = 53 \<and> \<not> is_loopback (sa_ip u) \<and> \<not> is_unspecified (sa_ip u)
     \<and> \<not> is_multicast (sa_ip u)"

lemma parse_nameserver_usable: "parse_nameserver line = Some u \<Longrightarrow> usable_upstream u"
  by (auto simp: parse_nameserver_def usable_upstream_def dns_server_def Let_def
        split: option.splits list.splits if_splits)

lemma parse_nameservers_usable: "u \<in> set (parse_nameservers c) \<Longrightarrow> usable_upstream u"
  by (auto simp: parse_nameservers_def List.map_filter_def dest: parse_nameserver_usable)

lemma push_new_set [simp]: "set (push_new new acc) = set acc \<union> set new"
  by (auto simp: push_new_def set_dedup_from)

lemma push_new_distinct: "distinct acc \<Longrightarrow> distinct (push_new new acc)"
  by (auto simp: push_new_def distinct_dedup_from set_dedup_from)

lemma fold_io_keeps:
  "fold_io f xs a w = (b, w') \<Longrightarrow> Q a \<Longrightarrow>
   (\<And>x a w b w'. x \<in> set xs \<Longrightarrow> f x a w = (b, w') \<Longrightarrow> Q a \<Longrightarrow> Q b) \<Longrightarrow> Q b"
proof (induction xs arbitrary: a w)
  case Nil
  then show ?case by simp
next
  case (Cons x xs)
  obtain a1 w1 where "f x a w = (a1, w1)" by fastforce
  with Cons show ?case by (fastforce simp: then_io_def)
qed

lemma discover_upstreams_shape:
  assumes "discover_upstreams os tr = (us, tr')"
  obtains found where "us = push_new FALLBACK_UPSTREAMS found" and "distinct found"
    and "\<forall>u \<in> set found. usable_upstream u"
proof -
  let ?Q = "\<lambda>acc. distinct acc \<and> (\<forall>u \<in> set acc. usable_upstream u)"
  let ?f = "\<lambda>path acc. map_io (\<lambda>r. case r of Inl _ \<Rightarrow> acc
              | Inr contents \<Rightarrow> push_new (parse_nameservers contents) acc) (ask_text os (ReadFile path))"
  obtain found where f: "fold_io ?f resolv_paths [] tr = (found, tr')"
      and us: "us = push_new FALLBACK_UPSTREAMS found"
    using assms unfolding discover_upstreams_def map_io_def [of "push_new FALLBACK_UPSTREAMS"]
    by (auto split: prod.splits)
  have "?Q found"
    by (rule fold_io_keeps [OF f])
       (auto simp: map_io_def split: prod.splits sum.splits intro: push_new_distinct
          dest: parse_nameservers_usable)
  with us that show thesis by blast
qed

lemma fallback_usable: "u \<in> set FALLBACK_UPSTREAMS \<Longrightarrow> usable_upstream u"
  by (auto simp: FALLBACK_UPSTREAMS_def usable_upstream_def dns_server_def
        word_le_nat_alt)

section \<open>Answers belong to their queries\<close>

lemma first_response_Some:
  "first_response q rs = Some resp \<Longrightarrow> Inr resp \<in> set rs \<and> valid_direct_response q resp"
  unfolding first_response_def
proof (drule find_map_Some, elim bexE)
  fix x
  assume "x \<in> set rs" and "(case x of Inl _ \<Rightarrow> None
    | Inr resp \<Rightarrow> if valid_direct_response q resp then Some resp else None) = Some resp"
  then show ?thesis by - (cases x; simp split: if_splits)
qed

lemma first_response_None:
  "first_response q rs = None \<longleftrightarrow> (\<forall>resp. Inr resp \<in> set rs \<longrightarrow> \<not> valid_direct_response q resp)"
  unfolding first_response_def find_map_None by (fastforce split: sum.splits)

text \<open>Splitting a byte stream into length-prefixed messages.\<close>

function messages :: "string \<Rightarrow> string list" where
  "messages s =
     (if length s < 2 \<or> length s - 2 < read_be16 s then []
      else take (read_be16 s) (drop 2 s) # messages (drop (2 + read_be16 s) s))"
  by pat_completeness auto
termination
  by (relation "measure length") auto

declare messages.simps [simp del]

lemma read_be16_be16: "n \<le> 65535 \<Longrightarrow> read_be16 (be16 n @ s) = n"
  by (simp add: read_be16_def be16_def)

lemma length_be16 [simp]: "length (be16 n) = 2"
  by (simp add: be16_def)

lemma messages_frame:
  assumes "length r \<le> 65535"
  shows "messages (be16 (length r) @ r @ s) = r # messages s"
proof -
  have len: "read_be16 (be16 (length r) @ r @ s) = length r" by (rule read_be16_be16 [OF assms])
  show ?thesis by (subst messages.simps) (simp add: len)
qed

text \<open>
  Every message a client is sent answers the query at the same place in what it sent: the
  answers are an initial part of the queries, one each, in order.
\<close>

lemma handle_tcp_client_answers:
  assumes "handle_tcp_client up input = (r, out)"
    and "\<And>q resp. Inr resp \<in> set (up q) \<Longrightarrow> length resp \<le> 65535"
  shows "list_all2 (\<lambda>q resp. valid_dns_query q \<and> valid_direct_response q resp \<and> Inr resp \<in> set (up q))
           (take (length (messages out)) (messages input)) (messages out)"
  using assms
proof (induction up input arbitrary: r out rule: handle_tcp_client.induct)
  case (1 upstreams input)
  note eq = "1.prems"(1) [unfolded handle_tcp_client.simps [of upstreams input]]
  have nil: "messages [] = []" by (subst messages.simps) simp
  show ?case
  proof (cases "\<exists>resp. length input \<ge> 2 \<and> read_be16 input \<ge> 12
      \<and> length (drop 2 input) \<ge> read_be16 input
      \<and> valid_dns_query (take (read_be16 input) (drop 2 input))
      \<and> first_response (take (read_be16 input) (drop 2 input))
          (upstreams (take (read_be16 input) (drop 2 input))) = Some resp
      \<and> read_be16 input \<le> MAX_DNS_PACKET")
    case False
    then have "out = []"
      using eq by (auto simp: Let_def not_less split: if_splits option.splits prod.splits)
    then show ?thesis by (simp add: nil)
  next
    case True
    let ?n = "read_be16 input" and ?q = "take (read_be16 input) (drop 2 input)"
    from True obtain resp where c: "length input \<ge> 2" "?n \<ge> 12" "length (drop 2 input) \<ge> ?n"
      "valid_dns_query ?q" "first_response ?q (upstreams ?q) = Some resp" "?n \<le> MAX_DNS_PACKET" by blast
    obtain r' out' where rec: "handle_tcp_client upstreams (drop ?n (drop 2 input)) = (r', out')"
      by fastforce
    have out: "out = be16 (length resp) @ resp @ out'"
      using eq c rec by (simp add: Let_def not_less)
    have resp: "Inr resp \<in> set (upstreams ?q)" "valid_direct_response ?q resp"
      using first_response_Some [OF c(5)] by auto
    have mo: "messages out = resp # messages out'"
      unfolding out by (rule messages_frame) (rule "1.prems"(2) [OF resp(1)])
    have mi: "messages input = ?q # messages (drop ?n (drop 2 input))"
      using c(1,3) by (subst messages.simps) (simp add: add.commute)
    have "list_all2 (\<lambda>q resp. valid_dns_query q \<and> valid_direct_response q resp \<and> Inr resp \<in> set (upstreams q))
        (take (length (messages out')) (messages (drop ?n (drop 2 input)))) (messages out')"
      by (rule "1.IH" [OF _ refl refl _ _ refl _ c(5) rec "1.prems"(2)]) (use c in auto)
    then show ?thesis using c(4) resp by (simp add: mo mi)
  qed
qed

section \<open>Which calls the proxy makes\<close>

lemma calls_only_all_running [calls_intro]:
  "(\<And>t. t \<in> set ts \<Longrightarrow> P (ThreadRunning t)) \<Longrightarrow> calls_only P (all_running os ts)"
  by (induction ts) (auto intro!: calls_intro)

lemma direct_dns_start_calls:
  "calls_only (\<lambda>c. \<not> (\<exists>p a i. c = Run p a i \<and> (p \<noteq> ''nft'' \<or> a \<noteq> [''-f'', ''-''])))
     (direct_dns_start os)"
  unfolding direct_dns_start_def bind_listener_def optional_listener6_def discover_upstreams_def
  by (auto intro!: calls_intro)

lemma direct_dns_start_ok:
  assumes "direct_dns_start os tr = (Inr p, tr')"
  shows "\<exists>v6. dd_tasks p = ''udp4'' # ''tcp4'' # v6"
  using assms unfolding direct_dns_start_def try_io_def then_io_def Let_def
  by (auto split: prod.splits sum.splits if_splits)

lemma direct_dns_stop_ok:
  assumes "direct_dns_stop os p tr = ((r, p'), tr')"
  shows "is_ok r \<Longrightarrow> dd_tasks p' = []" and "is_err r \<Longrightarrow> p' = p"
  using assms unfolding direct_dns_stop_def then_io_def
  by (auto simp: is_err_iff split: prod.splits if_splits)

end
