(* ===== verification/Split_Manager.thy ===== *)
theory Split_Manager
  imports Split_Watcher Split_Reconcile_Props Direct_Dns
begin

text \<open>
  \<open>daemon/src/split/mod.rs\<close> and \<open>daemon/src/split/system.rs\<close>: the manager of the
  per-application split and its system backend.  The trait \<open>SplitBackend\<close> is a record of
  operations; \<open>split_contract\<close> is what the manager relies on, and the system backend is its
  interpretation.
\<close>

section \<open>The manager\<close>

record split_plan =
  sp_uid :: nat
  sp_applications :: "string list"

datatype split_status = Disabled | Active

record 'b split_backend =
  sb_create_cgroup :: "nat \<Rightarrow> ('b, split_error + unit) io"
  sb_attach_socket_mark_bpf :: "('b, split_error + unit) io"
  sb_install_route_rules :: "('b, split_error + unit) io"
  sb_start_permission_watcher :: "split_plan \<Rightarrow> ('b, split_error + unit) io"
  sb_reconcile_existing :: "split_plan \<Rightarrow> ('b, split_error + unit) io"
  sb_update_plan :: "split_plan \<Rightarrow> ('b, split_error + unit) io"
  sb_refresh_route_rules :: "('b, split_error + unit) io"
  sb_rollback :: "('b, split_error + unit) io"

record 'b split_manager =
  sm_backend :: 'b
  sm_status :: split_status

definition new_split_manager :: "'b \<Rightarrow> 'b split_manager" where
  "new_split_manager b = \<lparr>sm_backend = b, sm_status = Disabled\<rparr>"

definition split_bring_up :: "'b split_backend \<Rightarrow> split_plan \<Rightarrow> ('b, split_error + unit) io" where
  "split_bring_up ops plan =
     try_io (sb_create_cgroup ops (sp_uid plan)) (\<lambda>_.
     try_io (sb_attach_socket_mark_bpf ops) (\<lambda>_.
     try_io (sb_install_route_rules ops) (\<lambda>_.
     try_io (sb_start_permission_watcher ops plan) (\<lambda>_.
     try_io (sb_reconcile_existing ops plan) (\<lambda>_.
     return_io (Ok ()))))))"

definition split_apply ::
    "'b split_backend \<Rightarrow> split_plan \<Rightarrow> ('b split_manager, split_error + unit) io" where
  "split_apply ops plan m =
     (case split_bring_up ops plan (sm_backend m) of
        (Inl e, b) \<Rightarrow>
          (Inl e, m\<lparr>sm_backend := snd (sb_rollback ops b), sm_status := Disabled\<rparr>)
      | (Inr _, b) \<Rightarrow> (Ok (), m\<lparr>sm_backend := b, sm_status := Active\<rparr>))"

definition split_update_plan ::
    "'b split_backend \<Rightarrow> split_plan \<Rightarrow> ('b split_manager, split_error + bool) io" where
  "split_update_plan ops plan m =
     (if sm_status m \<noteq> Active then (Ok False, m)
      else case sb_update_plan ops plan (sm_backend m) of
             (Inl e, b) \<Rightarrow> (Inl e, m\<lparr>sm_backend := b\<rparr>)
           | (Inr _, b) \<Rightarrow> (Ok True, m\<lparr>sm_backend := b\<rparr>))"

definition split_refresh_routing :: "'b split_backend \<Rightarrow> ('b split_manager, split_error + unit) io" where
  "split_refresh_routing ops m =
     (if sm_status m \<noteq> Active then (Ok (), m)
      else case sb_refresh_route_rules ops (sm_backend m) of (r, b) \<Rightarrow> (r, m\<lparr>sm_backend := b\<rparr>))"

section \<open>The contract\<close>

locale split_contract =
  fixes ops :: "'b split_backend"
    and routed :: "'b \<Rightarrow> bool"
    and watched :: "'b \<Rightarrow> bool"
  assumes install_routed: "sb_install_route_rules ops b = (Inr u, b') \<Longrightarrow> routed b'"
    and start_routed: "sb_start_permission_watcher ops plan b = (r, b') \<Longrightarrow> routed b' = routed b"
    and start_watched: "sb_start_permission_watcher ops plan b = (Inr u, b') \<Longrightarrow> watched b'"
    and reconcile_keeps: "sb_reconcile_existing ops plan b = (r, b') \<Longrightarrow>
          routed b' = routed b \<and> watched b' = watched b"
    and update_routed: "sb_update_plan ops plan b = (r, b') \<Longrightarrow> routed b' = routed b"
    and update_watched: "sb_update_plan ops plan b = (Inr u, b') \<Longrightarrow>
          watched b' = (sp_applications plan \<noteq> [])"
    and refresh_routed: "sb_refresh_route_rules ops b = (r, b') \<Longrightarrow> routed b \<Longrightarrow> routed b'"
    and refresh_watched: "sb_refresh_route_rules ops b = (r, b') \<Longrightarrow> watched b' = watched b"
    and rollback_clears: "sb_rollback ops b = (r, b') \<Longrightarrow> \<not> routed b' \<and> \<not> watched b'"
begin

lemma bring_up_ok:
  assumes "split_bring_up ops plan b = (Inr u, b')"
  shows "routed b' \<and> watched b'"
  using assms unfolding split_bring_up_def try_io_def
  by (auto split: prod.splits sum.splits
        dest: install_routed start_watched start_routed reconcile_keeps)

lemma apply_ok:
  assumes "split_apply ops plan m = (Inr u, m')"
  shows "sm_status m' = Active \<and> routed (sm_backend m') \<and> watched (sm_backend m')"
  using assms unfolding split_apply_def
  by (auto split: prod.splits sum.splits dest: bring_up_ok)

lemma apply_err:
  assumes "split_apply ops plan m = (Inl e, m')"
  shows "sm_status m' = Disabled \<and> \<not> routed (sm_backend m') \<and> \<not> watched (sm_backend m')"
proof -
  obtain r b where "split_bring_up ops plan (sm_backend m) = (r, b)" by fastforce
  moreover obtain q b' where "sb_rollback ops b = (q, b')" by fastforce
  ultimately show ?thesis
    using assms rollback_clears [of b q b'] unfolding split_apply_def by (cases r) auto
qed

definition active_routed :: "'b split_manager \<Rightarrow> bool" where
  "active_routed m \<longleftrightarrow> (sm_status m = Active \<longrightarrow> routed (sm_backend m))"

lemma apply_active_routed: "split_apply ops plan m = (r, m') \<Longrightarrow> active_routed m'"
  by (cases r) (auto simp: active_routed_def dest: apply_ok apply_err)

lemma update_active_routed:
  assumes "split_update_plan ops plan m = (r, m')" and "active_routed m"
  shows "active_routed m'" and "sm_status m' = sm_status m"
    and "r = Inr True \<Longrightarrow> sm_status m = Active \<and> watched (sm_backend m') = (sp_applications plan \<noteq> [])"
    and "r = Inr False \<longleftrightarrow> sm_status m = Disabled"
  using assms unfolding split_update_plan_def active_routed_def
  by (auto split: prod.splits sum.splits if_splits dest: update_routed update_watched)
     (metis split_status.exhaust)+

lemma refresh_active_routed:
  assumes "split_refresh_routing ops m = (r, m')" and "active_routed m"
  shows "active_routed m'" and "watched (sm_backend m') = watched (sm_backend m)"
  using assms unfolding split_refresh_routing_def active_routed_def
  by (auto split: prod.splits if_splits dest: refresh_routed refresh_watched)

end

section \<open>The system backend\<close>

text \<open>
  \<open>watcher\<close> is whether a \<open>PermissionWatcher\<close> is held; its thread is asked for its health.  The
  reconciler thread shares the record of moved processes, so what it does between two
  operations is another pass (\<open>reconciler_pass\<close>) on the same field.
\<close>

record split_system =
  ss_owner_uid :: nat
  ss_cgroup :: "bypass_cgroup option"
  ss_selectors :: "app_selector list"
  ss_watcher :: bool
  ss_routing_active :: bool
  ss_direct_dns :: "direct_dns_proxy option"
  ss_owned :: owned
  ss_reconciling :: bool

definition new_split_system :: "nat \<Rightarrow> split_system" where
  "new_split_system uid =
     \<lparr>ss_owner_uid = uid, ss_cgroup = None, ss_selectors = [], ss_watcher = False,
      ss_routing_active = False, ss_direct_dns = None, ss_owned = [], ss_reconciling = False\<rparr>"

text \<open>
  The machine: byte order, and where the program and the licence text lie in memory for the
  \<open>bpf\<close> system call.
\<close>

record machine =
  mc_little_endian :: bool
  mc_program_ptr :: nat
  mc_license_ptr :: nat

definition BPF_PROG_LOAD :: nat where "BPF_PROG_LOAD = 5"
definition BPF_PROG_ATTACH :: nat where "BPF_PROG_ATTACH = 8"
definition BPF_PROG_DETACH :: nat where "BPF_PROG_DETACH = 9"

definition bpf_call :: "os \<Rightarrow> nat \<Rightarrow> u8 list \<Rightarrow> (trace, split_error + nat) io" where
  "bpf_call os command attributes =
     map_io (map_err (\<lambda>_. BpfUnavailable)) (ask_number os (BpfCall command attributes))"

definition detach_socket_mark :: "os \<Rightarrow> machine \<Rightarrow> nat \<Rightarrow> (trace, split_error + unit) io" where
  "detach_socket_mark os mc cgroup_fd =
     map_io (\<lambda>r. try_then r (\<lambda>_. Ok ()))
       (bpf_call os BPF_PROG_DETACH (the (detach_attributes (mc_little_endian mc) cgroup_fd)))"

definition attach_socket_mark :: "os \<Rightarrow> machine \<Rightarrow> nat \<Rightarrow> (trace, split_error + unit) io" where
  "attach_socket_mark os mc cgroup_fd =
     try_io (bpf_call os BPF_PROG_LOAD
               (the (load_attributes (mc_little_endian mc) (mc_program_ptr mc) (mc_license_ptr mc)))) (\<lambda>program_fd.
     then_io (detach_socket_mark os mc cgroup_fd) (\<lambda>_.
     then_io (bpf_call os BPF_PROG_ATTACH
               (the (attach_attributes (mc_little_endian mc) cgroup_fd program_fd))) (\<lambda>result.
     then_io (ask os (CloseFd program_fd)) (\<lambda>_.
     return_io (try_then result (\<lambda>_. Ok ()))))))"

definition held_cgroup :: "split_system \<Rightarrow> split_error + bypass_cgroup" where
  "held_cgroup s = ok_or CgroupUnavailable (ss_cgroup s)"

definition with_cgroup ::
    "(bypass_cgroup \<Rightarrow> (split_system, split_error + 'a) sys) \<Rightarrow> (split_system, split_error + 'a) sys" where
  "with_cgroup k = then_io get_st (\<lambda>s. case held_cgroup s of Inl e \<Rightarrow> return_io (Inl e) | Inr cg \<Rightarrow> k cg)"

definition parse_selector :: "os \<Rightarrow> string \<Rightarrow> (trace, split_error + app_selector) io" where
  "parse_selector os v =
     (case selector_parse v of
        Inl e \<Rightarrow> return_io (Inl e)
      | Inr (ExactPath path) \<Rightarrow>
          map_io (\<lambda>r. case r of Inl _ \<Rightarrow> Err (InvalidApplication path) | Inr c \<Rightarrow> Ok (ExactPath c))
            (ask_text os (Canonicalize path))
      | Inr (ProcessName n) \<Rightarrow> return_io (Ok (ProcessName n)))"

definition plan_selectors :: "os \<Rightarrow> split_plan \<Rightarrow> (trace, split_error + app_selector list) io" where
  "plan_selectors os plan = map_ok (parse_selector os) (sp_applications plan)"

definition put_owned :: "owned \<Rightarrow> split_system \<Rightarrow> split_system" where
  "put_owned owned s = s\<lparr>ss_owned := owned\<rparr>"

definition reconcile_once :: "os \<Rightarrow> (split_system, split_error + unit) sys" where
  "reconcile_once os =
     with_cgroup (\<lambda>cg. then_io get_st (\<lambda>s.
       zoom ss_owned put_owned (reconcile_with os cg (ss_owner_uid s) (ss_selectors s))))"

definition reconciler_thread :: string where "reconciler_thread = ''varmlen-split-r''"

text \<open>
  The thread's own pass: it opens the cgroup for itself, and a pass that fails is tried
  again a second later.
\<close>

definition reconciler_pass :: "os \<Rightarrow> bypass_cgroup \<Rightarrow> (split_system, unit) sys" where
  "reconciler_pass os cg =
     then_io (lift_os (ask os (Sleep 1000))) (\<lambda>_.
     then_io get_st (\<lambda>s.
     map_io (\<lambda>_. ()) (zoom ss_owned put_owned
       (reconcile_with os cg (ss_owner_uid s) (ss_selectors s)))))"

definition start_reconciler :: "os \<Rightarrow> (split_system, unit) sys" where
  "start_reconciler os =
     then_io get_st (\<lambda>s.
       if ss_reconciling s then return_io ()
       else if is_err (held_cgroup s) then return_io ()
       else then_io (lift_os (do_call os (SpawnThread reconciler_thread))) (\<lambda>r.
         if is_err r then return_io () else modify_st (\<lambda>s. s\<lparr>ss_reconciling := True\<rparr>)))"

definition stop_reconciler :: "os \<Rightarrow> (split_system, unit) sys" where
  "stop_reconciler os =
     then_io get_st (\<lambda>s.
     then_io (if ss_reconciling s then map_io (\<lambda>_. ()) (lift_os (ask os (StopThread reconciler_thread)))
              else return_io ()) (\<lambda>_.
     modify_st (\<lambda>s. s\<lparr>ss_reconciling := False\<rparr>)))"

text \<open>Dropping a held watcher stops and joins its thread.\<close>

definition drop_watcher :: "os \<Rightarrow> (split_system, unit) sys" where
  "drop_watcher os =
     then_io get_st (\<lambda>s.
     then_io (if ss_watcher s then map_io (\<lambda>_. ()) (lift_os (ask os (StopThread watcher_thread)))
              else return_io ()) (\<lambda>_.
     modify_st (\<lambda>s. s\<lparr>ss_watcher := False\<rparr>)))"

definition watcher_is_healthy :: "os \<Rightarrow> (split_system, bool) sys" where
  "watcher_is_healthy os =
     then_io get_st (\<lambda>s. if ss_watcher s then lift_os (watcher_healthy os) else return_io False)"

definition split_is_healthy :: "os \<Rightarrow> (split_system, bool) sys" where
  "split_is_healthy os =
     then_io get_st (\<lambda>s.
       if \<not> ss_routing_active s then return_io False
       else case ss_direct_dns s of
         None \<Rightarrow> return_io False
       | Some p \<Rightarrow> then_io (lift_os (direct_dns_healthy os p)) (\<lambda>ok.
           if ok then watcher_is_healthy os else return_io False))"

definition ss_create_cgroup :: "os \<Rightarrow> nat \<Rightarrow> (split_system, split_error + unit) sys" where
  "ss_create_cgroup os uid =
     then_io get_st (\<lambda>s.
       if uid \<noteq> ss_owner_uid s then return_io (Err CgroupUnavailable)
       else try_io (lift_os (bypass_create os uid)) (\<lambda>cg.
         then_io (modify_st (\<lambda>s. s\<lparr>ss_cgroup := Some cg\<rparr>)) (\<lambda>_. return_io (Ok ()))))"

definition ss_attach_bpf :: "os \<Rightarrow> machine \<Rightarrow> (split_system, split_error + unit) sys" where
  "ss_attach_bpf os mc = with_cgroup (\<lambda>cg. lift_os (attach_socket_mark os mc (bc_directory cg)))"

definition ss_lay_routes :: "os \<Rightarrow> (split_system, split_error + unit) sys" where
  "ss_lay_routes os =
     try_io (lift_os (detect_default_route os)) (\<lambda>route.
     with_cgroup (\<lambda>cg.
     try_io (lift_os (install_routing os (relative_path cg) route)) (\<lambda>_.
     then_io (modify_st (\<lambda>s. s\<lparr>ss_routing_active := True\<rparr>)) (\<lambda>_. return_io (Ok ())))))"

definition ss_install_route_rules :: "os \<Rightarrow> (split_system, split_error + unit) sys" where
  "ss_install_route_rules os =
     try_io (ss_lay_routes os) (\<lambda>_.
     try_io (lift_os (direct_dns_start os)) (\<lambda>p.
     then_io (modify_st (\<lambda>s. s\<lparr>ss_direct_dns := Some p\<rparr>)) (\<lambda>_. return_io (Ok ()))))"

text \<open>A watcher that is not healthy when it was started is dropped again.\<close>

definition ss_arm_watcher :: "os \<Rightarrow> app_selector list \<Rightarrow> (split_system, split_error + unit) sys" where
  "ss_arm_watcher os selectors =
     with_cgroup (\<lambda>_.
     try_io (lift_os (watcher_start os selectors)) (\<lambda>_.
     then_io (lift_os (watcher_healthy os)) (\<lambda>ok.
       if ok then return_io (Ok ())
       else then_io (lift_os (ask os (StopThread watcher_thread))) (\<lambda>_.
              return_io (Err WatcherUnavailable)))))"

definition ss_start_permission_watcher :: "os \<Rightarrow> split_plan \<Rightarrow> (split_system, split_error + unit) sys" where
  "ss_start_permission_watcher os plan =
     try_io (lift_os (plan_selectors os plan)) (\<lambda>selectors.
       if selectors = [] then return_io (Err (InvalidApplication ''split application list is empty''))
       else try_io (ss_arm_watcher os selectors) (\<lambda>_.
         then_io (drop_watcher os) (\<lambda>_.
         then_io (modify_st (\<lambda>s. s\<lparr>ss_selectors := selectors, ss_watcher := True\<rparr>)) (\<lambda>_.
         return_io (Ok ())))))"

definition ss_reconcile_existing :: "os \<Rightarrow> split_plan \<Rightarrow> (split_system, split_error + unit) sys" where
  "ss_reconcile_existing os plan =
     try_io (reconcile_once os) (\<lambda>_.
     then_io (start_reconciler os) (\<lambda>_.
     map_io (\<lambda>ok. if ok then Ok () else Err WatcherUnavailable) (watcher_is_healthy os)))"

text \<open>\<open>update_plan\<close> once the old watcher is gone and the new rules are in place.\<close>

definition ss_rearm :: "os \<Rightarrow> app_selector list \<Rightarrow> (split_system, split_error + unit) sys" where
  "ss_rearm os selectors =
     (if selectors = [] then reconcile_once os
      else try_io (ss_arm_watcher os selectors) (\<lambda>_.
        then_io (modify_st (\<lambda>s. s\<lparr>ss_watcher := True\<rparr>)) (\<lambda>_.
        try_io (reconcile_once os) (\<lambda>_.
        then_io (start_reconciler os) (\<lambda>_.
        return_io (Ok ()))))))"

definition ss_update_plan :: "os \<Rightarrow> split_plan \<Rightarrow> (split_system, split_error + unit) sys" where
  "ss_update_plan os plan =
     try_io (lift_os (plan_selectors os plan)) (\<lambda>selectors.
     then_io (stop_reconciler os) (\<lambda>_.
     then_io (drop_watcher os) (\<lambda>_.
     then_io (modify_st (\<lambda>s. s\<lparr>ss_selectors := selectors\<rparr>)) (\<lambda>_.
     ss_rearm os selectors))))"

definition or_else :: "split_error option \<Rightarrow> split_error + unit \<Rightarrow> split_error option" where
  "or_else first r = (case first of Some e \<Rightarrow> Some e | None \<Rightarrow> (case r of Inl e \<Rightarrow> Some e | Inr _ \<Rightarrow> None))"

text \<open>
  \<open>rollback\<close> in three steps: the threads, then the resolver and the routing, then the socket
  program.  \<open>s\<close> is the state once the threads are gone.
\<close>

definition ss_release_cgroup ::
    "os \<Rightarrow> machine \<Rightarrow> split_system \<Rightarrow> split_error option \<Rightarrow> (split_system, split_error + unit) sys" where
  "ss_release_cgroup os mc s first =
     then_io (case ss_cgroup s of
                None \<Rightarrow> return_io ()
              | Some cg \<Rightarrow> map_io (\<lambda>_. ()) (lift_os (detach_socket_mark os mc (bc_directory cg)))) (\<lambda>_.
     then_io (modify_st (\<lambda>s. s\<lparr>ss_selectors := []\<rparr>)) (\<lambda>_.
     return_io (case first of None \<Rightarrow> Ok () | Some e \<Rightarrow> Err e)))"

definition ss_release :: "os \<Rightarrow> machine \<Rightarrow> split_system \<Rightarrow> (split_system, split_error + unit) sys" where
  "ss_release os mc s =
     then_io (modify_st (\<lambda>s. s\<lparr>ss_direct_dns := None\<rparr>)) (\<lambda>_.
     then_io (case ss_direct_dns s of
                None \<Rightarrow> return_io None
              | Some p \<Rightarrow> map_io (\<lambda>(r, _). or_else None r) (lift_os (direct_dns_stop os p))) (\<lambda>first.
     then_io (if ss_routing_active s
              then map_io (or_else first) (lift_os (remove_routing os)) else return_io first) (\<lambda>first.
     then_io (modify_st (\<lambda>s. s\<lparr>ss_routing_active := False\<rparr>)) (\<lambda>_.
     ss_release_cgroup os mc s first))))"

definition ss_rollback :: "os \<Rightarrow> machine \<Rightarrow> (split_system, split_error + unit) sys" where
  "ss_rollback os mc =
     then_io (stop_reconciler os) (\<lambda>_.
     then_io (drop_watcher os) (\<lambda>_.
     then_io get_st (ss_release os mc)))"

definition system_split_backend :: "os \<Rightarrow> machine \<Rightarrow> (split_system \<times> trace) split_backend" where
  "system_split_backend os mc =
     \<lparr>sb_create_cgroup = ss_create_cgroup os,
      sb_attach_socket_mark_bpf = ss_attach_bpf os mc,
      sb_install_route_rules = ss_install_route_rules os,
      sb_start_permission_watcher = ss_start_permission_watcher os,
      sb_reconcile_existing = ss_reconcile_existing os,
      sb_update_plan = ss_update_plan os,
      sb_refresh_route_rules = ss_lay_routes os,
      sb_rollback = ss_rollback os mc\<rparr>"

section \<open>The system backend meets the contract\<close>

definition sys_routed :: "split_system \<times> trace \<Rightarrow> bool" where
  "sys_routed w = ss_routing_active (fst w)"

definition sys_watched :: "split_system \<times> trace \<Rightarrow> bool" where
  "sys_watched w = ss_watcher (fst w)"

lemma unchanged_with_cgroup [unchanged_intro]:
  "(\<And>cg. unchanged f (k cg)) \<Longrightarrow> unchanged f (with_cgroup k)"
  unfolding with_cgroup_def by (intro unchanged_intro)

text \<open>The reconciler and the health checks touch neither the routing nor the watcher.\<close>

lemma reconciling_unchanged [unchanged_intro]:
  "unchanged ss_routing_active (start_reconciler os)" "unchanged ss_watcher (start_reconciler os)"
  "unchanged ss_routing_active (stop_reconciler os)" "unchanged ss_watcher (stop_reconciler os)"
  "unchanged ss_routing_active (watcher_is_healthy os)" "unchanged ss_watcher (watcher_is_healthy os)"
  "unchanged ss_routing_active (ss_arm_watcher os sels)" "unchanged ss_watcher (ss_arm_watcher os sels)"
  "unchanged ss_routing_active (reconcile_once os)" "unchanged ss_watcher (reconcile_once os)"
  "unchanged ss_routing_active (drop_watcher os)"
  unfolding reconcile_once_def start_reconciler_def stop_reconciler_def watcher_is_healthy_def
    ss_arm_watcher_def drop_watcher_def
  by (auto intro!: unchanged_intro simp: put_owned_def)

lemma operations_unchanged [unchanged_intro]:
  "unchanged ss_watcher (ss_lay_routes os)"
  "unchanged ss_routing_active (ss_start_permission_watcher os plan)"
  "unchanged ss_routing_active (ss_reconcile_existing os plan)"
  "unchanged ss_watcher (ss_reconcile_existing os plan)"
  "unchanged ss_routing_active (ss_update_plan os plan)"
  unfolding ss_lay_routes_def ss_start_permission_watcher_def ss_reconcile_existing_def
    ss_update_plan_def ss_rearm_def
  by (auto intro!: unchanged_intro)

lemma lay_routes_keeps: "keeps sys_routed (ss_lay_routes os)"
  unfolding ss_lay_routes_def keeps_def sys_routed_def with_cgroup_def
  by (auto simp: then_io_def try_io_def get_st_def modify_st_def lift_os_def split: prod.splits sum.splits)

lemma lay_routes_ok: "ss_lay_routes os w = (Inr u, w') \<Longrightarrow> sys_routed w'"
  unfolding ss_lay_routes_def with_cgroup_def sys_routed_def
  by (auto simp: then_io_def try_io_def get_st_def modify_st_def split: prod.splits sum.splits)

lemma install_routed_sys:
  assumes "ss_install_route_rules os w = (Inr u, w')"
  shows "sys_routed w'"
proof -
  obtain w1 where l: "ss_lay_routes os w = (Inr (), w1)"
    and rest: "try_io (lift_os (direct_dns_start os)) (\<lambda>p.
        then_io (modify_st (\<lambda>s. s\<lparr>ss_direct_dns := Some p\<rparr>)) (\<lambda>_. return_io (Ok ()))) w1 = (Inr u, w')"
    using assms unfolding ss_install_route_rules_def try_io_def [of "ss_lay_routes os"]
    by (auto split: prod.splits sum.splits)
  have "ss_routing_active (fst w') = ss_routing_active (fst w1)"
    by (rule unchangedD [of _ "try_io (lift_os (direct_dns_start os)) _", OF _ rest])
       (auto intro!: unchanged_intro)
  then show ?thesis using lay_routes_ok [OF l] by (auto simp: sys_routed_def)
qed

lemma start_watched_sys:
  "ss_start_permission_watcher os plan w = (Inr u, w') \<Longrightarrow> sys_watched w'"
  unfolding ss_start_permission_watcher_def sys_watched_def
  by (auto simp: then_io_def try_io_def modify_st_def split: prod.splits sum.splits if_splits)

lemma drop_watcher_off: "drop_watcher os w = (u, w') \<Longrightarrow> \<not> sys_watched w'"
  unfolding drop_watcher_def sys_watched_def
  by (auto simp: then_io_def modify_st_def split: prod.splits)

lemma rearm_watched:
  assumes "ss_rearm os sels w = (Inr u, w')" and "\<not> sys_watched w"
  shows "sys_watched w' = (sels \<noteq> [])"
proof (cases "sels = []")
  case True
  then show ?thesis
    using assms unchangedD [OF reconciling_unchanged(10)] by (fastforce simp: ss_rearm_def sys_watched_def)
next
  case False
  let ?tail = "try_io (reconcile_once os) (\<lambda>_. then_io (start_reconciler os) (\<lambda>_. return_io (Ok ())))"
  obtain s tr where t: "?tail (s\<lparr>ss_watcher := True\<rparr>, tr) = (Inr u, w')"
    using assms(1) False unfolding ss_rearm_def try_io_def [of "ss_arm_watcher os sels"]
    by (auto simp: then_io_def [of "modify_st _"] modify_st_def split: prod.splits sum.splits)
  have "ss_watcher (fst w') = ss_watcher (fst (s\<lparr>ss_watcher := True\<rparr>, tr))"
    by (rule unchangedD [of _ ?tail, OF _ t]) (intro unchanged_intro)
  then show ?thesis using False by (simp add: sys_watched_def)
qed

lemma update_watched_sys:
  assumes "ss_update_plan os plan w = (Inr u, w')"
  shows "sys_watched w' = (sp_applications plan \<noteq> [])"
proof -
  obtain sels w1 w2 w3 w4 where p: "lift_os (plan_selectors os plan) w = (Inr sels, w1)"
    and d: "drop_watcher os w2 = ((), w3)"
    and m: "modify_st (\<lambda>s. s\<lparr>ss_selectors := sels\<rparr>) w3 = ((), w4)"
    and t: "ss_rearm os sels w4 = (Inr u, w')"
    using assms unfolding ss_update_plan_def try_io_def then_io_def
    by (auto split: prod.splits sum.splits)
  have "sels = [] \<longleftrightarrow> sp_applications plan = []"
    using p map_ok_length unfolding plan_selectors_def lift_os_def
    by (fastforce split: prod.splits)
  moreover have "\<not> sys_watched w4"
    using m drop_watcher_off [OF d] by (auto simp: modify_st_def sys_watched_def)
  ultimately show ?thesis using rearm_watched [OF t] by simp
qed

lemma rollback_clears_sys:
  assumes "ss_rollback os mc w = (r, w')"
  shows "\<not> sys_routed w' \<and> \<not> sys_watched w'"
proof -
  obtain s w1 w2 where d: "drop_watcher os w1 = ((), w2)" and b: "ss_release os mc s w2 = (r, w')"
    using assms unfolding ss_rollback_def then_io_def get_st_def
    by (auto split: prod.splits)
  have "ss_watcher (fst w') = ss_watcher (fst w2)"
    by (rule unchangedD [of _ "ss_release os mc s", OF _ b])
       (unfold ss_release_def ss_release_cgroup_def, auto intro!: unchanged_intro)
  then have "\<not> sys_watched w'" using drop_watcher_off [OF d] by (simp add: sys_watched_def)
  moreover have "\<not> sys_routed w'"
  proof -
    obtain fs w3 w4 where off: "modify_st (\<lambda>s. s\<lparr>ss_routing_active := False\<rparr>) w3 = ((), w4)"
      and t: "ss_release_cgroup os mc s fs w4 = (r, w')"
      using b unfolding ss_release_def then_io_def by (auto split: prod.splits)
    have "ss_routing_active (fst w') = ss_routing_active (fst w4)"
      by (rule unchangedD [of _ "ss_release_cgroup os mc s fs", OF _ t])
         (unfold ss_release_cgroup_def, auto intro!: unchanged_intro)
    then show ?thesis using off by (auto simp: sys_routed_def modify_st_def)
  qed
  ultimately show ?thesis by blast
qed

interpretation system_split: split_contract "system_split_backend os mc" sys_routed sys_watched
  for os mc
proof unfold_locales
  fix b u b' plan r
  show "sb_install_route_rules (system_split_backend os mc) b = (Inr u, b') \<Longrightarrow> sys_routed b'"
    by (simp add: system_split_backend_def install_routed_sys)
  show "sb_start_permission_watcher (system_split_backend os mc) plan b = (r, b') \<Longrightarrow>
      sys_routed b' = sys_routed b"
    unfolding sys_routed_def
    by (rule unchangedD [OF operations_unchanged(2)]) (simp add: system_split_backend_def)
  show "sb_start_permission_watcher (system_split_backend os mc) plan b = (Inr u, b') \<Longrightarrow> sys_watched b'"
    by (simp add: system_split_backend_def start_watched_sys)
  show "sb_reconcile_existing (system_split_backend os mc) plan b = (r, b') \<Longrightarrow>
      sys_routed b' = sys_routed b \<and> sys_watched b' = sys_watched b"
    using unchangedD [OF operations_unchanged(3)] unchangedD [OF operations_unchanged(4)]
    by (simp add: system_split_backend_def sys_routed_def sys_watched_def)
  show "sb_update_plan (system_split_backend os mc) plan b = (r, b') \<Longrightarrow> sys_routed b' = sys_routed b"
    unfolding sys_routed_def
    by (rule unchangedD [OF operations_unchanged(5)]) (simp add: system_split_backend_def)
  show "sb_update_plan (system_split_backend os mc) plan b = (Inr u, b') \<Longrightarrow>
      sys_watched b' = (sp_applications plan \<noteq> [])"
    by (simp add: system_split_backend_def update_watched_sys)
  show "sb_refresh_route_rules (system_split_backend os mc) b = (r, b') \<Longrightarrow> sys_routed b \<Longrightarrow> sys_routed b'"
    by (rule keepsD [OF lay_routes_keeps]) (simp_all add: system_split_backend_def)
  show "sb_refresh_route_rules (system_split_backend os mc) b = (r, b') \<Longrightarrow> sys_watched b' = sys_watched b"
    unfolding sys_watched_def
    by (rule unchangedD [OF operations_unchanged(1)]) (simp add: system_split_backend_def)
  show "sb_rollback (system_split_backend os mc) b = (r, b') \<Longrightarrow> \<not> sys_routed b' \<and> \<not> sys_watched b'"
    by (simp add: system_split_backend_def rollback_clears_sys)
qed

end
