(* ===== verification/Recovery.thy ===== *)
theory Recovery
  imports State_Store Split_Manager "HOL-Library.List_Lexorder" "HOL-Library.Char_ord"
    "HOL-Library.Product_Lexorder"
begin

text \<open>
  \<open>daemon/src/recovery.rs\<close>: at its start the daemon finds what an earlier run left on the
  machine, removes it, and looks again.  A \<open>BTreeSet<Resource>\<close> is a sorted list without
  duplicates; the derived order of \<open>Resource\<close> is an instance of \<open>linorder\<close>, because the order
  is the order of removal.
\<close>

section \<open>Resources in their order\<close>

datatype resource =
    XrayProcess process_identity
  | TunInterface string
  | RouteTable string
  | NftTable string
  | SplitBpf string
  | RuntimeFile string

text \<open>
  The derived \<open>Ord\<close>: the variant first, then the payload; a path by its components (and,
  so that the order is antisymmetric on spellings, by its text).
\<close>

fun resource_key :: "resource \<Rightarrow> nat \<times> nat \<times> nat \<times> string list \<times> string" where
  "resource_key (XrayProcess i) =
     (0, pi_pid i, pi_start_time_ticks i, path_comps (pi_executable i), pi_executable i)"
| "resource_key (TunInterface s) = (1, 0, 0, [], s)"
| "resource_key (RouteTable s) = (2, 0, 0, [], s)"
| "resource_key (NftTable s) = (3, 0, 0, [], s)"
| "resource_key (SplitBpf s) = (4, 0, 0, path_comps s, s)"
| "resource_key (RuntimeFile s) = (5, 0, 0, path_comps s, s)"

lemma resource_key_inj: "resource_key a = resource_key b \<Longrightarrow> a = b"
  by (cases a; cases b) auto

instantiation resource :: linorder
begin

definition less_eq_resource :: "resource \<Rightarrow> resource \<Rightarrow> bool" where
  "less_eq_resource a b \<longleftrightarrow> resource_key a \<le> resource_key b"

definition less_resource :: "resource \<Rightarrow> resource \<Rightarrow> bool" where
  "less_resource a b \<longleftrightarrow> resource_key a < resource_key b"

instance
  by standard
     (auto simp: less_eq_resource_def less_resource_def less_le_not_le
        intro: resource_key_inj order.antisym order_trans linear)

end

definition btree_set :: "'a :: linorder list \<Rightarrow> 'a list" where
  "btree_set xs = sort (remdups xs)"

lemma btree_set_props [simp]:
  "set (btree_set xs) = set xs" "distinct (btree_set xs)" "sorted (btree_set xs)"
  by (simp_all add: btree_set_def)

section \<open>Routes\<close>

definition mentions_any :: "string list \<Rightarrow> string \<Rightarrow> bool" where
  "mentions_any pats s = list_ex (\<lambda>p. str_contains p s) pats"

definition route_resources :: "string \<Rightarrow> string \<Rightarrow> resource list" where
  "route_resources rules_text routes_text =
     (let split_table = ''lookup '' @ SPLIT_TABLE;
          split_rules = filter (str_contains split_table) (str_lines rules_text);
          helper_rules = join_with [newline]
            (filter (\<lambda>l. \<not> str_contains split_table l) (str_lines rules_text)) in
      btree_set
        ((if mentions_any [''0x2023'', ''0x00002023''] rules_text then [RouteTable ''101''] else [])
         @ (if split_rules \<noteq> [] then [RouteTable SPLIT_TABLE] else [])
         @ (if mentions_any [''0x2024'', ''0x00002024'', ''0x2025'', ''0x00002025''] helper_rules
               \<or> mentions_any [''0.0.0.0/1'', ''128.0.0.0/1'', ''blackhole ::/1'', ''blackhole 8000::/1''] routes_text
            then [RouteTable ''100''] else [])))"

section \<open>The system backend\<close>

definition nft_table_exists :: "os \<Rightarrow> string \<Rightarrow> (trace, bool) io" where
  "nft_table_exists os name =
     map_io (\<lambda>r. case r of Inl _ \<Rightarrow> False | Inr out \<Rightarrow> out_success out)
       (run_command os ''nft'' [''list'', ''table'', ''inet'', name] [])"

definition own_tables :: "string list" where
  "own_tables = [''varmlen_dns'', ''varmlen_split_dns'', ''varmlen_split'', ''varmlen_ks'']"

definition inspect_output :: "os \<Rightarrow> string \<Rightarrow> string list \<Rightarrow> (trace, string + string) io" where
  "inspect_output os what args =
     map_io (\<lambda>r. case r of Inl e \<Rightarrow> Err (''inspect '' @ what @ '': '' @ err_text e)
                        | Inr out \<Rightarrow> Ok (from_utf8_lossy (out_stdout out)))
       (run_command os ''ip'' args [])"

text \<open>The process a saved state names, when it still is that process.\<close>

definition saved_process :: "os \<Rightarrow> process_identity option \<Rightarrow> (trace, resource list) io" where
  "saved_process os saved =
     (case saved of
        None \<Rightarrow> return_io []
      | Some i \<Rightarrow>
          map_io (\<lambda>r. case r of Inl _ \<Rightarrow> []
                             | Inr live \<Rightarrow> if identity_matches i live then [XrayProcess i] else [])
            (identity_from_pid os (pi_pid i)))"

definition saved_resources ::
    "os \<Rightarrow> (string \<Rightarrow> string + persisted_state) \<Rightarrow> nat \<Rightarrow> string \<Rightarrow> (trace, string + resource list) io" where
  "saved_resources os de owner_uid state_path =
     try_io (map_io (map_err (\<lambda>e. ''read recovery state: '' @ io_error_text e))
               (state_read os de state_path)) (\<lambda>saved.
     case saved of
       None \<Rightarrow> return_io (Ok [])
     | Some st \<Rightarrow>
         if pst_owner_uid st \<noteq> owner_uid
         then return_io (Err ''recovery state belongs to another user'')
         else map_io (\<lambda>ps. Ok (ps @ [RuntimeFile state_path])) (saved_process os (pst_xray st)))"

definition existing_tables :: "os \<Rightarrow> (trace, resource list) io" where
  "existing_tables os =
     fold_io (\<lambda>t acc. map_io (\<lambda>b. if b then acc @ [NftTable t] else acc) (nft_table_exists os t))
       own_tables []"

definition system_inspect ::
    "os \<Rightarrow> (string \<Rightarrow> string + persisted_state) \<Rightarrow> nat \<Rightarrow> string \<Rightarrow> (trace, string + resource list) io" where
  "system_inspect os de owner_uid state_path =
     try_io (saved_resources os de owner_uid state_path) (\<lambda>saved.
     then_io (ask_flag os (PathExists ''/sys/class/net/varmlen0'')) (\<lambda>tun.
     try_io (inspect_output os ''policy rules'' [''rule'', ''show'']) (\<lambda>rules.
     try_io (inspect_output os ''IPv4 routes'' [''route'', ''show'']) (\<lambda>v4.
     try_io (inspect_output os ''IPv6 routes'' [''-6'', ''route'', ''show'']) (\<lambda>v6.
     then_io (existing_tables os) (\<lambda>tables.
     then_io (ask_flag os (PathExists (bypass_cgroup_path owner_uid))) (\<lambda>cgroup.
     return_io (Ok (btree_set
       (saved @ (if tun then [TunInterface ''varmlen0''] else [])
        @ route_resources rules (v4 @ [newline] @ v6) @ tables
        @ (if cgroup then [SplitBpf (bypass_cgroup_path owner_uid)] else [])))))))))))"

definition command_success :: "os \<Rightarrow> string \<Rightarrow> string list \<Rightarrow> (trace, string + unit) io" where
  "command_success os program args =
     map_io (\<lambda>r. case r of
               Inl e \<Rightarrow> Err (program @ '': '' @ err_text e)
             | Inr out \<Rightarrow>
                 if out_success out then Ok ()
                 else Err (program @ '': '' @ trim (from_utf8_lossy (out_stderr out))))
       (run_command os program args [])"

definition SIGTERM :: nat where "SIGTERM = 15"
definition SIGKILL :: nat where "SIGKILL = 9"

text \<open>Whether the process is gone within the rounds left.\<close>

fun gone_within :: "os \<Rightarrow> nat \<Rightarrow> nat \<Rightarrow> (trace, bool) io" where
  "gone_within os pid 0 = return_io False"
| "gone_within os pid (Suc n) =
     then_io (identity_from_pid os pid) (\<lambda>r.
       if is_err r then return_io True
       else then_io (ask os (Sleep 100)) (\<lambda>_. gone_within os pid n))"

definition kill_if_same ::
    "os \<Rightarrow> process_identity \<Rightarrow> nat \<Rightarrow> string \<Rightarrow> (trace, string + (os_error + unit)) io" where
  "kill_if_same os saved sig refusal =
     try_io (identity_from_pid os (pi_pid saved)) (\<lambda>live.
       if \<not> identity_matches saved live then return_io (Err refusal)
       else map_io Ok (do_call os (Kill (pi_pid saved) sig)))"

definition terminate_process :: "os \<Rightarrow> process_identity \<Rightarrow> (trace, string + unit) io" where
  "terminate_process os saved =
     try_io (kill_if_same os saved SIGTERM ''refusing to terminate a reused PID'') (\<lambda>_.
     then_io (gone_within os (pi_pid saved) 20) (\<lambda>gone.
       if gone then return_io (Ok ())
       else map_io (\<lambda>r. try_then r (\<lambda>sent. case sent of
                Inl e \<Rightarrow> Err (''kill stale Xray: '' @ err_text e) | Inr _ \<Rightarrow> Ok ()))
              (kill_if_same os saved SIGKILL ''refusing to kill a reused PID'')))"

fun del_rule :: "os \<Rightarrow> string list \<Rightarrow> nat \<Rightarrow> (trace, unit) io" where
  "del_rule os args 0 = return_io ()"
| "del_rule os args (Suc n) =
     then_io (command_success os ''ip'' args) (\<lambda>r. if is_err r then return_io () else del_rule os args n)"

definition clear_route_table :: "os \<Rightarrow> string \<Rightarrow> (trace, string + unit) io" where
  "clear_route_table os table =
     then_io (if table = ''100''
              then map_io (\<lambda>_. ()) (command_success os ''/usr/libexec/varmlen/varmlen-net'' [''cleanup''])
              else return_io ()) (\<lambda>_.
     then_io (ignore_all
       [del_rule os [family, ''rule'', ''del'', ''fwmark'', mark, ''lookup'', table] 4.
          mark \<leftarrow> (if table = ''100'' then [''0x2024'', ''0x2025''] else [''0x2023'']),
          family \<leftarrow> [''-4'', ''-6'']]) (\<lambda>_.
     command_success os ''ip'' [''route'', ''flush'', ''table'', table]))"

definition restore_members :: "os \<Rightarrow> string \<Rightarrow> string list \<Rightarrow> (trace, string + unit) io" where
  "restore_members os parent_procs pids =
     all_ok (map (\<lambda>pid. map_io (map_err (\<lambda>e. ''restore split process: '' @ err_text e))
                          (do_call os (WriteFile parent_procs pid))) pids)"

definition cleanup_split_cgroup :: "os \<Rightarrow> machine \<Rightarrow> string \<Rightarrow> (trace, string + unit) io" where
  "cleanup_split_cgroup os mc path =
     try_io (map_io (map_err (\<lambda>e. ''open split cgroup: '' @ err_text e)) (ask_number os (OpenDir path))) (\<lambda>fd.
     then_io (detach_socket_mark os mc fd) (\<lambda>_.
     case path_parent path of
       None \<Rightarrow> return_io (Err ''split cgroup has no parent'')
     | Some parent \<Rightarrow>
         try_io (map_io (map_err (\<lambda>e. ''read split processes: '' @ err_text e))
                   (ask_text os (ReadFile (path @ ''/cgroup.procs'')))) (\<lambda>pids.
         try_io (restore_members os (parent @ ''/cgroup.procs'') (filter (\<lambda>l. l \<noteq> []) (str_lines pids))) (\<lambda>_.
         map_io (map_err (\<lambda>e. ''remove split cgroup: '' @ err_text e)) (do_call os (RemoveDir path))))))"

definition refuse :: "(trace, string + unit) io" where
  "refuse = return_io (Err ''refusing to remove an unrecognized recovery resource'')"

fun system_remove ::
    "os \<Rightarrow> machine \<Rightarrow> nat \<Rightarrow> string \<Rightarrow> resource \<Rightarrow> (trace, string + unit) io" where
  "system_remove os mc uid state_path (XrayProcess saved) = terminate_process os saved"
| "system_remove os mc uid state_path (TunInterface i) =
     (if i = ''varmlen0'' then command_success os ''ip'' [''link'', ''delete'', ''dev'', i] else refuse)"
| "system_remove os mc uid state_path (RouteTable t) =
     (if t = SPLIT_TABLE
      then map_io (\<lambda>_. Ok ()) (ignore_all (map (command_success os ''ip'') routing_teardown_commands))
      else if t = ''100'' \<or> t = ''101'' then clear_route_table os t
      else refuse)"
| "system_remove os mc uid state_path (NftTable t) =
     (if t \<in> set own_tables then command_success os ''nft'' [''delete'', ''table'', ''inet'', t] else refuse)"
| "system_remove os mc uid state_path (SplitBpf p) =
     (if path_eq p (bypass_cgroup_path uid) then cleanup_split_cgroup os mc p else refuse)"
| "system_remove os mc uid state_path (RuntimeFile p) =
     (if path_eq p state_path
      then map_io (map_err (\<lambda>e. ''remove state: '' @ err_text e)) (do_call os (RemoveFile p))
      else refuse)"

section \<open>The manager\<close>

record 'b cleanup_backend =
  cb_inspect :: "('b, string + resource list) io"
  cb_remove :: "resource \<Rightarrow> ('b, string + unit) io"

record cleanup_report =
  rp_removed :: "resource list"
  rp_remaining :: "resource list"

definition report_phase :: "cleanup_report \<Rightarrow> connection_phase" where
  "report_phase r = (if rp_remaining r = [] then Disconnected else RecoveryRequired)"

definition recovery_cleanup :: "'b cleanup_backend \<Rightarrow> ('b, string + cleanup_report) io" where
  "recovery_cleanup ops =
     try_io (cb_inspect ops) (\<lambda>before.
     then_io (ignore_all (map (cb_remove ops) before)) (\<lambda>_.
     try_io (cb_inspect ops) (\<lambda>remaining.
     return_io (Ok \<lparr>rp_removed = filter (\<lambda>x. x \<notin> set remaining) before,
                   rp_remaining = remaining\<rparr>))))"

definition system_cleanup_backend ::
    "os \<Rightarrow> machine \<Rightarrow> (string \<Rightarrow> string + persisted_state) \<Rightarrow> nat \<Rightarrow> string \<Rightarrow> trace cleanup_backend" where
  "system_cleanup_backend os mc de uid state_path =
     \<lparr>cb_inspect = system_inspect os de uid state_path,
      cb_remove = system_remove os mc uid state_path\<rparr>"

text \<open>\<open>main\<close>: the phase the daemon starts in.\<close>

definition startup_phase :: "'b cleanup_backend \<Rightarrow> ('b, connection_phase) io" where
  "startup_phase ops =
     map_io (\<lambda>r. case r of Inl _ \<Rightarrow> RecoveryRequired | Inr rep \<Rightarrow> report_phase rep)
       (recovery_cleanup ops)"

end
