(* ===== verification/Log_Store.thy ===== *)
theory Log_Store
  imports State_Store "HOL-Library.Sublist"
begin

text \<open>
  \<open>daemon/src/log_store.rs\<close>: the bounded log of Xray's output, with three rotated files.  The
  operations are stated over the calls they make; their effect is shown on a file system,
  which is the environment that answers those calls from the files it keeps.
\<close>

definition MAX_LOG_BYTES :: nat where "MAX_LOG_BYTES = 10 * 1024 * 1024"
definition MAX_LOG_TAIL_BYTES :: nat where "MAX_LOG_TAIL_BYTES = 256 * 1024"
definition ROTATED_LOGS :: nat where "ROTATED_LOGS = 3"

definition log_path_for_owner :: "nat \<Rightarrow> string" where
  "log_path_for_owner uid = ''/run/varmlen/xray-'' @ dec uid @ ''.log''"

definition rotated_path :: "string \<Rightarrow> nat \<Rightarrow> string" where
  "rotated_path path index = (if index = 0 then path else path @ ''.'' @ dec index)"

text \<open>A failure that only says the file is not there is no failure.\<close>

definition allow_missing :: "os_error + unit \<Rightarrow> os_error + unit" where
  "allow_missing r = (case r of Inr u \<Rightarrow> Ok u | Inl e \<Rightarrow> if int (errno e) = ENOENT then Ok () else Err e)"

definition rename_if_exists :: "os \<Rightarrow> string \<Rightarrow> string \<Rightarrow> (trace, os_error + unit) io" where
  "rename_if_exists os from to = map_io allow_missing (do_call os (Rename from to))"

definition log_rotate :: "os \<Rightarrow> string \<Rightarrow> (trace, os_error + unit) io" where
  "log_rotate os path =
     try_io (map_io allow_missing (do_call os (RemoveFile (rotated_path path ROTATED_LOGS)))) (\<lambda>_.
     try_io (all_ok (map (\<lambda>i. rename_if_exists os (rotated_path path i) (rotated_path path (i + 1)))
                (rev [1..<ROTATED_LOGS]))) (\<lambda>_.
     rename_if_exists os path (rotated_path path 1)))"

definition log_append :: "os \<Rightarrow> string \<Rightarrow> string \<Rightarrow> (trace, os_error + unit) io" where
  "log_append os path bytes =
     (if bytes = [] then return_io (Ok ())
      else then_io (ask_number os (FileSize path)) (\<lambda>size.
        let current_len = (case size of Inl _ \<Rightarrow> 0 | Inr n \<Rightarrow> n) in
        try_io (if min u64_max (current_len + length bytes) > MAX_LOG_BYTES
                then log_rotate os path else return_io (Ok ())) (\<lambda>_.
        do_call os (AppendFile path (drop (length bytes - MAX_LOG_BYTES) bytes)))))"

text \<open>Everything after the first newline, if there is one.\<close>

definition after_first_newline :: "string \<Rightarrow> string" where
  "after_first_newline s = (if newline \<in> set s then tl (dropWhile (\<lambda>c. c \<noteq> newline) s) else s)"

definition log_tail :: "os \<Rightarrow> string \<Rightarrow> nat \<Rightarrow> (trace, os_error + string) io" where
  "log_tail os path max_bytes =
     then_io (ask_number os (OpenRead path)) (\<lambda>opened. case opened of
       Inl e \<Rightarrow> return_io (if int (errno e) = ENOENT then Ok [] else Err e)
     | Inr fd \<Rightarrow>
         try_io (ask_number os (FileLen fd)) (\<lambda>len.
         let start = len - min max_bytes MAX_LOG_TAIL_BYTES in
         map_io (\<lambda>r. try_then r (\<lambda>bytes.
             Ok (from_utf8_lossy (if start > 0 then after_first_newline bytes else bytes))))
           (ask_text os (ReadFrom fd start))))"

definition log_clear :: "os \<Rightarrow> string \<Rightarrow> (trace, os_error + unit) io" where
  "log_clear os path =
     all_ok (map (\<lambda>i. map_io allow_missing (do_call os (RemoveFile (rotated_path path i))))
               [0..<ROTATED_LOGS + 1])"

text \<open>\<open>pump_xray_log\<close>: the chunks Xray writes, until one cannot be stored.\<close>

fun pump_xray_log :: "os \<Rightarrow> string \<Rightarrow> string list \<Rightarrow> (trace, unit) io" where
  "pump_xray_log os path [] = return_io ()"
| "pump_xray_log os path (chunk # chunks) =
     (if chunk = [] then return_io ()
      else then_io (log_append os path chunk) (\<lambda>r.
        if is_err r then return_io () else pump_xray_log os path chunks))"

section \<open>A file system\<close>

type_synonym files = "string \<Rightarrow> string option"

definition fs_rename :: "string \<Rightarrow> string \<Rightarrow> files \<Rightarrow> files" where
  "fs_rename a b fs = (case fs a of None \<Rightarrow> fs | Some c \<Rightarrow> if a = b then fs else fs(b \<mapsto> c, a := None))"

definition fs_append :: "string \<Rightarrow> string \<Rightarrow> files \<Rightarrow> files" where
  "fs_append p bytes fs = fs(p \<mapsto> (case fs p of None \<Rightarrow> [] | Some c \<Rightarrow> c) @ bytes)"

fun fs_effect :: "call \<Rightarrow> files \<Rightarrow> files" where
  "fs_effect (RemoveFile p) fs = fs(p := None)"
| "fs_effect (Rename a b) fs = fs_rename a b fs"
| "fs_effect (AppendFile p bytes) fs = fs_append p bytes fs"
| "fs_effect _ fs = fs"

definition fs_after :: "files \<Rightarrow> trace \<Rightarrow> files" where
  "fs_after init tr = foldr (\<lambda>(c, _). fs_effect c) tr init"

text \<open>A descriptor is the place in the history where it was opened.\<close>

definition opened_path :: "trace \<Rightarrow> nat \<Rightarrow> string" where
  "opened_path tr fd = (case fst (rev tr ! fd) of OpenRead p \<Rightarrow> p | _ \<Rightarrow> [])"

definition missing :: reply where "missing = Failed 2 ''No such file or directory''"

definition file_system :: "files \<Rightarrow> os" where
  "file_system init tr c =
     (let fs = fs_after init tr in
      case c of
        RemoveFile p \<Rightarrow> if fs p = None then missing else Done
      | Rename a b \<Rightarrow> if fs a = None then missing else Done
      | AppendFile p bytes \<Rightarrow> Done
      | FileSize p \<Rightarrow> (case fs p of None \<Rightarrow> missing | Some s \<Rightarrow> Number (length s))
      | OpenRead p \<Rightarrow> if fs p = None then missing else Number (length tr)
      | FileLen fd \<Rightarrow> (case fs (opened_path tr fd) of None \<Rightarrow> missing | Some s \<Rightarrow> Number (length s))
      | ReadFrom fd n \<Rightarrow> (case fs (opened_path tr fd) of None \<Rightarrow> missing | Some s \<Rightarrow> Text (drop n s))
      | _ \<Rightarrow> missing)"

lemma fs_after_simps [simp]:
  "fs_after init ((c, r) # tr) = fs_effect c (fs_after init tr)"
  by (simp add: fs_after_def)

section \<open>What the operations do to the files\<close>

definition file_text :: "files \<Rightarrow> string \<Rightarrow> string" where
  "file_text fs p = (case fs p of None \<Rightarrow> [] | Some s \<Rightarrow> s)"

definition rotated :: "string \<Rightarrow> files \<Rightarrow> files" where
  "rotated path fs =
     fs_rename path (rotated_path path 1)
       (fs_rename (rotated_path path 1) (rotated_path path 2)
         (fs_rename (rotated_path path 2) (rotated_path path 3)
           (fs(rotated_path path 3 := None))))"

definition appended :: "string \<Rightarrow> string \<Rightarrow> files \<Rightarrow> files" where
  "appended path bytes fs =
     (let n = length (file_text fs path);
          fs' = (if min u64_max (n + length bytes) > MAX_LOG_BYTES then rotated path fs else fs) in
      fs_append path (drop (length bytes - MAX_LOG_BYTES) bytes) fs')"

lemma missing_ok: "allow_missing (Inl (failure_of missing)) = Inr ()"
  by (simp add: allow_missing_def missing_def failure_of_def ENOENT_def)

lemma fs_remove: "map_io allow_missing (do_call (file_system init) (RemoveFile p)) tr =
    (Inr (), (RemoveFile p, file_system init tr (RemoveFile p)) # tr)"
  by (simp add: map_io_def do_call_eq missing_ok allow_missing_def [of "Inr _"] file_system_def Let_def)

lemma fs_rename_call: "rename_if_exists (file_system init) a b tr =
    (Inr (), (Rename a b, file_system init tr (Rename a b)) # tr)"
  by (simp add: rename_if_exists_def map_io_def do_call_eq missing_ok allow_missing_def [of "Inr _"]
        file_system_def Let_def)

lemma log_rotate_files:
  "\<exists>tr'. log_rotate (file_system init) path tr = (Inr (), tr') \<and> fs_after init tr' = rotated path (fs_after init tr)"
  by (simp add: log_rotate_def ROTATED_LOGS_def try_io_def fs_remove fs_rename_call rotated_def
        upt_conv_Cons numeral_2_eq_2 numeral_3_eq_3)

lemma log_append_files:
  assumes "bytes \<noteq> []"
  shows "\<exists>tr'. log_append (file_system init) path bytes tr = (Inr (), tr')
           \<and> fs_after init tr' = appended path bytes (fs_after init tr)"
proof -
  let ?fs = "fs_after init tr"
  let ?n = "case ?fs path of None \<Rightarrow> 0 | Some s \<Rightarrow> length s"
  let ?tr1 = "(FileSize path, file_system init tr (FileSize path)) # tr"
  have size: "ask_number (file_system init) (FileSize path) tr =
      (case ?fs path of None \<Rightarrow> (Inl (failure_of missing), ?tr1) | Some s \<Rightarrow> (Inr (length s), ?tr1))"
    by (auto simp: ask_number_def ask_as_def ask_def Let_def file_system_def missing_def split: option.splits)
  have fs1: "fs_after init ?tr1 = ?fs" by simp
  obtain tr2 where rot: "log_rotate (file_system init) path ?tr1 = (Inr (), tr2)"
    and fs2: "fs_after init tr2 = rotated path ?fs"
    using log_rotate_files [of init path ?tr1] fs1 by auto
  show ?thesis
    using assms size rot fs2
    by (cases "?fs path")
       (auto simp: log_append_def then_io_def try_io_def Let_def do_call_eq appended_def file_text_def file_system_def)
qed

section \<open>The log stays bounded\<close>

definition log_bounded :: "string \<Rightarrow> files \<Rightarrow> bool" where
  "log_bounded path fs \<longleftrightarrow>
     (\<forall>i \<le> ROTATED_LOGS. \<forall>s. fs (rotated_path path i) = Some s \<longrightarrow> length s \<le> MAX_LOG_BYTES)"

lemma dec_1: "dec 1 = ''1''" and dec_2: "dec 2 = ''2''" and dec_3: "dec 3 = ''3''"
  by (code_simp)+

lemma rotated_path_simps:
  "rotated_path path 0 = path" "rotated_path path 1 = path @ ''.1''" "rotated_path path 2 = path @ ''.2''"
  "rotated_path path 3 = path @ ''.3''" "rotated_path path (Suc 0) = path @ ''.1''"
  using dec_1 dec_2 dec_3 by (simp_all add: rotated_path_def)

lemma le_ROTATED: "i \<le> ROTATED_LOGS \<longleftrightarrow> i = 0 \<or> i = 1 \<or> i = 2 \<or> i = 3"
  by (auto simp: ROTATED_LOGS_def)

lemma log_bounded_iff:
  "log_bounded path fs \<longleftrightarrow>
     (\<forall>p \<in> {path, path @ ''.1'', path @ ''.2'', path @ ''.3''}. \<forall>s. fs p = Some s \<longrightarrow> length s \<le> MAX_LOG_BYTES)"
  unfolding log_bounded_def le_ROTATED by (auto simp: rotated_path_simps)

lemma rotated_files:
  "rotated path fs path = None"
  "rotated path fs (path @ ''.1'') = fs path"
  "rotated path fs (path @ ''.2'') = fs (path @ ''.1'')"
  "rotated path fs (path @ ''.3'') = fs (path @ ''.2'')"
  by (auto simp: rotated_def rotated_path_simps fs_rename_def split: option.splits)

lemma MAX_LOG_less: "MAX_LOG_BYTES < u64_max"
  by (simp add: u64_max_def MAX_LOG_BYTES_def)

lemma appended_cases:
  "length (file_text fs path) + length bytes > MAX_LOG_BYTES \<Longrightarrow>
     appended path bytes fs = fs_append path (drop (length bytes - MAX_LOG_BYTES) bytes) (rotated path fs)"
  "length (file_text fs path) + length bytes \<le> MAX_LOG_BYTES \<Longrightarrow>
     appended path bytes fs = fs_append path bytes fs"
  using MAX_LOG_less by (simp_all add: appended_def Let_def)

lemma appended_bounded:
  assumes "log_bounded path fs"
  shows "log_bounded path (appended path bytes fs)"
proof (cases "length (file_text fs path) + length bytes > MAX_LOG_BYTES")
  case True
  then show ?thesis
    using assms rotated_files [of path fs] unfolding appended_cases(1) [OF True] log_bounded_iff
    by (auto simp: fs_append_def)
next
  case False
  then have le: "length (file_text fs path) + length bytes \<le> MAX_LOG_BYTES" by simp
  then show ?thesis
    using assms unfolding appended_cases(2) [OF le] log_bounded_iff
    by (auto simp: fs_append_def file_text_def split: option.splits)
qed

text \<open>The log read from its oldest file to the current one.\<close>

definition whole_log :: "string \<Rightarrow> files \<Rightarrow> string" where
  "whole_log path fs =
     file_text fs (path @ ''.3'') @ file_text fs (path @ ''.2'') @ file_text fs (path @ ''.1'')
     @ file_text fs path"

lemma appended_suffix:
  assumes "length bytes \<le> MAX_LOG_BYTES"
  shows "suffix (whole_log path (appended path bytes fs)) (whole_log path fs @ bytes)"
proof (cases "length (file_text fs path) + length bytes > MAX_LOG_BYTES")
  case True
  have "whole_log path (appended path bytes fs) =
      file_text fs (path @ ''.2'') @ file_text fs (path @ ''.1'') @ file_text fs path @ bytes"
    using rotated_files [of path fs] assms unfolding appended_cases(1) [OF True]
    by (simp add: whole_log_def file_text_def fs_append_def)
  then show ?thesis by (simp add: whole_log_def suffix_def)
next
  case False
  then have le: "length (file_text fs path) + length bytes \<le> MAX_LOG_BYTES" by simp
  show ?thesis
    unfolding appended_cases(2) [OF le]
    by (auto simp: whole_log_def file_text_def fs_append_def split: option.splits)
qed

lemma log_clear_files:
  "\<exists>tr'. log_clear (file_system init) path tr = (Inr (), tr') \<and> whole_log path (fs_after init tr') = []"
proof -
  have "[0..<ROTATED_LOGS + 1] = [0, 1, 2, 3]" by code_simp
  then show ?thesis
    unfolding log_clear_def
    by (simp add: try_io_def fs_remove rotated_path_simps whole_log_def file_text_def del: upt.simps)
qed

section \<open>The tail\<close>

lemma after_first_newline_split:
  "\<exists>pre. s = pre @ after_first_newline s \<and> (pre = [] \<or> last pre = newline)"
proof (cases "newline \<in> set s")
  case True
  then obtain ys zs where s: "s = ys @ newline # zs" "newline \<notin> set ys" by (auto dest: split_list_first)
  have "after_first_newline s = zs"
    using s by (simp add: after_first_newline_def dropWhile_append)
  then show ?thesis using s by (intro exI [of _ "ys @ [newline]"]) simp
qed (auto simp: after_first_newline_def)

lemma log_tail_file:
  assumes "fs_after init tr path = Some s"
  shows "\<exists>tr' body pre. log_tail (file_system init) path n tr = (Inr (from_utf8_lossy body), tr')
     \<and> s = pre @ body \<and> length body \<le> min n MAX_LOG_TAIL_BYTES
     \<and> (length s \<le> min n MAX_LOG_TAIL_BYTES \<longrightarrow> body = s)
     \<and> (pre = [] \<or> last pre = newline \<or> newline \<notin> set body)"
proof -
  let ?k = "min n MAX_LOG_TAIL_BYTES" and ?start = "length s - min n MAX_LOG_TAIL_BYTES"
  let ?tr1 = "(OpenRead path, Number (length tr)) # tr"
  have op: "ask_number (file_system init) (OpenRead path) tr = (Inr (length tr), ?tr1)"
    using assms by (simp add: ask_number_def ask_as_def ask_def Let_def file_system_def)
  have fd: "opened_path (x # ?tr1) (length tr) = path" "opened_path ?tr1 (length tr) = path" for x
    by (simp_all add: opened_path_def nth_append)
  let ?tr2 = "(FileLen (length tr), Number (length s)) # ?tr1"
  have len: "ask_number (file_system init) (FileLen (length tr)) ?tr1 = (Inr (length s), ?tr2)"
    using assms by (simp add: ask_number_def ask_as_def ask_def Let_def file_system_def fd)
  have rd: "ask_text (file_system init) (ReadFrom (length tr) ?start) ?tr2 =
      (Inr (drop ?start s), (ReadFrom (length tr) ?start, Text (drop ?start s)) # ?tr2)"
    using assms by (simp add: ask_text_def ask_as_def ask_def Let_def file_system_def fd)
  let ?body = "if ?start > 0 then after_first_newline (drop ?start s) else drop ?start s"
  obtain pre where pre: "drop ?start s = pre @ after_first_newline (drop ?start s)"
    "pre = [] \<or> last pre = newline" using after_first_newline_split by blast
  have none: "newline \<notin> set (drop ?start s)" if "pre = []" "?start > 0"
  proof
    assume nl: "newline \<in> set (drop ?start s)"
    then obtain ys zs where "drop ?start s = ys @ newline # zs" "newline \<notin> set ys"
      by (auto dest: split_list_first)
    then have "after_first_newline (drop ?start s) = zs" "length zs < length (drop ?start s)"
      by (simp_all add: after_first_newline_def dropWhile_append)
    moreover have "after_first_newline (drop ?start s) = drop ?start s" using pre(1) that(1) by simp
    ultimately show False by simp
  qed
  have res: "\<exists>tr'. log_tail (file_system init) path n tr = (Inr (from_utf8_lossy ?body), tr')"
    using op len rd by (simp add: log_tail_def then_io_def try_io_def map_io_def Let_def)
  obtain tr' where tr': "log_tail (file_system init) path n tr = (Inr (from_utf8_lossy ?body), tr')"
    using res by blast
  show ?thesis
  proof (cases "?start > 0")
    case True
    let ?b = "after_first_newline (drop ?start s)"
    have le: "length ?b \<le> ?k"
      using arg_cong [OF pre(1), of length] unfolding length_drop length_append by linarith
    have eq: "s = (take ?start s @ pre) @ ?b"
      using pre(1) by (metis append.assoc append_take_drop_id)
    have nl: "(take ?start s @ pre = []) \<or> last (take ?start s @ pre) = newline \<or> newline \<notin> set ?b"
      using pre none True by (cases "pre = []") auto
    have "\<not> length s \<le> ?k" using True by linarith
    then show ?thesis
      using tr' True eq nl le
      by - (rule exI [of _ tr'], rule exI [of _ ?b], rule exI [of _ "take ?start s @ pre"], simp, blast)
  next
    case False
    then have "length s \<le> ?k" by linarith
    then show ?thesis
      using tr' False by - (rule exI [of _ tr'], rule exI [of _ s], rule exI [of _ "[]"], simp)
  qed
qed

end
