(* ===== verification/System_Base.thy ===== *)
theory System_Base
  imports Lifecycle_Machine Lifecycle_Fake Xray_Doc_Props Recovery Log_Store
begin

text \<open>
  \<open>daemon/src/system.rs\<close>, \<open>SystemLifecycleBackend\<close>: the backend that runs Xray, the network
  helper, the DNS guard and the split.  Its operations act on the pair of its own state and the
  history of calls.  The waiting loops run as many rounds as fit into their time limits.
\<close>

section \<open>The machine and the state\<close>

text \<open>
  What the code reaches without a field of its own: the operating system, the machine, \<open>serde_json\<close>
  and the process id of the daemon.
\<close>

record platform =
  pf_os :: os
  pf_machine :: machine
  pf_parse :: json_parser
  pf_print :: json_printer
  pf_pid :: nat

text \<open>A child, and whether \<open>try_wait\<close> has already seen its exit (it has no id from then on).\<close>

record child =
  ch_pid :: nat
  ch_reaped :: bool

record system_backend =
  sy_owner_uid :: nat
  sy_xray_path :: string
  sy_net_helper_path :: string
  sy_runtime_dir :: string
  sy_xray :: "child option"
  sy_xray_identity :: "process_identity option"
  sy_mode :: "connection_mode option"
  sy_dns_active :: bool
  sy_split :: "split_system split_manager option"
  sy_split_apps :: "string list"
  sy_log_tasks :: "string list"

definition INSTALLED_XRAY :: string where "INSTALLED_XRAY = ''/usr/libexec/varmlen/xray''"
definition INSTALLED_NET_HELPER :: string where
  "INSTALLED_NET_HELPER = ''/usr/libexec/varmlen/varmlen-net''"

definition new_system_backend :: "nat \<Rightarrow> string \<Rightarrow> string \<Rightarrow> string \<Rightarrow> system_backend" where
  "new_system_backend uid xray helper dir =
     \<lparr>sy_owner_uid = uid, sy_xray_path = xray, sy_net_helper_path = helper, sy_runtime_dir = dir,
      sy_xray = None, sy_xray_identity = None, sy_mode = None, sy_dns_active = False,
      sy_split = None, sy_split_apps = [], sy_log_tasks = []\<rparr>"

definition installed_backend :: "nat \<Rightarrow> system_backend" where
  "installed_backend uid =
     new_system_backend uid INSTALLED_XRAY INSTALLED_NET_HELPER (''/run/varmlen/user-'' @ dec uid)"

definition sy_config_path :: "system_backend \<Rightarrow> string" where
  "sy_config_path s = sy_runtime_dir s @ ''/xray.json''"

definition sy_validation_path :: "system_backend \<Rightarrow> string" where
  "sy_validation_path s = sy_runtime_dir s @ ''/xray-validation.json''"

section \<open>Texts of errors\<close>

definition internal_io :: "string \<Rightarrow> os_error \<Rightarrow> daemon_error" where
  "internal_io context e = daemon_error Internal (context @ '': '' @ err_text e)"

definition io_internal :: "string \<Rightarrow> io_error \<Rightarrow> daemon_error" where
  "io_internal context e = daemon_error Internal (context @ '': '' @ io_error_text e)"

fun split_error_text :: "split_error \<Rightarrow> string" where
  "split_error_text (InvalidApplication a) = ''invalid split application: '' @ a"
| "split_error_text CgroupUnavailable = ''could not create the bypass cgroup''"
| "split_error_text BpfUnavailable = ''could not attach the socket-mark BPF program''"
| "split_error_text RoutingUnavailable = ''could not install split routing''"
| "split_error_text DirectDnsUnavailable = ''could not start direct DNS for excluded applications''"
| "split_error_text WatcherUnavailable = ''the application permission watcher is unavailable''"
| "split_error_text ReconciliationFailed = ''could not reconcile existing application processes''"
| "split_error_text RollbackFailed = ''split rollback failed''"

definition split_unavailable :: "split_error \<Rightarrow> daemon_error" where
  "split_unavailable e =
     daemon_error SplitUnavailable (''per-app split tunnelling is unavailable: '' @ split_error_text e)"

text \<open>
  Why Xray refused a configuration.  A detail above 600 characters is cut from its front at a
  number of characters used as a byte offset; off a character boundary the slice panics
  (\<open>None\<close>).
\<close>

definition MAX_DETAIL_CHARS :: nat where "MAX_DETAIL_CHARS = 600"

definition detail_line :: "string \<Rightarrow> bool" where
  "detail_line l =
     (l \<noteq> [] \<and> \<not> starts_with ''Xray '' l \<and> \<not> starts_with ''A unified platform'' l
      \<and> \<not> str_contains ''Reading config:'' l)"

definition ellipsis :: string where
  "ellipsis = map char_of [226, 128, 166 :: nat]"

definition validation_failure_detail :: "string \<Rightarrow> string \<Rightarrow> string option" where
  "validation_failure_detail out err =
     (let lines = filter detail_line (map trim (str_lines err @ str_lines out)) in
      if lines = [] then Some ''no explanation was written by Xray''
      else let detail = join_with '' | '' lines in
        if chars_count detail \<le> MAX_DETAIL_CHARS then Some detail
        else map_option (\<lambda>rest. ellipsis @ rest) (slice_from detail (chars_count detail - MAX_DETAIL_CHARS)))"

section \<open>Helpers without state\<close>

definition ensure_trusted_binary :: "os \<Rightarrow> string \<Rightarrow> (trace, daemon_error + unit) io" where
  "ensure_trusted_binary os path =
     map_io (\<lambda>r. case r of
         Inl e \<Rightarrow> Err (daemon_error XrayUnavailable
                    (''installed component '' @ path @ '' is unavailable: '' @ err_text e))
       | Inr md \<Rightarrow>
           if \<not> md_is_file md \<or> md_uid md \<noteq> 0 \<or> md_mode md AND 18 \<noteq> 0 \<or> md_mode md AND 73 = 0
           then Err (daemon_error XrayUnavailable
                  (''installed component '' @ path @ '' is not a trusted root-owned executable''))
           else Ok ())
       (ask_meta os (Lstat path))"

text \<open>\<open>Path::with_extension\<close> of a path that ends in a file name.\<close>

definition with_extension :: "string \<Rightarrow> string \<Rightarrow> string" where
  "with_extension path ext =
     (let name = after_last (\<lambda>c. c = slash) path;
          stem = (case rsplit_once (CHR ''.'') name of
                    None \<Rightarrow> name | Some (a, _) \<Rightarrow> if a = [] then name else a) in
      take (length path - length name) path @ stem @ ''.'' @ ext)"

definition prepare_dir :: "os \<Rightarrow> string \<Rightarrow> string \<Rightarrow> (trace, daemon_error + unit) io" where
  "prepare_dir os what dir =
     try_io (map_io (map_err (internal_io (''create '' @ what @ ''runtime directory''))) (do_call os (MakeDirAll dir))) (\<lambda>_.
     map_io (map_err (internal_io (''secure '' @ what @ ''runtime directory''))) (do_call os (SetMode dir 448)))"

definition write_private_to ::
    "os \<Rightarrow> string \<Rightarrow> string \<Rightarrow> string \<Rightarrow> string \<Rightarrow> (trace, daemon_error + unit) io" where
  "write_private_to os what tag path content =
     map_io (map_err (io_internal (''write private '' @ what @ '' configuration'')))
       (replace_file os (with_extension path tag) path (Ok content) (return_io (Ok ())))"

definition write_private :: "platform \<Rightarrow> string \<Rightarrow> string \<Rightarrow> (trace, daemon_error + unit) io" where
  "write_private pf path content =
     write_private_to (pf_os pf) ''Xray'' (''tmp-'' @ dec (pf_pid pf)) path content"

text \<open>
  A run of \<open>xray -test\<close>.  Where the text of the failure panics, the error is given with an empty
  detail; \<open>detail_never_panics\<close> says when it does not.
\<close>

definition run_xray_validation :: "os \<Rightarrow> string \<Rightarrow> string \<Rightarrow> (trace, daemon_error + unit) io" where
  "run_xray_validation os xray path =
     map_io (\<lambda>r. case r of
         Inl e \<Rightarrow> Err (daemon_error XrayValidationFailed (''could not start Xray validation: '' @ err_text e))
       | Inr out \<Rightarrow>
           if out_success out then Ok ()
           else Err (daemon_error XrayValidationFailed
                  (''Xray rejected the generated configuration: ''
                   @ (case validation_failure_detail (from_utf8_lossy (out_stdout out))
                              (from_utf8_lossy (out_stderr out)) of None \<Rightarrow> [] | Some d \<Rightarrow> d))))
       (run_command os xray [''run'', ''-test'', ''-c'', path] [])"

definition run_net_helper :: "os \<Rightarrow> string \<Rightarrow> string list \<Rightarrow> (trace, daemon_error + unit) io" where
  "run_net_helper os helper args =
     map_io (\<lambda>r. case r of
         Inl e \<Rightarrow> Err (daemon_error TunnelCommitFailed
                    (''could not start installed network helper: '' @ err_text e))
       | Inr out \<Rightarrow>
           if out_success out then Ok ()
           else Err (daemon_error TunnelCommitFailed
                  (''network setup failed: '' @ trim (from_utf8_lossy (out_stderr out)))))
       (run_command os helper args [])"

definition reserve_ports :: "os \<Rightarrow> nat \<Rightarrow> (trace, os_error + u16 list) io" where
  "reserve_ports os n =
     map_io (\<lambda>r. try_then r (\<lambda>ns. Ok (map of_nat ns))) (map_ok (\<lambda>_. ask_number os BindLoopback) [0..<n])"

text \<open>All listeners are tried in every round, also after one that is not ready.\<close>

fun ports_ready :: "os \<Rightarrow> u16 list \<Rightarrow> (trace, bool) io" where
  "ports_ready os [] = return_io True"
| "ports_ready os (p # ps) =
     then_io (do_call os (ConnectLoopback p)) (\<lambda>r.
     map_io (\<lambda>rest. is_ok r \<and> rest) (ports_ready os ps))"

text \<open>
  \<open>timeout(limit, loop ...)\<close>: a round sleeps 50 ms, so at most \<open>limit / 50 + 1\<close> rounds begin
  before the limit; the clock is asked after every sleep.  \<open>None\<close> is the limit passing.
\<close>

fun await_listeners :: "os \<Rightarrow> nat \<Rightarrow> u16 list \<Rightarrow> nat \<Rightarrow> nat \<Rightarrow> (trace, bool option) io" where
  "await_listeners os pid ports limit 0 = return_io None"
| "await_listeners os pid ports limit (Suc rounds) =
     then_io (ask_flag os (ChildExited pid)) (\<lambda>exited.
       if exited then return_io (Some False)
       else then_io (ports_ready os ports) (\<lambda>ready.
         if ready then return_io (Some True)
         else then_io (ask os (Sleep 50)) (\<lambda>_.
              then_io (ask_flag os (DeadlinePassed limit)) (\<lambda>over.
                if over then return_io None else await_listeners os pid ports limit rounds))))"

definition listener_rounds :: "nat \<Rightarrow> nat" where
  "listener_rounds limit = limit div 50 + 1"

definition PROXY_PING_URLS :: "string list" where
  "PROXY_PING_URLS =
     [''http://www.gstatic.com/generate_204'', ''http://cp.cloudflare.com/generate_204'']"

definition MAX_REASONS :: nat where "MAX_REASONS = 3"

definition probe_failure :: "string \<Rightarrow> daemon_error list \<Rightarrow> daemon_error" where
  "probe_failure headline failures =
     (let reasons = dedup_from [] (map de_message failures) in
      daemon_error PingFailed
        (headline @ '': '' @ (if reasons = [] then ''no probe was attempted''
                            else join_with ''; '' (take MAX_REASONS reasons))))"

text \<open>The host of a probe target is \<open>host_of\<close>: the URL parser is not part of the repository.\<close>

definition probe_http_url :: "os \<Rightarrow> (string \<Rightarrow> string) \<Rightarrow> u16 \<Rightarrow> string \<Rightarrow> (trace, daemon_error + u32) io" where
  "probe_http_url os host_of port u =
     map_io (\<lambda>r. case r of
         Inl e \<Rightarrow> Err (daemon_error PingFailed (host_of u @ '': '' @ err_text e))
       | Inr (status, ms, shown) \<Rightarrow>
           if status \<noteq> 204
           then Err (daemon_error PingFailed (''HTTP ping '' @ u @ '' returned status '' @ shown))
           else Ok (of_nat (min ms u32_max)))
       (ask_http os (ProbeHttp port u))"

fun run_all :: "('w, 'a) io list \<Rightarrow> ('w, 'a list) io" where
  "run_all [] = return_io []"
| "run_all (m # ms) = then_io m (\<lambda>a. map_io ((#) a) (run_all ms))"

definition probe_http_port :: "os \<Rightarrow> (string \<Rightarrow> string) \<Rightarrow> u16 \<Rightarrow> (trace, daemon_error + u32) io" where
  "probe_http_port os host_of port =
     map_io (map_err (probe_failure ''every HTTP connectivity probe failed through the proxy''))
       (first_success_with_reason os (map (probe_http_url os host_of port) PROXY_PING_URLS))"

end
