(* ===== verification/System_Backend.thy ===== *)
theory System_Backend
  imports System_Base
begin

text \<open>
  The operations of \<open>SystemLifecycleBackend\<close> in \<open>daemon/src/system.rs\<close>, in the order the
  lifecycle manager uses them, and the record that implements the trait.  \<open>host_of\<close> gives the
  host of a URL for messages.
\<close>

section \<open>Validation\<close>

text \<open>An index assignment that panics would end the task; \<open>egress_never_panics\<close> excludes it.\<close>

definition settled :: "'a outcome \<Rightarrow> daemon_error + 'a" where
  "settled p = (case p of Panic \<Rightarrow> Err (daemon_error Internal ''panic'') | Returned r \<Rightarrow> r)"

definition xray_failed :: "string \<Rightarrow> daemon_error" where
  "xray_failed m = daemon_error XrayValidationFailed m"

definition egress_limit :: nat where "egress_limit = 12000"

definition egress_run :: "os \<Rightarrow> (string \<Rightarrow> string) \<Rightarrow> nat \<Rightarrow> u16 list \<Rightarrow> (trace, daemon_error + unit) io" where
  "egress_run os host_of pid ports =
     then_io (await_listeners os pid ports egress_limit (listener_rounds egress_limit)) (\<lambda>up. case up of
       None \<Rightarrow> return_io (Err (xray_failed ''candidate remote egress validation timed out''))
     | Some False \<Rightarrow> return_io (Err (xray_failed ''validation Xray exited before its proxy became ready''))
     | Some True \<Rightarrow>
         then_io (run_all (map (probe_http_port os host_of) ports)) (\<lambda>results.
         then_io (ask_flag os (DeadlinePassed egress_limit)) (\<lambda>over.
         return_io
           (if over then Err (xray_failed ''candidate remote egress validation timed out'')
            else if list_all is_ok results then Ok ()
            else Err (xray_failed ''candidate's effective route has no verified remote egress'')))))"

text \<open>The configuration of one attempt, moved to reserved ports, checked again and written.\<close>

definition egress_config ::
    "platform \<Rightarrow> string \<Rightarrow> string \<Rightarrow> string \<Rightarrow> u16 list \<Rightarrow> (trace, daemon_error + unit) io" where
  "egress_config pf xray path config ports =
     try_io (return_io (settled (validation_config_with_ports (pf_parse pf) (pf_print pf) config ports))) (\<lambda>moved.
     try_io (return_io (validate_ping_xray_document (pf_parse pf) moved ports)) (\<lambda>_.
     try_io (write_private pf path moved) (\<lambda>_.
     run_xray_validation (pf_os pf) xray path)))"

fun egress_attempts ::
    "platform \<Rightarrow> (string \<Rightarrow> string) \<Rightarrow> string \<Rightarrow> string \<Rightarrow> string \<Rightarrow> nat \<Rightarrow> nat \<Rightarrow> daemon_error option
     \<Rightarrow> (trace, daemon_error + unit) io" where
  "egress_attempts pf host_of xray path config n 0 prior =
     return_io (Err (case prior of Some e \<Rightarrow> e
                     | None \<Rightarrow> xray_failed ''candidate remote egress validation failed''))"
| "egress_attempts pf host_of xray path config n (Suc k) prior =
     try_io (map_io (map_err (\<lambda>e. xray_failed (''could not reserve validation ports: '' @ err_text e)))
               (reserve_ports (pf_os pf) n)) (\<lambda>ports.
     try_io (egress_config pf xray path config ports) (\<lambda>_.
     try_io (map_io (map_err (\<lambda>e. xray_failed (''could not start Xray egress validation: '' @ err_text e)))
               (ask_number (pf_os pf) (SpawnXray xray path))) (\<lambda>pid.
     then_io (egress_run (pf_os pf) host_of pid ports) (\<lambda>result.
     then_io (ask (pf_os pf) (KillChild pid)) (\<lambda>_.
     then_io (ask (pf_os pf) (WaitChild pid)) (\<lambda>_.
     case result of
       Inr _ \<Rightarrow> return_io (Ok ())
     | Inl e \<Rightarrow> egress_attempts pf host_of xray path config n k (Some e)))))))"

definition run_validation_egress_probe ::
    "platform \<Rightarrow> (string \<Rightarrow> string) \<Rightarrow> string \<Rightarrow> string \<Rightarrow> string \<Rightarrow> (trace, daemon_error + unit) io" where
  "run_validation_egress_probe pf host_of xray path config =
     try_io (return_io (validation_config_ports (pf_parse pf) config)) (\<lambda>template.
     egress_attempts pf host_of xray path config (length template) 4 None)"

definition path_join :: "string \<Rightarrow> string \<Rightarrow> string" where
  "path_join dir name = (if is_absolute name then name else dir @ ''/'' @ name)"

fun all_exist :: "os \<Rightarrow> string list \<Rightarrow> (trace, bool) io" where
  "all_exist os [] = return_io True"
| "all_exist os (p # ps) =
     then_io (ask_flag os (PathExists p)) (\<lambda>b. if b then all_exist os ps else return_io False)"

definition tun_devices_live :: "platform \<Rightarrow> string \<Rightarrow> (trace, bool) io" where
  "tun_devices_live pf raw =
     (let devices = configured_tun_devices (pf_parse pf) raw in
      if devices = [] then return_io False
      else all_exist (pf_os pf) (map (path_join ''/sys/class/net'') devices))"

definition sy_validate ::
    "platform \<Rightarrow> (string \<Rightarrow> string) \<Rightarrow> connect_request \<Rightarrow> (system_backend, daemon_error + unit) sys" where
  "sy_validate pf host_of req =
     then_io get_st (\<lambda>s. lift_os (
     try_io (ensure_trusted_binary (pf_os pf) (sy_xray_path s)) (\<lambda>_.
     try_io (ensure_trusted_binary (pf_os pf) (sy_net_helper_path s)) (\<lambda>_.
     try_io (return_io (validate_xray_document (pf_parse pf) (cr_xray_config req) (cr_mode req = Tun))) (\<lambda>_.
     try_io (return_io (validation_config_ports (pf_parse pf) (cr_validation_config req))) (\<lambda>ports.
     try_io (return_io (validate_ping_xray_document (pf_parse pf) (cr_validation_config req) ports)) (\<lambda>_.
     try_io (prepare_dir (pf_os pf) [] (sy_runtime_dir s)) (\<lambda>_.
     try_io (write_private pf (sy_validation_path s) (cr_validation_config req)) (\<lambda>_.
     try_io (write_private pf (sy_config_path s) (cr_xray_config req)) (\<lambda>_.
     then_io (tun_devices_live pf (cr_xray_config req)) (\<lambda>live.
     try_io (if live then return_io (Ok ())
             else run_xray_validation (pf_os pf) (sy_xray_path s) (sy_config_path s)) (\<lambda>_.
     run_validation_egress_probe pf host_of (sy_xray_path s) (sy_validation_path s)
       (cr_validation_config req)))))))))))))"

section \<open>The hold block\<close>

definition hold_arguments :: "connect_request \<Rightarrow> string list" where
  "hold_arguments req =
     ''killswitch-up'' # (if cr_allow_lan req then [''--allow-lan''] else [])
       @ map show_ip (cr_server_ips req)"

definition sy_run_helper ::
    "os \<Rightarrow> string list \<Rightarrow> (system_backend, daemon_error + unit) sys" where
  "sy_run_helper os args =
     then_io get_st (\<lambda>s. lift_os (run_net_helper os (sy_net_helper_path s) args))"

definition with_code :: "daemon_error_code \<Rightarrow> daemon_error \<Rightarrow> daemon_error" where
  "with_code c e = daemon_error c (de_message e)"

definition sy_install_hold_block :: "os \<Rightarrow> connect_request \<Rightarrow> (system_backend, daemon_error + unit) sys" where
  "sy_install_hold_block os req =
     map_io (map_err (with_code HoldBlockFailed)) (sy_run_helper os (hold_arguments req))"

definition hold_block_listed :: "string \<Rightarrow> bool" where
  "hold_block_listed rules =
     (str_contains ''policy drop'' rules
      \<and> (str_contains ''0x2024'' rules \<or> str_contains ''0x00002024'' rules)
      \<and> (str_contains ''0x2025'' rules \<or> str_contains ''0x00002025'' rules))"

definition sy_verify_hold_block :: "os \<Rightarrow> (system_backend, daemon_error + unit) sys" where
  "sy_verify_hold_block os =
     lift_os (map_io (\<lambda>r. case r of
         Inl e \<Rightarrow> Err (daemon_error HoldBlockVerificationFailed (''could not inspect hold block: '' @ err_text e))
       | Inr out \<Rightarrow>
           if out_success out \<and> hold_block_listed (from_utf8_lossy (out_stdout out)) then Ok ()
           else Err (daemon_error HoldBlockVerificationFailed
                  ''hold block was not installed with the required drop policy''))
       (run_command os ''nft'' [''list'', ''table'', ''inet'', ''varmlen_ks''] []))"

definition sy_remove_hold_block :: "os \<Rightarrow> (system_backend, daemon_error + unit) sys" where
  "sy_remove_hold_block os =
     map_io (map_err (with_code HoldBlockRemovalFailed)) (sy_run_helper os [''killswitch-down''])"

section \<open>Xray\<close>

definition child_is_running :: "os \<Rightarrow> (system_backend, bool) sys" where
  "child_is_running os =
     then_io get_st (\<lambda>s. case sy_xray s of
       None \<Rightarrow> return_io False
     | Some c \<Rightarrow>
         if ch_reaped c then return_io False
         else then_io (lift_os (ask os (ChildRunning (ch_pid c)))) (\<lambda>r.
           if r = Flag False
           then then_io (modify_st (\<lambda>s. s\<lparr>sy_xray := Some (c\<lparr>ch_reaped := True\<rparr>)\<rparr>)) (\<lambda>_. return_io False)
           else return_io (r = Flag True)))"

definition stop_log_tasks :: "os \<Rightarrow> (system_backend, unit) sys" where
  "stop_log_tasks os =
     then_io get_st (\<lambda>s.
     then_io (lift_os (ignore_all (map (\<lambda>t. ask os (StopThread t)) (sy_log_tasks s)))) (\<lambda>_.
     modify_st (\<lambda>s. s\<lparr>sy_log_tasks := []\<rparr>)))"

definition forget_xray :: "os \<Rightarrow> (system_backend, daemon_error + unit) sys" where
  "forget_xray os =
     then_io (stop_log_tasks os) (\<lambda>_.
     then_io (modify_st (\<lambda>s. s\<lparr>sy_xray_identity := None\<rparr>)) (\<lambda>_. return_io (Ok ())))"

text \<open>\<open>child.wait()\<close> within three seconds, else \<open>child.kill()\<close>, else an error.\<close>

definition end_child :: "os \<Rightarrow> child \<Rightarrow> (trace, daemon_error + unit) io" where
  "end_child os c =
     then_io (if ch_reaped c then return_io () else map_io (\<lambda>_. ()) (ask os (Kill (ch_pid c) SIGTERM))) (\<lambda>_.
     then_io (do_call os (WaitChild (ch_pid c))) (\<lambda>waited.
     if is_ok waited then return_io (Ok ())
     else try_io (map_io (map_err (\<lambda>e. daemon_error TunnelCleanupFailed (''could not terminate Xray: '' @ err_text e)))
                    (do_call os (KillChild (ch_pid c)))) (\<lambda>_.
       map_io (\<lambda>_. Ok ()) (ask os (WaitChild (ch_pid c))))))"

definition terminate_xray :: "os \<Rightarrow> (system_backend, daemon_error + unit) sys" where
  "terminate_xray os =
     then_io get_st (\<lambda>s. case sy_xray s of
       None \<Rightarrow> forget_xray os
     | Some c \<Rightarrow>
         then_io (modify_st (\<lambda>s. s\<lparr>sy_xray := None\<rparr>)) (\<lambda>_.
         try_io (lift_os (end_child os c)) (\<lambda>_. forget_xray os)))"

definition data_plane_present :: "os \<Rightarrow> connection_mode \<Rightarrow> (trace, bool) io" where
  "data_plane_present os mode =
     (case mode of
        Tun \<Rightarrow> ask_flag os (PathExists ''/sys/class/net/varmlen0'')
      | Proxy \<Rightarrow> map_io is_ok (do_call os (ConnectLoopback 2081)))"

fun wait_until_ready :: "os \<Rightarrow> connection_mode \<Rightarrow> nat \<Rightarrow> (system_backend, daemon_error + unit) sys" where
  "wait_until_ready os mode 0 =
     return_io (Err (daemon_error XrayStartFailed ''timed out waiting for Xray''))"
| "wait_until_ready os mode (Suc n) =
     then_io (child_is_running os) (\<lambda>running.
       if \<not> running
       then return_io (Err (daemon_error XrayStartFailed ''Xray exited before the data plane became ready''))
       else then_io (lift_os (data_plane_present os mode)) (\<lambda>ready.
         if ready then return_io (Ok ())
         else then_io (lift_os (ask os (Sleep 100))) (\<lambda>_. wait_until_ready os mode n)))"

definition log_task_names :: "string list" where
  "log_task_names = [''xray-stdout'', ''xray-stderr'']"

definition sy_start_data_plane ::
    "platform \<Rightarrow> connect_request \<Rightarrow> (system_backend, daemon_error + unit) sys" where
  "sy_start_data_plane pf req =
     then_io get_st (\<lambda>s.
     try_io (lift_os (
       try_io (prepare_dir (pf_os pf) [] (sy_runtime_dir s)) (\<lambda>_.
       try_io (write_private pf (sy_config_path s) (cr_xray_config req)) (\<lambda>_.
       try_io (map_io (map_err (internal_io ''clear Xray log''))
                 (log_clear (pf_os pf) (log_path_for_owner (sy_owner_uid s)))) (\<lambda>_.
       map_io (map_err (\<lambda>e. daemon_error XrayStartFailed (''could not start installed Xray: '' @ err_text e)))
         (ask_number (pf_os pf) (SpawnXray (sy_xray_path s) (sy_config_path s)))))))) (\<lambda>pid.
     then_io (lift_os (ignore_all (map (\<lambda>t. ask (pf_os pf) (SpawnThread t)) log_task_names))) (\<lambda>_.
     then_io (lift_os (identity_from_pid (pf_os pf) pid)) (\<lambda>identity.
     then_io (modify_st (\<lambda>s. s\<lparr>sy_xray := Some \<lparr>ch_pid = pid, ch_reaped = False\<rparr>,
                               sy_xray_identity := res_ok identity, sy_mode := Some (cr_mode req),
                               sy_log_tasks := sy_log_tasks s @ log_task_names\<rparr>)) (\<lambda>_.
     wait_until_ready (pf_os pf) (cr_mode req) 50)))))"

section \<open>DNS and the split\<close>

definition remove_dns :: "os \<Rightarrow> (system_backend, daemon_error + unit) sys" where
  "remove_dns os =
     then_io get_st (\<lambda>s.
       if \<not> sy_dns_active s then return_io (Ok ())
       else try_io (lift_os (remove_dns_table os)) (\<lambda>_.
         then_io (modify_st (\<lambda>s. s\<lparr>sy_dns_active := False\<rparr>)) (\<lambda>_. return_io (Ok ()))))"

text \<open>Running a split manager, whose backend acts on the history too.\<close>

definition in_split ::
    "((split_system \<times> trace) split_manager, 'a) io \<Rightarrow> (split_system split_manager, 'a) sys" where
  "in_split f w =
     (case f \<lparr>sm_backend = (sm_backend (fst w), snd w), sm_status = sm_status (fst w)\<rparr> of
        (a, m) \<Rightarrow> (a, (\<lparr>sm_backend = fst (sm_backend m), sm_status = sm_status m\<rparr>, snd (sm_backend m))))"

definition split_ops :: "platform \<Rightarrow> (split_system \<times> trace) split_backend" where
  "split_ops pf = system_split_backend (pf_os pf) (pf_machine pf)"

definition split_plan_for :: "nat \<Rightarrow> string list \<Rightarrow> split_plan" where
  "split_plan_for uid apps = \<lparr>sp_uid = uid, sp_applications = apps\<rparr>"

text \<open>A new manager is applied; it is kept only when that succeeded.\<close>

definition apply_split :: "platform \<Rightarrow> string list \<Rightarrow> (system_backend, daemon_error + unit) sys" where
  "apply_split pf apps w =
     (case in_split (split_apply (split_ops pf) (split_plan_for (sy_owner_uid (fst w)) apps))
             (new_split_manager (new_split_system (sy_owner_uid (fst w))), snd w) of
        (Inl e, (_, tr)) \<Rightarrow> (Err (split_unavailable e), (fst w, tr))
      | (Inr _, (sm, tr)) \<Rightarrow> (Ok (), ((fst w)\<lparr>sy_split := Some sm, sy_split_apps := apps\<rparr>, tr)))"

definition remove_split :: "platform \<Rightarrow> (system_backend, daemon_error + unit) sys" where
  "remove_split pf w =
     (case sy_split (fst w) of
        None \<Rightarrow> (Ok (), ((fst w)\<lparr>sy_split_apps := []\<rparr>, snd w))
      | Some sm \<Rightarrow>
          (case ss_rollback (pf_os pf) (pf_machine pf) (sm_backend sm, snd w) of
             (r, (_, tr)) \<Rightarrow>
               (map_err (\<lambda>e. daemon_error TunnelCleanupFailed
                               (''split-tunnel cleanup failed: '' @ split_error_text e)) r,
                ((fst w)\<lparr>sy_split := None, sy_split_apps := []\<rparr>, tr))))"

text \<open>An operation on the split that is held.\<close>

definition on_split ::
    "split_system split_manager \<Rightarrow> ((split_system \<times> trace) split_manager, split_error + 'a) io
     \<Rightarrow> (system_backend, daemon_error + 'a) sys" where
  "on_split sm f w =
     (case in_split f (sm, snd w) of
        (r, (sm', tr)) \<Rightarrow> (map_err split_unavailable r, ((fst w)\<lparr>sy_split := Some sm'\<rparr>, tr)))"

definition sy_update_split :: "platform \<Rightarrow> string list \<Rightarrow> (system_backend, daemon_error + bool) sys" where
  "sy_update_split pf apps =
     (if apps = [] then try_io (remove_split pf) (\<lambda>_. return_io (Ok False))
      else then_io get_st (\<lambda>s. case sy_split s of
        None \<Rightarrow> try_io (apply_split pf apps) (\<lambda>_. return_io (Ok True))
      | Some sm \<Rightarrow>
          try_io (on_split sm (split_update_plan (split_ops pf) (split_plan_for (sy_owner_uid s) apps))) (\<lambda>live.
            if live
            then then_io (modify_st (\<lambda>s. s\<lparr>sy_split_apps := apps\<rparr>)) (\<lambda>_. return_io (Ok True))
            else try_io (remove_split pf) (\<lambda>_.
                 try_io (apply_split pf apps) (\<lambda>_. return_io (Ok True))))))"

section \<open>The network\<close>

definition route_up_arguments :: "connect_request \<Rightarrow> string list" where
  "route_up_arguments req =
     ''route-up'' # concat (map (\<lambda>a. [''--server'', show_ip a]) (cr_server_ips req))"

text \<open>The split for a connection: dropped when its list changed, built, or laid again.\<close>

definition settle_split :: "platform \<Rightarrow> connect_request \<Rightarrow> (system_backend, daemon_error + unit) sys" where
  "settle_split pf req =
     then_io get_st (\<lambda>s0.
     try_io (if sy_split s0 \<noteq> None
                \<and> (cr_excluded_apps req = [] \<or> sy_split_apps s0 \<noteq> cr_excluded_apps req)
             then remove_split pf else return_io (Ok ())) (\<lambda>_.
     then_io get_st (\<lambda>s. case sy_split s of
       None \<Rightarrow> if cr_excluded_apps req = [] then return_io (Ok ()) else apply_split pf (cr_excluded_apps req)
     | Some sm \<Rightarrow> on_split sm (split_refresh_routing (split_ops pf)))))"

definition sy_activate_network :: "platform \<Rightarrow> connect_request \<Rightarrow> (system_backend, daemon_error + unit) sys" where
  "sy_activate_network pf req =
     (if cr_mode req = Proxy then return_io (Ok ())
      else try_io (sy_run_helper (pf_os pf) (route_up_arguments req)) (\<lambda>_.
           try_io (settle_split pf req) (\<lambda>_.
           then_io (modify_st (\<lambda>s. s\<lparr>sy_dns_active := True\<rparr>)) (\<lambda>_.
           lift_os (dns_guard_install (system_dns_backend (pf_os pf) (pf_pid pf)))))))"

definition commit_failed :: "string \<Rightarrow> daemon_error" where
  "commit_failed m = daemon_error TunnelCommitFailed m"

definition route_verified :: "os \<Rightarrow> (trace, daemon_error + unit) io" where
  "route_verified os =
     map_io (\<lambda>r. case r of
         Inl e \<Rightarrow> Err (commit_failed (''could not verify tunnel route: '' @ err_text e))
       | Inr out \<Rightarrow>
           if out_success out \<and> str_contains TUN_INTERFACE (from_utf8_lossy (out_stdout out)) then Ok ()
           else Err (commit_failed ''the default IPv4 path does not use varmlen0''))
       (run_command os ''ip'' [''route'', ''get'', ''1.0.0.1''] [])"

definition split_alive :: "os \<Rightarrow> (system_backend, bool) sys" where
  "split_alive os w =
     (case sy_split (fst w) of
        None \<Rightarrow> (True, w)
      | Some sm \<Rightarrow> (case split_is_healthy os (sm_backend sm, snd w) of (ok, (_, tr)) \<Rightarrow> (ok, (fst w, tr))))"

definition sy_verify_connection :: "os \<Rightarrow> connect_request \<Rightarrow> (system_backend, daemon_error + unit) sys" where
  "sy_verify_connection os req =
     then_io (child_is_running os) (\<lambda>running.
       if \<not> running then return_io (Err (daemon_error XrayStartFailed ''Xray is not running''))
       else if cr_mode req = Proxy then return_io (Ok ())
       else then_io (lift_os (ask_flag os (PathExists ''/sys/class/net/varmlen0''))) (\<lambda>tun.
       then_io get_st (\<lambda>s.
       if \<not> tun \<or> \<not> sy_dns_active s
       then return_io (Err (commit_failed ''TUN or DNS protection disappeared during activation''))
       else then_io (split_alive os) (\<lambda>alive.
         if \<not> alive then return_io (Err (daemon_error SplitUnavailable ''per-app split watcher stopped''))
         else lift_os (route_verified os)))))"

section \<open>Stopping\<close>

text \<open>\<open>first_error.get_or_insert(error)\<close>.\<close>

definition keep_first :: "daemon_error option \<Rightarrow> daemon_error + unit \<Rightarrow> daemon_error option" where
  "keep_first first r = (case first of Some e \<Rightarrow> Some e | None \<Rightarrow> (case r of Inl e \<Rightarrow> Some e | Inr _ \<Rightarrow> None))"

definition route_down :: "os \<Rightarrow> (system_backend, daemon_error + unit) sys" where
  "route_down os =
     then_io get_st (\<lambda>s.
       if sy_mode s \<noteq> Some Tun then return_io (Ok ())
       else then_io (lift_os (ask_flag os (PathExists (sy_net_helper_path s)))) (\<lambda>there.
         if there then sy_run_helper os [''route-down''] else return_io (Ok ())))"

definition sy_stop_data_plane :: "platform \<Rightarrow> bool \<Rightarrow> (system_backend, daemon_error + unit) sys" where
  "sy_stop_data_plane pf preserve_split =
     then_io (if preserve_split then return_io (Ok ()) else remove_split pf) (\<lambda>r1.
     then_io (remove_dns (pf_os pf)) (\<lambda>r2.
     then_io (route_down (pf_os pf)) (\<lambda>r3.
     then_io (terminate_xray (pf_os pf)) (\<lambda>r4.
     then_io (modify_st (\<lambda>s. s\<lparr>sy_mode := None\<rparr>)) (\<lambda>_.
     then_io get_st (\<lambda>s.
     then_io (lift_os (ask (pf_os pf) (RemoveFile (sy_config_path s)))) (\<lambda>_.
     then_io (lift_os (ask (pf_os pf) (RemoveFile (sy_validation_path s)))) (\<lambda>_.
     return_io (case foldl keep_first None [r1, r2, r3, r4] of None \<Rightarrow> Ok () | Some e \<Rightarrow> Err e)))))))))"

definition system_ops ::
    "platform \<Rightarrow> (string \<Rightarrow> string) \<Rightarrow> (system_backend \<times> trace) lifecycle_backend" where
  "system_ops pf host_of =
     \<lparr>lb_data_plane_alive = child_is_running (pf_os pf),
      lb_validate = sy_validate pf host_of,
      lb_install_hold_block = sy_install_hold_block (pf_os pf),
      lb_verify_hold_block = sy_verify_hold_block (pf_os pf),
      lb_stop_data_plane = sy_stop_data_plane pf,
      lb_start_data_plane = sy_start_data_plane pf,
      lb_activate_network = sy_activate_network pf,
      lb_update_split = sy_update_split pf,
      lb_verify_connection = sy_verify_connection (pf_os pf),
      lb_remove_hold_block = sy_remove_hold_block (pf_os pf)\<rparr>"

end
