(* ===== verification/System_Hold.thy ===== *)
theory System_Hold
  imports System_Backend
begin

text \<open>
  The system backend meets the contract of the hold block.  The history says whether the block
  is in force: the newest run of the network helper that reported success and whose first
  argument is \<open>killswitch-up\<close> or \<open>killswitch-down\<close>.  No other operation of the backend runs a
  program with such an argument, whatever the machine answers.
\<close>

section \<open>The block in the history\<close>

definition ks_run :: "string \<Rightarrow> call \<times> reply \<Rightarrow> bool" where
  "ks_run word e =
     (case e of (Run _ (a # _) _, Output out) \<Rightarrow> a = word \<and> out_success out | _ \<Rightarrow> False)"

definition system_hold :: "system_backend \<times> trace \<Rightarrow> bool" where
  "system_hold w = switched_on (ks_run ''killswitch-up'') (ks_run ''killswitch-down'') (snd w)"

text \<open>A call that does not touch the block.\<close>

definition no_ks :: "call \<Rightarrow> bool" where
  "no_ks c = (case c of
       Run _ args _ \<Rightarrow> args = [] \<or> hd args \<notin> {''killswitch-up'', ''killswitch-down''}
     | _ \<Rightarrow> True)"

lemma no_ks_run: "no_ks c \<Longrightarrow> \<not> ks_run ''killswitch-up'' (c, r) \<and> \<not> ks_run ''killswitch-down'' (c, r)"
  by (auto simp: no_ks_def ks_run_def split: call.splits list.splits reply.splits)

lemma emits_no_ks: "emits no_ks m \<Longrightarrow> m w = (a, w') \<Longrightarrow> system_hold w' = system_hold w"
  unfolding system_hold_def
  by (rule switched_on_extends [of no_ks]) (rule emitsD, assumption, assumption, erule no_ks_run)

text \<open>A call that neither touches the block nor starts Xray, as almost every call of the backend.\<close>

definition routine :: "call \<Rightarrow> bool" where
  "routine c = (case c of
       Run _ args _ \<Rightarrow> args = [] \<or> hd args \<notin> {''killswitch-up'', ''killswitch-down''}
     | SpawnXray _ _ \<Rightarrow> False
     | _ \<Rightarrow> True)"

lemma routine_simps [simp]:
  "routine (SpawnThread t)" "routine (ReadFile p)" "routine (ReadLink p)" "routine (Lstat p)"
  "routine (Sleep n)" "routine (DeadlinePassed n)" "routine (NextReady n)" "routine (RemoveFile p)"
  "routine (ConnectLoopback port)" "routine (ChildExited n)" "routine BindLoopback"
  "routine (KillChild n)" "routine (WaitChild n)" "routine (ProbeHttp port u)"
  "\<not> routine (SpawnXray x c)"
  by (simp_all add: routine_def)

lemma routine_no_ks: "routine c \<Longrightarrow> no_ks c"
  by (simp add: routine_def no_ks_def split: call.splits)

text \<open>The same, with starts of one executable.\<close>

definition may_start :: "string \<Rightarrow> call \<Rightarrow> bool" where
  "may_start xray c = (routine c \<or> (\<exists>config. c = SpawnXray xray config))"

lemma may_start_simps [simp]: "may_start xray (SpawnXray xray config)" "routine c \<Longrightarrow> may_start xray c"
  by (simp_all add: may_start_def)

lemma may_start_no_ks: "may_start xray c \<Longrightarrow> no_ks c"
proof -
  have "no_ks (SpawnXray xray config)" for config by (simp add: no_ks_def)
  then show "may_start xray c \<Longrightarrow> ?thesis" by (auto simp: may_start_def routine_no_ks)
qed

lemma may_start_of_routine:
  "calls_only routine m \<Longrightarrow> calls_only (may_start xray) m" "emits routine f \<Longrightarrow> emits (may_start xray) f"
  by (auto intro: calls_only_mono emits_mono)

lemma no_ks_of_routine:
  "calls_only routine m \<Longrightarrow> calls_only no_ks m" "emits routine f \<Longrightarrow> emits no_ks f"
  by (auto intro: calls_only_mono emits_mono routine_no_ks)

section \<open>The pieces of the split\<close>

lemma reads_routine [calls_intro]:
  "calls_only routine (real_uid os pid)" "calls_only routine (process_cgroup os pid)"
  "calls_only routine (snapshot os pid)" "calls_only routine (contains_pid os cg pid)"
  "calls_only routine (member_pids os cg)" "calls_only routine (create_real_directory os path)"
  unfolding real_uid_def process_cgroup_def snapshot_def contains_pid_def member_pids_def
    create_real_directory_def read_or_def
  by (auto intro!: calls_intro simp: routine_def)

lemma mark_routine [calls_intro]: "calls_only routine (mark_existing_sockets os pid mark)"
proof -
  have "calls_only routine (mark_one_fd os pidfd mark fd)" for pidfd fd
    unfolding mark_one_fd_def by (auto intro!: calls_intro simp: routine_def)
  then have "calls_only routine (mark_fds os pidfd mark names n)" for pidfd names n
    by (induction names arbitrary: n) (auto intro!: calls_intro split: option.splits)
  then show ?thesis
    unfolding mark_existing_sockets_def by (auto intro!: calls_intro simp: routine_def)
qed

lemma tree_routine [calls_intro]: "calls_only routine (process_tree os uid)"
  unfolding process_tree_def tree_entry_def by (auto intro!: calls_intro simp: routine_def)

lemma moves_routine [calls_intro]:
  "calls_only routine (reconcile_candidate os cg uid sels pid)"
  "calls_only routine (move_pid os cg pid)" "calls_only routine (move_out os cg pid)"
  unfolding reconcile_candidate_def move_pid_def move_out_def move_pid_to_def
  by (auto intro!: calls_intro simp: routine_def split: option.splits)

lemma reconcile_moves_routine [calls_intro]: "emits routine (reconcile_moves os cg uid sels names)"
  by (induction names) (auto intro!: calls_intro split: option.splits)

lemma reconcile_with_routine [calls_intro]: "emits routine (reconcile_with os cg uid sels)"
  unfolding reconcile_with_def attribute_member_def release_one_def
  by (auto intro!: calls_intro simp: routine_def)

lemma create_routine [calls_intro]: "calls_only routine (bypass_create os uid)"
  unfolding bypass_create_def verify_cgroup2_def Let_def
  by (auto intro!: calls_intro simp: routine_def)

lemma watcher_routine [calls_intro]:
  "calls_only routine (mark_selector os sel)" "calls_only routine (mark_mounts os)"
  "calls_only routine (watcher_start os sels)" "calls_only routine (watcher_healthy os)"
proof -
  show sel: "calls_only routine (mark_selector os sel)" for sel
    by (cases sel) (auto intro!: calls_intro simp: is_portable_executable_def routine_def)
  show "calls_only routine (mark_mounts os)"
    unfolding mark_mounts_def executable_mount_points_def
    by (auto intro!: calls_intro simp: routine_def)
  then show "calls_only routine (watcher_start os sels)"
    unfolding watcher_start_def install_marks_def
    by (auto intro!: calls_intro sel simp: routine_def)
  show "calls_only routine (watcher_healthy os)"
    unfolding watcher_healthy_def by (auto intro!: calls_intro simp: routine_def)
qed

lemma routing_routine [calls_intro]:
  "calls_only routine (detect_default_route os)" "calls_only routine (install_routing os cg route)"
  "calls_only routine (remove_routing os)"
proof -
  show "calls_only routine (detect_default_route os)"
    unfolding detect_default_route_def calls_only_def
    by (auto simp: ask_defs Let_def routine_def split: prod.splits sum.splits option.splits)
  show "calls_only routine (remove_routing os)"
    unfolding remove_routing_def routing_teardown_commands_def
    by (auto intro!: calls_intro simp: routine_def)
  show "calls_only routine (install_routing os cg route)"
    unfolding install_routing_def remove_routing_def run_ip_def routing_teardown_commands_def
      routing_setup_commands_def
    by (auto intro!: calls_intro simp: routine_def LOCAL_THROWS_def split: sum.splits)
qed

lemma direct_dns_routine [calls_intro]:
  "calls_only routine (direct_dns_start os)" "calls_only routine (direct_dns_stop os p)"
  "calls_only routine (direct_dns_healthy os p)"
proof -
  have running: "calls_only routine (all_running os ts)" for ts
    by (induction ts) (auto intro!: calls_intro simp: routine_def)
  show "calls_only routine (direct_dns_start os)"
    unfolding direct_dns_start_def bind_listener_def optional_listener6_def discover_upstreams_def Let_def
    by (auto intro!: calls_intro simp: routine_def)
  show "calls_only routine (direct_dns_stop os p)"
    unfolding direct_dns_stop_def remove_direct_dns_rules_def
    by (auto intro!: calls_intro simp: routine_def)
  show "calls_only routine (direct_dns_healthy os p)"
    unfolding direct_dns_healthy_def by (auto intro!: calls_intro running)
qed

section \<open>The split\<close>

lemma emits_with_cgroup [calls_intro]: "(\<And>cg. emits P (k cg)) \<Longrightarrow> emits P (with_cgroup k)"
  unfolding with_cgroup_def by (intro calls_intro)

lemma plan_selectors_routine [calls_intro]: "calls_only routine (plan_selectors os plan)"
  unfolding plan_selectors_def parse_selector_def
  by (auto intro!: calls_intro simp: routine_def split: sum.splits app_selector.splits)

lemma reconciler_routine [calls_intro]:
  "emits routine (reconcile_once os)" "emits routine (start_reconciler os)"
  "emits routine (stop_reconciler os)" "emits routine (watcher_is_healthy os)"
  "emits routine (ss_arm_watcher os sels)" "emits routine (drop_watcher os)"
  unfolding reconcile_once_def start_reconciler_def stop_reconciler_def watcher_is_healthy_def
    ss_arm_watcher_def drop_watcher_def
  by (auto intro!: calls_intro simp: routine_def)

lemma socket_mark_routine [calls_intro]:
  "calls_only routine (attach_socket_mark os mc fd)" "calls_only routine (detach_socket_mark os mc fd)"
  unfolding attach_socket_mark_def detach_socket_mark_def bpf_call_def
  by (auto intro!: calls_intro simp: routine_def)

lemma split_operations_routine [calls_intro]:
  "emits routine (ss_create_cgroup os uid)" "emits routine (ss_attach_bpf os mc)"
  "emits routine (ss_install_route_rules os)" "emits routine (ss_start_permission_watcher os plan)"
  "emits routine (ss_reconcile_existing os plan)" "emits routine (ss_update_plan os plan)"
  "emits routine (ss_lay_routes os)" "emits routine (ss_rollback os mc)"
  "emits routine (split_is_healthy os)"
  unfolding ss_create_cgroup_def ss_attach_bpf_def ss_install_route_rules_def
    ss_start_permission_watcher_def ss_reconcile_existing_def ss_update_plan_def ss_rearm_def
    ss_lay_routes_def ss_rollback_def ss_release_def ss_release_cgroup_def split_is_healthy_def
  by (auto intro!: calls_intro split: prod.splits)

lemmas split_backend_sel = system_split_backend_def split_backend.simps

lemma bring_up_routine: "emits routine (split_bring_up (split_ops pf) plan)"
  unfolding split_bring_up_def split_ops_def system_split_backend_def
  by (auto intro!: calls_intro)

text \<open>The calls of an operation of the manager are those of the backend's operations.\<close>

definition manager_emits ::
    "(call \<Rightarrow> bool) \<Rightarrow> ((split_system \<times> trace) split_manager, 'a) io \<Rightarrow> bool" where
  "manager_emits P f \<longleftrightarrow>
     (\<forall>m a m'. f m = (a, m') \<longrightarrow> extends_by P (snd (sm_backend m)) (snd (sm_backend m')))"

lemma manager_routine:
  "manager_emits routine (split_apply (split_ops pf) plan)"
  "manager_emits routine (split_update_plan (split_ops pf) plan)"
  "manager_emits routine (split_refresh_routing (split_ops pf))"
proof -
  have roll: "emits routine (sb_rollback (split_ops pf))"
    and upd: "emits routine (sb_update_plan (split_ops pf) plan)"
    and ref: "emits routine (sb_refresh_route_rules (split_ops pf))"
    unfolding split_ops_def system_split_backend_def by (auto intro!: calls_intro)
  show "manager_emits routine (split_apply (split_ops pf) plan)"
    unfolding manager_emits_def
  proof (intro allI impI)
    fix m :: "(split_system \<times> trace) split_manager" and a m'
    assume ap: "split_apply (split_ops pf) plan m = (a, m')"
    obtain r b where up: "split_bring_up (split_ops pf) plan (sm_backend m) = (r, b)"
      by (cases "split_bring_up (split_ops pf) plan (sm_backend m)")
    obtain q c where dn: "sb_rollback (split_ops pf) b = (q, c)"
      by (cases "sb_rollback (split_ops pf) b")
    have "sm_backend m' = b \<or> sm_backend m' = c"
      using ap up dn by (cases r) (auto simp: split_apply_def)
    then show "extends_by routine (snd (sm_backend m)) (snd (sm_backend m'))"
      using emitsD [OF bring_up_routine up] emitsD [OF roll dn] extends_by_trans by metis
  qed
  show "manager_emits routine (split_update_plan (split_ops pf) plan)"
    unfolding manager_emits_def split_update_plan_def
    by (auto split: prod.splits sum.splits dest: emitsD [OF upd])
  show "manager_emits routine (split_refresh_routing (split_ops pf))"
    unfolding manager_emits_def split_refresh_routing_def
    by (auto split: prod.splits sum.splits dest: emitsD [OF ref])
qed

lemma emits_in_split: "manager_emits P f \<Longrightarrow> emits P (in_split f)"
  unfolding manager_emits_def emits_def in_split_def by (fastforce split: prod.splits)

section \<open>The backend\<close>

lemma run_all_calls [calls_intro]:
  "(\<And>m. m \<in> set ms \<Longrightarrow> calls_only P m) \<Longrightarrow> calls_only P (run_all ms)"
  by (induction ms) (auto intro!: calls_intro)

lemma replace_file_routine [calls_intro]:
  "calls_only routine finish \<Longrightarrow> calls_only routine (replace_file os t path content finish)"
  unfolding replace_file_def by (auto intro!: calls_intro simp: routine_def)

lemma write_private_routine [calls_intro]: "calls_only routine (write_private pf path content)"
  unfolding write_private_def write_private_to_def by (auto intro!: calls_intro)

lemma prepare_dir_routine [calls_intro]: "calls_only routine (prepare_dir os what dir)"
  unfolding prepare_dir_def by (auto intro!: calls_intro simp: routine_def)

lemma validation_run_routine [calls_intro]:
  "calls_only routine (run_xray_validation os xray path)" "calls_only routine (ensure_trusted_binary os path)"
  unfolding run_xray_validation_def ensure_trusted_binary_def
  by (auto intro!: calls_intro simp: routine_def)

lemma egress_may_start:
  "calls_only (may_start xray) (run_validation_egress_probe pf host_of xray path config)"
proof -
  have ready: "calls_only (may_start xray) (ports_ready os ps)" for os ps
    by (induction ps) (auto intro!: calls_intro)
  then have wait: "calls_only (may_start xray) (await_listeners os pid ps limit n)" for os pid ps limit n
    by (induction n) (auto intro!: calls_intro)
  have probe: "calls_only (may_start xray) (probe_http_port os host_of p)" for os p
    unfolding probe_http_port_def probe_http_url_def by (auto intro!: calls_intro)
  have run: "calls_only (may_start xray) (egress_run os host_of pid ports)" for os pid ports
    unfolding egress_run_def by (auto intro!: calls_intro wait probe split: option.splits bool.splits)
  have conf: "calls_only (may_start xray) (egress_config pf xray path config ports)" for ports
    unfolding egress_config_def
    by (auto intro!: calls_only_try calls_only_return may_start_of_routine(1)
          write_private_routine validation_run_routine)
  have "calls_only (may_start xray) (egress_attempts pf host_of xray path config n k prior)" for n k prior
    by (induction k arbitrary: prior) (auto intro!: calls_intro run conf simp: reserve_ports_def)
  then show ?thesis unfolding run_validation_egress_probe_def by (auto intro!: calls_intro)
qed

lemma tun_devices_routine [calls_intro]: "calls_only routine (tun_devices_live pf raw)"
proof -
  have "calls_only routine (all_exist os ps)" for os ps
    by (induction ps) (auto intro!: calls_intro simp: routine_def)
  then show ?thesis unfolding tun_devices_live_def Let_def by (auto intro!: calls_intro)
qed

lemma validate_no_ks: "emits no_ks (sy_validate pf host_of req)"
  unfolding sy_validate_def
  by (intro emits_then emits_basic emits_lift calls_only_try calls_only_then calls_only_return calls_only_if
        calls_only_mono [OF egress_may_start] no_ks_of_routine(1) validation_run_routine prepare_dir_routine
        write_private_routine tun_devices_routine) (rule may_start_no_ks)

lemma helper_routine [calls_intro]:
  "hd args \<notin> {''killswitch-up'', ''killswitch-down''} \<Longrightarrow> emits routine (sy_run_helper os args)"
  unfolding sy_run_helper_def run_net_helper_def by (auto intro!: calls_intro simp: routine_def)

lemma child_routine [calls_intro]:
  "emits routine (child_is_running os)" "emits routine (stop_log_tasks os)" "emits routine (forget_xray os)"
  "emits routine (terminate_xray os)" "emits routine (wait_until_ready os mode n)"
proof -
  show run: "emits routine (child_is_running os)"
    unfolding child_is_running_def by (auto intro!: calls_intro simp: routine_def)
  show log: "emits routine (stop_log_tasks os)"
    unfolding stop_log_tasks_def by (auto intro!: calls_intro simp: routine_def)
  then show forget: "emits routine (forget_xray os)"
    unfolding forget_xray_def by (auto intro!: calls_intro)
  then show "emits routine (terminate_xray os)"
    unfolding terminate_xray_def end_child_def by (auto intro!: calls_intro simp: routine_def)
  have "calls_only routine (data_plane_present os mode)" "routine (Sleep 100)"
    unfolding data_plane_present_def
    by (auto intro!: calls_intro simp: routine_def split: connection_mode.splits)
  then show "emits routine (wait_until_ready os mode n)"
    by (induction n) (auto intro!: calls_intro run)
qed

text \<open>What starting the data plane does once the state is read.\<close>

definition start_calls :: "platform \<Rightarrow> system_backend \<Rightarrow> connect_request \<Rightarrow> (trace, daemon_error + nat) io" where
  "start_calls pf s req =
     try_io (prepare_dir (pf_os pf) [] (sy_runtime_dir s)) (\<lambda>_.
     try_io (write_private pf (sy_config_path s) (cr_xray_config req)) (\<lambda>_.
     try_io (map_io (map_err (internal_io ''clear Xray log''))
               (log_clear (pf_os pf) (log_path_for_owner (sy_owner_uid s)))) (\<lambda>_.
     map_io (map_err (\<lambda>e. daemon_error XrayStartFailed (''could not start installed Xray: '' @ err_text e)))
       (ask_number (pf_os pf) (SpawnXray (sy_xray_path s) (sy_config_path s))))))"

lemma start_calls_may_start: "calls_only (may_start (sy_xray_path s)) (start_calls pf s req)"
proof -
  have "calls_only routine (log_clear os path)" for os path
    unfolding log_clear_def by (auto intro!: calls_intro)
  then show ?thesis
    unfolding start_calls_def
    by (intro calls_only_try calls_only_map may_start_of_routine(1) prepare_dir_routine write_private_routine
          calls_only_typed may_start_simps)
qed

lemma start_tail_routine [calls_intro]:
  "calls_only routine (identity_from_pid os pid)"
  "calls_only routine (ignore_all (map (\<lambda>t. ask os (SpawnThread t)) names))"
  by (auto intro!: calls_intro identity_from_pid_calls)

lemma start_no_ks: "emits no_ks (sy_start_data_plane pf req)"
  unfolding sy_start_data_plane_def start_calls_def [symmetric]
  by (intro emits_then emits_try emits_basic emits_lift calls_only_mono [OF start_calls_may_start]
        no_ks_of_routine start_tail_routine child_routine) (rule may_start_no_ks)

lemma split_routine [calls_intro]:
  "emits routine (apply_split pf apps)" "emits routine (remove_split pf)"
  "emits routine (on_split sm (split_update_plan (split_ops pf) plan))"
  "emits routine (on_split sm (split_refresh_routing (split_ops pf)))"
  "emits routine (split_alive os)"
proof -
  show "emits routine (apply_split pf apps)"
    unfolding emits_def apply_split_def
    using emitsD [OF emits_in_split [OF manager_routine(1)]]
    by (fastforce split: prod.splits sum.splits)
  show "emits routine (remove_split pf)"
    unfolding emits_def remove_split_def
    using emitsD [OF split_operations_routine(8)]
    by (fastforce split: prod.splits option.splits)
  show "emits routine (on_split sm (split_update_plan (split_ops pf) plan))"
    unfolding emits_def on_split_def
    using emitsD [OF emits_in_split [OF manager_routine(2)]] by (fastforce split: prod.splits)
  show "emits routine (on_split sm (split_refresh_routing (split_ops pf)))"
    unfolding emits_def on_split_def
    using emitsD [OF emits_in_split [OF manager_routine(3)]] by (fastforce split: prod.splits)
  show "emits routine (split_alive os)"
    unfolding emits_def split_alive_def
    using emitsD [OF split_operations_routine(9)] by (fastforce split: prod.splits option.splits)
qed

lemma dns_routine [calls_intro]:
  "emits routine (remove_dns os)" "calls_only routine (dns_guard_install (system_dns_backend os pid))"
proof -
  have rem: "calls_only routine (remove_dns_table os)"
    unfolding calls_only_def by (auto elim!: remove_dns_table_trace simp: routine_def)
  then show "emits routine (remove_dns os)"
    unfolding remove_dns_def by (auto intro!: calls_intro)
  have "calls_only routine (system_dns_probe os pid)"
    by (rule calls_only_mono [OF system_dns_probe_calls]) (auto simp: routine_def)
  then show "calls_only routine (dns_guard_install (system_dns_backend os pid))"
    unfolding dns_guard_install_def system_dns_backend_def apply_ruleset_def
    by (auto intro!: calls_intro rem simp: routine_def)
qed

lemma update_split_routine: "emits routine (sy_update_split pf apps)"
  unfolding sy_update_split_def by (auto intro!: calls_intro)

lemma activate_routine: "emits routine (sy_activate_network pf req)"
  unfolding sy_activate_network_def settle_split_def
  by (auto intro!: calls_intro simp: route_up_arguments_def)

lemma verify_connection_routine: "emits routine (sy_verify_connection os req)"
  unfolding sy_verify_connection_def route_verified_def by (auto intro!: calls_intro simp: routine_def)

lemma verify_block_routine: "emits routine (sy_verify_hold_block os)"
  unfolding sy_verify_hold_block_def by (auto intro!: calls_intro simp: routine_def)

lemma stop_routine: "emits routine (sy_stop_data_plane pf keep)"
  unfolding sy_stop_data_plane_def route_down_def by (auto intro!: calls_intro simp: routine_def)

section \<open>The contract\<close>

text \<open>A run of the helper is one call, and its success is what the history records.\<close>

lemma helper_hold:
  assumes "sy_run_helper os (word # rest) w = (r, w')"
    and "word = ''killswitch-up'' \<or> word = ''killswitch-down''"
  shows "system_hold w' = (if is_ok r then word = ''killswitch-up'' else system_hold w)"
proof -
  let ?c = "Run (sy_net_helper_path (fst w)) (word # rest) []"
  have w': "snd w' = (?c, os (snd w) ?c) # snd w"
    and r: "is_ok r \<longleftrightarrow> (\<exists>out. os (snd w) ?c = Output out \<and> out_success out)"
    using assms(1) unfolding sy_run_helper_def run_net_helper_def
    by (auto simp: sys_defs ask_defs Let_def split: prod.splits option.splits if_splits)
  show ?thesis
    using assms(2) r unfolding system_hold_def w'
    by (auto simp: ks_run_def split: reply.splits)
qed

interpretation system_hold: hold_contract "system_ops pf host_of" system_hold for pf host_of
proof unfold_locales
  fix b b' :: "system_backend \<times> trace" and req u e a r q p apps
  let ?ops = "system_ops pf host_of"
  show "lb_install_hold_block ?ops req b = (Inr u, b') \<Longrightarrow> system_hold b'"
    and "lb_install_hold_block ?ops req b = (Inl e, b') \<Longrightarrow> system_hold b' = system_hold b"
    using helper_hold [of "pf_os pf" "''killswitch-up''"]
    by (auto simp: system_ops_def sy_install_hold_block_def map_io_def hold_arguments_def map_err_def
          split: prod.splits sum.splits)
  show "lb_remove_hold_block ?ops b = (Inr u, b') \<Longrightarrow> \<not> system_hold b'"
    and "lb_remove_hold_block ?ops b = (Inl e, b') \<Longrightarrow> system_hold b' = system_hold b"
    using helper_hold [of "pf_os pf" "''killswitch-down''"]
    by (auto simp: system_ops_def sy_remove_hold_block_def map_io_def map_err_def
          split: prod.splits sum.splits)
  show "lb_data_plane_alive ?ops b = (a, b') \<Longrightarrow> system_hold b' = system_hold b"
    by (simp add: system_ops_def emits_no_ks [OF no_ks_of_routine(2) [OF child_routine(1)]])
  show "lb_validate ?ops req b = (r, b') \<Longrightarrow> system_hold b' = system_hold b"
    by (simp add: system_ops_def emits_no_ks [OF validate_no_ks])
  show "lb_verify_hold_block ?ops b = (r, b') \<Longrightarrow> system_hold b' = system_hold b"
    by (simp add: system_ops_def emits_no_ks [OF no_ks_of_routine(2) [OF verify_block_routine]])
  show "lb_stop_data_plane ?ops p b = (r, b') \<Longrightarrow> system_hold b' = system_hold b"
    by (simp add: system_ops_def emits_no_ks [OF no_ks_of_routine(2) [OF stop_routine]])
  show "lb_start_data_plane ?ops req b = (r, b') \<Longrightarrow> system_hold b' = system_hold b"
    by (simp add: system_ops_def emits_no_ks [OF start_no_ks])
  show "lb_activate_network ?ops req b = (r, b') \<Longrightarrow> system_hold b' = system_hold b"
    by (simp add: system_ops_def emits_no_ks [OF no_ks_of_routine(2) [OF activate_routine]])
  show "lb_update_split ?ops apps b = (q, b') \<Longrightarrow> system_hold b' = system_hold b"
    by (simp add: system_ops_def emits_no_ks [OF no_ks_of_routine(2) [OF update_split_routine]])
  show "lb_verify_connection ?ops req b = (r, b') \<Longrightarrow> system_hold b' = system_hold b"
    by (simp add: system_ops_def emits_no_ks [OF no_ks_of_routine(2) [OF verify_connection_routine]])
qed

end
