(* ===== verification/Probe.thy ===== *)
theory Probe
  imports System_Hold
begin

text \<open>
  The latency probes of \<open>daemon/src/system.rs\<close>: a TCP ping through the network helper and a ping
  through a temporary Xray.  The time limit of an HTTP client is the environment's, as is which of
  several requests is answered first.
\<close>

section \<open>The resolver probe\<close>

definition DNS_PROBE_QUERY :: string where
  "DNS_PROBE_QUERY = map char_of
     [0x56, 0x4d, 0x01, 0x00, 0x00, 0x01, 0x00, 0x00, 0x00, 0x00, 0x00, 0x00 :: nat]
     @ [char_of (3 :: nat)] @ ''www'' @ [char_of (7 :: nat)] @ ''gstatic'' @ [char_of (3 :: nat)] @ ''com''
     @ map char_of [0x00, 0x00, 0x01, 0x00, 0x01 :: nat]"

definition ping_failed :: "string \<Rightarrow> daemon_error" where
  "ping_failed m = daemon_error PingFailed m"

definition validate_dns_probe_response :: "string \<Rightarrow> daemon_error + unit" where
  "validate_dns_probe_response body =
     (if length body < 12 then Err (ping_failed ''DNS probe returned a truncated response'')
      else if take 2 body \<noteq> take 2 DNS_PROBE_QUERY
      then Err (ping_failed ''DNS probe returned a mismatched transaction'')
      else if byte_word (body ! 2) AND 0x80 = 0
      then Err (ping_failed ''DNS probe did not return a response packet'')
      else if byte_word (body ! 3) AND 0x0f \<noteq> 0
      then Err (ping_failed (''DNS probe failed with RCODE '' @ dec (unat (byte_word (body ! 3) AND 0x0f))))
      else Ok ())"

definition probe_dns_url :: "os \<Rightarrow> (string \<Rightarrow> string) \<Rightarrow> u16 \<Rightarrow> string \<Rightarrow> (trace, daemon_error + unit) io" where
  "probe_dns_url os host_of port u =
     try_io (map_io (map_err (\<lambda>e. ping_failed (''resolver '' @ host_of u @ '': '' @ err_text e)))
               (ask_http os (ProbeDoh port u DNS_PROBE_QUERY))) (\<lambda>(status, _, shown).
       if status \<noteq> 200 then return_io (Err (ping_failed (''DNS probe returned HTTP '' @ shown)))
       else try_io (map_io (map_err (\<lambda>e. ping_failed (''could not read DNS probe response: '' @ err_text e)))
                      (ask_text os (HttpBody port u))) (\<lambda>body.
            return_io (validate_dns_probe_response body)))"

definition probe_dns_through_proxy ::
    "os \<Rightarrow> (string \<Rightarrow> string) \<Rightarrow> u16 \<Rightarrow> string list \<Rightarrow> (trace, daemon_error + unit) io" where
  "probe_dns_through_proxy os host_of port urls =
     map_io (map_err (\<lambda>_. ping_failed ''every configured DNS resolver failed through the proxy''))
       (first_success_with_reason os (map (probe_dns_url os host_of port) urls))"

section \<open>One path\<close>

text \<open>\<open>try_join!\<close>: both legs, the first error at once.\<close>

definition try_join2 ::
    "os \<Rightarrow> (trace, 'e + 'a) io \<Rightarrow> (trace, 'e + 'b) io \<Rightarrow> (trace, 'e + 'a \<times> 'b) io" where
  "try_join2 os m n =
     then_io (next_ready os 2) (\<lambda>i.
       if i = 0 then try_io m (\<lambda>a. try_io n (\<lambda>b. return_io (Ok (a, b))))
       else try_io n (\<lambda>b. try_io m (\<lambda>a. return_io (Ok (a, b)))))"

definition RESOLVER_PROBE_BUDGET_MS :: nat where "RESOLVER_PROBE_BUDGET_MS = 5000"

definition resolver_leg ::
    "os \<Rightarrow> (string \<Rightarrow> string) \<Rightarrow> u16 \<Rightarrow> nat \<Rightarrow> string list \<Rightarrow> (trace, daemon_error + unit) io" where
  "resolver_leg os host_of port limit urls =
     then_io (probe_dns_through_proxy os host_of port urls) (\<lambda>r.
     then_io (ask_flag os (DeadlinePassed (min limit RESOLVER_PROBE_BUDGET_MS))) (\<lambda>over.
     return_io (if over
       then Err (ping_failed (''the profile's resolver did not answer within ''
                   @ dec (RESOLVER_PROBE_BUDGET_MS div 1000) @ '' s through this path''))
       else r)))"

definition probe_proxy_port ::
    "os \<Rightarrow> (string \<Rightarrow> string) \<Rightarrow> nat \<Rightarrow> string list \<Rightarrow> bool \<Rightarrow> u16 \<Rightarrow> (trace, daemon_error + u32) io" where
  "probe_proxy_port os host_of limit urls require_dns port =
     (if urls = [] \<or> \<not> require_dns then probe_http_port os host_of port
      else map_io (\<lambda>r. try_then r (\<lambda>(rtt, _). Ok rtt))
             (try_join2 os (probe_http_port os host_of port) (resolver_leg os host_of port limit urls)))"

section \<open>TCP ping\<close>

definition run_tcp_ping :: "os \<Rightarrow> tcp_ping_request \<Rightarrow> (trace, daemon_error + u32) io" where
  "run_tcp_ping os req =
     try_io (ensure_trusted_binary os INSTALLED_NET_HELPER) (\<lambda>_.
     then_io (run_command os INSTALLED_NET_HELPER
                [''tcp'', tp_host req, dec (unat (tp_port req)), dec (unat (tp_timeout_ms req))] []) (\<lambda>r.
     then_io (ask_flag os (DeadlinePassed (unat (tp_timeout_ms req) + 500))) (\<lambda>over.
     return_io
       (if over then Err (ping_failed ''TCP ping timed out'')
        else case r of
          Inl e \<Rightarrow> Err (ping_failed (''could not start network ping helper: '' @ err_text e))
        | Inr out \<Rightarrow>
            if \<not> out_success out
            then Err (ping_failed (''TCP ping failed: '' @ trim (from_utf8_lossy (out_stderr out))))
            else map_err (\<lambda>_. ping_failed ''network ping helper returned an invalid RTT'')
                   (ok_or () (map_option of_nat (parse_u32 (trim (from_utf8_lossy (out_stdout out))))))))))"

section \<open>Proxy ping\<close>

text \<open>The counter \<open>PING_CONFIG_ID\<close> is the state; \<open>fetch_add\<close> wraps.\<close>

definition next_ping_id :: "(u64, u64) sys" where
  "next_ping_id = then_io get_st (\<lambda>n. then_io (modify_st (\<lambda>n. n + 1)) (\<lambda>_. return_io n))"

definition write_private_file :: "platform \<Rightarrow> string \<Rightarrow> string \<Rightarrow> (u64, daemon_error + unit) sys" where
  "write_private_file pf path content =
     then_io next_ping_id (\<lambda>n.
     lift_os (write_private_to (pf_os pf) ''ping''
       (''tmp-'' @ dec (pf_pid pf) @ ''-'' @ dec (unat n)) path content))"

definition ping_config_path :: "string \<Rightarrow> u16 list \<Rightarrow> nat \<Rightarrow> u64 \<Rightarrow> nat \<Rightarrow> string" where
  "ping_config_path dir ports pid sequence attempt =
     dir @ ''/ping-'' @ dec (unat (hd ports)) @ ''-'' @ dec pid @ ''-'' @ dec (unat sequence)
         @ ''-'' @ dec attempt @ ''.json''"

text \<open>Two rounds; the second one does not ask the resolver.\<close>

definition PROBE_RETRY_DELAY_MS :: nat where "PROBE_RETRY_DELAY_MS = 300"

definition probe_round ::
    "os \<Rightarrow> (string \<Rightarrow> string) \<Rightarrow> nat \<Rightarrow> string list \<Rightarrow> bool \<Rightarrow> u16 list \<Rightarrow> (trace, daemon_error + u32) io" where
  "probe_round os host_of limit urls require_dns ports =
     map_io (map_err (probe_failure ''HTTP ping failed through every proxy path''))
       (first_success_with_reason os (map (probe_proxy_port os host_of limit urls require_dns) ports))"

definition probe_rounds ::
    "os \<Rightarrow> (string \<Rightarrow> string) \<Rightarrow> nat \<Rightarrow> string list \<Rightarrow> u16 list \<Rightarrow> (trace, daemon_error + u32) io" where
  "probe_rounds os host_of limit urls ports =
     then_io (probe_round os host_of limit urls True ports) (\<lambda>r.
       if is_ok r then return_io r
       else then_io (ask os (Sleep PROBE_RETRY_DELAY_MS)) (\<lambda>_.
              probe_round os host_of limit urls False ports))"

text \<open>The temporary Xray is ended and its configuration removed, whatever the result.\<close>

definition end_ping_xray :: "os \<Rightarrow> nat \<Rightarrow> string \<Rightarrow> (trace, unit) io" where
  "end_ping_xray os pid path = ignore_all (map (ask os) [KillChild pid, WaitChild pid, RemoveFile path])"

definition ping_ready :: "os \<Rightarrow> nat \<Rightarrow> u16 list \<Rightarrow> nat \<Rightarrow> (trace, daemon_error + unit) io" where
  "ping_ready os pid ports limit =
     map_io (\<lambda>r. case r of
         None \<Rightarrow> Err (ping_failed ''ping Xray listener startup timed out'')
       | Some ready \<Rightarrow> if ready then Ok ()
                       else Err (ping_failed ''ping Xray exited before its SOCKS listeners were ready''))
       (await_listeners os pid ports limit (listener_rounds limit))"

text \<open>One start: \<open>Inl\<close> the error of a start that is tried again, \<open>Inr\<close> the result.\<close>

definition ping_start ::
    "os \<Rightarrow> (string \<Rightarrow> string) \<Rightarrow> proxy_ping_request \<Rightarrow> string \<Rightarrow> u16 list
     \<Rightarrow> (trace, daemon_error + (daemon_error + u32)) io" where
  "ping_start os host_of req path ports =
     then_io (ask_number os (SpawnXray INSTALLED_XRAY path)) (\<lambda>spawned. case spawned of
       Inl e \<Rightarrow> then_io (ask os (RemoveFile path)) (\<lambda>_.
                return_io (Inl (ping_failed (''could not start ping Xray: '' @ err_text e))))
     | Inr pid \<Rightarrow>
         then_io (ping_ready os pid ports (min (unat (pp_timeout_ms req)) 2000)) (\<lambda>ready. case ready of
           Inl e \<Rightarrow> then_io (end_ping_xray os pid path) (\<lambda>_. return_io (Inl e))
         | Inr _ \<Rightarrow>
             then_io (probe_rounds os host_of (unat (pp_timeout_ms req)) (effective_dns_probe_urls req) ports) (\<lambda>r.
             then_io (end_ping_xray os pid path) (\<lambda>_. return_io (Inr r)))))"

definition ping_config ::
    "platform \<Rightarrow> proxy_ping_request \<Rightarrow> u16 list \<Rightarrow> daemon_error + string" where
  "ping_config pf req ports =
     try_then (settled (validation_config_with_ports (pf_parse pf) (pf_print pf) (pp_xray_config req) ports)) (\<lambda>config.
     try_then (validate_ping_xray_document (pf_parse pf) config ports) (\<lambda>_. Ok config))"

definition reserve_ping_ports :: "os \<Rightarrow> nat \<Rightarrow> (trace, daemon_error + u16 list) io" where
  "reserve_ping_ports os n =
     map_io (map_err (\<lambda>e. ping_failed (''could not reserve ping ports: '' @ err_text e))) (reserve_ports os n)"

fun ping_attempts ::
    "platform \<Rightarrow> (string \<Rightarrow> string) \<Rightarrow> proxy_ping_request \<Rightarrow> string \<Rightarrow> u64 \<Rightarrow> nat list \<Rightarrow> daemon_error option
     \<Rightarrow> (u64, daemon_error + u32) sys" where
  "ping_attempts pf host_of req dir sequence [] prior =
     return_io (Err (case prior of Some e \<Rightarrow> e
                     | None \<Rightarrow> ping_failed ''could not start ping Xray on daemon-owned ports''))"
| "ping_attempts pf host_of req dir sequence (attempt # attempts) prior =
     try_io (lift_os (reserve_ping_ports (pf_os pf) (length (effective_socks_ports req)))) (\<lambda>ports.
     try_io (return_io (ping_config pf req ports)) (\<lambda>config.
     let path = ping_config_path dir ports (pf_pid pf) sequence attempt in
     try_io (write_private_file pf path config) (\<lambda>_.
     then_io (lift_os (ping_start (pf_os pf) host_of req path ports)) (\<lambda>started. case started of
       Inl e \<Rightarrow> ping_attempts pf host_of req dir sequence attempts (Some e)
     | Inr r \<Rightarrow> return_io r))))"

definition run_proxy_ping ::
    "platform \<Rightarrow> (string \<Rightarrow> string) \<Rightarrow> nat \<Rightarrow> proxy_ping_request \<Rightarrow> (u64, daemon_error + u32) sys" where
  "run_proxy_ping pf host_of owner_uid req =
     try_io (lift_os (ensure_trusted_binary (pf_os pf) INSTALLED_XRAY)) (\<lambda>_.
     try_io (return_io (validate_ping_xray_document (pf_parse pf) (pp_xray_config req) (effective_socks_ports req))) (\<lambda>_.
     let dir = ''/run/varmlen/user-'' @ dec owner_uid in
     try_io (lift_os (prepare_dir (pf_os pf) ''ping '' dir)) (\<lambda>_.
     then_io next_ping_id (\<lambda>sequence.
     ping_attempts pf host_of req dir sequence [0..<4] None))))"

section \<open>Nothing is left behind\<close>

text \<open>
  What a history leaves: configurations that were moved into place and not removed since, and
  children that were started and not killed since.
\<close>

datatype leftover = Config_File string | Child_Process nat

fun leftovers :: "trace \<Rightarrow> leftover set" where
  "leftovers [] = {}"
| "leftovers ((c, r) # tr) =
     (case c of
        Rename _ path \<Rightarrow> if r = Done then insert (Config_File path) (leftovers tr) else leftovers tr
      | RemoveFile path \<Rightarrow> leftovers tr - {Config_File path}
      | SpawnXray _ _ \<Rightarrow>
          (case r of Number pid \<Rightarrow> insert (Child_Process pid) (leftovers tr) | _ \<Rightarrow> leftovers tr)
      | KillChild pid \<Rightarrow> leftovers tr - {Child_Process pid}
      | _ \<Rightarrow> leftovers tr)"

text \<open>A call that makes nothing.\<close>

definition makes_nothing :: "call \<Rightarrow> bool" where
  "makes_nothing c = (case c of Rename _ _ \<Rightarrow> False | SpawnXray _ _ \<Rightarrow> False | _ \<Rightarrow> True)"

lemma leftovers_mono: "makes_nothing c \<Longrightarrow> leftovers ((c, r) # tr) \<subseteq> leftovers tr"
  by (auto simp: makes_nothing_def split: call.splits)

lemma leftovers_extends: "extends_by makes_nothing tr tr' \<Longrightarrow> leftovers tr' \<subseteq> leftovers tr"
proof -
  have "leftovers (es @ tr) \<subseteq> leftovers tr" if "\<forall>(c, r) \<in> set es. makes_nothing c" for es
    using that
  proof (induction es)
    case Nil
    then show ?case by simp
  next
    case (Cons e es)
    obtain c r where "e = (c, r)" by fastforce
    then show ?case using Cons leftovers_mono [of c r "es @ tr"] by auto
  qed
  then show "extends_by makes_nothing tr tr' \<Longrightarrow> ?thesis" unfolding extends_by_def by blast
qed

lemma makes_nothing_leftovers:
  "calls_only makes_nothing m \<Longrightarrow> m tr = (a, tr') \<Longrightarrow> leftovers tr' \<subseteq> leftovers tr"
  by (rule leftovers_extends) (rule calls_onlyD)

lemma trusted_makes_nothing [calls_intro]: "calls_only makes_nothing (ensure_trusted_binary os path)"
  unfolding ensure_trusted_binary_def by (auto intro!: calls_intro simp: makes_nothing_def)

lemma probes_make_nothing [calls_intro]:
  "calls_only makes_nothing (probe_round os host_of limit urls require_dns ports)"
  "calls_only makes_nothing (probe_rounds os host_of limit urls ports)"
  "calls_only makes_nothing (ping_ready os pid ports limit')"
proof -
  have n: "makes_nothing (NextReady k)" "makes_nothing (DeadlinePassed k)" "makes_nothing (Sleep k)" for k
    by (simp_all add: makes_nothing_def)
  have http: "calls_only makes_nothing (probe_http_port os host_of p)" for p
    unfolding probe_http_port_def probe_http_url_def by (auto intro!: calls_intro simp: makes_nothing_def)
  have dns: "calls_only makes_nothing (probe_dns_through_proxy os host_of p urls)" for p
    unfolding probe_dns_through_proxy_def probe_dns_url_def
    by (auto intro!: calls_intro simp: makes_nothing_def)
  then have leg: "calls_only makes_nothing (resolver_leg os host_of p limit urls)" for p
    unfolding resolver_leg_def by (auto intro!: calls_intro n)
  have port: "calls_only makes_nothing (probe_proxy_port os host_of limit urls require_dns p)" for p require_dns
    unfolding probe_proxy_port_def try_join2_def by (auto intro!: calls_intro n http leg)
  have round: "calls_only makes_nothing (probe_round os host_of limit urls require_dns ports)" for require_dns
    unfolding probe_round_def by (auto intro!: calls_intro n port)
  then show "calls_only makes_nothing (probe_round os host_of limit urls require_dns ports)" .
  show "calls_only makes_nothing (probe_rounds os host_of limit urls ports)"
    unfolding probe_rounds_def by (auto intro!: calls_intro n round)
  have ready: "calls_only makes_nothing (ports_ready os ps)" for ps
    by (induction ps) (auto intro!: calls_intro simp: makes_nothing_def)
  then have "calls_only makes_nothing (await_listeners os pid ports limit' k)" for k
    by (induction k) (auto intro!: calls_intro simp: makes_nothing_def)
  then show "calls_only makes_nothing (ping_ready os pid ports limit')"
    unfolding ping_ready_def by (auto intro!: calls_intro split: option.splits)
qed

lemma end_ping_leftovers:
  "end_ping_xray os pid path tr = (u, tr') \<Longrightarrow>
     leftovers tr' \<subseteq> leftovers tr - {Child_Process pid, Config_File path}"
  by (auto simp: end_ping_xray_def ask_def Let_def)

lemma write_private_leftovers:
  assumes "write_private_to os what tag path content tr = (r, tr')"
  shows "leftovers tr' \<subseteq> insert (Config_File path) (leftovers tr)"
    and "is_err r \<Longrightarrow> leftovers tr' \<subseteq> leftovers tr"
  using assms
  unfolding write_private_to_def replace_file_def write_new_def os_io_def do_call_def ask_as_def ask_def
  by (auto simp: then_io_def try_io_def map_io_def Let_def split: prod.splits sum.splits if_splits option.splits)

lemma ping_start_leftovers:
  assumes "ping_start os host_of req path ports tr = (r, tr')"
  shows "leftovers tr' \<subseteq> leftovers tr - {Config_File path}"
proof -
  let ?c = "SpawnXray INSTALLED_XRAY path"
  show ?thesis
  proof (cases "as_number (os tr ?c)")
    case None
    then show ?thesis using assms
      by (auto simp: ping_start_def then_io_def ask_number_def ask_as_def ask_def Let_def
            split: reply.splits)
  next
    case (Some pid)
    let ?tr1 = "(?c, Number pid) # tr"
    have spawned: "ask_number os ?c tr = (Inr pid, ?tr1)"
      using Some by (auto simp: ask_number_def ask_as_def ask_def Let_def)
    obtain q tr2 where q: "ping_ready os pid ports (min (unat (pp_timeout_ms req)) 2000) ?tr1 = (q, tr2)"
      by fastforce
    have l2: "leftovers tr2 \<subseteq> insert (Child_Process pid) (leftovers tr)"
      using makes_nothing_leftovers [OF probes_make_nothing(3) q] by simp
    have tr3: "\<exists>tr3 u. end_ping_xray os pid path tr3 = (u, tr') \<and> leftovers tr3 \<subseteq> leftovers tr2"
    proof (cases q)
      case (Inl e)
      then show ?thesis
        using assms spawned q by (auto simp: ping_start_def then_io_def split: prod.splits)
    next
      case (Inr u)
      obtain v tr3 where v: "probe_rounds os host_of (unat (pp_timeout_ms req))
          (effective_dns_probe_urls req) ports tr2 = (v, tr3)" by fastforce
      show ?thesis
        using assms spawned q v Inr makes_nothing_leftovers [OF probes_make_nothing(2) v]
        by (auto simp: ping_start_def then_io_def split: prod.splits)
    qed
    then show ?thesis using l2 end_ping_leftovers by fastforce
  qed
qed

lemma ping_attempts_leftovers:
  "ping_attempts pf host_of req dir sequence attempts prior w = (r, w') \<Longrightarrow>
     leftovers (snd w') \<subseteq> leftovers (snd w)"
proof (induction attempts arbitrary: prior w)
  case Nil
  then show ?case by simp
next
  case (Cons attempt attempts)
  let ?reserve = "lift_os (reserve_ping_ports (pf_os pf) (length (effective_socks_ports req)))
      :: (u64, daemon_error + u16 list) sys"
  obtain ps w1 where ps: "?reserve w = (ps, w1)" by (cases "?reserve w")
  have "emits makes_nothing ?reserve"
    unfolding reserve_ping_ports_def reserve_ports_def
    by (auto intro!: calls_intro simp: makes_nothing_def)
  then have l1: "leftovers (snd w1) \<subseteq> leftovers (snd w)"
    using ps leftovers_extends unfolding emits_def by metis
  show ?case
  proof (cases ps)
    case (Inl e)
    then show ?thesis using Cons.prems ps l1 by (auto simp: try_io_def)
  next
    case (Inr ports)
    note ports = Inr
    show ?thesis
    proof (cases "ping_config pf req ports")
      case (Inl e)
      then show ?thesis using Cons.prems ps ports l1 by (auto simp: try_io_def)
    next
      case (Inr config)
      let ?path = "ping_config_path dir ports (pf_pid pf) sequence attempt"
      obtain q w2 where q: "write_private_file pf ?path config w1 = (q, w2)"
        by (cases "write_private_file pf ?path config w1")
      have l2: "leftovers (snd w2) \<subseteq> insert (Config_File ?path) (leftovers (snd w1))"
        and l2e: "is_err q \<Longrightarrow> leftovers (snd w2) \<subseteq> leftovers (snd w1)"
        using q write_private_leftovers
        unfolding write_private_file_def next_ping_id_def
        by (fastforce simp: sys_defs split: prod.splits)+
      show ?thesis
      proof (cases q)
        case (Inl e)
        then show ?thesis using Cons.prems ps ports Inr q l1 l2e by (auto simp: try_io_def Let_def)
      next
        case (Inr u)
        obtain st tr3 where st: "ping_start (pf_os pf) host_of req ?path ports (snd w2) = (st, tr3)" by fastforce
        then have l3: "leftovers tr3 \<subseteq> leftovers (snd w)"
          using ping_start_leftovers [OF st] l2 l1 by blast
        have lifted: "lift_os (ping_start (pf_os pf) host_of req ?path ports) w2 = (st, (fst w2, tr3))"
          using st by (cases w2) (simp add: lift_os_def)
        have "st = Inr r \<and> w' = (fst w2, tr3)
            \<or> (\<exists>e. ping_attempts pf host_of req dir sequence attempts (Some e) (fst w2, tr3) = (r, w'))"
          using Cons.prems ps ports \<open>ping_config pf req ports = Inr config\<close> q Inr lifted
          by (cases st) (auto simp: try_io_def then_io_def Let_def)
        then show ?thesis using Cons.IH l3 by fastforce
      qed
    qed
  qed
qed

definition leaves_only :: "leftover set \<Rightarrow> 's \<times> trace \<Rightarrow> bool" where
  "leaves_only L w = (leftovers (snd w) \<subseteq> L)"

lemma keeps_leaves_only:
  assumes "calls_only makes_nothing m"
  shows "keeps (leaves_only L) (lift_os m)"
  using makes_nothing_leftovers [OF assms] unfolding keeps_def leaves_only_def lift_os_def
  by (fastforce split: prod.splits)

lemma proxy_ping_leftovers: "keeps (leaves_only L) (run_proxy_ping pf host_of uid req)"
proof -
  have att: "keeps (leaves_only L) (ping_attempts pf host_of req dir sequence attempts prior)"
    for dir sequence attempts prior
    unfolding keeps_def leaves_only_def
    by (intro allI impI, rule subset_trans, rule ping_attempts_leftovers, rule prod.collapse [symmetric])
  have "calls_only makes_nothing (prepare_dir os what dir)" for os what dir
    unfolding prepare_dir_def by (auto intro!: calls_intro simp: makes_nothing_def)
  then show ?thesis
    unfolding run_proxy_ping_def next_ping_id_def Let_def
    by (intro keeps_try keeps_then keeps_return keeps_leaves_only att trusted_makes_nothing)
       (auto intro!: keeps_basic simp: leaves_only_def)
qed

section \<open>What a success means\<close>

text \<open>A race succeeds with the value of one of its tasks, and fails with the errors of all.\<close>

lemma race_ok_step:
  obtains i tr1 q tr2 where "i < Suc n" and "next_ready os (Suc n) tr = (i, tr1)"
    and "(ms ! i) tr1 = (q, tr2)"
    and "race_ok os (Suc n) ms failures tr =
      (case q of Inr b \<Rightarrow> (Ok b, tr2) | Inl e \<Rightarrow> race_ok os n (without_nth i ms) (failures @ [e]) tr2)"
proof -
  obtain i tr1 where i: "next_ready os (Suc n) tr = (i, tr1)" by fastforce
  obtain q tr2 where q: "(ms ! i) tr1 = (q, tr2)" by fastforce
  show thesis
    by (rule that [OF next_ready_less [OF i] i q])
       (use i q in \<open>auto simp: then_io_def split: sum.splits\<close>)
qed

lemma race_ok_Inr:
  "race_ok os n ms failures tr = (Inr a, tr') \<Longrightarrow> length ms = n \<Longrightarrow>
     \<exists>m tr1 tr2. m \<in> set ms \<and> m tr1 = (Inr a, tr2)"
proof (induction n arbitrary: ms failures tr)
  case 0
  then show ?case by simp
next
  case (Suc n)
  obtain i tr1 q tr2 where i: "i < Suc n" and q: "(ms ! i) tr1 = (q, tr2)"
    and eq: "race_ok os (Suc n) ms failures tr =
      (case q of Inr b \<Rightarrow> (Ok b, tr2) | Inl e \<Rightarrow> race_ok os n (without_nth i ms) (failures @ [e]) tr2)"
    by (rule race_ok_step)
  have "ms ! i \<in> set ms" using i Suc.prems(2) by simp
  then show ?case
    using Suc.prems(1) Suc.prems(2) q i set_without_nth [of i ms] Suc.IH [of "without_nth i ms"]
    unfolding eq by (cases q) (fastforce simp: without_nth_def)+
qed

lemma race_ok_Inl:
  "race_ok os n ms failures tr = (Inl es, tr') \<Longrightarrow> length ms = n \<Longrightarrow> length es = length failures + n"
proof (induction n arbitrary: ms failures tr)
  case 0
  then show ?case by simp
next
  case (Suc n)
  obtain i tr1 q tr2 where i: "i < Suc n"
    and eq: "race_ok os (Suc n) ms failures tr =
      (case q of Inr b \<Rightarrow> (Ok b, tr2) | Inl e \<Rightarrow> race_ok os n (without_nth i ms) (failures @ [e]) tr2)"
    by (rule race_ok_step)
  show ?case
    using Suc.prems(1) Suc.prems(2) i Suc.IH [of "without_nth i ms"]
    unfolding eq by (cases q) (fastforce simp: without_nth_def)+
qed

lemma first_success_Inr:
  assumes "first_success_with_reason os ms tr = (Inr a, tr')"
  obtains m tr1 tr2 where "m \<in> set ms" and "m tr1 = (Inr a, tr2)"
proof -
  have "race_ok os (length ms) ms [] tr = (Inr a, tr')"
    using assms by (simp add: first_success_with_reason_def)
  from race_ok_Inr [OF this refl] show thesis by (auto intro: that)
qed

lemma map_err_io_Inr [simp]: "map_io (map_err f) m tr = (Inr a, tr') \<longleftrightarrow> m tr = (Inr a, tr')"
  by (simp add: map_io_def split: prod.splits)

text \<open>A location is reported reachable only when a request through it was answered with 204.\<close>

definition http_answered :: "os \<Rightarrow> u16 \<Rightarrow> u32 \<Rightarrow> bool" where
  "http_answered os port ms \<longleftrightarrow>
     (\<exists>u tr n shown. u \<in> set PROXY_PING_URLS \<and> os tr (ProbeHttp port u) = Http 204 n shown
        \<and> ms = of_nat (min n u32_max))"

lemma probe_http_port_ok:
  assumes "probe_http_port os host_of port tr = (Inr ms, tr')"
  shows "http_answered os port ms"
proof -
  have "first_success_with_reason os (map (probe_http_url os host_of port) PROXY_PING_URLS) tr = (Inr ms, tr')"
    using assms by (simp add: probe_http_port_def)
  then obtain m tr1 tr2 where "m \<in> set (map (probe_http_url os host_of port) PROXY_PING_URLS)"
    and "m tr1 = (Inr ms, tr2)" by (rule first_success_Inr)
  then obtain u where u: "u \<in> set PROXY_PING_URLS" and p: "probe_http_url os host_of port u tr1 = (Inr ms, tr2)"
    by auto
  have "\<exists>n shown. os tr1 (ProbeHttp port u) = Http 204 n shown \<and> ms = of_nat (min n u32_max)"
    using p unfolding probe_http_url_def map_io_def ask_http_def ask_as_def ask_def
    by (auto simp: Let_def split: option.splits if_splits elim: as_http.elims)
  then show ?thesis using u unfolding http_answered_def by blast
qed

lemma probe_proxy_port_ok:
  assumes "probe_proxy_port os host_of limit urls require_dns port tr = (Inr ms, tr')"
  shows "http_answered os port ms"
proof -
  obtain tr1 tr2 where "probe_http_port os host_of port tr1 = (Inr ms, tr2)"
    using assms
    by (auto simp: probe_proxy_port_def try_join2_def map_io_def then_io_def try_io_def try_then_eq_Inr
          split: prod.splits if_splits sum.splits)
  then show ?thesis by (rule probe_http_port_ok)
qed

lemma probe_rounds_ok:
  assumes "probe_rounds os host_of limit urls ports tr = (Inr ms, tr')"
  shows "\<exists>port\<in>set ports. http_answered os port ms"
proof -
  obtain d tr1 tr2 where "probe_round os host_of limit urls d ports tr1 = (Inr ms, tr2)"
    using assms by (auto simp: probe_rounds_def then_io_def split: prod.splits if_splits)
  then have "first_success_with_reason os (map (probe_proxy_port os host_of limit urls d) ports) tr1 = (Inr ms, tr2)"
    by (simp add: probe_round_def)
  then obtain m tr3 tr4 where "m \<in> set (map (probe_proxy_port os host_of limit urls d) ports)"
    and "m tr3 = (Inr ms, tr4)" by (rule first_success_Inr)
  then show ?thesis using probe_proxy_port_ok by fastforce
qed

end
