(* ===== verification/Controller.thy ===== *)
theory Controller
  imports Probe
begin

text \<open>
  \<open>daemon/src/controller.rs\<close>: the controller runs the commands of the client on the lifecycle
  manager over the system backend, and writes the state file after every command that may have
  changed something.
\<close>

section \<open>The controller\<close>

text \<open>What the controller reaches without a field: the machine, the URL parser and \<open>serde\<close>.\<close>

record daemon_env =
  dv_platform :: platform
  dv_host_of :: "string \<Rightarrow> string"
  dv_ser_state :: "persisted_state \<Rightarrow> string + string"
  dv_de_state :: "string \<Rightarrow> string + persisted_state"

abbreviation dv_os :: "daemon_env \<Rightarrow> os" where
  "dv_os env \<equiv> pf_os (dv_platform env)"

text \<open>The counters are the two static ones of \<open>system.rs\<close> and \<open>state.rs\<close>.\<close>

record system_controller =
  ct_owner_uid :: nat
  ct_manager :: "system_backend lifecycle_manager"
  ct_state_path :: string
  ct_ping_id :: u64
  ct_temp_id :: u64

definition new_controller :: "nat \<Rightarrow> connection_phase \<Rightarrow> string \<Rightarrow> system_controller" where
  "new_controller uid p path =
     \<lparr>ct_owner_uid = uid, ct_manager = new_manager (installed_backend uid) p, ct_state_path = path,
      ct_ping_id = 1, ct_temp_id = 1\<rparr>"

text \<open>The manager of the lifecycle model has the history inside its backend.\<close>

definition with_history ::
    "'b lifecycle_manager \<Rightarrow> trace \<Rightarrow> ('b \<times> trace) lifecycle_manager" where
  "with_history m tr =
     \<lparr>lm_backend = (lm_backend m, tr), lm_state = lm_state m, lm_block_on_failure = lm_block_on_failure m\<rparr>"

definition without_history :: "('b \<times> trace) lifecycle_manager \<Rightarrow> 'b lifecycle_manager" where
  "without_history m =
     \<lparr>lm_backend = fst (lm_backend m), lm_state = lm_state m, lm_block_on_failure = lm_block_on_failure m\<rparr>"

definition on_manager ::
    "((system_backend \<times> trace) lifecycle_manager, 'a) io \<Rightarrow> (system_controller, 'a) sys" where
  "on_manager f w =
     (case f (with_history (ct_manager (fst w)) (snd w)) of
        (a, m) \<Rightarrow> (a, ((fst w)\<lparr>ct_manager := without_history m\<rparr>, snd (lm_backend m))))"

definition daemon_ops :: "daemon_env \<Rightarrow> (system_backend \<times> trace) lifecycle_backend" where
  "daemon_ops env = system_ops (dv_platform env) (dv_host_of env)"

definition state_to_persist :: "system_controller \<Rightarrow> persisted_state" where
  "state_to_persist c =
     (new_persisted_state (ct_owner_uid c) (phase_of (ct_manager c)))
       \<lparr>pst_xray := sy_xray_identity (lm_backend (ct_manager c))\<rparr>"

definition ct_persist :: "daemon_env \<Rightarrow> (system_controller, daemon_error + unit) sys" where
  "ct_persist env =
     then_io get_st (\<lambda>c.
     then_io (lift_os (state_write (dv_os env) (dv_ser_state env) (pf_pid (dv_platform env))
                (unat (ct_temp_id c)) (ct_state_path c) (state_to_persist c))) (\<lambda>r.
     then_io (modify_st (\<lambda>c. c\<lparr>ct_temp_id := ct_temp_id c + 1\<rparr>)) (\<lambda>_.
     case r of
       Inr _ \<Rightarrow> return_io (Ok ())
     | Inl e \<Rightarrow>
         then_io (modify_st (\<lambda>c. c\<lparr>ct_manager := mark_recovery_required (ct_manager c)\<rparr>)) (\<lambda>_.
         return_io (Err (daemon_error Internal
           (''could not persist daemon recovery state: '' @ io_error_text e)))))))"

definition ct_state :: "(system_controller, daemon_state) sys" where
  "ct_state = map_io (\<lambda>c. lm_state (ct_manager c)) get_st"

definition poll_health :: "daemon_env \<Rightarrow> (system_controller, daemon_error + daemon_state) sys" where
  "poll_health env =
     then_io ct_state (\<lambda>before.
     then_io (on_manager (lifecycle_reconcile_health (daemon_ops env))) (\<lambda>result.
     then_io ct_state (\<lambda>now.
     try_io (if now \<noteq> before then ct_persist env else return_io (Ok ())) (\<lambda>_. return_io result))))"

section \<open>Commands\<close>

definition ct_log_tail :: "daemon_env \<Rightarrow> (system_controller, daemon_error + daemon_state) sys" where
  "ct_log_tail env =
     then_io get_st (\<lambda>c.
     try_io (lift_os (map_io (map_err (internal_io ''could not read Xray log''))
               (log_tail (dv_os env) (log_path_for_owner (ct_owner_uid c)) MAX_LOG_TAIL_BYTES))) (\<lambda>tail.
     map_io (\<lambda>s. Ok (s\<lparr>ds_log_tail := Some tail\<rparr>)) ct_state))"

definition ct_clear_log :: "daemon_env \<Rightarrow> (system_controller, daemon_error + daemon_state) sys" where
  "ct_clear_log env =
     then_io get_st (\<lambda>c.
     try_io (lift_os (map_io (map_err (internal_io ''could not clear Xray log''))
               (log_clear (dv_os env) (log_path_for_owner (ct_owner_uid c))))) (\<lambda>_.
     map_io Ok ct_state))"

definition ct_tcp_ping ::
    "daemon_env \<Rightarrow> tcp_ping_request \<Rightarrow> (system_controller, daemon_error + daemon_state) sys" where
  "ct_tcp_ping env req =
     try_io (lift_os (run_tcp_ping (dv_os env) req)) (\<lambda>rtt.
     map_io (\<lambda>s. Ok (s\<lparr>ds_rtt_ms := Some rtt\<rparr>)) ct_state)"

definition put_ping_id :: "u64 \<Rightarrow> system_controller \<Rightarrow> system_controller" where
  "put_ping_id n c = c\<lparr>ct_ping_id := n\<rparr>"

definition ct_proxy_ping ::
    "daemon_env \<Rightarrow> proxy_ping_request \<Rightarrow> (system_controller, daemon_error + daemon_state) sys" where
  "ct_proxy_ping env req =
     then_io get_st (\<lambda>c.
     try_io (zoom ct_ping_id put_ping_id
               (run_proxy_ping (dv_platform env) (dv_host_of env) (ct_owner_uid c) req)) (\<lambda>rtt.
     map_io (\<lambda>s. Ok (s\<lparr>ds_rtt_ms := Some rtt\<rparr>)) ct_state))"

text \<open>A command that changes the manager: its result, unless the state cannot be written after it.\<close>

definition ct_change ::
    "daemon_env \<Rightarrow> ((system_backend \<times> trace) lifecycle_manager, daemon_error + daemon_state) io
     \<Rightarrow> (system_controller, daemon_error + daemon_state) sys" where
  "ct_change env f =
     then_io (on_manager f) (\<lambda>result. try_io (ct_persist env) (\<lambda>_. return_io result))"

fun controller_handle ::
    "daemon_env \<Rightarrow> daemon_command \<Rightarrow> (system_controller, daemon_error + daemon_state) sys" where
  "controller_handle env LogTail = ct_log_tail env"
| "controller_handle env ClearLog = ct_clear_log env"
| "controller_handle env (TcpPing req) = ct_tcp_ping env req"
| "controller_handle env (ProxyPing req) = ct_proxy_ping env req"
| "controller_handle env Status = ct_change env (lifecycle_reconcile_health (daemon_ops env))"
| "controller_handle env (Connect req) = ct_change env (lifecycle_connect (daemon_ops env) req)"
| "controller_handle env Disconnect = ct_change env (lifecycle_disconnect (daemon_ops env))"
| "controller_handle env (UpdateSplit apps) = ct_change env (lifecycle_update_split (daemon_ops env) apps)"

section \<open>The guarantee of the kill switch\<close>

text \<open>
  \<open>nft\<close> lists the hold block while it is in force, so the check after an installation does not
  fail.
\<close>

definition list_block :: call where
  "list_block = Run ''nft'' [''list'', ''table'', ''inet'', ''varmlen_ks''] []"

definition block_listed_when_held :: "os \<Rightarrow> bool" where
  "block_listed_when_held os \<longleftrightarrow>
     (\<forall>tr. switched_on (ks_run ''killswitch-up'') (ks_run ''killswitch-down'') tr \<longrightarrow>
        (\<exists>out. os tr list_block = Output out \<and> out_success out
           \<and> hold_block_listed (from_utf8_lossy (out_stdout out))))"

lemma never_revoked:
  assumes "block_listed_when_held (pf_os pf)"
  shows "\<not> guard_revoked (system_ops pf host_of) req m"
proof -
  have "is_ok (fst (sy_verify_hold_block (pf_os pf) b))" if held: "system_hold b" for b
  proof -
    obtain s tr where b: "b = (s, tr)" by fastforce
    then obtain out where "pf_os pf tr list_block = Output out" and "out_success out"
      and "hold_block_listed (from_utf8_lossy (out_stdout out))"
      using assms held by (auto simp: block_listed_when_held_def system_hold_def)
    then show ?thesis
      by (simp add: b sy_verify_hold_block_def lift_os_def map_io_def run_command_def ask_as_def
            ask_def Let_def list_block_def)
  qed
  then show ?thesis
    using system_hold.install_ok [of pf host_of req]
    unfolding guard_revoked_def
    by (fastforce simp: system_ops_def split: prod.splits sum.splits)
qed

definition controller_guarded :: "system_controller \<times> trace \<Rightarrow> bool" where
  "controller_guarded w = guarded_ok system_hold (with_history (ct_manager (fst w)) (snd w))"

lemma controller_guarded_iff:
  "controller_guarded w \<longleftrightarrow>
     (let m = ct_manager (fst w) in
      phase_of m = Blocking \<or> (phase_of m = Connected \<and> lm_block_on_failure m)
        \<longrightarrow> switched_on (ks_run ''killswitch-up'') (ks_run ''killswitch-down'') (snd w))"
  by (simp add: controller_guarded_def guarded_ok_def held_def with_history_def system_hold_def Let_def)

lemma guarded_quiet:
  assumes "emits no_ks m" and "unchanged ct_manager m"
  shows "keeps controller_guarded m"
  unfolding keeps_def
proof (intro allI impI)
  fix w assume g: "controller_guarded w"
  obtain a w' where m: "m w = (a, w')" by (cases "m w")
  have "extends_by no_ks (snd w) (snd w')" by (rule emitsD [OF assms(1) m])
  then have "switched_on (ks_run ''killswitch-up'') (ks_run ''killswitch-down'') (snd w') =
      switched_on (ks_run ''killswitch-up'') (ks_run ''killswitch-down'') (snd w)"
    by (rule switched_on_extends) (rule no_ks_run)
  then show "controller_guarded (snd (m w))"
    using g unchangedD [OF assms(2) m] m by (simp add: controller_guarded_iff)
qed

lemma guarded_mark:
  "keeps controller_guarded (modify_st (\<lambda>c. c\<lparr>ct_manager := mark_recovery_required (ct_manager c)\<rparr>))"
  by (rule keeps_basic) (simp add: controller_guarded_iff)

lemma state_write_routine [calls_intro]: "calls_only routine (state_write os ser pid n path st)"
  unfolding state_write_def by (auto intro!: calls_intro simp: routine_def)

lemma persist_guarded [keeps_intro]: "keeps controller_guarded (ct_persist env)"
proof -
  have "keeps controller_guarded (lift_os m)" if "calls_only routine m" for m
    by (rule guarded_quiet) (use that in \<open>auto intro!: emits_lift no_ks_of_routine unchanged_intro\<close>)
  then show ?thesis
    unfolding ct_persist_def
    by (auto intro!: keeps_then keeps_return keeps_basic keeps_cases state_write_routine
          simp: controller_guarded_iff)
qed

lemma on_manager_guarded:
  assumes "\<And>m. guarded_ok system_hold m \<Longrightarrow> guarded_ok system_hold (snd (f m))"
  shows "keeps controller_guarded (on_manager f)"
proof -
  have "with_history (without_history m) (snd (lm_backend m)) = m" for m :: "(system_backend \<times> trace) lifecycle_manager"
    by (simp add: with_history_def without_history_def)
  then show ?thesis
    using assms unfolding keeps_def on_manager_def controller_guarded_def
    by (simp add: case_prod_beta)
qed

lemma manager_events_guarded:
  assumes "block_listed_when_held (dv_os env)"
  shows "keeps controller_guarded (on_manager (lifecycle_connect (daemon_ops env) req))"
    and "keeps controller_guarded (on_manager (lifecycle_disconnect (daemon_ops env)))"
    and "keeps controller_guarded (on_manager (lifecycle_update_split (daemon_ops env) apps))"
    and "keeps controller_guarded (on_manager (lifecycle_reconcile_health (daemon_ops env)))"
proof -
  have step: "guarded_ok system_hold m \<Longrightarrow>
      guarded_ok system_hold (lifecycle_event_step (daemon_ops env) ev m)" for ev m
    unfolding daemon_ops_def
    by (rule system_hold.step_guarded_ok)
       (auto simp: unrevoked_def never_revoked [OF assms] split: lifecycle_event.splits)
  show "keeps controller_guarded (on_manager (lifecycle_connect (daemon_ops env) req))"
    by (rule on_manager_guarded) (use step [of _ "Ev_Connect req"] in auto)
  show "keeps controller_guarded (on_manager (lifecycle_disconnect (daemon_ops env)))"
    by (rule on_manager_guarded) (use step [of _ Ev_Disconnect] in auto)
  show "keeps controller_guarded (on_manager (lifecycle_update_split (daemon_ops env) apps))"
    by (rule on_manager_guarded) (use step [of _ "Ev_Update_Split apps"] in auto)
  show "keeps controller_guarded (on_manager (lifecycle_reconcile_health (daemon_ops env)))"
    by (rule on_manager_guarded) (use step [of _ Ev_Health] in auto)
qed

lemma run_tcp_ping_routine [calls_intro]: "calls_only routine (run_tcp_ping os req)"
  unfolding run_tcp_ping_def by (auto intro!: calls_intro simp: routine_def)

lemma probes_routine [calls_intro]:
  "calls_only routine (probe_rounds os host_of limit urls ports)"
  "calls_only routine (ping_ready os pid ports limit')"
proof -
  have http: "calls_only routine (probe_http_port os host_of p)" for p
    unfolding probe_http_port_def probe_http_url_def by (auto intro!: calls_intro)
  have dns: "calls_only routine (probe_dns_through_proxy os host_of p urls)" for p
    unfolding probe_dns_through_proxy_def probe_dns_url_def
    by (auto intro!: calls_intro simp: routine_def)
  then have leg: "calls_only routine (resolver_leg os host_of p limit urls)" for p
    unfolding resolver_leg_def by (auto intro!: calls_intro)
  have port: "calls_only routine (probe_proxy_port os host_of limit urls require_dns p)" for p require_dns
    unfolding probe_proxy_port_def try_join2_def by (auto intro!: calls_intro http leg)
  then show "calls_only routine (probe_rounds os host_of limit urls ports)"
    unfolding probe_rounds_def probe_round_def by (auto intro!: calls_intro)
  have ready: "calls_only routine (ports_ready os ps)" for ps
    by (induction ps) (auto intro!: calls_intro)
  have "calls_only routine (await_listeners os pid ports limit' k)" for k
    by (induction k) (auto intro!: calls_intro ready)
  then show "calls_only routine (ping_ready os pid ports limit')"
    unfolding ping_ready_def by (auto intro!: calls_intro)
qed

lemma run_proxy_ping_no_ks: "emits no_ks (run_proxy_ping pf host_of uid req)"
proof -
  have id: "emits no_ks next_ping_id"
    unfolding next_ping_id_def by (intro calls_intro)
  have write_file: "emits routine (write_private_file pf path content)" for path content
    unfolding write_private_file_def write_private_to_def next_ping_id_def by (intro calls_intro)
  have fin: "calls_only routine (end_ping_xray os pid path)" for os pid path
    unfolding end_ping_xray_def by (auto intro!: calls_intro)
  have spawn: "calls_only no_ks (ask_number os (SpawnXray x y))" for os x y
    by (auto intro!: calls_intro simp: no_ks_def)
  have start: "calls_only no_ks (ping_start os host_of req path ports)" for os path ports
    unfolding ping_start_def
    by (intro calls_only_then calls_only_sum calls_only_return spawn no_ks_of_routine(1) fin probes_routine
          calls_only_ask routine_simps)
  have reserve: "calls_only no_ks (reserve_ping_ports os n)" for os n
    by (rule no_ks_of_routine(1)) (auto intro!: calls_intro simp: reserve_ping_ports_def reserve_ports_def)
  have "emits no_ks (ping_attempts pf host_of req dir sequence attempts prior)" for dir sequence attempts prior
    by (induction attempts arbitrary: prior)
       (auto intro!: emits_try emits_then emits_sum emits_basic emits_lift start
          reserve no_ks_of_routine(2) [OF write_file] simp: Let_def)
  then show ?thesis
    unfolding run_proxy_ping_def Let_def
    by (intro emits_try emits_then emits_basic emits_lift id no_ks_of_routine(1) validation_run_routine
          prepare_dir_routine)
qed

lemma log_routine [calls_intro]:
  "calls_only routine (log_tail os path n)" "calls_only routine (log_clear os path)"
  unfolding log_tail_def log_clear_def Let_def by (auto intro!: calls_intro simp: routine_def)

text \<open>Reading commands change nothing.\<close>

lemma reads_unchanged:
  "unchanged ct_manager (ct_log_tail env)" "unchanged ct_manager (ct_clear_log env)"
  "unchanged ct_manager (ct_tcp_ping env tp)" "unchanged ct_manager (ct_proxy_ping env pp)"
  by (auto intro!: unchanged_intro simp: ct_log_tail_def ct_clear_log_def ct_tcp_ping_def
        ct_proxy_ping_def ct_state_def put_ping_id_def)

lemma reads_guarded:
  "keeps controller_guarded (ct_log_tail env)" "keeps controller_guarded (ct_clear_log env)"
  "keeps controller_guarded (ct_tcp_ping env tp)" "keeps controller_guarded (ct_proxy_ping env pp)"
proof -
  have state: "emits no_ks ct_state" unfolding ct_state_def by (intro calls_intro)
  have "emits no_ks (ct_log_tail env)" "emits no_ks (ct_clear_log env)" "emits no_ks (ct_tcp_ping env tp)"
    "emits no_ks (ct_proxy_ping env pp)"
    unfolding ct_log_tail_def ct_clear_log_def ct_tcp_ping_def ct_proxy_ping_def
    by (intro emits_then emits_try emits_basic emits_map emits_lift emits_zoom state run_proxy_ping_no_ks
          no_ks_of_routine(1) calls_only_map log_routine run_tcp_ping_routine)+
  then show "keeps controller_guarded (ct_log_tail env)" "keeps controller_guarded (ct_clear_log env)"
    "keeps controller_guarded (ct_tcp_ping env tp)" "keeps controller_guarded (ct_proxy_ping env pp)"
    by (simp_all add: guarded_quiet reads_unchanged)
qed

lemma handle_guarded:
  assumes "block_listed_when_held (dv_os env)"
  shows "keeps controller_guarded (controller_handle env cmd)"
  using manager_events_guarded [OF assms] reads_guarded
  by (cases cmd) (auto intro!: keeps_intro simp: ct_change_def)

lemma poll_guarded:
  assumes "block_listed_when_held (dv_os env)"
  shows "keeps controller_guarded (poll_health env)"
  unfolding poll_health_def ct_state_def
  by (auto intro!: keeps_intro manager_events_guarded [OF assms])

section \<open>The state file agrees with the manager\<close>

text \<open>The newest calls of a history are a complete write of a state to \<open>path\<close>.\<close>

definition just_written :: "string \<Rightarrow> string \<Rightarrow> trace \<Rightarrow> bool" where
  "just_written path bytes tr \<longleftrightarrow>
     (\<exists>parent t rest. path_parent path = Some parent
        \<and> tr = (SyncDir parent, Done) # (Rename t path, Done) # (SyncFile t, Done) # (WriteAll t bytes, Done)
               # (CreateNew t, Done) # rest)"

lemma state_write_ok:
  assumes "state_write os ser pid n path st tr = (Inr u, tr')"
  shows "\<exists>bytes. ser st = Inr bytes \<and> just_written path bytes tr'"
  using assms unfolding state_write_def replace_file_def write_new_def os_io_def do_call_def
    ask_as_def ask_def ask_meta_def just_written_def
  by (auto simp: then_io_def try_io_def map_io_def Let_def
        split: prod.splits sum.splits if_splits option.splits)

lemma persist_outcome:
  assumes "ct_persist env w = (r, w')"
  shows "is_ok r \<Longrightarrow> \<exists>bytes. dv_ser_state env (state_to_persist (fst w')) = Inr bytes
           \<and> just_written (ct_state_path (fst w')) bytes (snd w')"
    and "is_err r \<Longrightarrow> phase_of (ct_manager (fst w')) = RecoveryRequired"
proof -
  obtain c tr where w: "w = (c, tr)" by fastforce
  obtain q tr1 where q: "state_write (dv_os env) (dv_ser_state env) (pf_pid (dv_platform env))
      (unat (ct_temp_id c)) (ct_state_path c) (state_to_persist c) tr = (q, tr1)" by fastforce
  have same: "state_to_persist (c\<lparr>ct_temp_id := n\<rparr>) = state_to_persist c" for n
    by (simp add: state_to_persist_def)
  show "is_ok r \<Longrightarrow> \<exists>bytes. dv_ser_state env (state_to_persist (fst w')) = Inr bytes
           \<and> just_written (ct_state_path (fst w')) bytes (snd w')"
    using assms w q state_write_ok [of "dv_os env"]
    by (cases q) (fastforce simp: ct_persist_def sys_defs same)+
  show "is_err r \<Longrightarrow> phase_of (ct_manager (fst w')) = RecoveryRequired"
    using assms w q by (cases q) (auto simp: ct_persist_def sys_defs)
qed

end
