(* ===== verification/Recovery_Props.thy ===== *)
theory Recovery_Props
  imports Recovery
begin

text \<open>
  What the cleanup at start guarantees: it touches nothing but the program's own resources,
  kills only the process the state file identifies, removes the state file last, and reports
  an empty machine only when a second look found nothing.
\<close>

section \<open>The report\<close>

lemma recovery_report:
  assumes "recovery_cleanup ops b = (Inr rep, b')"
  obtains before b1 b2 where "cb_inspect ops b = (Inr before, b1)"
    and "cb_inspect ops b2 = (Inr (rp_remaining rep), b')"
    and "rp_removed rep = filter (\<lambda>x. x \<notin> set (rp_remaining rep)) before"
  using assms unfolding recovery_cleanup_def then_io_def try_io_def
  by (auto split: prod.splits sum.splits)

lemma startup_phase_cases:
  assumes "startup_phase ops b = (p, b')"
  shows "p = Disconnected \<longleftrightarrow> (\<exists>rep. recovery_cleanup ops b = (Inr rep, b') \<and> rp_remaining rep = [])"
    and "p \<in> {Disconnected, RecoveryRequired}"
  using assms unfolding startup_phase_def map_io_def report_phase_def
  by (auto split: prod.splits sum.splits if_splits)

section \<open>The state file goes last\<close>

lemma system_inspect_sorted:
  assumes "system_inspect os de uid path tr = (Inr rs, tr')"
  shows "sorted rs" and "distinct rs"
  using assms unfolding system_inspect_def then_io_def try_io_def
  by (auto split: prod.splits sum.splits)

lemma runtime_file_greatest: "\<not> (\<exists>p. r = RuntimeFile p) \<Longrightarrow> r < RuntimeFile q"
  by (cases r) (auto simp: less_resource_def)

lemma sorted_runtime_last:
  assumes "sorted rs" and "i < j" and "j < length rs" and "rs ! i = RuntimeFile p"
  shows "\<exists>q. rs ! j = RuntimeFile q"
proof (rule ccontr)
  assume "\<not> ?thesis"
  then have "rs ! j < RuntimeFile p" by (rule runtime_file_greatest)
  moreover have "rs ! i \<le> rs ! j" using assms(1-3) by (simp add: sorted_wrt_nth_less sorted_iff_nth_mono)
  ultimately show False using assms(4) by auto
qed

section \<open>Only the program's own resources\<close>

definition own_marks :: "string list" where
  "own_marks = [''0x2023'', ''0x2024'', ''0x2025'']"

definition own_route_tables :: "string list" where
  "own_route_tables = [''100'', ''101'', SPLIT_TABLE]"

definition own_ip_command :: "string list \<Rightarrow> bool" where
  "own_ip_command args \<longleftrightarrow>
     args = [''link'', ''delete'', ''dev'', ''varmlen0'']
     \<or> args \<in> set routing_teardown_commands
     \<or> (\<exists>t \<in> set own_route_tables. args = [''route'', ''flush'', ''table'', t])
     \<or> (\<exists>t \<in> set own_route_tables. \<exists>m \<in> set own_marks. \<exists>f \<in> {''-4'', ''-6''}.
          args = [f, ''rule'', ''del'', ''fwmark'', m, ''lookup'', t])"

definition parent_procs :: "nat \<Rightarrow> string \<Rightarrow> bool" where
  "parent_procs uid p \<longleftrightarrow>
     (\<exists>b d. path_eq b (bypass_cgroup_path uid) \<and> path_parent b = Some d \<and> p = d @ ''/cgroup.procs'')"

fun own_call :: "nat \<Rightarrow> string \<Rightarrow> call \<Rightarrow> bool" where
  "own_call uid path (Run prog args input) =
     ((prog = ''ip'' \<and> own_ip_command args)
      \<or> (prog = ''nft'' \<and> (\<exists>t \<in> set own_tables. args = [''delete'', ''table'', ''inet'', t]))
      \<or> (prog = ''/usr/libexec/varmlen/varmlen-net'' \<and> args = [''cleanup'']))"
| "own_call uid path (RemoveFile p) = path_eq p path"
| "own_call uid path (RemoveDir p) = path_eq p (bypass_cgroup_path uid)"
| "own_call uid path (WriteFile p t) = parent_procs uid p"
| "own_call uid path (OpenDir p) = path_eq p (bypass_cgroup_path uid)"
| "own_call uid path (BpfCall cmd a) = (cmd = BPF_PROG_DETACH)"
| "own_call uid path (ReadFile p) = True"
| "own_call uid path (ReadLink p) = True"
| "own_call uid path (Kill p s) = True"
| "own_call uid path (Sleep n) = True"
| "own_call uid path _ = False"

lemma command_success_calls [calls_intro]:
  "P (Run prog args []) \<Longrightarrow> calls_only P (command_success os prog args)"
  unfolding command_success_def by (intro calls_intro)

lemma del_rule_calls [calls_intro]:
  "P (Run ''ip'' args []) \<Longrightarrow> calls_only P (del_rule os args n)"
  by (induction n) (auto intro!: calls_intro)

lemma clear_route_table_calls:
  assumes "t = ''100'' \<or> t = ''101''"
  shows "calls_only (own_call uid path) (clear_route_table os t)"
  unfolding clear_route_table_def using assms
  by (auto intro!: calls_intro simp: own_ip_command_def own_route_tables_def own_marks_def split: if_splits)

lemma gone_within_calls [calls_intro]:
  "(\<And>p. P (ReadFile p)) \<Longrightarrow> (\<And>p. P (ReadLink p)) \<Longrightarrow> P (Sleep 100) \<Longrightarrow> calls_only P (gone_within os pid n)"
  by (induction n) (auto intro!: calls_intro)

lemma terminate_process_calls:
  "calls_only (own_call uid path) (terminate_process os saved)"
  unfolding terminate_process_def kill_if_same_def by (auto intro!: calls_intro)

lemma cleanup_split_cgroup_calls:
  assumes "path_eq p (bypass_cgroup_path uid)"
  shows "calls_only (own_call uid path) (cleanup_split_cgroup os mc p)"
proof -
  have pp: "path_parent p = Some d \<Longrightarrow> parent_procs uid (d @ ''/cgroup.procs'')" for d
    using assms by (auto simp: parent_procs_def)
  show ?thesis
    unfolding cleanup_split_cgroup_def restore_members_def detach_socket_mark_def bpf_call_def
    using assms by (auto intro!: calls_intro pp)
qed

lemma refuse_calls: "calls_only P refuse"
  unfolding refuse_def by (rule calls_intro)

lemma system_remove_calls: "calls_only (own_call uid path) (system_remove os mc uid path r)"
  by (cases r)
     (auto intro!: calls_intro refuse_calls clear_route_table_calls terminate_process_calls
        cleanup_split_cgroup_calls simp: own_ip_command_def own_route_tables_def)

section \<open>Only the process the state file identifies is killed\<close>

definition identified :: "process_identity \<Rightarrow> trace \<Rightarrow> bool" where
  "identified i tr \<longleftrightarrow>
     (\<exists>exe stat rest. tr = (ReadLink (proc_file (pi_pid i) ''exe''), Text exe)
                         # (ReadFile (proc_file (pi_pid i) ''stat''), Text stat) # rest
        \<and> parse_start_time_ticks stat = Some (pi_start_time_ticks i)
        \<and> path_eq (pi_executable i) exe)"

fun kills_match :: "(process_identity \<Rightarrow> bool) \<Rightarrow> trace \<Rightarrow> bool" where
  "kills_match S [] = True"
| "kills_match S ((c, r) # tr) =
     (kills_match S tr
      \<and> (\<forall>pid sig. c = Kill pid sig \<longrightarrow> (\<exists>i. S i \<and> pi_pid i = pid \<and> identified i tr)))"

text \<open>The processes a readable state of this owner can name.\<close>

definition saved_identity :: "(string \<Rightarrow> string + persisted_state) \<Rightarrow> nat \<Rightarrow> process_identity \<Rightarrow> bool" where
  "saved_identity de uid i \<longleftrightarrow>
     (\<exists>bytes st. de bytes = Inr st \<and> pst_version st = STATE_VERSION \<and> pst_owner_uid st = uid
                 \<and> pst_xray st = Some i)"

definition no_kill :: "call \<Rightarrow> bool" where
  "no_kill c \<longleftrightarrow> (\<forall>pid sig. c \<noteq> Kill pid sig)"

lemma keeps_kills: "calls_only no_kill m \<Longrightarrow> keeps (kills_match S) m"
  by (erule keeps_calls_only) (auto simp: no_kill_def)

lemma kill_if_same_kills: "S saved \<Longrightarrow> keeps (kills_match S) (kill_if_same os saved sig msg)"
  unfolding keeps_def
proof (intro allI impI)
  fix tr assume S: "S saved" and ok: "kills_match S tr"
  obtain r tr1 where i: "identity_from_pid os (pi_pid saved) tr = (r, tr1)" by fastforce
  have ok1: "kills_match S tr1"
    by (rule keepsD [of _ "identity_from_pid os (pi_pid saved)", OF keeps_kills i ok])
       (auto intro!: calls_intro simp: no_kill_def)
  show "kills_match S (snd (kill_if_same os saved sig msg tr))"
  proof (cases r)
    case (Inl e)
    then show ?thesis using i ok1 by (simp add: kill_if_same_def try_io_def)
  next
    case (Inr live)
    have "identified saved tr1" if "identity_matches saved live"
      using identity_from_pid_Inr [OF i [unfolded Inr]] that
      by (auto simp: identified_def identity_matches_def)
    then show ?thesis
      using i Inr ok1 S
      by (auto simp: kill_if_same_def try_io_def map_io_def do_call_eq)
  qed
qed

lemma terminate_process_kills: "S saved \<Longrightarrow> keeps (kills_match S) (terminate_process os saved)"
proof -
  have "keeps (kills_match S) (gone_within os pid n)" for pid n
    by (rule keeps_kills, rule gone_within_calls) (simp_all add: no_kill_def)
  then show "S saved \<Longrightarrow> ?thesis"
    unfolding terminate_process_def by (auto intro!: keeps_intro kill_if_same_kills)
qed

lemma own_call_no_kill: "own_call uid path c \<Longrightarrow> (\<And>p s. c \<noteq> Kill p s) \<Longrightarrow> no_kill c"
  by (simp add: no_kill_def)

lemma other_remove_no_kill:
  assumes "\<And>i. r \<noteq> XrayProcess i"
  shows "calls_only no_kill (system_remove os mc uid path r)"
proof -
  have k: "no_kill (Run p a i)" "no_kill (RemoveFile f)" "no_kill (OpenDir f)" "no_kill (RemoveDir f)"
    "no_kill (WriteFile f t)" "no_kill (ReadFile f)" "no_kill (BpfCall n bs)" for p a i f t n bs
    by (simp_all add: no_kill_def)
  show ?thesis
    using assms
    by (cases r)
       (auto intro!: calls_intro k simp: refuse_def clear_route_table_def cleanup_split_cgroup_def
          restore_members_def detach_socket_mark_def bpf_call_def)
qed

lemma remove_kills:
  "(\<And>i. r = XrayProcess i \<Longrightarrow> S i) \<Longrightarrow> keeps (kills_match S) (system_remove os mc uid path r)"
  by (cases "\<exists>i. r = XrayProcess i")
     (auto intro: terminate_process_kills keeps_kills other_remove_no_kill)

lemma inspect_no_kill: "calls_only no_kill (system_inspect os de uid path)"
proof -
  have k: "no_kill (Run p a i)" "no_kill (PathExists f)" "no_kill (OpenRead f)" "no_kill (FileLen n)"
    "no_kill (ReadUpTo n m)" "no_kill (ReadFile f)" "no_kill (ReadLink f)" for p a i f n m
    by (simp_all add: no_kill_def)
  have "calls_only no_kill (state_read os de path)"
    unfolding state_read_def by (auto intro!: calls_intro k)
  moreover have "calls_only no_kill (saved_process os x)" for x
    unfolding saved_process_def by (auto intro!: calls_intro k)
  ultimately show ?thesis
    unfolding system_inspect_def saved_resources_def existing_tables_def nft_table_exists_def
      inspect_output_def
    by (auto intro!: calls_intro k)
qed

lemma fold_tables_no_process:
  "fold_io (\<lambda>t acc. map_io (\<lambda>b. if b then acc @ [NftTable t] else acc) (nft_table_exists os t)) ts acc tr
     = (rs, tr') \<Longrightarrow> XrayProcess i \<in> set rs \<Longrightarrow> XrayProcess i \<in> set acc"
  by (induction ts arbitrary: acc tr)
     (auto simp: then_io_def map_io_def split: prod.splits if_splits, fastforce+)

lemma saved_resources_identity:
  assumes "saved_resources os de uid path tr = (Inr rs, tr')" and "XrayProcess i \<in> set rs"
  shows "saved_identity de uid i"
proof -
  obtain st tr1 where s: "state_read os de path tr = (Inr (Some st), tr1)"
    and u: "pst_owner_uid st = uid" and x: "pst_xray st = Some i"
    using assms unfolding saved_resources_def saved_process_def try_io_def map_io_def
    by (auto split: prod.splits sum.splits option.splits if_splits)
  show ?thesis using state_read_Some [OF s] u x by (auto simp: saved_identity_def)
qed

lemma system_inspect_identity:
  assumes "system_inspect os de uid path tr = (Inr rs, tr')" and "XrayProcess i \<in> set rs"
  shows "saved_identity de uid i"
proof -
  have no_route: "XrayProcess i \<notin> set (route_resources a b)" for a b
    by (auto simp: route_resources_def Let_def)
  obtain saved tr1 tables tr2 tr3 where s: "saved_resources os de uid path tr = (Inr saved, tr1)"
    and t: "existing_tables os tr2 = (tables, tr3)"
    and i: "XrayProcess i \<in> set saved \<or> XrayProcess i \<in> set tables"
    using assms no_route unfolding system_inspect_def try_io_def then_io_def
    by (auto split: prod.splits sum.splits if_splits)
  have "XrayProcess i \<notin> set tables"
    using fold_tables_no_process [OF t [unfolded existing_tables_def]] by auto
  with i saved_resources_identity [OF s] show ?thesis by blast
qed

lemma recovery_kills:
  "keeps (kills_match (saved_identity de uid)) (recovery_cleanup (system_cleanup_backend os mc de uid path))"
  unfolding keeps_def
proof (intro allI impI)
  let ?K = "kills_match (saved_identity de uid)" and ?ops = "system_cleanup_backend os mc de uid path"
  have ins: "keeps ?K (cb_inspect ?ops)"
    unfolding system_cleanup_backend_def by (simp add: keeps_kills inspect_no_kill)
  fix tr assume ok: "?K tr"
  obtain r tr1 where b: "cb_inspect ?ops tr = (r, tr1)" by fastforce
  have ok1: "?K tr1" by (rule keepsD [OF ins b ok])
  show "?K (snd (recovery_cleanup ?ops tr))"
  proof (cases r)
    case (Inl e)
    then show ?thesis using b ok1 by (simp add: recovery_cleanup_def try_io_def)
  next
    case (Inr before)
    have "saved_identity de uid i" if "XrayProcess i \<in> set before" for i
      using b Inr that by (auto simp: system_cleanup_backend_def intro: system_inspect_identity)
    then have "keeps ?K (ignore_all (map (cb_remove ?ops) before))"
      by (auto intro!: keeps_intro remove_kills simp: system_cleanup_backend_def)
    then have "keeps ?K (then_io (ignore_all (map (cb_remove ?ops) before)) (\<lambda>_.
        try_io (cb_inspect ?ops) (\<lambda>remaining.
        return_io (Ok \<lparr>rp_removed = filter (\<lambda>x. x \<notin> set remaining) before,
                      rp_remaining = remaining\<rparr> :: string + cleanup_report))))"
      by (rule keeps_then) (intro keeps_try keeps_return ins)
    then show ?thesis
      using b Inr ok1 by (simp add: recovery_cleanup_def try_io_def [of "cb_inspect ?ops"] keeps_def)
  qed
qed

section \<open>The split's rule is not the helper's\<close>

lemma mentions_any_append: "mentions_any ps s \<longleftrightarrow> (\<exists>p \<in> set ps. str_contains p s)"
  by (simp add: mentions_any_def list_ex_iff)

lemma split_rules_alone:
  assumes "\<forall>l \<in> set (str_lines rules). str_contains (''lookup '' @ SPLIT_TABLE) l"
    and "\<not> mentions_any [''0.0.0.0/1'', ''128.0.0.0/1'', ''blackhole ::/1'', ''blackhole 8000::/1''] routes"
  shows "RouteTable ''100'' \<notin> set (route_resources rules routes)"
proof -
  have none: "filter (\<lambda>l. \<not> str_contains (''lookup '' @ SPLIT_TABLE) l) (str_lines rules) = []"
    using assms(1) by (simp add: filter_empty_conv)
  show ?thesis
    using assms(2) unfolding route_resources_def Let_def none
    by (auto simp: mentions_any_def SPLIT_TABLE_def)
qed

end
