(* ===== verification/Server.thy ===== *)
theory Server
  imports Controller Recovery_Props
begin

text \<open>
  \<open>daemon/src/server.rs\<close> and \<open>daemon/src/main.rs\<close>: who may talk to the daemon, the loop that reads
  frames and answers them, and the start of the daemon.  The handler trait is a function from a
  command to code on a state beside the history.
\<close>

section \<open>The peer\<close>

definition MAX_CONCURRENT_CLIENTS :: nat where "MAX_CONCURRENT_CLIENTS = 16"
definition FRAME_IO_TIMEOUT_MS :: nat where "FRAME_IO_TIMEOUT_MS = 5000"
definition COMMAND_TIMEOUT_MS :: nat where "COMMAND_TIMEOUT_MS = 60000"
definition MAX_REQUESTS_PER_CONNECTION :: nat where "MAX_REQUESTS_PER_CONNECTION = 32"

record peer_policy =
  allowed_uid :: nat

definition authorize :: "peer_policy \<Rightarrow> nat \<Rightarrow> bool" where
  "authorize p uid = (uid = allowed_uid p)"

definition parse_owner_uid :: "string option \<Rightarrow> string + nat" where
  "parse_owner_uid v =
     try_then (ok_or ''PKEXEC_UID is missing'' v) (\<lambda>text.
     try_then (ok_or ''PKEXEC_UID is invalid'' (parse_u32 text)) (\<lambda>uid.
     if uid = 0 then Err ''refusing to authorize root as desktop owner'' else Ok uid))"

definition peer_uid :: "os \<Rightarrow> nat \<Rightarrow> (trace, os_error + nat) io" where
  "peer_uid os fd = ask_number os (PeerUid fd)"

section \<open>Frames on a stream\<close>

definition be32 :: "nat \<Rightarrow> string" where
  "be32 n = map char_of [n div 2 ^ 24 mod 256, n div 2 ^ 16 mod 256, n div 2 ^ 8 mod 256, n mod 256]"

definition read_be32 :: "string \<Rightarrow> nat" where
  "read_be32 s = foldl (\<lambda>n c. n * 256 + of_char c) 0 s"

text \<open>\<open>read_exact\<close>: that many bytes or a failure.\<close>

definition read_exact :: "os \<Rightarrow> nat \<Rightarrow> nat \<Rightarrow> (trace, daemon_error_code + string) io" where
  "read_exact os fd n =
     map_io (\<lambda>r. case r of Inl _ \<Rightarrow> Err InvalidFrame
                        | Inr bytes \<Rightarrow> if length bytes = n then Ok bytes else Err InvalidFrame)
       (ask_text os (ReadExact fd n))"

definition read_frame :: "os \<Rightarrow> nat \<Rightarrow> (trace, daemon_error_code + string) io" where
  "read_frame os fd =
     try_io (read_exact os fd 4) (\<lambda>header.
     let n = read_be32 header in
     if n > MAX_FRAME_BYTES then return_io (Err FrameTooLarge) else read_exact os fd n)"

text \<open>\<open>timeout(limit, f)\<close>: the outcome of \<open>f\<close>, or \<open>None\<close> when the limit passed before it was there.\<close>

definition within :: "os \<Rightarrow> nat \<Rightarrow> ('s, 'a) sys \<Rightarrow> ('s, 'a option) sys" where
  "within os limit f =
     then_io f (\<lambda>r. then_io (lift_os (ask_flag os (DeadlinePassed limit))) (\<lambda>over.
     return_io (if over then None else Some r)))"

text \<open>\<open>serde_json\<close> for the protocol, and the URL parser.\<close>

record codec =
  cd_url :: "string \<Rightarrow> url option"
  cd_request :: "string \<Rightarrow> request_envelope option"
  cd_request_id :: "string \<Rightarrow> u64 option"
  cd_response :: "response_envelope \<Rightarrow> string option"

definition write_response ::
    "os \<Rightarrow> codec \<Rightarrow> nat \<Rightarrow> response_envelope \<Rightarrow> (trace, daemon_error_code + unit) io" where
  "write_response os cd fd response =
     try_io (return_io (encode_frame (cd_response cd) response)) (\<lambda>bytes.
     try_io (map_io (map_err (\<lambda>_. Internal)) (do_call os (WriteBytes fd (be32 (length bytes))))) (\<lambda>_.
     map_io (map_err (\<lambda>_. Internal)) (do_call os (WriteBytes fd bytes))))"

definition respond ::
    "os \<Rightarrow> codec \<Rightarrow> nat \<Rightarrow> nat \<Rightarrow> response_envelope \<Rightarrow> ('s, daemon_error_code + unit) sys" where
  "respond os cd fd limit response =
     map_io (\<lambda>r. case r of None \<Rightarrow> Err Internal | Some q \<Rightarrow> q)
       (within os limit (lift_os (write_response os cd fd response)))"

section \<open>The loop of a connection\<close>

type_synonym 's handler = "daemon_command \<Rightarrow> ('s, daemon_error + daemon_state) sys"

definition reply_to :: "u64 \<Rightarrow> daemon_error + daemon_state \<Rightarrow> response_envelope" where
  "reply_to i r = \<lparr>rs_version = PROTOCOL_VERSION, rs_operation_id = i, rs_result = r\<rparr>"

definition rejection :: "codec \<Rightarrow> string \<Rightarrow> daemon_error_code \<Rightarrow> response_envelope" where
  "rejection cd bytes code =
     reply_to (operation_id_of_rejected_request (cd_request_id cd) bytes)
       (Err (daemon_error code ''invalid daemon request''))"

text \<open>One frame that was read: its answer is written; a command that is over its limit has still run.\<close>

definition answer_frame ::
    "os \<Rightarrow> codec \<Rightarrow> 's handler \<Rightarrow> nat \<Rightarrow> nat \<Rightarrow> string \<Rightarrow> ('s, daemon_error_code + unit) sys" where
  "answer_frame os cd handle fd limit bytes =
     (case decode_request_frame (cd_url cd) (cd_request cd) bytes of
        Inl code \<Rightarrow> respond os cd fd limit (rejection cd bytes code)
      | Inr request \<Rightarrow>
          then_io (within os COMMAND_TIMEOUT_MS (handle (rq_command request))) (\<lambda>r. case r of
            None \<Rightarrow> return_io (Err Internal)
          | Some result \<Rightarrow> respond os cd fd limit (reply_to (rq_operation_id request) result)))"

fun serve_requests ::
    "os \<Rightarrow> codec \<Rightarrow> 's handler \<Rightarrow> nat \<Rightarrow> nat \<Rightarrow> nat \<Rightarrow> ('s, daemon_error_code + unit) sys" where
  "serve_requests os cd handle fd limit 0 = return_io (Ok ())"
| "serve_requests os cd handle fd limit (Suc n) =
     then_io (within os limit (lift_os (read_frame os fd))) (\<lambda>r. case r of
       None \<Rightarrow> return_io (Err InvalidFrame)
     | Some (Inl code) \<Rightarrow> return_io (if code = InvalidFrame then Ok () else Err code)
     | Some (Inr bytes) \<Rightarrow>
         try_io (answer_frame os cd handle fd limit bytes) (\<lambda>_.
         serve_requests os cd handle fd limit n))"

definition serve_connection_with_limits ::
    "os \<Rightarrow> codec \<Rightarrow> 's handler \<Rightarrow> nat \<Rightarrow> peer_policy \<Rightarrow> nat \<Rightarrow> nat \<Rightarrow> ('s, daemon_error_code + unit) sys" where
  "serve_connection_with_limits os cd handle fd policy limit max_requests =
     then_io (lift_os (peer_uid os fd)) (\<lambda>r. case r of
       Inl _ \<Rightarrow> return_io (Err Unauthorized)
     | Inr uid \<Rightarrow>
         if \<not> authorize policy uid then return_io (Err Unauthorized)
         else serve_requests os cd handle fd limit max_requests)"

definition serve_connection ::
    "os \<Rightarrow> codec \<Rightarrow> 's handler \<Rightarrow> nat \<Rightarrow> peer_policy \<Rightarrow> ('s, daemon_error_code + unit) sys" where
  "serve_connection os cd handle fd policy =
     serve_connection_with_limits os cd handle fd policy FRAME_IO_TIMEOUT_MS MAX_REQUESTS_PER_CONNECTION"

text \<open>The handler that only knows a snapshot.\<close>

definition snapshot_handler :: "daemon_state handler" where
  "snapshot_handler cmd =
     (if cmd = Status then map_io Ok get_st
      else return_io (Err (daemon_error Internal ''VPN lifecycle controller is unavailable'')))"

section \<open>The daemon\<close>

definition socket_path :: "nat \<Rightarrow> string" where
  "socket_path uid = ''/run/varmlen/daemon-'' @ dec uid @ ''.sock''"

definition lock_path :: string where "lock_path = ''/run/varmlen/daemon.lock''"

definition state_path_for :: "nat \<Rightarrow> string" where
  "state_path_for uid = ''/var/lib/varmlen/state-'' @ dec uid @ ''.json''"

definition or_fail :: "(trace, os_error + 'a) io \<Rightarrow> (trace, string + 'a) io" where
  "or_fail m = map_io (map_err err_text) m"

text \<open>The directories, the lock and the socket.\<close>

definition bind_socket :: "os \<Rightarrow> nat \<Rightarrow> (trace, string + unit) io" where
  "bind_socket os uid =
     try_io (then_io (ask_flag os (PathExists (socket_path uid))) (\<lambda>there.
               if there then or_fail (do_call os (RemoveFile (socket_path uid))) else return_io (Ok ()))) (\<lambda>_.
     all_ok (map (\<lambda>c. or_fail (do_call os c))
       [ListenUnix (socket_path uid), Chown (socket_path uid) uid, SetMode (socket_path uid) 384]))"

definition claim_socket :: "os \<Rightarrow> nat \<Rightarrow> (trace, string + unit) io" where
  "claim_socket os uid =
     try_io (all_ok (map (\<lambda>c. or_fail (do_call os c))
               [MakeDirAll ''/run/varmlen'', SetMode ''/run/varmlen'' 457,
                MakeDirAll ''/var/lib/varmlen'', SetMode ''/var/lib/varmlen'' 448])) (\<lambda>_.
     try_io (map_io (map_err (\<lambda>_. ''another Varmlen daemon already owns the network''))
               (do_call os (LockFile lock_path))) (\<lambda>_.
     bind_socket os uid))"

definition start_owner :: "os \<Rightarrow> (trace, string + nat) io" where
  "start_owner os =
     then_io (ask_number os EffectiveUid) (\<lambda>euid.
       if euid \<noteq> Inr 0 then return_io (Err ''varmlend must run as root'')
       else map_io (\<lambda>r. parse_owner_uid (res_ok r)) (ask_text os (GetEnv ''PKEXEC_UID'')))"

text \<open>\<open>main\<close> up to its loop: the owner, and the controller in the phase the cleanup found.\<close>

definition daemon_start :: "daemon_env \<Rightarrow> (trace, string + system_controller) io" where
  "daemon_start env =
     (let os = dv_os env; pf = dv_platform env in
      try_io (start_owner os) (\<lambda>uid.
      try_io (claim_socket os uid) (\<lambda>_.
      then_io (startup_phase (system_cleanup_backend os (pf_machine pf) (dv_de_state env) uid (state_path_for uid))) (\<lambda>phase.
      try_io (map_io (map_err io_error_text)
                (state_write os (dv_ser_state env) (pf_pid pf) 1 (state_path_for uid) (new_persisted_state uid phase))) (\<lambda>_.
      return_io (Ok ((new_controller uid phase (state_path_for uid))\<lparr>ct_temp_id := 2\<rparr>)))))))"

text \<open>
  The two loops of the daemon: the monitor polls, and an accepted client is served when a slot is
  free, else dropped.  Requests on the manager are serialised by its lock; the environment gives
  the order of the turns.
\<close>

datatype daemon_turn = Poll | Client nat nat   \<comment> \<open>connection, and how many clients are being served\<close>

definition daemon_turn_step ::
    "daemon_env \<Rightarrow> codec \<Rightarrow> daemon_turn \<Rightarrow> (system_controller, unit) sys" where
  "daemon_turn_step env cd t =
     (case t of
        Poll \<Rightarrow> then_io (lift_os (ask (dv_os env) (Sleep 1000))) (\<lambda>_. map_io (\<lambda>_. ()) (poll_health env))
      | Client fd busy \<Rightarrow>
          if busy \<ge> MAX_CONCURRENT_CLIENTS then return_io ()
          else then_io get_st (\<lambda>c.
            map_io (\<lambda>_. ()) (serve_connection (dv_os env) cd (controller_handle env) fd
              \<lparr>allowed_uid = ct_owner_uid c\<rparr>)))"

definition daemon_run ::
    "daemon_env \<Rightarrow> codec \<Rightarrow> daemon_turn list \<Rightarrow> (system_controller, unit) sys" where
  "daemon_run env cd turns = ignore_all (map (daemon_turn_step env cd) turns)"

section \<open>What a connection can do\<close>

text \<open>The calls of the server itself.\<close>

definition server_call :: "call \<Rightarrow> bool" where
  "server_call c = (case c of
       PeerUid _ \<Rightarrow> True | ReadExact _ _ \<Rightarrow> True | WriteBytes _ _ \<Rightarrow> True | DeadlinePassed _ \<Rightarrow> True
     | _ \<Rightarrow> False)"

lemma server_calls:
  "calls_only server_call (peer_uid os fd)" "calls_only server_call (read_frame os fd)"
  "calls_only server_call (write_response os cd fd response)"
  "calls_only server_call (ask_flag os (DeadlinePassed limit))"
  unfolding peer_uid_def read_frame_def read_exact_def write_response_def Let_def
  by (auto intro!: calls_intro simp: server_call_def)

text \<open>
  What commands that passed validation and the server's own calls keep, a connection keeps,
  whoever is at its other end.
\<close>

lemma within_keeps [keeps_intro]:
  "keeps I f \<Longrightarrow> keeps I (lift_os (ask_flag os (DeadlinePassed limit))) \<Longrightarrow> keeps I (within os limit f)"
  unfolding within_def by (intro keeps_intro)

lemma decode_validates:
  "decode_request_frame url de bytes = Inr req \<Longrightarrow> validate_request url req = Inr ()"
  by (auto simp: decode_request_frame_def try_then_eq_Inr split: if_splits)

locale served =
  fixes os :: os and cd :: codec and handle :: "'s handler" and I :: "'s \<times> trace \<Rightarrow> bool"
  assumes commands_keep: "validate_request (cd_url cd) req = Inr () \<Longrightarrow> keeps I (handle (rq_command req))"
    and server_keeps: "server_call c \<Longrightarrow> I (s, tr) \<Longrightarrow> I (s, (c, r) # tr)"
begin

lemma own_keeps: "calls_only server_call m \<Longrightarrow> keeps I (lift_os m)"
proof -
  assume m: "calls_only server_call m"
  have "keeps (\<lambda>tr. I (s, tr)) m" for s
    by (rule keeps_calls_only [OF m]) (rule server_keeps)
  then show ?thesis unfolding keeps_def lift_os_def by (auto split: prod.splits) (metis snd_conv)
qed

lemma respond_keeps: "keeps I (respond os cd fd limit response)"
  unfolding respond_def by (intro keeps_intro own_keeps server_calls)

lemma answer_keeps: "keeps I (answer_frame os cd handle fd limit bytes)"
  unfolding answer_frame_def
  by (intro keeps_intro own_keeps server_calls respond_keeps commands_keep decode_validates)

lemma requests_keep: "keeps I (serve_requests os cd handle fd limit n)"
  by (induction n)
     (auto intro!: keeps_intro own_keeps server_calls answer_keeps simp del: keeps_def)

lemma connection_keeps: "keeps I (serve_connection os cd handle fd policy)"
  unfolding serve_connection_def serve_connection_with_limits_def
  by (intro keeps_intro own_keeps server_calls requests_keep)

end

section \<open>The commands a client gets through\<close>

text \<open>A handler that also notes the commands it was given, newest first.\<close>

definition recording :: "'s handler \<Rightarrow> (daemon_command list \<times> 's) handler" where
  "recording handle cmd w =
     (case handle cmd (snd (fst w), snd w) of (r, (s, tr)) \<Rightarrow> (r, ((cmd # fst (fst w), s), tr)))"

definition accepted_commands :: "codec \<Rightarrow> daemon_command set" where
  "accepted_commands cd = {rq_command req | req. validate_request (cd_url cd) req = Inr ()}"

definition only_accepted :: "codec \<Rightarrow> (daemon_command list \<times> 's) \<times> trace \<Rightarrow> bool" where
  "only_accepted cd w = (set (fst (fst w)) \<subseteq> accepted_commands cd)"

interpretation recorded: served os cd "recording handle" "only_accepted cd" for os cd handle
proof
  fix req :: request_envelope
  assume "validate_request (cd_url cd) req = Inr ()"
  then show "keeps (only_accepted cd) (recording handle (rq_command req))"
    unfolding keeps_def recording_def only_accepted_def accepted_commands_def
    by (auto split: prod.splits)
qed (simp add: only_accepted_def)

definition noted :: "(daemon_command list \<times> 's) \<times> trace \<Rightarrow> nat" where
  "noted w = length (fst (fst w))"

lemma lift_noted [simp]: "noted (snd (lift_os m w)) = noted w"
  by (simp add: noted_def lift_os_def split: prod.splits)

lemma within_noted: "within os limit f w = (r, w') \<Longrightarrow> noted w' = noted (snd (f w))"
  unfolding within_def then_io_def
  by (auto split: prod.splits) (metis lift_noted snd_conv)+

lemma respond_noted [simp]: "noted (snd (respond os cd fd limit response w)) = noted w"
  using within_noted [of os limit "lift_os (write_response os cd fd response)" w]
  by (simp add: respond_def map_io_def split: prod.splits)

lemma answer_noted:
  "noted (snd (answer_frame os cd (recording handle) fd limit bytes w)) \<le> Suc (noted w)"
proof (cases "decode_request_frame (cd_url cd) (cd_request cd) bytes")
  case (Inl code)
  then show ?thesis by (simp add: answer_frame_def)
next
  case (Inr req)
  obtain r w1 where w1: "within os COMMAND_TIMEOUT_MS (recording handle (rq_command req)) w = (r, w1)"
    by (cases "within os COMMAND_TIMEOUT_MS (recording handle (rq_command req)) w")
  have "noted w1 = Suc (noted w)"
    using within_noted [OF w1] by (simp add: recording_def noted_def split: prod.splits)
  then show ?thesis
    using Inr w1 by (cases r) (simp_all add: answer_frame_def then_io_def)
qed

lemma requests_noted:
  "noted (snd (serve_requests os cd (recording handle) fd limit n w)) \<le> noted w + n"
proof (induction n arbitrary: w)
  case 0
  then show ?case by simp
next
  case (Suc n)
  obtain r w1 where r: "within os limit (lift_os (read_frame os fd)) w = (r, w1)"
    by (cases "within os limit (lift_os (read_frame os fd)) w")
  have w1: "noted w1 = noted w" using within_noted [OF r] by simp
  show ?case
  proof (cases "\<exists>bytes. r = Some (Inr bytes)")
    case True
    then obtain bytes where b: "r = Some (Inr bytes)" by blast
    obtain q w2 where q: "answer_frame os cd (recording handle) fd limit bytes w1 = (q, w2)"
      by (cases "answer_frame os cd (recording handle) fd limit bytes w1")
    have "noted w2 \<le> Suc (noted w)"
      using answer_noted [of os cd handle fd limit bytes w1] q w1 by simp
    then show ?thesis
      using r b q Suc [of w2] by (cases q) (simp_all add: then_io_def try_io_def)
  next
    case False
    then show ?thesis
      using r w1 by (cases r) (auto simp: then_io_def split: sum.splits)
  qed
qed

lemma connection_noted:
  "noted (snd (serve_connection os cd (recording handle) fd policy w)) \<le> noted w + MAX_REQUESTS_PER_CONNECTION"
  unfolding serve_connection_def serve_connection_with_limits_def then_io_def
  using requests_noted [of os cd handle fd FRAME_IO_TIMEOUT_MS MAX_REQUESTS_PER_CONNECTION
      "snd (lift_os (peer_uid os fd) w)"]
  by (auto simp: case_prod_beta split: sum.splits)

text \<open>A peer that is not the owner gets nothing: one call, and neither a read nor a command.\<close>

lemma stranger_refused:
  assumes "os (snd w) (PeerUid fd) \<noteq> Number (allowed_uid policy)"
  shows "serve_connection os cd handle fd policy w =
           (Err Unauthorized, (fst w, (PeerUid fd, os (snd w) (PeerUid fd)) # snd w))"
  using assms
  unfolding serve_connection_def serve_connection_with_limits_def peer_uid_def authorize_def
  by (cases w)
     (auto simp: then_io_def lift_os_def ask_number_def ask_as_def ask_def Let_def split: option.splits)

section \<open>The daemon keeps the guarantee of the kill switch\<close>

definition daemon_guarded :: "daemon_env \<Rightarrow> system_controller \<times> trace \<Rightarrow> bool" where
  "daemon_guarded env w = (if block_listed_when_held (dv_os env) then controller_guarded w else True)"

lemma keeps_daemon_guarded:
  "(block_listed_when_held (dv_os env) \<Longrightarrow> keeps controller_guarded m) \<Longrightarrow> keeps (daemon_guarded env) m"
  unfolding keeps_def daemon_guarded_def by auto

interpretation daemon_served: served "dv_os env" cd "controller_handle env" "daemon_guarded env" for env cd
proof
  show "keeps (daemon_guarded env) (controller_handle env (rq_command req))" for req
    by (rule keeps_daemon_guarded) (rule handle_guarded)
next
  fix c s tr r
  assume "server_call c" and "daemon_guarded env (s, tr)"
  moreover from \<open>server_call c\<close> have "no_ks c" by (auto simp: server_call_def no_ks_def split: call.splits)
  ultimately show "daemon_guarded env (s, (c, r) # tr)"
    by (auto simp: daemon_guarded_def controller_guarded_iff Let_def dest: no_ks_run)
qed

lemma turn_guarded: "keeps (daemon_guarded env) (daemon_turn_step env cd t)"
proof (cases t)
  case Poll
  have "keeps controller_guarded (lift_os (ask (dv_os env) (Sleep 1000)))"
    by (rule guarded_quiet) (auto intro!: calls_intro unchanged_intro simp: no_ks_def)
  then show ?thesis
    using poll_guarded [of env]
    by (auto intro!: keeps_intro keeps_daemon_guarded simp: daemon_turn_step_def Poll)
next
  case (Client fd busy)
  then show ?thesis
    by (auto intro!: keeps_intro daemon_served.connection_keeps simp: daemon_turn_step_def)
qed

lemma run_guarded: "keeps (daemon_guarded env) (daemon_run env cd turns)"
  unfolding daemon_run_def by (rule keeps_ignore_all) (auto intro: turn_guarded)

lemma start_owner_Inr: "start_owner os tr = (Inr uid, tr') \<Longrightarrow> uid \<noteq> 0"
  unfolding start_owner_def parse_owner_uid_def then_io_def map_io_def
  by (auto simp: try_then_eq_Inr split: prod.splits if_splits)

text \<open>The steps of a successful start.\<close>

lemma daemon_start_Inr:
  assumes "daemon_start env tr = (Inr c, tr')"
  obtains uid p tr1 tr2 tr3 where "start_owner (dv_os env) tr = (Inr uid, tr1)"
    and "claim_socket (dv_os env) uid tr1 = (Inr (), tr2)"
    and "startup_phase (system_cleanup_backend (dv_os env) (pf_machine (dv_platform env)) (dv_de_state env)
           uid (state_path_for uid)) tr2 = (p, tr3)"
    and "state_write (dv_os env) (dv_ser_state env) (pf_pid (dv_platform env)) 1 (state_path_for uid)
           (new_persisted_state uid p) tr3 = (Inr (), tr')"
    and "c = (new_controller uid p (state_path_for uid))\<lparr>ct_temp_id := 2\<rparr>"
  using assms unfolding daemon_start_def Let_def
  by (auto simp: try_io_def then_io_def map_io_def split: prod.splits sum.splits)

lemma started_guarded:
  assumes "daemon_start env tr = (Inr c, tr')"
  shows "controller_guarded (c, tr')"
proof -
  obtain uid p tr2 tr3 where c: "c = (new_controller uid p (state_path_for uid))\<lparr>ct_temp_id := 2\<rparr>"
    and "startup_phase (system_cleanup_backend (dv_os env) (pf_machine (dv_platform env)) (dv_de_state env)
           uid (state_path_for uid)) tr2 = (p, tr3)"
    by (rule daemon_start_Inr [OF assms])
  from this(2) have "p \<in> {Disconnected, RecoveryRequired}" by (rule startup_phase_cases(2))
  with c show ?thesis
    by (auto simp: controller_guarded_iff new_controller_def new_manager_def)
qed

section \<open>Nothing is touched before the lock is held\<close>

text \<open>Programs are run, processes signalled and state files moved only after the lock was taken.\<close>

definition acts :: "call \<Rightarrow> bool" where
  "acts c = (case c of Run _ _ _ \<Rightarrow> True | Kill _ _ \<Rightarrow> True | Rename _ _ \<Rightarrow> True | BpfCall _ _ \<Rightarrow> True | _ \<Rightarrow> False)"

fun acts_under_lock :: "trace \<Rightarrow> bool" where
  "acts_under_lock [] = True"
| "acts_under_lock ((c, r) # tr) =
     (acts_under_lock tr \<and> (if acts c then (LockFile lock_path, Done) \<in> set tr else True))"

lemma acts_under_lock_quiet: "calls_only (\<lambda>c. \<not> acts c) m \<Longrightarrow> keeps acts_under_lock m"
  by (erule keeps_calls_only) simp

lemma acts_under_lock_held:
  assumes "(LockFile lock_path, Done) \<in> set tr" and "acts_under_lock tr" and "extends_by P tr tr'"
  shows "acts_under_lock tr' \<and> (LockFile lock_path, Done) \<in> set tr'"
proof -
  have "acts_under_lock (es @ tr)" for es
    using assms(1,2) by (induction es) auto
  then show ?thesis using assms(1,3) by (auto simp: extends_by_def)
qed

lemma claim_socket_quiet:
  "calls_only (\<lambda>c. \<not> acts c) (claim_socket os uid)" "calls_only (\<lambda>c. \<not> acts c) (start_owner os)"
  unfolding claim_socket_def bind_socket_def start_owner_def or_fail_def
  by (auto intro!: calls_intro simp: acts_def)

lemma try_io_Inr:
  assumes "try_io m k w = (Inr b, w')"
  obtains a w1 where "m w = (Inr a, w1)" and "k a w1 = (Inr b, w')"
  using assms by (auto simp: try_io_def split: prod.splits sum.splits)

lemma bind_socket_calls: "calls_only (\<lambda>_. True) (bind_socket os uid)"
  unfolding bind_socket_def or_fail_def by (auto intro!: calls_intro)

lemma claim_socket_locked:
  assumes "claim_socket os uid tr = (Inr u, tr')"
  shows "(LockFile lock_path, Done) \<in> set tr'"
proof -
  obtain tr1 tr2 v where "map_io (map_err (\<lambda>_. ''another Varmlen daemon already owns the network''))
        (do_call os (LockFile lock_path)) tr1 = (Inr v, tr2)" and rest: "bind_socket os uid tr2 = (Inr u, tr')"
    using assms unfolding claim_socket_def by (elim try_io_Inr) blast
  then have "tr2 = (LockFile lock_path, Done) # tr1"
    by (auto simp: do_call_def ask_as_def ask_def Let_def split: option.splits)
  then show ?thesis
    using calls_onlyD [OF bind_socket_calls rest] by (auto simp: extends_by_def)
qed

lemma startup_extends:
  "calls_only (\<lambda>_. True) (startup_phase (system_cleanup_backend os mc de uid path))"
proof -
  have ins: "calls_only (\<lambda>_. True) (system_inspect os de uid path)"
    by (rule calls_only_mono [OF inspect_no_kill]) simp
  have rem: "calls_only (\<lambda>_. True) (system_remove os mc uid path r)" for r
    by (rule calls_only_mono [OF system_remove_calls]) simp
  show ?thesis
    unfolding startup_phase_def recovery_cleanup_def system_cleanup_backend_def
    by (auto intro!: calls_intro ins rem)
qed

lemma state_write_extends: "calls_only (\<lambda>_. True) (state_write os ser pid n path st)"
  by (rule calls_only_mono [OF state_write_routine]) simp

lemma daemon_start_under_lock: "keeps acts_under_lock (daemon_start env)"
  unfolding keeps_def
proof (intro allI impI)
  fix tr assume ok: "acts_under_lock tr"
  let ?os = "dv_os env"
  obtain r1 tr1 where o: "start_owner ?os tr = (r1, tr1)" by fastforce
  have ok1: "acts_under_lock tr1"
    by (rule keepsD [OF acts_under_lock_quiet [OF claim_socket_quiet(2)] o ok])
  show "acts_under_lock (snd (daemon_start env tr))"
  proof (cases r1)
    case (Inl e)
    then show ?thesis using o ok1 by (simp add: daemon_start_def Let_def try_io_def)
  next
    case (Inr uid)
    obtain r2 tr2 where c: "claim_socket ?os uid tr1 = (r2, tr2)" by fastforce
    have ok2: "acts_under_lock tr2"
      by (rule keepsD [OF acts_under_lock_quiet [OF claim_socket_quiet(1)] c ok1])
    show ?thesis
    proof (cases r2)
      case (Inl e)
      then show ?thesis using o Inr c ok2 by (simp add: daemon_start_def Let_def try_io_def)
    next
      case (Inr u)
      have held: "(LockFile lock_path, Done) \<in> set tr2" by (rule claim_socket_locked [OF c [unfolded Inr]])
      let ?rest = "then_io (startup_phase (system_cleanup_backend ?os (pf_machine (dv_platform env))
          (dv_de_state env) uid (state_path_for uid))) (\<lambda>phase.
        try_io (map_io (map_err io_error_text)
                  (state_write ?os (dv_ser_state env) (pf_pid (dv_platform env)) 1 (state_path_for uid)
                     (new_persisted_state uid phase))) (\<lambda>_.
        return_io (Ok ((new_controller uid phase (state_path_for uid))\<lparr>ct_temp_id := 2\<rparr>))))"
      have eq: "daemon_start env tr = ?rest tr2"
        using o c \<open>r1 = Inr uid\<close> Inr by (simp add: daemon_start_def Let_def try_io_def)
      have "calls_only (\<lambda>_. True) ?rest"
        by (intro calls_intro startup_extends state_write_extends)
      then have "extends_by (\<lambda>_. True) tr2 (snd (?rest tr2))"
        by (rule calls_onlyD) (rule prod.collapse [symmetric])
      from acts_under_lock_held [OF held ok2 this] show ?thesis unfolding eq by blast
    qed
  qed
qed

end
