(* ===== verification/System_Props.thy ===== *)
theory System_Props
  imports System_Hold
begin

text \<open>
  What the system backend guarantees beyond the contract of the hold block: stopping releases every
  part of the data plane whatever fails on the way, and Xray is started only after its binary was
  found to be a regular root-owned executable that nobody else can write.
\<close>

section \<open>Stopping\<close>

lemma keep_first_None: "foldl keep_first None rs = None \<longleftrightarrow> list_all is_ok rs"
proof -
  have "foldl keep_first (Some e) rs = Some e" for e rs
    by (induction rs) (simp_all add: keep_first_def)
  then show ?thesis
    by (induction rs) (auto simp: keep_first_def split: sum.splits)
qed

definition data_plane_released :: "system_backend \<Rightarrow> bool" where
  "data_plane_released s = (sy_xray s = None \<and> sy_mode s = None)"

definition fully_released :: "system_backend \<Rightarrow> bool" where
  "fully_released s =
     (sy_xray s = None \<and> sy_mode s = None \<and> sy_xray_identity s = None \<and> \<not> sy_dns_active s
      \<and> sy_log_tasks s = [])"

lemma remove_split_state:
  assumes "remove_split pf w = (r, w')"
  shows "fst w' = (fst w)\<lparr>sy_split := None, sy_split_apps := []\<rparr>"
  using assms by (auto simp: remove_split_def split: option.splits prod.splits)

lemma remove_dns_state:
  assumes "remove_dns os w = (r, w')"
  shows "fst w' = fst w \<or> fst w' = (fst w)\<lparr>sy_dns_active := False\<rparr>"
    and "is_ok r \<Longrightarrow> \<not> sy_dns_active (fst w')"
  using assms by (auto simp: remove_dns_def sys_defs split: if_splits prod.splits sum.splits)

lemma route_down_state: "route_down os w = (r, w') \<Longrightarrow> fst w' = fst w"
  by (auto simp: route_down_def sy_run_helper_def sys_defs split: if_splits prod.splits)

lemma forget_xray_state:
  "forget_xray os w = (r, w') \<Longrightarrow>
     r = Inr () \<and> fst w' = (fst w)\<lparr>sy_log_tasks := [], sy_xray_identity := None\<rparr>"
  by (auto simp: forget_xray_def stop_log_tasks_def sys_defs split: prod.splits)

lemma terminate_xray_state:
  assumes "terminate_xray os w = (r, w')"
  shows "fst w' = (fst w)\<lparr>sy_xray := None\<rparr>
           \<or> fst w' = (fst w)\<lparr>sy_xray := None, sy_log_tasks := [], sy_xray_identity := None\<rparr>"
    and "is_ok r \<Longrightarrow> sy_log_tasks (fst w') = [] \<and> sy_xray_identity (fst w') = None"
  using assms
  by (auto simp: terminate_xray_def forget_xray_def stop_log_tasks_def sys_defs
        split: option.splits prod.splits sum.splits)

lemma stop_effect:
  assumes "sy_stop_data_plane pf keep w = (r, w')"
  shows "sy_xray (fst w') = None \<and> sy_mode (fst w') = None"
    and "if keep then sy_split (fst w') = sy_split (fst w) \<and> sy_split_apps (fst w') = sy_split_apps (fst w)
         else sy_split (fst w') = None \<and> sy_split_apps (fst w') = []"
    and "is_ok r \<Longrightarrow> fully_released (fst w')"
proof -
  let ?r1 = "if keep then return_io (Ok ()) else remove_split pf"
  obtain r1 w1 where w1: "?r1 w = (r1, w1)" by (cases "?r1 w")
  obtain r2 w2 where w2: "remove_dns (pf_os pf) w1 = (r2, w2)" by (cases "remove_dns (pf_os pf) w1")
  obtain r3 w3 where w3: "route_down (pf_os pf) w2 = (r3, w3)" by (cases "route_down (pf_os pf) w2")
  obtain r4 w4 where w4: "terminate_xray (pf_os pf) w3 = (r4, w4)"
    by (cases "terminate_xray (pf_os pf) w3")
  have res: "fst w' = (fst w4)\<lparr>sy_mode := None\<rparr>"
    "r = (case foldl keep_first None [r1, r2, r3, r4] of None \<Rightarrow> Ok () | Some e \<Rightarrow> Err e)"
    using assms w1 w2 w3 w4 unfolding sy_stop_data_plane_def
    by (auto simp: then_io_def modify_st_def get_st_def lift_os_def split: prod.splits)
  have s1: "if keep then fst w1 = fst w else fst w1 = (fst w)\<lparr>sy_split := None, sy_split_apps := []\<rparr>"
    using w1 remove_split_state [of pf w r1 w1] by (auto split: if_splits)
  note s2 = remove_dns_state [OF w2] and s3 = route_down_state [OF w3] and s4 = terminate_xray_state [OF w4]
  show "sy_xray (fst w') = None \<and> sy_mode (fst w') = None" using res s4(1) by auto
  show "if keep then sy_split (fst w') = sy_split (fst w) \<and> sy_split_apps (fst w') = sy_split_apps (fst w)
         else sy_split (fst w') = None \<and> sy_split_apps (fst w') = []"
    using res s1 s2(1) s3 s4(1) by (auto split: if_splits)
  assume "is_ok r"
  then have "is_ok r1 \<and> is_ok r2 \<and> is_ok r3 \<and> is_ok r4"
    using res(2) keep_first_None [of "[r1, r2, r3, r4]"] by (auto split: option.splits)
  then show "fully_released (fst w')"
    using res s2 s3 s4 by (auto simp: fully_released_def)
qed

section \<open>Only a trusted binary is started\<close>

definition trusted_metadata :: "metadata \<Rightarrow> bool" where
  "trusted_metadata md =
     (md_is_file md \<and> md_uid md = 0 \<and> md_mode md AND 18 = 0 \<and> md_mode md AND 73 \<noteq> 0)"

definition seen_trusted :: "string \<Rightarrow> trace \<Rightarrow> bool" where
  "seen_trusted path tr \<longleftrightarrow> (\<exists>md. (Lstat path, Meta md) \<in> set tr \<and> trusted_metadata md)"

fun spawns_trusted :: "trace \<Rightarrow> bool" where
  "spawns_trusted [] = True"
| "spawns_trusted ((c, r) # tr) =
     (spawns_trusted tr \<and> (case c of SpawnXray path _ \<Rightarrow> seen_trusted path tr | _ \<Rightarrow> True))"

lemma seen_trusted_append [simp]: "seen_trusted path tr \<Longrightarrow> seen_trusted path (es @ tr)"
  by (auto simp: seen_trusted_def)

text \<open>The path of Xray was checked, and every start so far was of a checked path.\<close>

definition xray_checked :: "system_backend \<times> trace \<Rightarrow> bool" where
  "xray_checked w = (spawns_trusted (snd w) \<and> seen_trusted (sy_xray_path (fst w)) (snd w))"

definition spawns_ok :: "system_backend \<times> trace \<Rightarrow> bool" where
  "spawns_ok w = spawns_trusted (snd w)"

lemma routine_spawns: "routine c \<Longrightarrow> spawns_trusted ((c, r) # tr) = spawns_trusted tr"
  by (simp add: routine_def split: call.splits)

lemma routine_extends:
  "extends_by routine tr tr' \<Longrightarrow> spawns_trusted tr' = spawns_trusted tr
     \<and> (seen_trusted path tr \<longrightarrow> seen_trusted path tr')"
proof -
  have "spawns_trusted (es @ tr) = spawns_trusted tr" if "\<forall>(c, r) \<in> set es. routine c" for es
    using that by (induction es) (auto simp del: spawns_trusted.simps simp: routine_spawns)
  then show "extends_by routine tr tr' \<Longrightarrow> ?thesis" by (auto simp: extends_by_def)
qed

text \<open>Code that may start a checked binary.\<close>

definition may_spawn :: "string \<Rightarrow> call \<Rightarrow> bool" where
  "may_spawn path c = (case c of SpawnXray x _ \<Rightarrow> x = path | _ \<Rightarrow> True)"

lemma may_start_spawn: "may_start path c \<Longrightarrow> may_spawn path c"
  by (auto simp: may_start_def may_spawn_def routine_def split: call.splits)

lemma routine_spawn: "routine c \<Longrightarrow> may_spawn path c"
  by (simp add: may_start_spawn)

lemma may_spawn_extends:
  assumes "extends_by (may_spawn path) tr tr'" and "spawns_trusted tr" and "seen_trusted path tr"
  shows "spawns_trusted tr' \<and> seen_trusted path tr'"
proof -
  have "spawns_trusted (es @ tr)" if "\<forall>(c, r) \<in> set es. may_spawn path c" for es
    using that
  proof (induction es)
    case Nil
    then show ?case using assms(2) by simp
  next
    case (Cons e es)
    obtain c r where e: "e = (c, r)" by fastforce
    have "spawns_trusted (es @ tr)" using Cons by auto
    then show ?case
      using Cons.prems assms(3) by (cases c) (auto simp: e may_spawn_def)
  qed
  then show ?thesis using assms(1,3) by (auto simp: extends_by_def)
qed

lemma may_spawn_checked:
  assumes "\<And>path. emits (may_spawn path) m" and "unchanged sy_xray_path m"
  shows "keeps xray_checked m"
  unfolding keeps_def
proof (intro allI impI)
  fix w assume c: "xray_checked w"
  obtain a w' where m: "m w = (a, w')" by (cases "m w")
  show "xray_checked (snd (m w))"
    using c m may_spawn_extends [OF emitsD [OF assms(1) m], of "sy_xray_path (fst w)"]
      unchangedD [OF assms(2) m]
    by (auto simp: xray_checked_def)
qed

lemma routine_checked: "emits routine m \<Longrightarrow> unchanged sy_xray_path m \<Longrightarrow> keeps xray_checked m"
  by (rule may_spawn_checked) (auto intro: emits_mono routine_spawn)

lemma ensure_trusted_seen:
  assumes "ensure_trusted_binary os path tr = (Inr u, tr')"
  shows "seen_trusted path tr'"
proof -
  obtain md where "tr' = (Lstat path, Meta md) # tr" and "trusted_metadata md"
    using assms unfolding ensure_trusted_binary_def trusted_metadata_def
    by (auto simp: map_io_def ask_meta_def ask_as_def ask_def Let_def
          split: option.splits if_splits prod.splits sum.splits elim: as_meta.elims)
  then show ?thesis by (auto simp: seen_trusted_def)
qed

text \<open>Validation up to the check of the two binaries, and after it.\<close>

lemma validate_spawns:
  assumes "sy_validate pf host_of req w = (r, w')" and "spawns_ok w"
  shows "spawns_ok w' \<and> (is_ok r \<longrightarrow> xray_checked w')"
proof -
  obtain s tr where w: "w = (s, tr)" by fastforce
  obtain q tr1 where q: "ensure_trusted_binary (pf_os pf) (sy_xray_path s) tr = (q, tr1)" by fastforce
  have st: "spawns_trusted tr1"
    using assms(2) routine_extends [OF calls_onlyD [OF validation_run_routine(2) q]]
    by (simp add: w spawns_ok_def)
  show ?thesis
  proof (cases q)
    case (Inl e)
    then show ?thesis
      using assms(1) st w q by (auto simp: sy_validate_def sys_defs spawns_ok_def)
  next
    case (Inr u)
    have seen: "seen_trusted (sy_xray_path s) tr1"
      by (rule ensure_trusted_seen [OF q [unfolded Inr]])
    define rest where "rest =
      try_io (ensure_trusted_binary (pf_os pf) (sy_net_helper_path s)) (\<lambda>_.
      try_io (return_io (validate_xray_document (pf_parse pf) (cr_xray_config req) (cr_mode req = Tun))) (\<lambda>_.
      try_io (return_io (validation_config_ports (pf_parse pf) (cr_validation_config req))) (\<lambda>ports.
      try_io (return_io (validate_ping_xray_document (pf_parse pf) (cr_validation_config req) ports)) (\<lambda>_.
      try_io (prepare_dir (pf_os pf) [] (sy_runtime_dir s)) (\<lambda>_.
      try_io (write_private pf (sy_validation_path s) (cr_validation_config req)) (\<lambda>_.
      try_io (write_private pf (sy_config_path s) (cr_xray_config req)) (\<lambda>_.
      then_io (tun_devices_live pf (cr_xray_config req)) (\<lambda>live.
      try_io (if live then return_io (Ok ())
              else run_xray_validation (pf_os pf) (sy_xray_path s) (sy_config_path s)) (\<lambda>_.
      run_validation_egress_probe pf host_of (sy_xray_path s) (sy_validation_path s)
        (cr_validation_config req))))))))))"
    have calls: "calls_only (may_start (sy_xray_path s)) rest"
      unfolding rest_def
      by (intro calls_only_try calls_only_then calls_only_return calls_only_if egress_may_start
            may_start_of_routine(1) validation_run_routine prepare_dir_routine write_private_routine
            tun_devices_routine)
    obtain p tr2 where p: "rest tr1 = (p, tr2)" by fastforce
    have "sy_validate pf host_of req w = (p, (s, tr2))"
      using p q Inr unfolding sy_validate_def rest_def w by (simp add: sys_defs)
    moreover have "spawns_trusted tr2 \<and> seen_trusted (sy_xray_path s) tr2"
      by (rule may_spawn_extends [OF extends_by_mono [OF calls_onlyD [OF calls p]] st seen])
         (rule may_start_spawn)
    ultimately show ?thesis using assms(1) by (simp add: spawns_ok_def xray_checked_def)
  qed
qed

text \<open>No operation changes the path of Xray.\<close>

lemma split_path_unchanged [unchanged_intro]:
  "unchanged sy_xray_path (apply_split pf apps)" "unchanged sy_xray_path (remove_split pf)"
  "unchanged sy_xray_path (on_split sm f)" "unchanged sy_xray_path (split_alive os)"
  unfolding unchanged_def apply_split_def remove_split_def on_split_def split_alive_def
  by (auto split: prod.splits sum.splits option.splits)

lemma child_path_unchanged [unchanged_intro]:
  "unchanged sy_xray_path (child_is_running os)" "unchanged sy_xray_path (forget_xray os)"
  "unchanged sy_xray_path (terminate_xray os)" "unchanged sy_xray_path (remove_dns os)"
  "unchanged sy_xray_path (sy_run_helper os args)" "unchanged sy_xray_path (wait_until_ready os mode n)"
proof -
  show run: "unchanged sy_xray_path (child_is_running os)"
    unfolding child_is_running_def by (auto intro!: unchanged_intro)
  show "unchanged sy_xray_path (forget_xray os)" "unchanged sy_xray_path (terminate_xray os)"
    "unchanged sy_xray_path (remove_dns os)" "unchanged sy_xray_path (sy_run_helper os args)"
    unfolding terminate_xray_def forget_xray_def stop_log_tasks_def remove_dns_def sy_run_helper_def
    by (auto intro!: unchanged_intro)
  show "unchanged sy_xray_path (wait_until_ready os mode n)"
    by (induction n) (auto intro!: unchanged_intro run)
qed

lemma operations_path_unchanged:
  "unchanged sy_xray_path (sy_install_hold_block os req)" "unchanged sy_xray_path (sy_verify_hold_block os)"
  "unchanged sy_xray_path (sy_remove_hold_block os)" "unchanged sy_xray_path (sy_stop_data_plane pf keep)"
  "unchanged sy_xray_path (sy_activate_network pf req)" "unchanged sy_xray_path (sy_verify_connection os req)"
  unfolding sy_install_hold_block_def sy_verify_hold_block_def sy_remove_hold_block_def
    sy_stop_data_plane_def route_down_def sy_activate_network_def settle_split_def sy_verify_connection_def
  by (auto intro!: unchanged_intro)

lemma hold_spawns:
  "emits (may_spawn path) (sy_install_hold_block os req)" "emits (may_spawn path) (sy_remove_hold_block os)"
  unfolding sy_install_hold_block_def sy_remove_hold_block_def sy_run_helper_def run_net_helper_def
  by (auto intro!: calls_intro simp: may_spawn_def)

lemma operations_checked [keeps_intro]:
  "keeps xray_checked (sy_install_hold_block os req)" "keeps xray_checked (sy_verify_hold_block os)"
  "keeps xray_checked (sy_remove_hold_block os)" "keeps xray_checked (sy_stop_data_plane pf keep)"
  "keeps xray_checked (sy_activate_network pf req)" "keeps xray_checked (sy_verify_connection os req)"
  using may_spawn_checked [OF hold_spawns(1) operations_path_unchanged(1)]
    routine_checked [OF verify_block_routine operations_path_unchanged(2)]
    may_spawn_checked [OF hold_spawns(2) operations_path_unchanged(3)]
    routine_checked [OF stop_routine operations_path_unchanged(4)]
    routine_checked [OF activate_routine operations_path_unchanged(5)]
    routine_checked [OF verify_connection_routine operations_path_unchanged(6)]
  by simp_all

lemma start_checked [keeps_intro]: "keeps xray_checked (sy_start_data_plane pf req)"
  unfolding keeps_def
proof (intro allI impI)
  fix w assume c: "xray_checked w"
  obtain s tr where w: "w = (s, tr)" by fastforce
  obtain r tr1 where r: "start_calls pf s req tr = (r, tr1)" by fastforce
  have c1: "xray_checked (s, tr1)"
    using c may_spawn_extends [OF extends_by_mono [OF calls_onlyD [OF start_calls_may_start r] may_start_spawn]]
    by (simp add: w xray_checked_def)
  show "xray_checked (snd (sy_start_data_plane pf req w))"
  proof (cases r)
    case (Inl e)
    then show ?thesis
      using c1 r unfolding sy_start_data_plane_def start_calls_def [symmetric] w by (simp add: sys_defs)
  next
    case (Inr pid)
    define rest :: "(system_backend, daemon_error + unit) sys" where "rest =
      then_io (lift_os (ignore_all (map (\<lambda>t. ask (pf_os pf) (SpawnThread t)) log_task_names))) (\<lambda>_.
      then_io (lift_os (identity_from_pid (pf_os pf) pid)) (\<lambda>identity.
      then_io (modify_st (\<lambda>s. s\<lparr>sy_xray := Some \<lparr>ch_pid = pid, ch_reaped = False\<rparr>,
                                sy_xray_identity := res_ok identity, sy_mode := Some (cr_mode req),
                                sy_log_tasks := sy_log_tasks s @ log_task_names\<rparr>)) (\<lambda>_.
      wait_until_ready (pf_os pf) (cr_mode req) 50)))"
    have "sy_start_data_plane pf req w = rest (s, tr1)"
      using r Inr unfolding sy_start_data_plane_def start_calls_def [symmetric] w rest_def
      by (simp add: try_io_def then_io_def get_st_def lift_os_def)
    moreover have "keeps xray_checked rest"
      unfolding rest_def
      by (rule routine_checked) (intro calls_intro start_tail_routine, auto intro!: unchanged_intro)
    ultimately show ?thesis using c1 by (simp add: keeps_def)
  qed
qed

section \<open>A connection starts only a checked Xray\<close>

definition manager_spawns_ok :: "(system_backend \<times> trace) lifecycle_manager \<Rightarrow> bool" where
  "manager_spawns_ok m = spawns_ok (lm_backend m)"

definition manager_checked :: "(system_backend \<times> trace) lifecycle_manager \<Rightarrow> bool" where
  "manager_checked m = xray_checked (lm_backend m)"

lemma manager_checked_simps [simp]:
  "manager_checked (set_phase p m) = manager_checked m"
  "manager_checked (m\<lparr>lm_state := s\<rparr>) = manager_checked m"
  "manager_checked (m\<lparr>lm_block_on_failure := b\<rparr>) = manager_checked m"
  by (simp_all add: manager_checked_def)

lemma on_backend_checked: "keeps xray_checked f \<Longrightarrow> on_backend f m = (r, m') \<Longrightarrow> manager_checked m \<Longrightarrow> manager_checked m'"
  by (auto simp: on_backend_eq manager_checked_def dest: keepsD)

lemma on_backend_checked_snd: "keeps xray_checked f \<Longrightarrow> manager_checked m \<Longrightarrow> manager_checked (snd (on_backend f m))"
  using on_backend_checked [of f m] by (cases "on_backend f m") auto

lemma guard_checked: "keeps manager_checked (connect_guard (system_ops pf host_of) req w)"
  unfolding keeps_def connect_guard_def
  by (auto simp: system_ops_def split: prod.splits sum.splits
        dest: on_backend_checked [OF operations_checked(1)] on_backend_checked [OF operations_checked(2)]
          on_backend_checked [OF operations_checked(3)])

lemma stop_old_checked: "keeps manager_checked (connect_stop_old (system_ops pf host_of) req w)"
  unfolding keeps_def connect_stop_old_def
  by (auto simp: system_ops_def split: prod.splits sum.splits dest: on_backend_checked [OF operations_checked(4)])

lemma bring_up_checked: "keeps xray_checked (bring_up (system_ops pf host_of) req)"
  unfolding bring_up_def by (auto intro!: keeps_intro simp: system_ops_def)

lemma switch_checked: "keeps manager_checked (connect_switch (system_ops pf host_of) req w)"
  unfolding keeps_def connect_switch_def connect_cleanup_def connect_commit_def
  by (auto simp: system_ops_def split: prod.splits sum.splits
        dest: on_backend_checked [OF operations_checked(4)] on_backend_checked [OF operations_checked(3)]
          on_backend_checked [OF bring_up_checked [unfolded system_ops_def]]
        intro!: on_backend_checked_snd [OF operations_checked(3)])

lemma checked_spawns: "manager_checked m \<Longrightarrow> manager_spawns_ok m"
  by (simp add: manager_checked_def manager_spawns_ok_def xray_checked_def spawns_ok_def)

lemma connect_spawns_trusted:
  assumes "lifecycle_connect (system_ops pf host_of) req m = (r, m')" and "manager_spawns_ok m"
  shows "manager_spawns_ok m'"
proof -
  let ?ops = "system_ops pf host_of" and ?w = "phase_of m = Connected"
  obtain q m1 where v: "connect_validate ?ops req ?w (connect_begin ?w m) = (q, m1)" by fastforce
  have m1: "manager_spawns_ok m1 \<and> (is_ok q \<longrightarrow> manager_checked m1)"
    using v assms(2) validate_spawns [of pf host_of req "lm_backend m"]
    unfolding connect_validate_def
    by (auto simp: on_backend_eq system_ops_def manager_spawns_ok_def manager_checked_def
          split: prod.splits sum.splits)
  show ?thesis
  proof (cases q)
    case (Inl e)
    then show ?thesis using assms(1) v m1 by (auto simp: lifecycle_connect_def result_simps)
  next
    case (Inr u)
    let ?rest = "try_io (connect_guard ?ops req ?w) (\<lambda>_. try_io (connect_stop_old ?ops req ?w) (\<lambda>_.
        connect_switch ?ops req ?w))"
    have eq: "?rest m1 = (r, m')"
      using v Inr assms(1) by (simp add: lifecycle_connect_def Let_def try_io_def)
    have "keeps manager_checked ?rest"
      by (intro keeps_try guard_checked stop_old_checked switch_checked)
    then have "manager_checked (snd (?rest m1))"
      unfolding keeps_def using m1 Inr by simp
    then have "manager_checked m'" using eq by simp
    then show ?thesis by (rule checked_spawns)
  qed
qed

end
