(* ===== verification/System_Refusal.thy ===== *)
theory System_Refusal
  imports System_Backend Xray_Doc_Props
begin

text \<open>
  Two panics of \<^verbatim>\<open>daemon/src/system.rs\<close> that do not happen: moving an accepted probe
  document to its reserved ports, and printing the detail of a refusal.
\<close>

text \<open>Moving an accepted probe configuration to other ports never panics, whatever prints it.\<close>

lemma egress_never_panics:
  assumes "validate_ping_xray_document parse raw ports = Inr ()" and "length ports' = length ports"
  shows "validation_config_with_ports parse print raw ports' \<noteq> Panic"
proof (cases "ports_usable ports'")
  case True
  obtain document where doc: "parse raw = Inr document" "ping_checks document ports"
    using assms(1) by (auto simp: validate_ping_iff)
  obtain inbounds inbounds' where "get_array ''inbounds'' document = Some inbounds"
    "length inbounds = length ports" "set_ports inbounds ports' = Some inbounds'"
    by (rule ping_checks_new_ports [OF doc(2) assms(2)])
  with True doc assms(2) show ?thesis
    by (simp add: validation_config_with_ports_def parse_document_def)
next
  case False
  then show ?thesis by (simp add: validation_config_with_ports_def)
qed

text \<open>The text of a refusal never panics when Xray writes ASCII.\<close>

lemma set_trim: "set (trim s) \<subseteq> set s"
proof
  fix c assume "c \<in> set (trim s)"
  then obtain g where "g \<in> set (dropWhile is_ws (rev (dropWhile is_ws (utf8_chars s))))" "c \<in> set g"
    unfolding trim_def by auto
  then have "g \<in> set (utf8_chars s)"
    by (metis set_dropWhileD set_rev)
  then have "c \<in> set (concat (utf8_chars s))"
    using \<open>c \<in> set g\<close> unfolding set_concat by blast
  then show "c \<in> set s" unfolding concat_utf8_chars .
qed

lemma set_str_lines: "l \<in> set (str_lines s) \<Longrightarrow> set l \<subseteq> set s"
proof -
  have piece: "set p \<subseteq> set s" if "p \<in> set (split_on newline s)" for p
    using that split_by_pieces unfolding split_on_def by fastforce
  have strip: "set (strip_cr p) \<subseteq> set p" for p
    by (auto simp: strip_cr_def dest: in_set_butlastD)
  have "\<exists>p \<in> set (split_on newline s). set l \<subseteq> set p" if "l \<in> set (str_lines s)"
  proof (cases "l \<in> strip_cr ` set (butlast (split_on newline s))")
    case True
    then show ?thesis using strip in_set_butlastD by (metis imageE)
  next
    case False
    with that have "l = List.last (split_on newline s)"
      unfolding str_lines_def Let_def by (simp split: if_split_asm)
    then show ?thesis using last_in_set split_on_not_Nil by blast
  qed
  then show "l \<in> set (str_lines s) \<Longrightarrow> set l \<subseteq> set s"
    using piece by blast
qed

definition ascii :: "string \<Rightarrow> bool" where
  "ascii s = list_all (\<lambda>c. byte_val c < 128) s"

lemma ascii_iff: "ascii s \<longleftrightarrow> (\<forall>c\<in>set s. byte_val c < 128)"
  by (simp add: ascii_def list_all_iff)

lemma ascii_chars: "ascii s \<Longrightarrow> utf8_chars s = map (\<lambda>c. [c]) s"
proof (induction s)
  case Nil
  then show ?case by simp
next
  case (Cons c s)
  have "takeWhile is_cont s = [] \<and> dropWhile is_cont s = s"
    using Cons.prems by (cases s) (auto simp: ascii_def is_cont_def)
  then show ?case using Cons by (simp add: ascii_def)
qed

lemma ascii_tail:
  assumes "ascii d" and "n < chars_count d"
  shows "slice_from d (chars_count d - n) \<noteq> None"
proof -
  have len: "chars_count d = length d" using ascii_chars [OF assms(1)] by (simp add: chars_count_def)
  have "\<not> is_cont (d ! k)" if "k < length d" for k
    using bspec [OF assms(1) [unfolded ascii_iff] nth_mem [OF that]] unfolding is_cont_def by linarith
  then show ?thesis
    using assms(2) unfolding slice_from_def is_char_boundary_def len by auto
qed

lemma detail_never_panics:
  assumes "ascii out" and "ascii err"
  shows "validation_failure_detail out err \<noteq> None"
proof -
  let ?lines = "filter detail_line (map trim (str_lines err @ str_lines out))"
  let ?d = "join_with '' | '' ?lines"
  have "set l \<subseteq> set err \<union> set out" if "l \<in> set ?lines" for l
    using that set_trim set_str_lines by fastforce
  then have "set ?d \<subseteq> set '' | '' \<union> (set err \<union> set out)"
    using set_join_with [of "'' | ''" ?lines] by blast
  then have d: "ascii ?d"
    using assms unfolding ascii_iff by auto
  have "slice_from ?d (chars_count ?d - MAX_DETAIL_CHARS) \<noteq> None" if "\<not> chars_count ?d \<le> MAX_DETAIL_CHARS"
    by (rule ascii_tail [OF d]) (use that in simp)
  then show ?thesis
    unfolding validation_failure_detail_def Let_def by auto
qed

end
