(* ===== verification/Daemon_Props.thy ===== *)
theory Daemon_Props
  imports Server System_Props System_Refusal
begin

text \<open>
  What the parts of the daemon promise together: the outcome of a disconnect down to the backend,
  every run of the manager starting a checked Xray only, the meaning of a proxy ping, the state file
  after a command, and a start of the daemon on a machine where every call succeeds.
\<close>

section \<open>Disconnecting\<close>

lemma remove_hold_state: "sy_remove_hold_block os w = (r, w') \<Longrightarrow> fst w' = fst w"
  by (auto simp: sy_remove_hold_block_def sy_run_helper_def sys_defs split: prod.splits)

lemma disconnect_backend:
  assumes "lifecycle_disconnect (system_ops pf host_of) m = (r, m')"
  shows "sy_xray (fst (lm_backend m')) = None \<and> sy_mode (fst (lm_backend m')) = None
         \<and> sy_split (fst (lm_backend m')) = None \<and> sy_split_apps (fst (lm_backend m')) = []"
    and "is_ok r \<Longrightarrow> fully_released (fst (lm_backend m'))"
proof -
  obtain q w1 where q: "sy_stop_data_plane pf False (lm_backend m) = (q, w1)"
    by (cases "sy_stop_data_plane pf False (lm_backend m)")
  obtain h w2 where h: "sy_remove_hold_block (pf_os pf) w1 = (h, w2)"
    by (cases "sy_remove_hold_block (pf_os pf) w1")
  have m': "lm_backend m' = w2" and r: "is_err r \<or> is_ok q"
    using assms q h
    by (auto simp: lifecycle_disconnect_def on_backend_def system_ops_def is_err_iff split: if_splits)
  note st = stop_effect [OF q] and keep = remove_hold_state [OF h]
  show "sy_xray (fst (lm_backend m')) = None \<and> sy_mode (fst (lm_backend m')) = None
         \<and> sy_split (fst (lm_backend m')) = None \<and> sy_split_apps (fst (lm_backend m')) = []"
    using st(1,2) keep m' by simp
  show "is_ok r \<Longrightarrow> fully_released (fst (lm_backend m'))"
    using st(3) keep m' r by (cases r) auto
qed

section \<open>Runs of the manager\<close>

definition no_spawn :: "call \<Rightarrow> bool" where
  "no_spawn c = (case c of SpawnXray _ _ \<Rightarrow> False | _ \<Rightarrow> True)"

lemma routine_no_spawn: "routine c \<Longrightarrow> no_spawn c"
  by (auto simp: routine_def no_spawn_def split: call.splits)

lemma no_spawn_spawns: "emits no_spawn m \<Longrightarrow> keeps spawns_ok m"
proof -
  assume m: "emits no_spawn m"
  have ext: "spawns_trusted (es @ tr) = spawns_trusted tr" if "\<forall>(c, r) \<in> set es. no_spawn c" for es tr
    using that by (induction es) (auto simp: no_spawn_def split: call.splits)
  show ?thesis
    unfolding keeps_def
  proof (intro allI impI)
    fix w assume "spawns_ok w"
    moreover have "extends_by no_spawn (snd w) (snd (snd (m w)))"
      by (rule emitsD [OF m]) (rule prod.collapse [symmetric])
    ultimately show "spawns_ok (snd (m w))"
      using ext by (auto simp: spawns_ok_def extends_by_def)
  qed
qed

lemma operations_spawns:
  "keeps spawns_ok (sy_stop_data_plane pf keep)" "keeps spawns_ok (sy_remove_hold_block os)"
  "keeps spawns_ok (sy_update_split pf apps)" "keeps spawns_ok (child_is_running os)"
proof -
  have "emits no_spawn (sy_remove_hold_block os)"
    unfolding sy_remove_hold_block_def sy_run_helper_def run_net_helper_def
    by (auto intro!: calls_intro simp: no_spawn_def)
  then show "keeps spawns_ok (sy_remove_hold_block os)" by (rule no_spawn_spawns)
  show "keeps spawns_ok (sy_stop_data_plane pf keep)"
    by (rule no_spawn_spawns) (rule emits_mono [OF stop_routine routine_no_spawn])
  show "keeps spawns_ok (sy_update_split pf apps)"
    by (rule no_spawn_spawns) (rule emits_mono [OF update_split_routine routine_no_spawn])
  show "keeps spawns_ok (child_is_running os)"
    by (rule no_spawn_spawns) (rule emits_mono [OF child_routine(1) routine_no_spawn])
qed

lemma backend_step_spawns:
  assumes "keeps spawns_ok f" and "on_backend f m = (r, m')" and "manager_spawns_ok m"
  shows "manager_spawns_ok m'"
proof -
  have "spawns_ok (snd (f (lm_backend m)))"
    using assms(1,3) unfolding keeps_def manager_spawns_ok_def by blast
  then show ?thesis
    using assms(2) by (simp add: on_backend_def manager_spawns_ok_def split_beta) auto
qed

lemma manager_spawns_simps [simp]:
  "manager_spawns_ok (set_phase p m) = manager_spawns_ok m"
  "manager_spawns_ok (m\<lparr>lm_state := s\<rparr>) = manager_spawns_ok m"
  "manager_spawns_ok (m\<lparr>lm_block_on_failure := b\<rparr>) = manager_spawns_ok m"
  "manager_spawns_ok (mark_recovery_required m) = manager_spawns_ok m"
  by (simp_all add: manager_spawns_ok_def)

lemmas backend_steps_spawn = operations_spawns [THEN backend_step_spawns]

lemma event_spawns:
  assumes "manager_spawns_ok m"
  shows "manager_spawns_ok (lifecycle_event_step (system_ops pf host_of) ev m)"
proof (cases ev)
  case (Ev_Connect req)
  then show ?thesis
    using assms connect_spawns_trusted [of pf host_of req m]
    by (cases "lifecycle_connect (system_ops pf host_of) req m") auto
next
  case (Ev_Update_Split apps)
  then show ?thesis
    using assms
    by (auto simp: lifecycle_update_split_def system_ops_def Let_def
          split: prod.splits sum.splits dest: backend_steps_spawn)
next
  case Ev_Disconnect
  then show ?thesis
    using assms
    by (auto simp: lifecycle_disconnect_def system_ops_def split: prod.splits dest!: backend_steps_spawn)
next
  case Ev_Health
  then show ?thesis
    using assms
    by (auto simp: lifecycle_reconcile_health_def system_ops_def Let_def
          split: prod.splits sum.splits bool.splits dest!: backend_steps_spawn)
next
  case Ev_Mark
  then show ?thesis using assms by simp
qed

lemma events_spawns:
  "manager_spawns_ok m \<Longrightarrow> manager_spawns_ok (fold (lifecycle_event_step (system_ops pf host_of)) evs m)"
  by (induction evs arbitrary: m) (simp_all add: event_spawns)

section \<open>The truth of a proxy ping\<close>

lemma then_io_eqE:
  assumes "then_io m k w = (b, w')"
  obtains a w1 where "m w = (a, w1)" and "k a w1 = (b, w')"
  using assms by (auto simp: then_io_def split: prod.splits)

lemma ping_start_ok:
  assumes "ping_start os host_of req path ports tr = (Inr (Inr ms), tr')"
  shows "\<exists>port\<in>set ports. http_answered os port ms"
proof -
  obtain tr1 tr2 where "probe_rounds os host_of (unat (pp_timeout_ms req)) (effective_dns_probe_urls req)
      ports tr1 = (Inr ms, tr2)"
    using assms unfolding ping_start_def by (auto simp: then_io_def split: prod.splits sum.splits)
  then show ?thesis by (rule probe_rounds_ok)
qed

lemma ping_attempts_ok:
  "ping_attempts pf host_of req dir sequence attempts prior w = (Inr ms, w') \<Longrightarrow>
     \<exists>port. http_answered (pf_os pf) port ms"
proof (induction attempts arbitrary: prior w)
  case Nil
  then show ?case by simp
next
  case (Cons attempt attempts)
  obtain ports path started w2 w3 where
    st: "lift_os (ping_start (pf_os pf) host_of req path ports) w2 = (started, w3)"
    and end_: "(case started of
       Inl e \<Rightarrow> ping_attempts pf host_of req dir sequence attempts (Some e)
     | Inr r \<Rightarrow> return_io r) w3 = (Inr ms, w')"
    using Cons.prems unfolding ping_attempts.simps Let_def
    by (elim try_io_Inr then_io_eqE) (rule that, assumption+)
  show ?case
  proof (cases started)
    case (Inl e)
    then show ?thesis using Cons.IH end_ by auto
  next
    case (Inr r)
    then have "r = Inr ms" using end_ by simp
    then obtain tr1 tr2 where "ping_start (pf_os pf) host_of req path ports tr1 = (Inr (Inr ms), tr2)"
      using st Inr by (auto simp: lift_os_def split: prod.splits)
    then show ?thesis using ping_start_ok by blast
  qed
qed

lemma proxy_ping_ok:
  assumes "run_proxy_ping pf host_of uid req w = (Inr ms, w')"
  shows "\<exists>port. http_answered (pf_os pf) port ms"
proof -
  obtain dir sequence w1 where
    "ping_attempts pf host_of req dir sequence [0..<4] None w1 = (Inr ms, w')"
    using assms unfolding run_proxy_ping_def Let_def
    by (elim try_io_Inr then_io_eqE) (rule that, assumption+)
  then show ?thesis by (rule ping_attempts_ok)
qed

section \<open>The state file after a command\<close>

lemma change_persisted:
  assumes "ct_change env f w = (r, w')"
  shows "phase_of (ct_manager (fst w')) = RecoveryRequired
         \<or> (\<exists>bytes. dv_ser_state env (state_to_persist (fst w')) = Inr bytes
              \<and> just_written (ct_state_path (fst w')) bytes (snd w'))"
proof -
  obtain q w1 where q: "on_manager f w = (q, w1)" by (cases "on_manager f w")
  obtain p w2 where p: "ct_persist env w1 = (p, w2)" by (cases "ct_persist env w1")
  have "w' = w2" using assms q p by (cases p) (auto simp: ct_change_def then_io_def try_io_def)
  then show ?thesis using persist_outcome [OF p] by (cases p) auto
qed

end
