(* ===== verification/Helper_Rules.thy ===== *)
theory Helper_Rules
  imports Split_Routing
begin

text \<open>
  The kill switch of the network helper (\<open>helper/src/main.rs\<close>): the text that is given to
  \<open>nft\<close>, the rules this text says, and what they do to a packet.  The text is the rendering of
  the rules, and the rules are evaluated as \<open>nft\<close> evaluates a chain: the first rule that matches
  decides, and the policy of the chain decides when none does.
\<close>

section \<open>The text\<close>

definition KS_TABLE :: string where "KS_TABLE = ''varmlen_ks''"
definition TUN_IFACE :: string where "TUN_IFACE = ''varmlen0''"

definition lan4_text :: string where
  "lan4_text = ''ip daddr { 10.0.0.0/8, 172.16.0.0/12, 192.168.0.0/16, 169.254.0.0/16, 100.64.0.0/10 }''"

definition lan6_text :: string where
  "lan6_text = ''ip6 daddr { fe80::/10, fc00::/7 }''"

fun server_line :: "ip_addr \<Rightarrow> string" where
  "server_line (V4 a b c d) = ''    ip daddr '' @ show_ip (V4 a b c d) @ '' counter accept''"
| "server_line (V6 ss) = ''    ip6 daddr '' @ show_ip (V6 ss) @ '' counter accept''"

definition ks_head_lines :: "string list" where
  "ks_head_lines =
     [''add table inet '' @ KS_TABLE, ''delete table inet '' @ KS_TABLE,
      ''table inet '' @ KS_TABLE @ '' {'', ''  chain out {'',
      ''    type filter hook output priority 0; policy drop;'']"

definition ks_base_lines :: "string list" where
  "ks_base_lines =
     [''    oifname '' @ quoted ''lo'' @ '' counter accept'',
      ''    oifname '' @ quoted TUN_IFACE @ '' counter accept'',
      ''    ct state established,related ct direction reply counter accept'',
      ''    fib daddr type local counter accept'',
      ''    meta mark & 0x0000ffff == 0x2023 counter accept'',
      ''    meta mark & 0x0000ffff == 0x2024 counter accept'',
      ''    meta mark & 0x0000ffff == 0x2025 counter accept'',
      ''    ct mark & 0x0000ffff == 0x2023 counter accept'',
      ''    ct mark & 0x0000ffff == 0x2024 counter accept'',
      ''    ct mark & 0x0000ffff == 0x2025 counter accept'',
      ''    ip daddr 1.1.1.1 udp dport 53 counter accept'',
      ''    ip daddr 1.1.1.1 tcp dport 53 counter accept'',
      ''    ip daddr 1.1.1.1 tcp dport 443 counter accept'']"

definition ks_dns_lines :: "string list" where
  "ks_dns_lines =
     [''    udp dport 53 '' @ lan4_text @ '' counter drop'', ''    tcp dport 53 '' @ lan4_text @ '' counter drop'',
      ''    udp dport 53 '' @ lan6_text @ '' counter drop'', ''    tcp dport 53 '' @ lan6_text @ '' counter drop'']"

definition ks_lan_lines :: "string list" where
  "ks_lan_lines = [''    '' @ lan4_text @ '' counter accept'', ''    '' @ lan6_text @ '' counter accept'']"

definition ks_tail_lines :: "string list" where
  "ks_tail_lines =
     [''    limit rate 30/second log prefix '' @ quoted ''varmlen_ks_drop '' @ '' level info'',
      ''    counter drop'']"

definition killswitch_ruleset :: "ip_addr list \<Rightarrow> bool \<Rightarrow> string" where
  "killswitch_ruleset server_ips allow_lan =
     unlines (ks_head_lines @ ks_base_lines @ map server_line server_ips @ ks_dns_lines
              @ (if allow_lan then ks_lan_lines else []) @ ks_tail_lines @ [''  }'', ''}''])"

section \<open>The rules\<close>

datatype l4_protocol = Udp | Tcp | Other_L4

type_synonym cidr = "ip_addr \<times> nat"

datatype ks_match =
    Oif_Is string
  | Ct_Reply                  \<comment> \<open>established or related, in the reply direction\<close>
  | Local_Dest                \<comment> \<open>the destination is an address of this machine\<close>
  | Meta_Mark u32
  | Ct_Mark u32
  | Dst_Is ip_addr
  | Dst_In4 "cidr list"
  | Dst_In6 "cidr list"
  | Dport_Is l4_protocol nat

datatype ks_verdict = Ks_Accept | Ks_Drop

datatype ks_rule = Rule "ks_match list" ks_verdict | Log_Limited

definition LAN4 :: "cidr list" where
  "LAN4 = [(V4 10 0 0 0, 8), (V4 172 16 0 0, 12), (V4 192 168 0 0, 16), (V4 169 254 0 0, 16), (V4 100 64 0 0, 10)]"

definition LAN6 :: "cidr list" where
  "LAN6 = [(V6 [0xfe80, 0, 0, 0, 0, 0, 0, 0], 10), (V6 [0xfc00, 0, 0, 0, 0, 0, 0, 0], 7)]"

definition sanctioned_marks :: "u32 list" where
  "sanctioned_marks = [0x2023, 0x2024, 0x2025]"

definition bootstrap_ports :: "(l4_protocol \<times> nat) list" where
  "bootstrap_ports = [(Udp, 53), (Tcp, 53), (Tcp, 443)]"

definition ks_accepts :: "ip_addr list \<Rightarrow> ks_match list list" where
  "ks_accepts server_ips =
     [[Oif_Is ''lo''], [Oif_Is TUN_IFACE], [Ct_Reply], [Local_Dest]]
     @ map (\<lambda>m. [Meta_Mark m]) sanctioned_marks @ map (\<lambda>m. [Ct_Mark m]) sanctioned_marks
     @ map (\<lambda>(l, p). [Dst_Is (V4 1 1 1 1), Dport_Is l p]) bootstrap_ports
     @ map (\<lambda>ip. [Dst_Is ip]) server_ips"

definition ks_dns_drops :: "ks_match list list" where
  "ks_dns_drops =
     [[Dport_Is Udp 53, Dst_In4 LAN4], [Dport_Is Tcp 53, Dst_In4 LAN4],
      [Dport_Is Udp 53, Dst_In6 LAN6], [Dport_Is Tcp 53, Dst_In6 LAN6]]"

definition ks_lan_accepts :: "bool \<Rightarrow> ks_match list list" where
  "ks_lan_accepts allow_lan = (if allow_lan then [[Dst_In4 LAN4], [Dst_In6 LAN6]] else [])"

definition ks_rules :: "ip_addr list \<Rightarrow> bool \<Rightarrow> ks_rule list" where
  "ks_rules server_ips allow_lan =
     map (\<lambda>ms. Rule ms Ks_Accept) (ks_accepts server_ips) @ map (\<lambda>ms. Rule ms Ks_Drop) ks_dns_drops
     @ map (\<lambda>ms. Rule ms Ks_Accept) (ks_lan_accepts allow_lan) @ [Log_Limited, Rule [] Ks_Drop]"

text \<open>Rendering.\<close>

definition render_cidrs :: "cidr list \<Rightarrow> string" where
  "render_cidrs cs = ''{ '' @ join_with '', '' (map (\<lambda>(a, n). show_ip a @ ''/'' @ dec n) cs) @ '' }''"

fun render_l4 :: "l4_protocol \<Rightarrow> string" where
  "render_l4 Udp = ''udp''" | "render_l4 Tcp = ''tcp''" | "render_l4 Other_L4 = ''''"

fun render_match :: "ks_match \<Rightarrow> string" where
  "render_match (Oif_Is i) = ''oifname '' @ quoted i"
| "render_match Ct_Reply = ''ct state established,related ct direction reply''"
| "render_match Local_Dest = ''fib daddr type local''"
| "render_match (Meta_Mark m) = ''meta mark & 0x0000ffff == 0x'' @ hex (unat m)"
| "render_match (Ct_Mark m) = ''ct mark & 0x0000ffff == 0x'' @ hex (unat m)"
| "render_match (Dst_Is (V4 a b c d)) = ''ip daddr '' @ show_ip (V4 a b c d)"
| "render_match (Dst_Is (V6 ss)) = ''ip6 daddr '' @ show_ip (V6 ss)"
| "render_match (Dst_In4 cs) = ''ip daddr '' @ render_cidrs cs"
| "render_match (Dst_In6 cs) = ''ip6 daddr '' @ render_cidrs cs"
| "render_match (Dport_Is l p) = render_l4 l @ '' dport '' @ dec p"

fun render_rule :: "ks_rule \<Rightarrow> string" where
  "render_rule (Rule ms v) =
     ''    '' @ concat (map (\<lambda>m. render_match m @ '' '') ms)
       @ ''counter '' @ (case v of Ks_Accept \<Rightarrow> ''accept'' | Ks_Drop \<Rightarrow> ''drop'')"
| "render_rule Log_Limited =
     ''    limit rate 30/second log prefix '' @ quoted ''varmlen_ks_drop '' @ '' level info''"

lemma server_line_rule: "server_line ip = render_rule (Rule [Dst_Is ip] Ks_Accept)"
  by (cases ip) simp_all

lemma ks_base_rules:
  "ks_base_lines @ map server_line ips = map (\<lambda>ms. render_rule (Rule ms Ks_Accept)) (ks_accepts ips)"
proof -
  have marks: "hex 0x2023 = ''2023''" "hex 0x2024 = ''2024''" "hex 0x2025 = ''2025''"
    by (simp_all add: hex.simps hex_digit_def)
  have addr: "show_ip (V4 1 1 1 1) = ''1.1.1.1''" by code_simp
  have nums: "dec 53 = ''53''" "dec 443 = ''443''" by code_simp+
  show ?thesis
    by (simp add: ks_base_lines_def ks_accepts_def sanctioned_marks_def bootstrap_ports_def
          server_line_rule marks addr nums del: show_ip.simps)
qed

lemma lan_rules:
  "map (\<lambda>ms. render_rule (Rule ms Ks_Drop)) ks_dns_drops = ks_dns_lines"
  "map (\<lambda>ms. render_rule (Rule ms Ks_Accept)) (ks_lan_accepts lan) = (if lan then ks_lan_lines else [])"
proof -
  have v4: "show_ip (V4 10 0 0 0) = ''10.0.0.0''" "show_ip (V4 172 16 0 0) = ''172.16.0.0''"
    "show_ip (V4 192 168 0 0) = ''192.168.0.0''" "show_ip (V4 169 254 0 0) = ''169.254.0.0''"
    "show_ip (V4 100 64 0 0) = ''100.64.0.0''"
    by code_simp+
  have v6: "show_ip (V6 [0xfe80, 0, 0, 0, 0, 0, 0, 0]) = ''fe80::''" "show_ip (V6 [0xfc00, 0, 0, 0, 0, 0, 0, 0]) = ''fc00::''"
    by (simp_all add: show_v6_def show_segments_def hex.simps hex_digit_def Let_def)
  have n: "dec 7 = ''7''" "dec 8 = ''8''" "dec 10 = ''10''" "dec 12 = ''12''" "dec 16 = ''16''" by code_simp+
  have 4: "''ip daddr '' @ render_cidrs LAN4 = lan4_text"
    by (simp add: render_cidrs_def LAN4_def lan4_text_def v4 n del: show_ip.simps)
  have 6: "''ip6 daddr '' @ render_cidrs LAN6 = lan6_text"
    by (simp add: render_cidrs_def LAN6_def lan6_text_def v6 n del: show_ip.simps)
  have 53: "dec 53 = ''53''" by code_simp
  have t: "render_match (Dst_In4 LAN4) = lan4_text" "render_match (Dst_In6 LAN6) = lan6_text"
    using 4 6 by simp_all
  have d: "render_match (Dport_Is Udp 53) = ''udp dport 53''" "render_match (Dport_Is Tcp 53) = ''tcp dport 53''"
    using 53 by simp_all
  show "map (\<lambda>ms. render_rule (Rule ms Ks_Drop)) ks_dns_drops = ks_dns_lines"
    by (simp add: ks_dns_drops_def ks_dns_lines_def t d del: render_match.simps)
  show "map (\<lambda>ms. render_rule (Rule ms Ks_Accept)) (ks_lan_accepts lan) = (if lan then ks_lan_lines else [])"
    by (simp add: ks_lan_accepts_def ks_lan_lines_def t del: render_match.simps)
qed

text \<open>The text says exactly the rules, in their order.\<close>

lemma killswitch_text:
  "killswitch_ruleset ips lan = unlines (ks_head_lines @ map render_rule (ks_rules ips lan) @ [''  }'', ''}''])"
proof -
  have tail: "map render_rule [Log_Limited, Rule [] Ks_Drop] = ks_tail_lines"
    by (simp add: ks_tail_lines_def)
  have "ks_base_lines @ map server_line ips @ xs = map (\<lambda>ms. render_rule (Rule ms Ks_Accept)) (ks_accepts ips) @ xs" for xs
    using ks_base_rules [of ips] by (metis append_assoc)
  then show ?thesis
    unfolding killswitch_ruleset_def ks_rules_def map_append tail map_map comp_def
    by (simp only: lan_rules append_assoc)
qed

section \<open>What the rules do to a packet\<close>

record packet =
  pk_oif :: string
  pk_reply :: bool
  pk_local :: bool
  pk_mark :: u32
  pk_ct_mark :: u32
  pk_dst :: ip_addr
  pk_l4 :: l4_protocol
  pk_dport :: nat

fun ip_bits :: "ip_addr \<Rightarrow> bool list" where
  "ip_bits (V4 a b c d) = concat (map (\<lambda>w. map (bit w) (rev [0..<8])) [a, b, c, d])"
| "ip_bits (V6 ss) = concat (map (\<lambda>w. map (bit w) (rev [0..<16])) ss)"

fun same_family :: "ip_addr \<Rightarrow> ip_addr \<Rightarrow> bool" where
  "same_family (V4 _ _ _ _) (V4 _ _ _ _) = True"
| "same_family (V6 _) (V6 _) = True"
| "same_family _ _ = False"

definition in_cidr :: "ip_addr \<Rightarrow> cidr \<Rightarrow> bool" where
  "in_cidr a c = (same_family a (fst c) \<and> take (snd c) (ip_bits a) = take (snd c) (ip_bits (fst c)))"

fun ks_matches :: "packet \<Rightarrow> ks_match \<Rightarrow> bool" where
  "ks_matches p (Oif_Is i) = (pk_oif p = i)"
| "ks_matches p Ct_Reply = pk_reply p"
| "ks_matches p Local_Dest = pk_local p"
| "ks_matches p (Meta_Mark m) = (pk_mark p AND 0xffff = m)"
| "ks_matches p (Ct_Mark m) = (pk_ct_mark p AND 0xffff = m)"
| "ks_matches p (Dst_Is a) = (pk_dst p = a)"
| "ks_matches p (Dst_In4 cs) = list_ex (in_cidr (pk_dst p)) cs"
| "ks_matches p (Dst_In6 cs) = list_ex (in_cidr (pk_dst p)) cs"
| "ks_matches p (Dport_Is l n) = (pk_l4 p = l \<and> pk_dport p = n)"

text \<open>The first rule that matches decides; the policy of the chain is to drop.\<close>

fun ks_filter :: "ks_rule list \<Rightarrow> packet \<Rightarrow> ks_verdict" where
  "ks_filter [] p = Ks_Drop"
| "ks_filter (Rule ms v # rs) p = (if list_all (ks_matches p) ms then v else ks_filter rs p)"
| "ks_filter (Log_Limited # rs) p = ks_filter rs p"

lemma ks_filter_same:
  "ks_filter (map (\<lambda>ms. Rule ms v) mss @ rs) p =
     (if list_ex (list_all (ks_matches p)) mss then v else ks_filter rs p)"
  by (induction mss) simp_all

definition lan_destination :: "packet \<Rightarrow> bool" where
  "lan_destination p = list_ex (in_cidr (pk_dst p)) (LAN4 @ LAN6)"

definition plain_dns :: "packet \<Rightarrow> bool" where
  "plain_dns p = (pk_l4 p \<noteq> Other_L4 \<and> pk_dport p = 53)"

definition bootstrap :: "packet \<Rightarrow> bool" where
  "bootstrap p = (pk_dst p = V4 1 1 1 1 \<and> (pk_l4 p, pk_dport p) \<in> set bootstrap_ports)"

text \<open>What passes whatever its port.\<close>

definition sanctioned :: "ip_addr list \<Rightarrow> packet \<Rightarrow> bool" where
  "sanctioned ips p =
     (pk_oif p = ''lo'' \<or> pk_oif p = TUN_IFACE \<or> pk_reply p \<or> pk_local p
      \<or> pk_mark p AND 0xffff \<in> set sanctioned_marks \<or> pk_ct_mark p AND 0xffff \<in> set sanctioned_marks
      \<or> bootstrap p \<or> pk_dst p \<in> set ips)"

lemma ks_accepts_sanctioned: "list_ex (list_all (ks_matches p)) (ks_accepts ips) = sanctioned ips p"
  by (auto simp: ks_accepts_def sanctioned_def bootstrap_def sanctioned_marks_def bootstrap_ports_def
        list_ex_iff)

lemma ks_dns_drops_dns: "list_ex (list_all (ks_matches p)) ks_dns_drops = (plain_dns p \<and> lan_destination p)"
  by (cases "pk_l4 p") (auto simp: ks_dns_drops_def plain_dns_def lan_destination_def)

lemma ks_lan_accepts_lan: "list_ex (list_all (ks_matches p)) (ks_lan_accepts lan) = (lan \<and> lan_destination p)"
  by (auto simp: ks_lan_accepts_def lan_destination_def)

lemma killswitch_accepts:
  "ks_filter (ks_rules ips lan) p = Ks_Accept \<longleftrightarrow>
     sanctioned ips p \<or> (lan \<and> lan_destination p \<and> \<not> plain_dns p)"
  unfolding ks_rules_def ks_filter_same ks_accepts_sanctioned ks_dns_drops_dns ks_lan_accepts_lan
  by auto

end
