(* ===== verification/Helper_Bypass.thy ===== *)
theory Helper_Bypass
  imports Helper_Rules Split_Reconcile
begin

text \<open>
  The per-application bypass of the network helper: the \<open>nft\<close> table that marks and masquerades,
  the socket program on the cgroup, which processes are excluded, and the rules that pin the flows
  such a process already has.
\<close>

section \<open>Running programs\<close>

definition nft_apply :: "os \<Rightarrow> string \<Rightarrow> (trace, string + unit) io" where
  "nft_apply os ruleset =
     map_io (\<lambda>r. case r of
         Inl e \<Rightarrow> Err (err_text e)
       | Inr out \<Rightarrow> if out_success out then Ok () else Err ''nft apply failed'')
       (run_command os ''nft'' [''-f'', ''-''] ruleset)"

definition quietly :: "os \<Rightarrow> string \<Rightarrow> string list \<Rightarrow> (trace, unit) io" where
  "quietly os prog args = map_io (\<lambda>_. ()) (run_command os prog args [])"

text \<open>\<open>read_to_string\<close>: content that is not UTF-8 is an error.\<close>

definition read_string :: "os \<Rightarrow> string \<Rightarrow> (trace, os_error + string) io" where
  "read_string os path =
     map_io (\<lambda>r. try_then r (\<lambda>s. if valid_utf8 s then Ok s
                                  else Err (Os_Error 0 ''stream did not contain valid UTF-8'')))
       (ask_text os (ReadFile path))"

section \<open>The physical interface\<close>

definition is_virtual :: "string \<Rightarrow> bool" where
  "is_virtual name =
     list_ex (\<lambda>p. starts_with p name)
       [''lo'', ''tun'', ''tap'', ''wg'', ''docker'', ''br-'', ''veth'', ''vmnet'', ''varmlen'']"

text \<open>The environment lists the interfaces with an IPv4 address in the order of \<open>getifaddrs\<close>.\<close>

definition pick_physical_iface :: "os \<Rightarrow> (trace, string option) io" where
  "pick_physical_iface os =
     map_io (\<lambda>r. case r of
         Inl _ \<Rightarrow> None
       | Inr xs \<Rightarrow>
           find_map (\<lambda>(raw, ip). let name = from_utf8_lossy raw in
             if \<not> is_virtual name \<and> \<not> is_loopback ip \<and> \<not> is_link_local_v4 ip \<and> \<not> is_unspecified ip
             then Some name else None) xs)
       (ask_addrs os ListInterfaces)"

section \<open>The socket program on a cgroup\<close>

definition BYPASS_TABLE :: string where "BYPASS_TABLE = ''varmlen_bypass''"

definition cg_valid :: "string \<Rightarrow> bool" where
  "cg_valid rel =
     (rel \<noteq> [] \<and> length rel \<le> 512
      \<and> list_all (\<lambda>b. is_alnum b \<or> b = CHR ''/'' \<or> b = CHR ''.'' \<or> b = CHR ''_'' \<or> b = CHR ''-'' \<or> b = CHR ''@'') rel)"

definition bpf_insn :: "bool \<Rightarrow> u8 \<Rightarrow> u8 \<Rightarrow> u8 \<Rightarrow> u16 \<Rightarrow> u32 \<Rightarrow> u8 list" where
  "bpf_insn little code dst src off imm =
     [code, (push_bit 4 src) OR (dst AND 0x0f)] @ ne_bytes little 2 (unat off) @ ne_bytes little 4 (unat imm)"

definition bypass_sock_prog :: "bool \<Rightarrow> u8 list" where
  "bypass_sock_prog little =
     bpf_insn little 0xb4 2 0 0 BYPASS_MARK @ bpf_insn little 0x63 1 2 16 0
     @ bpf_insn little 0xb4 0 0 0 1 @ bpf_insn little 0x95 0 0 0 0"

definition cgroup_dir :: "string \<Rightarrow> string" where
  "cgroup_dir rel = ''/sys/fs/cgroup/'' @ dropWhile (\<lambda>c. c = slash) rel"

text \<open>
  The machine gives the byte order and where the program and the licence lie in memory.  The
  attribute blocks are the same that the daemon lays out.
\<close>

record helper_machine =
  hm_little :: bool
  hm_program_ptr :: nat
  hm_license_ptr :: nat

definition bpf_result :: "os \<Rightarrow> nat \<Rightarrow> u8 list option \<Rightarrow> (trace, string + nat) io" where
  "bpf_result os cmd attributes =
     (case attributes of
        None \<Rightarrow> return_io (Err ''panic'')
      | Some bytes \<Rightarrow> map_io (map_err err_text) (ask_number os (BpfCall cmd bytes)))"

definition bypass_attach :: "os \<Rightarrow> helper_machine \<Rightarrow> nat \<Rightarrow> (trace, string + unit) io" where
  "bypass_attach os hm cg =
     try_io (map_io (map_err (\<lambda>e. ''prog load: '' @ e))
               (bpf_result os 5 (load_attributes (hm_little hm) (hm_program_ptr hm) (hm_license_ptr hm)))) (\<lambda>prog.
     then_io (map_io (\<lambda>r. try_then (map_err (\<lambda>e. ''attach: '' @ e) r) (\<lambda>_. Ok ()))
               (bpf_result os 8 (attach_attributes (hm_little hm) cg prog))) (\<lambda>r.
     then_io (ask os (CloseFd prog)) (\<lambda>_. return_io r)))"

definition bypass_bpf :: "os \<Rightarrow> helper_machine \<Rightarrow> string \<Rightarrow> bool \<Rightarrow> (trace, string + unit) io" where
  "bypass_bpf os hm rel attach =
     (let dir = cgroup_dir rel in
      if char_of (0 :: nat) \<in> set dir then return_io (Err ''bad path'')
      else try_io (map_io (map_err (\<lambda>e. ''open cgroup: '' @ err_text e)) (ask_number os (OpenDir dir))) (\<lambda>cg.
           then_io (if attach then bypass_attach os hm cg
                    else map_io (\<lambda>r. try_then r (\<lambda>_. Ok ())) (bpf_result os 9 (detach_attributes (hm_little hm) cg))) (\<lambda>r.
           then_io (ask os (CloseFd cg)) (\<lambda>_. return_io r))))"

section \<open>The bypass table\<close>

definition tab :: string where "tab = [char_of (9 :: nat)]"

definition bypass_lines :: "nat \<Rightarrow> string \<Rightarrow> string \<Rightarrow> string list" where
  "bypass_lines level path iface =
     [''add table inet '' @ BYPASS_TABLE, ''delete table inet '' @ BYPASS_TABLE,
      ''table inet '' @ BYPASS_TABLE @ '' {'',
      tab @ ''chain mangle {'',
      tab @ tab @ ''type route hook output priority mangle; policy accept;'',
      tab @ tab @ ''socket cgroupv2 level '' @ dec level @ '' '' @ quoted path @ '' meta mark set 0x2025'',
      tab @ ''}'',
      tab @ ''chain nat {'',
      tab @ tab @ ''type nat hook postrouting priority srcnat; policy accept;'',
      tab @ tab @ ''meta mark 0x2025 oifname '' @ quoted iface @ '' masquerade'',
      tab @ ''}'',
      ''}'']"

definition path_parts :: "string \<Rightarrow> string list" where
  "path_parts path = filter (\<lambda>s. s \<noteq> []) (split_on (CHR ''/'') path)"

definition bypass_path_error :: "string \<Rightarrow> string option" where
  "bypass_path_error path =
     (if \<not> cg_valid path then Some ''invalid cgroup path''
      else if path_parts path = [] then Some ''empty cgroup path'' else None)"

definition bypass_ruleset :: "string \<Rightarrow> string \<Rightarrow> string + string" where
  "bypass_ruleset path iface =
     (case bypass_path_error path of
        Some e \<Rightarrow> Err e
      | None \<Rightarrow>
          if iface = [] \<or> \<not> list_all interface_char iface then Err ''bad interface name''
          else Ok (unlines (bypass_lines (length (path_parts path)) path iface)))"

definition bypass_iface :: "os \<Rightarrow> string option \<Rightarrow> (trace, string + string) io" where
  "bypass_iface os iface =
     (case iface of
        Some i \<Rightarrow> return_io (Ok i)
      | None \<Rightarrow> map_io (ok_or ''no physical interface'') (pick_physical_iface os))"

text \<open>The path is checked before the interface is looked for.\<close>

definition bypass_up :: "os \<Rightarrow> helper_machine \<Rightarrow> string \<Rightarrow> string option \<Rightarrow> (trace, string + unit) io" where
  "bypass_up os hm path iface_override =
     (case bypass_path_error path of
        Some e \<Rightarrow> return_io (Err e)
      | None \<Rightarrow>
          try_io (bypass_iface os iface_override) (\<lambda>iface.
          try_io (return_io (bypass_ruleset path iface)) (\<lambda>ruleset.
          try_io (nft_apply os ruleset) (\<lambda>_.
          then_io (bypass_bpf os hm path True) (\<lambda>r.
          then_io (case r of
              Inl e \<Rightarrow> ask os (PrintErr (''bypass: cgroup socket-mark BPF unavailable ('' @ e
                                           @ ''); masquerade fallback only''))
            | Inr _ \<Rightarrow> return_io Done) (\<lambda>_. return_io (Ok ())))))))"

definition bypass_down :: "os \<Rightarrow> helper_machine \<Rightarrow> string option \<Rightarrow> (trace, unit) io" where
  "bypass_down os hm cgroup_rel =
     then_io (quietly os ''nft'' [''delete'', ''table'', ''inet'', BYPASS_TABLE]) (\<lambda>_.
     case cgroup_rel of
       None \<Rightarrow> return_io ()
     | Some rel \<Rightarrow> if cg_valid rel then map_io (\<lambda>_. ()) (bypass_bpf os hm rel False) else return_io ())"

section \<open>Excluded processes\<close>

definition COMM_MAX :: nat where "COMM_MAX = 15"

definition ends_with_slash :: "string \<Rightarrow> bool" where
  "ends_with_slash s = (s \<noteq> [] \<and> last s = slash)"

definition id_matches :: "string \<Rightarrow> string \<Rightarrow> string \<Rightarrow> string \<Rightarrow> string \<Rightarrow> bool" where
  "id_matches app comm exe exe_base arg0_base =
     (if app = [] then False
      else if ends_with_slash app then exe \<noteq> [] \<and> starts_with app exe
      else if eq_ignore_ascii_case comm app \<or> eq_ignore_ascii_case exe_base app \<or> exe = app
              \<or> (arg0_base \<noteq> [] \<and> eq_ignore_ascii_case arg0_base app) then True
      else length app > COMM_MAX \<and> length comm = COMM_MAX \<and> eq_ignore_ascii_case (take COMM_MAX app) comm)"

definition arg0_basename :: "string \<Rightarrow> string" where
  "arg0_basename cmdline =
     after_last (\<lambda>c. c = slash \<or> c = backslash)
       (from_utf8_lossy (takeWhile (\<lambda>c. c \<noteq> char_of (0 :: nat)) cmdline))"

definition text_or_empty :: "os_error + string \<Rightarrow> string" where
  "text_or_empty r = (case r of Inl _ \<Rightarrow> [] | Inr s \<Rightarrow> s)"

text \<open>What \<open>pid_matches_excluded\<close> knows of a process: comm, executable, its base name, base name of argument zero.\<close>

type_synonym process_names = "string \<times> string \<times> string \<times> string"

definition process_names :: "os \<Rightarrow> nat \<Rightarrow> (trace, process_names) io" where
  "process_names os pid =
     then_io (read_string os (proc_file pid ''comm'')) (\<lambda>comm.
     then_io (ask_text os (ReadLink (proc_file pid ''exe''))) (\<lambda>exe.
     then_io (ask_text os (ReadFile (proc_file pid ''cmdline''))) (\<lambda>cmdline.
     return_io
       (trim (text_or_empty comm),
        from_utf8_lossy (text_or_empty exe),
        (case exe of Inl _ \<Rightarrow> [] | Inr p \<Rightarrow> (case file_name p of None \<Rightarrow> [] | Some n \<Rightarrow> from_utf8_lossy n)),
        (case cmdline of Inl _ \<Rightarrow> [] | Inr b \<Rightarrow> arg0_basename b)))))"

fun names_match :: "string list \<Rightarrow> process_names \<Rightarrow> bool" where
  "names_match excluded (comm, exe, exe_base, arg0) =
     list_ex (\<lambda>app. id_matches app comm exe exe_base arg0) excluded"

definition pid_matches_excluded :: "os \<Rightarrow> nat \<Rightarrow> string list \<Rightarrow> (trace, bool) io" where
  "pid_matches_excluded os pid excluded = map_io (names_match excluded) (process_names os pid)"

definition bypass_move_if_match :: "os \<Rightarrow> string \<Rightarrow> string list \<Rightarrow> nat \<Rightarrow> (trace, unit) io" where
  "bypass_move_if_match os procs excluded pid =
     then_io (pid_matches_excluded os pid excluded) (\<lambda>hit.
       if hit then map_io (\<lambda>_. ()) (ask os (WriteFile procs (dec pid))) else return_io ())"

text \<open>The names of \<open>/proc\<close> that are process ids.\<close>

definition pid_entry :: "string \<Rightarrow> nat option" where
  "pid_entry name = (if valid_utf8 name then parse_u32 name else None)"

definition proc_pids :: "os \<Rightarrow> (trace, nat list) io" where
  "proc_pids os =
     map_io (\<lambda>r. case r of Inl _ \<Rightarrow> [] | Inr names \<Rightarrow> List.map_filter pid_entry names) (ask_names os (ReadDir ''/proc''))"

definition bypass_sweep :: "os \<Rightarrow> string \<Rightarrow> string list \<Rightarrow> (trace, unit) io" where
  "bypass_sweep os procs excluded =
     then_io (proc_pids os) (\<lambda>pids. ignore_all (map (bypass_move_if_match os procs excluded) pids))"

end
