(* ===== verification/Helper_Pins.thy ===== *)
theory Helper_Pins
  imports Helper_Bypass
begin

text \<open>
  The rules of the network helper that keep the open flows of excluded processes on the physical
  path: the sockets of those processes, their peers in \<open>/proc/net\<close>, and one \<open>nft\<close> batch.  A
  \<open>BTreeSet\<close> is a list in ascending order without repetition.
\<close>

section \<open>Addresses of \<open>/proc/net\<close>\<close>

fun word_bytes :: "nat \<Rightarrow> u8 list" where
  "word_bytes n = [of_nat (n mod 256), of_nat (n div 256 mod 256), of_nat (n div 65536 mod 256), of_nat (n div 16777216 mod 256)]"

definition hex_to_ipv4 :: "string \<Rightarrow> ip_addr option" where
  "hex_to_ipv4 h =
     (if length h \<noteq> 8 then None
      else map_option (\<lambda>n. case word_bytes n of [a, b, c, d] \<Rightarrow> V4 a b c d)
             (parse_uint_radix 16 u32_max h))"

fun join_u16 :: "u8 list \<Rightarrow> u16 list" where
  "join_u16 (a # b # bs) = (ucast a * 256 + ucast b) # join_u16 bs"
| "join_u16 _ = []"

fun hex_words :: "string list \<Rightarrow> u8 list option" where
  "hex_words [] = Some []"
| "hex_words (h # hs) =
     Option.bind (parse_uint_radix 16 u32_max h) (\<lambda>n. map_option (\<lambda>bs. word_bytes n @ bs) (hex_words hs))"

text \<open>
  Four slices of eight bytes.  A slice inside a character would panic; the kernel prints ASCII, and
  here such a text is no number.
\<close>

definition hex_to_ipv6 :: "string \<Rightarrow> ip_addr option" where
  "hex_to_ipv6 h =
     (if length h \<noteq> 32 then None
      else map_option (\<lambda>bs. V6 (join_u16 bs))
             (hex_words [take 8 h, take 8 (drop 8 h), take 8 (drop 16 h), take 8 (drop 24 h)]))"

section \<open>The set of pins\<close>

fun ip_key :: "ip_addr \<Rightarrow> nat" where
  "ip_key (V4 a b c d) = foldl (\<lambda>n w. n * 256 + unat w) 0 [a, b, c, d]"
| "ip_key (V6 ss) = foldl (\<lambda>n w. n * 65536 + unat w) 0 ss"

fun set_insert :: "('a \<Rightarrow> nat) \<Rightarrow> 'a \<Rightarrow> 'a list \<Rightarrow> 'a list" where
  "set_insert key x [] = [x]"
| "set_insert key x (y # ys) =
     (if key x < key y then x # y # ys else if key x = key y then y # ys else y # set_insert key x ys)"

record flow_pins =
  fp_peers4 :: "ip_addr list"
  fp_peers6 :: "ip_addr list"
  fp_udp_sports :: "nat list"

definition no_pins :: flow_pins where
  "no_pins = \<lparr>fp_peers4 = [], fp_peers6 = [], fp_udp_sports = []\<rparr>"

definition pin_lines :: "flow_pins \<Rightarrow> string list" where
  "pin_lines p =
     map (\<lambda>ip. ''add rule inet '' @ BYPASS_TABLE @ '' mangle ip daddr '' @ show_ip ip @ '' meta mark set 0x2025'') (fp_peers4 p)
     @ map (\<lambda>ip. ''add rule inet '' @ BYPASS_TABLE @ '' mangle ip6 daddr '' @ show_ip ip @ '' meta mark set 0x2025'') (fp_peers6 p)
     @ map (\<lambda>n. ''add rule inet '' @ BYPASS_TABLE @ '' mangle udp sport '' @ dec n @ '' meta mark set 0x2025'') (fp_udp_sports p)"

definition pin_rules_batch :: "flow_pins \<Rightarrow> string" where
  "pin_rules_batch p = unlines (pin_lines p)"

section \<open>The sockets of excluded processes\<close>

definition strip_bracket :: "string \<Rightarrow> string option" where
  "strip_bracket s = (if s \<noteq> [] \<and> last s = CHR '']'' then Some (butlast s) else None)"

definition socket_inode :: "string \<Rightarrow> string option" where
  "socket_inode target =
     (if valid_utf8 target then Option.bind (strip_prefix ''socket:['' target) strip_bracket else None)"

fun link_inodes :: "os \<Rightarrow> string \<Rightarrow> string list \<Rightarrow> (trace, string list) io" where
  "link_inodes os dir [] = return_io []"
| "link_inodes os dir (name # names) =
     then_io (ask_text os (ReadLink (dir @ ''/'' @ name))) (\<lambda>r.
     map_io (\<lambda>rest. (case Option.bind (res_ok r) socket_inode of None \<Rightarrow> [] | Some i \<Rightarrow> [i]) @ rest)
       (link_inodes os dir names))"

definition process_inodes :: "os \<Rightarrow> nat \<Rightarrow> (trace, string list) io" where
  "process_inodes os pid =
     then_io (ask_names os (ReadDir (proc_file pid ''fd''))) (\<lambda>r. case r of
       Inl _ \<Rightarrow> return_io []
     | Inr names \<Rightarrow> link_inodes os (proc_file pid ''fd'') names)"

fun excluded_inodes :: "os \<Rightarrow> string list \<Rightarrow> nat list \<Rightarrow> (trace, string list) io" where
  "excluded_inodes os excluded [] = return_io []"
| "excluded_inodes os excluded (pid # pids) =
     then_io (pid_matches_excluded os pid excluded) (\<lambda>hit.
     then_io (if hit then process_inodes os pid else return_io []) (\<lambda>inodes.
     map_io ((@) inodes) (excluded_inodes os excluded pids)))"

section \<open>Their flows\<close>

definition hex_port :: "string \<Rightarrow> nat option" where
  "hex_port = parse_uint_radix 16 u16_max"

definition pin_peer :: "bool \<Rightarrow> string \<Rightarrow> flow_pins \<Rightarrow> flow_pins" where
  "pin_peer is6 ip_hex p =
     (case (if is6 then hex_to_ipv6 ip_hex else hex_to_ipv4 ip_hex) of
        None \<Rightarrow> p
      | Some ip \<Rightarrow>
          if is_loopback ip \<or> is_unspecified ip then p
          else if is6 then p\<lparr>fp_peers6 := set_insert ip_key ip (fp_peers6 p)\<rparr>
          else p\<lparr>fp_peers4 := set_insert ip_key ip (fp_peers4 p)\<rparr>)"

text \<open>A UDP socket without a peer keeps its local port; a TCP socket without one listens.\<close>

definition pin_sport :: "bool \<Rightarrow> string \<Rightarrow> flow_pins \<Rightarrow> flow_pins" where
  "pin_sport is_udp local p =
     (if \<not> is_udp then p
      else case Option.bind (split_once (CHR '':'') local) (\<lambda>(_, port). hex_port port) of
        None \<Rightarrow> p
      | Some n \<Rightarrow> if n = 0 then p else p\<lparr>fp_udp_sports := set_insert (\<lambda>k. k) n (fp_udp_sports p)\<rparr>)"

definition pin_flow :: "bool \<Rightarrow> bool \<Rightarrow> string list \<Rightarrow> flow_pins \<Rightarrow> string \<Rightarrow> flow_pins" where
  "pin_flow is6 is_udp inodes p line =
     (let cols = split_whitespace line in
      if length cols < 10 \<or> cols ! 9 \<notin> set inodes then p
      else case split_once (CHR '':'') (cols ! 2) of
        None \<Rightarrow> p
      | Some (ip_hex, port_hex) \<Rightarrow>
          if (case hex_port port_hex of None \<Rightarrow> 0 | Some n \<Rightarrow> n) = 0 then pin_sport is_udp (cols ! 1) p
          else pin_peer is6 ip_hex p)"

definition NET_FILES :: "(string \<times> bool) list" where
  "NET_FILES = [(''/proc/net/tcp'', False), (''/proc/net/udp'', False), (''/proc/net/tcp6'', True), (''/proc/net/udp6'', True)]"

fun pin_files :: "os \<Rightarrow> string list \<Rightarrow> (string \<times> bool) list \<Rightarrow> flow_pins \<Rightarrow> (trace, flow_pins) io" where
  "pin_files os inodes [] p = return_io p"
| "pin_files os inodes ((path, is6) # files) p =
     then_io (read_string os path) (\<lambda>r.
     pin_files os inodes files
       (case r of
          Inl _ \<Rightarrow> p
        | Inr content \<Rightarrow> foldl (pin_flow is6 (str_contains ''udp'' path) inodes) p (drop 1 (str_lines content))))"

definition pin_existing_excluded_flows :: "os \<Rightarrow> string list \<Rightarrow> (trace, unit) io" where
  "pin_existing_excluded_flows os excluded =
     then_io (proc_pids os) (\<lambda>pids.
     then_io (excluded_inodes os excluded pids) (\<lambda>inodes.
     if inodes = [] then return_io ()
     else then_io (pin_files os inodes NET_FILES no_pins) (\<lambda>p.
       let batch = pin_rules_batch p in
       if batch = [] then return_io () else map_io (\<lambda>_. ()) (nft_apply os batch))))"

section \<open>Properties\<close>

lemma set_set_insert: "set (set_insert key x ys) \<subseteq> insert x (set ys)"
  by (induction ys) auto

lemma set_insert_sorted:
  "sorted_wrt (<) (map key ys) \<Longrightarrow> sorted_wrt (<) (map key (set_insert key x ys))"
proof (induction ys)
  case Nil
  then show ?case by simp
next
  case (Cons y ys)
  have "\<forall>z \<in> set (set_insert key x ys). z = x \<or> z \<in> set ys" using set_set_insert [of key x ys] by auto
  with Cons show ?case by fastforce
qed

text \<open>What may be pinned: ordered sets of addresses and ports that can be the other end of a flow.\<close>

definition pins_ok :: "flow_pins \<Rightarrow> bool" where
  "pins_ok p \<longleftrightarrow>
     sorted_wrt (<) (map ip_key (fp_peers4 p)) \<and> sorted_wrt (<) (map ip_key (fp_peers6 p))
     \<and> sorted_wrt (<) (fp_udp_sports p)
     \<and> list_all (\<lambda>ip. (\<exists>a b c d. ip = V4 a b c d) \<and> \<not> is_loopback ip \<and> \<not> is_unspecified ip) (fp_peers4 p)
     \<and> list_all (\<lambda>ip. (\<exists>ss. ip = V6 ss) \<and> \<not> is_loopback ip \<and> \<not> is_unspecified ip) (fp_peers6 p)
     \<and> list_all (\<lambda>n. 0 < n \<and> n \<le> 65535) (fp_udp_sports p)"

lemma list_all_insert: "list_all P xs \<Longrightarrow> P x \<Longrightarrow> list_all P (set_insert key x xs)"
  using set_set_insert [of key x xs] by (auto simp: list_all_iff)

lemma hex_to_ipv4_V4: "hex_to_ipv4 h = Some ip \<Longrightarrow> \<exists>a b c d. ip = V4 a b c d"
  by (auto simp: hex_to_ipv4_def split: if_splits)

lemma hex_to_ipv6_V6: "hex_to_ipv6 h = Some ip \<Longrightarrow> \<exists>ss. ip = V6 ss"
  by (auto simp: hex_to_ipv6_def split: if_splits)

lemma pin_flow_ok: "pins_ok p \<Longrightarrow> pins_ok (pin_flow is6 is_udp inodes p line)"
proof -
  assume p: "pins_ok p"
  have peer: "pins_ok (pin_peer is6 h p)" for h
    using p hex_to_ipv4_V4 [of h] hex_to_ipv6_V6 [of h]
    by (auto simp: pin_peer_def pins_ok_def intro!: set_insert_sorted list_all_insert split: option.splits)
  have sport: "pins_ok (pin_sport is_udp l p)" for l
    using p set_insert_sorted [of "\<lambda>k. k" "fp_udp_sports p"]
    by (auto simp: pin_sport_def pins_ok_def hex_port_def u16_max_def bind_eq_Some_conv
          intro!: list_all_insert split: option.splits dest!: parse_uint_radix_le)
  show ?thesis
    using p peer sport by (auto simp: pin_flow_def Let_def split: option.splits)
qed

lemma pin_files_ok: "pins_ok p \<Longrightarrow> pin_files os inodes files p tr = (p', tr') \<Longrightarrow> pins_ok p'"
proof (induction files arbitrary: p tr)
  case Nil
  then show ?case by simp
next
  case (Cons pf files)
  obtain path is6 where pf: "pf = (path, is6)" by fastforce
  have lines: "pins_ok q \<Longrightarrow> pins_ok (foldl (pin_flow is6 u inodes) q ls)" for q u ls
    by (induction ls arbitrary: q) (simp_all add: pin_flow_ok)
  obtain r tr1 where r: "read_string os path tr = (r, tr1)" by fastforce
  let ?q = "case r of Inl _ \<Rightarrow> p
        | Inr content \<Rightarrow> foldl (pin_flow is6 (str_contains ''udp'' path) inodes) p (drop 1 (str_lines content))"
  have "pin_files os inodes files ?q tr1 = (p', tr')"
    using Cons.prems(2) r by (simp add: pf then_io_def)
  moreover have "pins_ok ?q" using Cons.prems(1) lines by (cases r) simp_all
  ultimately show ?case by (rule Cons.IH [rotated])
qed

lemma no_pins_ok: "pins_ok no_pins"
  by (simp add: no_pins_def pins_ok_def)

text \<open>A flow that is not of one of the sockets is left alone.\<close>

lemma pin_flow_other: "split_whitespace line ! 9 \<notin> set inodes \<Longrightarrow> pin_flow is6 is_udp inodes p line = p"
  by (simp add: pin_flow_def Let_def)

text \<open>Every line of a batch adds one rule to the chain of the bypass table, and only sets its mark.\<close>

lemma pin_lines_shape:
  "l \<in> set (pin_lines p) \<Longrightarrow>
     \<exists>m. l = ''add rule inet varmlen_bypass mangle '' @ m @ '' meta mark set 0x2025''"
  by (auto simp: pin_lines_def BYPASS_TABLE_def)

text \<open>The four octets are the bytes of the printed number, lowest first.\<close>

lemma word_bytes_value:
  assumes "n < 2 ^ 32" and "word_bytes n = [a, b, c, d]"
  shows "unat a + 256 * unat b + 65536 * unat c + 16777216 * unat d = n"
proof -
  have bytes: "unat (of_nat (k mod 256) :: u8) = k mod 256" for k
    by (simp add: unat_of_nat take_bit_nat_eq_self)
  have top: "n div 16777216 mod 256 = n div 16777216"
    using assms(1) by simp
  have "unat (of_nat (n div 16777216) :: u8) = n div 16777216"
    using bytes [of "n div 16777216"] unfolding top .
  moreover have "n mod 256 + 256 * (n div 256 mod 256) + 65536 * (n div 65536 mod 256) + 16777216 * (n div 16777216) = n"
  proof -
    have "n = n mod 256 + 256 * (n div 256)" by simp
    moreover have "n div 256 = n div 256 mod 256 + 256 * (n div 65536)"
      using mod_mult_div_eq [of "n div 256" 256] div_mult2_eq [of n 256 256] by simp
    moreover have "n div 65536 = n div 65536 mod 256 + 256 * (n div 16777216)"
      using mod_mult_div_eq [of "n div 65536" 256] div_mult2_eq [of n 65536 256] by simp
    ultimately show ?thesis by linarith
  qed
  ultimately show ?thesis using assms(2) bytes top by auto
qed

lemma hex_to_ipv4_value:
  assumes "hex_to_ipv4 h = Some (V4 a b c d)"
  shows "parse_uint_radix 16 u32_max h = Some (unat a + 256 * unat b + 65536 * unat c + 16777216 * unat d)"
proof -
  obtain n where n: "parse_uint_radix 16 u32_max h = Some n" and w: "word_bytes n = [a, b, c, d]"
    using assms by (auto simp: hex_to_ipv4_def split: if_splits)
  have "n < 2 ^ 32" using parse_uint_radix_le [OF n] by (simp add: u32_max_def)
  from word_bytes_value [OF this w] n show ?thesis by simp
qed

end
