(* ===== verification/Helper_Route.thy ===== *)
theory Helper_Route
  imports Helper_Pins
begin

text \<open>
  The routing of the network helper: the physical default route, the table that marked dials use,
  the pins of the servers, the flip of the default into the tunnel with IPv6 closed, and the
  teardown.
\<close>

section \<open>Commands\<close>

definition ip_req :: "os \<Rightarrow> string list \<Rightarrow> (trace, string + unit) io" where
  "ip_req os args =
     map_io (\<lambda>r. case r of
         Inl e \<Rightarrow> Err (''ip: '' @ err_text e)
       | Inr out \<Rightarrow>
           if out_success out then Ok ()
           else Err (''ip '' @ join_with '' '' args @ '': '' @ trim (from_utf8_lossy (out_stderr out))))
       (run_command os ''ip'' args [])"

definition ip_quiet :: "os \<Rightarrow> string list \<Rightarrow> (trace, unit) io" where
  "ip_quiet os args = quietly os ''ip'' args"

definition write_file :: "os \<Rightarrow> string \<Rightarrow> string \<Rightarrow> (trace, string + unit) io" where
  "write_file os path val =
     map_io (map_err (\<lambda>e. ''write '' @ path @ '': '' @ err_text e)) (do_call os (WriteFile path val))"

definition write_state :: "os \<Rightarrow> string \<Rightarrow> string \<Rightarrow> (trace, unit) io" where
  "write_state os path val =
     ignore_all [ask os (MakeDirMode ''/run/varmlen'' 448), ask os (WriteNoFollow path val)]"

definition delete_tun :: "os \<Rightarrow> (trace, unit) io" where
  "delete_tun os = ip_quiet os [''link'', ''delete'', ''dev'', TUN_IFACE]"

section \<open>The physical default route\<close>

text \<open>The gateway and interface of a route line, where it is not the tunnel's.\<close>

definition route_line :: "string \<Rightarrow> (string option \<times> string) option" where
  "route_line line =
     (if str_contains (''dev '' @ TUN_IFACE) line then None
      else let toks = split_whitespace line in
           map_option (\<lambda>d. (word_after ''via'' toks, d)) (word_after ''dev'' toks))"

definition helper_default_route :: "os \<Rightarrow> (trace, string + string option \<times> string) io" where
  "helper_default_route os =
     map_io (\<lambda>r. case r of
         Inl e \<Rightarrow> Err (''ip route: '' @ err_text e)
       | Inr out \<Rightarrow> ok_or ''no physical default route found''
                     (find_map route_line (str_lines (from_utf8_lossy (out_stdout out)))))
       (run_command os ''ip'' [''-4'', ''route'', ''show'', ''default''] [])"

definition route_line6 :: "string \<Rightarrow> (string \<times> string) option" where
  "route_line6 line =
     (case route_line line of
        Some (Some g, d) \<Rightarrow> Some (g, d)
      | _ \<Rightarrow> None)"

definition helper_default_route6 :: "os \<Rightarrow> (trace, (string \<times> string) option) io" where
  "helper_default_route6 os =
     map_io (\<lambda>r. case r of
         Inl _ \<Rightarrow> None
       | Inr out \<Rightarrow> find_map route_line6 (str_lines (from_utf8_lossy (out_stdout out))))
       (run_command os ''ip'' [''-6'', ''route'', ''show'', ''default''] [])"

section \<open>The pieces of a set-up\<close>

definition TUN_ADDR :: string where "TUN_ADDR = ''172.19.0.1/30''"
definition PHYS_TABLE :: string where "PHYS_TABLE = ''100''"
definition DNS_MARK :: string where "DNS_MARK = ''0x2023''"
definition DNS_TABLE :: string where "DNS_TABLE = ''101''"
definition HELPER_DIAL_MARK :: nat where "HELPER_DIAL_MARK = 0x2024"
definition HELPER_BYPASS_MARK :: nat where "HELPER_BYPASS_MARK = 0x2025"
definition RP_ALL :: string where "RP_ALL = ''/proc/sys/net/ipv4/conf/all/rp_filter''"
definition RP_STATE :: string where "RP_STATE = ''/run/varmlen/rp_filter_all.orig''"
definition SERVERS_STATE :: string where "SERVERS_STATE = ''/run/varmlen/servers''"
definition SERVERS6_STATE :: string where "SERVERS6_STATE = ''/run/varmlen/servers6''"
definition BYPASS_PINS_STATE :: string where "BYPASS_PINS_STATE = ''/run/varmlen/bypass_pins''"

definition mark_text :: "nat \<Rightarrow> string" where
  "mark_text m = ''0x'' @ hex m"

definition ensure_tun :: "os \<Rightarrow> (trace, string + unit) io" where
  "ensure_tun os =
     then_io (ask_flag os (PathExists (''/sys/class/net/'' @ TUN_IFACE))) (\<lambda>there.
     then_io (if there then return_io ()
              else ip_quiet os [''tuntap'', ''add'', ''dev'', TUN_IFACE, ''mode'', ''tun'']) (\<lambda>_.
     then_io (ip_quiet os [''addr'', ''replace'', TUN_ADDR, ''dev'', TUN_IFACE]) (\<lambda>_.
     ip_req os [''link'', ''set'', TUN_IFACE, ''up''])))"

definition set_rp_filter_loose :: "os \<Rightarrow> (trace, string + unit) io" where
  "set_rp_filter_loose os =
     then_io (read_string os RP_ALL) (\<lambda>orig.
     then_io (write_state os RP_STATE (trim (text_or_empty orig))) (\<lambda>_.
     write_file os RP_ALL ''2''))"

definition add_rule_fwmark :: "os \<Rightarrow> bool \<Rightarrow> nat \<Rightarrow> string \<Rightarrow> (trace, string + unit) io" where
  "add_rule_fwmark os v6 mark table =
     (let fam = (if v6 then ''-6'' else ''-4'') in
      then_io (ip_quiet os [fam, ''rule'', ''del'', ''fwmark'', mark_text mark, ''lookup'', table]) (\<lambda>_.
      ip_req os [fam, ''rule'', ''add'', ''fwmark'', mark_text mark, ''lookup'', table]))"

definition dns_policy_setup_commands :: "string list list" where
  "dns_policy_setup_commands =
     [[''route'', ''replace'', ''default'', ''dev'', TUN_IFACE, ''table'', DNS_TABLE],
      [''rule'', ''del'', ''priority'', ''90'', ''fwmark'', DNS_MARK, ''lookup'', DNS_TABLE],
      [''rule'', ''add'', ''priority'', ''90'', ''fwmark'', DNS_MARK, ''lookup'', DNS_TABLE]]"

definition dns_policy_teardown_commands :: "string list list" where
  "dns_policy_teardown_commands =
     [[''rule'', ''del'', ''priority'', ''90'', ''fwmark'', DNS_MARK, ''lookup'', DNS_TABLE],
      [''route'', ''flush'', ''table'', DNS_TABLE]]"

definition install_dns_policy_route :: "os \<Rightarrow> (trace, string + unit) io" where
  "install_dns_policy_route os =
     try_io (ip_req os (dns_policy_setup_commands ! 0)) (\<lambda>_.
     then_io (ip_quiet os (dns_policy_setup_commands ! 1)) (\<lambda>_.
     ip_req os (dns_policy_setup_commands ! 2)))"

definition remove_dns_policy_route :: "os \<Rightarrow> (trace, unit) io" where
  "remove_dns_policy_route os = ignore_all (map (ip_quiet os) dns_policy_teardown_commands)"

text \<open>The table of the marked dials, IPv4 and, where the machine has a default route of it, IPv6.\<close>

definition via_dev :: "string option \<Rightarrow> string \<Rightarrow> string list" where
  "via_dev gw iface = (case gw of None \<Rightarrow> [] | Some g \<Rightarrow> [''via'', g]) @ [''dev'', iface]"

definition PHYS_THROWS :: "string list" where
  "PHYS_THROWS =
     [''10.0.0.0/8'', ''172.16.0.0/12'', ''192.168.0.0/16'', ''169.254.0.0/16'', ''100.64.0.0/10'',
      ''224.0.0.0/4'', ''255.255.255.255/32'']"

definition PHYS_THROWS6 :: "string list" where
  "PHYS_THROWS6 = [''fe80::/10'', ''fc00::/7'', ''ff00::/8'']"

definition lay_physical :: "os \<Rightarrow> string option \<Rightarrow> string \<Rightarrow> (trace, string + unit) io" where
  "lay_physical os gw iface =
     all_ok
       (ip_req os ([''route'', ''replace'', ''default''] @ via_dev gw iface @ [''table'', PHYS_TABLE])
        # map (\<lambda>net. ip_req os [''route'', ''replace'', ''throw'', net, ''table'', PHYS_TABLE]) PHYS_THROWS
        @ [add_rule_fwmark os False HELPER_DIAL_MARK PHYS_TABLE, add_rule_fwmark os False HELPER_BYPASS_MARK PHYS_TABLE])"

definition lay_physical6 :: "os \<Rightarrow> (string \<times> string) option \<Rightarrow> (trace, string + unit) io" where
  "lay_physical6 os v6 =
     (case v6 of
        None \<Rightarrow> return_io (Ok ())
      | Some (g6, if6) \<Rightarrow>
          all_ok
            (ip_req os [''-6'', ''route'', ''replace'', ''default'', ''via'', g6, ''dev'', if6, ''table'', PHYS_TABLE]
             # map (\<lambda>net. ip_req os [''-6'', ''route'', ''replace'', ''throw'', net, ''table'', PHYS_TABLE]) PHYS_THROWS6
             @ [add_rule_fwmark os True HELPER_DIAL_MARK PHYS_TABLE, add_rule_fwmark os True HELPER_BYPASS_MARK PHYS_TABLE]))"

text \<open>The pins of the servers and the lines recorded for the teardown.\<close>

definition pin_args :: "string option \<Rightarrow> string \<Rightarrow> ip_addr \<Rightarrow> string list" where
  "pin_args gw iface ip = [''route'', ''replace'', show_ip ip @ ''/32''] @ via_dev gw iface"

fun pin_servers :: "os \<Rightarrow> string option \<Rightarrow> string \<Rightarrow> ip_addr list \<Rightarrow> (trace, string + string) io" where
  "pin_servers os gw iface [] = return_io (Ok [])"
| "pin_servers os gw iface (V4 a b c d # ips) =
     try_io (ip_req os (pin_args gw iface (V4 a b c d))) (\<lambda>_.
     try_io (pin_servers os gw iface ips) (\<lambda>lines.
     return_io (Ok (show_ip (V4 a b c d) @ newline # lines))))"
| "pin_servers os gw iface (V6 ss # ips) = pin_servers os gw iface ips"

definition pin_args6 :: "string \<Rightarrow> string \<Rightarrow> ip_addr \<Rightarrow> string list" where
  "pin_args6 g6 if6 ip = [''-6'', ''route'', ''replace'', show_ip ip @ ''/128'', ''via'', g6, ''dev'', if6]"

fun pin_servers6 :: "os \<Rightarrow> (string \<times> string) option \<Rightarrow> ip_addr list \<Rightarrow> (trace, string + string) io" where
  "pin_servers6 os v6 [] = return_io (Ok [])"
| "pin_servers6 os v6 (V4 a b c d # ips) = pin_servers6 os v6 ips"
| "pin_servers6 os v6 (V6 ss # ips) =
     (case v6 of
        None \<Rightarrow> pin_servers6 os v6 ips
      | Some (g6, if6) \<Rightarrow>
          try_io (ip_req os (pin_args6 g6 if6 (V6 ss))) (\<lambda>_.
          try_io (pin_servers6 os v6 ips) (\<lambda>lines.
          return_io (Ok (show_ip (V6 ss) @ newline # lines)))))"

definition helper_procs_path :: "string \<Rightarrow> string" where
  "helper_procs_path rel = cgroup_dir rel @ ''/cgroup.procs''"

definition arm_bypass ::
    "os \<Rightarrow> helper_machine \<Rightarrow> string option \<Rightarrow> string \<Rightarrow> string list \<Rightarrow> (trace, string + unit) io" where
  "arm_bypass os hm bypass_cgroup iface apps =
     (case bypass_cgroup of
        None \<Rightarrow> return_io (Ok ())
      | Some cg \<Rightarrow>
          try_io (map_io (map_err (\<lambda>e. ''per-app bypass setup failed ('' @ e
                                        @ ''); turn off app exclusions to connect without it''))
                    (bypass_up os hm cg (Some iface))) (\<lambda>_.
          then_io (bypass_sweep os (helper_procs_path cg) apps) (\<lambda>_.
          then_io (pin_existing_excluded_flows os apps) (\<lambda>_. return_io (Ok ())))))"

definition TUN_DEFAULT_LOW :: "string list" where
  "TUN_DEFAULT_LOW = [''route'', ''replace'', ''0.0.0.0/1'', ''dev'', TUN_IFACE]"
definition TUN_DEFAULT_HIGH :: "string list" where
  "TUN_DEFAULT_HIGH = [''route'', ''replace'', ''128.0.0.0/1'', ''dev'', TUN_IFACE]"
definition BLACKHOLE6_LOW :: "string list" where
  "BLACKHOLE6_LOW = [''-6'', ''route'', ''replace'', ''blackhole'', ''::/1'']"
definition BLACKHOLE6_HIGH :: "string list" where
  "BLACKHOLE6_HIGH = [''-6'', ''route'', ''replace'', ''blackhole'', ''8000::/1'']"

text \<open>Everything up to the flip, and the flip.\<close>

definition before_flip ::
    "os \<Rightarrow> helper_machine \<Rightarrow> string option \<Rightarrow> string \<Rightarrow> ip_addr list \<Rightarrow> string option \<Rightarrow> string list
     \<Rightarrow> (trace, string + (string \<times> string) option) io" where
  "before_flip os hm gw iface servers bypass_cgroup bypass_apps =
     try_io (ensure_tun os) (\<lambda>_.
     try_io (install_dns_policy_route os) (\<lambda>_.
     try_io (set_rp_filter_loose os) (\<lambda>_.
     try_io (lay_physical os gw iface) (\<lambda>_.
     then_io (helper_default_route6 os) (\<lambda>v6.
     try_io (lay_physical6 os v6) (\<lambda>_.
     try_io (pin_servers os gw iface servers) (\<lambda>lines.
     then_io (write_state os SERVERS_STATE lines) (\<lambda>_.
     try_io (arm_bypass os hm bypass_cgroup iface bypass_apps) (\<lambda>_.
     return_io (Ok v6))))))))))"

definition flip_default :: "os \<Rightarrow> (string \<times> string) option \<Rightarrow> ip_addr list \<Rightarrow> (trace, string + unit) io" where
  "flip_default os v6 servers =
     try_io (ip_req os TUN_DEFAULT_LOW) (\<lambda>_.
     try_io (ip_req os TUN_DEFAULT_HIGH) (\<lambda>_.
     try_io (pin_servers6 os v6 servers) (\<lambda>lines6.
     then_io (write_state os SERVERS6_STATE lines6) (\<lambda>_.
     try_io (ip_req os BLACKHOLE6_LOW) (\<lambda>_.
     ip_req os BLACKHOLE6_HIGH)))))"

section \<open>Teardown\<close>

text \<open>The lines of a state file, each deleted as a route, and the file with them.\<close>

definition delete_recorded :: "os \<Rightarrow> string \<Rightarrow> (string \<Rightarrow> string list) \<Rightarrow> (trace, unit) io" where
  "delete_recorded os path command =
     then_io (read_string os path) (\<lambda>r. case r of
       Inl _ \<Rightarrow> return_io ()
     | Inr list \<Rightarrow>
         ignore_all
           (map (\<lambda>l. ip_quiet os (command (trim l))) (filter (\<lambda>l. trim l \<noteq> []) (str_lines list))
            @ [map_io (\<lambda>_. ()) (ask os (RemoveFile path))]))"

definition delete_server :: "string \<Rightarrow> string list" where
  "delete_server ip = [''route'', ''del'', ip @ ''/32'']"
definition delete_server6 :: "string \<Rightarrow> string list" where
  "delete_server6 ip = [''-6'', ''route'', ''del'', ip @ ''/128'']"
definition delete_pin :: "string \<Rightarrow> string list" where
  "delete_pin ip = (if CHR '':'' \<in> set ip then delete_server6 ip else delete_server ip)"

text \<open>A policy rule is deleted up to four times, until there is none.\<close>

fun drop_rules :: "os \<Rightarrow> string \<Rightarrow> string \<Rightarrow> nat \<Rightarrow> (trace, unit) io" where
  "drop_rules os fam m 0 = return_io ()"
| "drop_rules os fam m (Suc n) =
     then_io (run_command os ''ip'' [fam, ''rule'', ''del'', ''fwmark'', m] []) (\<lambda>r.
       if (case r of Inl _ \<Rightarrow> False | Inr out \<Rightarrow> out_success out) then drop_rules os fam m n else return_io ())"

definition restore_rp_filter :: "os \<Rightarrow> (trace, unit) io" where
  "restore_rp_filter os =
     then_io (read_string os RP_STATE) (\<lambda>r. case r of
       Inl _ \<Rightarrow> return_io ()
     | Inr orig \<Rightarrow>
         then_io (if trim orig = [] then return_io (Ok ()) else write_file os RP_ALL (trim orig)) (\<lambda>_.
         map_io (\<lambda>_. ()) (ask os (RemoveFile RP_STATE))))"

definition down_defaults :: "os \<Rightarrow> (trace, unit) io list" where
  "down_defaults os =
     [ip_quiet os [''route'', ''del'', ''0.0.0.0/1'', ''dev'', TUN_IFACE],
      ip_quiet os [''route'', ''del'', ''128.0.0.0/1'', ''dev'', TUN_IFACE],
      remove_dns_policy_route os,
      ip_quiet os [''-6'', ''route'', ''del'', ''::/1''],
      ip_quiet os [''-6'', ''route'', ''del'', ''8000::/1''],
      delete_recorded os SERVERS6_STATE delete_server6]"

definition down_rules :: "os \<Rightarrow> (trace, unit) io list" where
  "down_rules os =
     concat (map (\<lambda>mark. map (\<lambda>fam. drop_rules os fam (mark_text mark) 4) [''-4'', ''-6''])
               [HELPER_DIAL_MARK, HELPER_BYPASS_MARK])"

definition helper_route_down :: "os \<Rightarrow> helper_machine \<Rightarrow> bool \<Rightarrow> (trace, unit) io" where
  "helper_route_down os hm keep_bypass =
     ignore_all
       (down_defaults os @ down_rules os
        @ (if keep_bypass then []
           else [bypass_down os hm None, delete_recorded os BYPASS_PINS_STATE delete_pin])
        @ [ip_quiet os [''route'', ''flush'', ''table'', PHYS_TABLE],
           ip_quiet os [''-6'', ''route'', ''flush'', ''table'', PHYS_TABLE],
           delete_recorded os SERVERS_STATE delete_server,
           restore_rp_filter os])"

section \<open>Set-up\<close>

definition helper_route_up ::
    "os \<Rightarrow> helper_machine \<Rightarrow> ip_addr list \<Rightarrow> string option \<Rightarrow> string list \<Rightarrow> (trace, string + unit) io" where
  "helper_route_up os hm servers bypass_cgroup bypass_apps =
     try_io (helper_default_route os) (\<lambda>(gw, iface).
     then_io (try_io (before_flip os hm gw iface servers bypass_cgroup bypass_apps) (\<lambda>v6.
              flip_default os v6 servers)) (\<lambda>result.
     then_io (if is_err result then helper_route_down os hm False else return_io ()) (\<lambda>_.
     return_io result)))"

end
