(* ===== verification/Helper_Cli.thy ===== *)
theory Helper_Cli
  imports Helper_Route
begin

text \<open>
  The rest of the network helper: the latency probes outside the tunnel, the watcher that moves
  excluded processes as they start, and the command line.
\<close>

section \<open>Probes\<close>

definition valid_probe_host :: "string \<Rightarrow> string + unit" where
  "valid_probe_host host =
     (if trim host = [] then Err ''empty host''
      else if \<not> list_all (\<lambda>c. is_alnum c \<or> c = CHR ''.'' \<or> c = CHR '':'' \<or> c = CHR ''-'' \<or> c = CHR ''_'') host
      then Err ''invalid host'' else Ok ())"

fun is_v4 :: "ip_addr \<Rightarrow> bool" where
  "is_v4 (V4 _ _ _ _) = True"
| "is_v4 (V6 _) = False"

text \<open>
  The connected call carries the mark of Xray and the interface; failures to set either are ignored
  by the code and not seen here, and a socket that cannot be made is a dial that fails.
\<close>

definition tcp_ping_bypass :: "os \<Rightarrow> string \<Rightarrow> nat \<Rightarrow> nat \<Rightarrow> (trace, string + nat) io" where
  "tcp_ping_bypass os host port timeout_ms =
     try_io (return_io (valid_probe_host host)) (\<lambda>_.
     try_io (map_io (map_err (\<lambda>e. ''resolve: '' @ err_text e)) (ask_addrs os (ResolveHost host (of_nat port)))) (\<lambda>addrs.
     try_io (return_io (ok_or ''no ipv4'' (find_map (\<lambda>(_, ip). if is_v4 ip then Some ip else None) addrs))) (\<lambda>dst.
     then_io (pick_physical_iface os) (\<lambda>iface.
     map_io (\<lambda>r. case r of Inl e \<Rightarrow> Err (''connect: '' @ err_text e) | Inr ms \<Rightarrow> Ok (min ms u32_max))
       (ask_number os (ConnectMarked dst (of_nat port) iface timeout_ms))))))"

text \<open>
  A decimal number as \<open>f64\<close> reads it: digits with at most one point and at least one digit, as the
  fraction \<open>n / d\<close>.
\<close>

definition parse_decimal :: "string \<Rightarrow> (nat \<times> nat) option" where
  "parse_decimal s =
     (case split_on (CHR ''.'') s of
        [w] \<Rightarrow> map_option (\<lambda>n. (n, 1)) (if w = [] then None else digits_val 10 0 w)
      | [w, f] \<Rightarrow> if w @ f = [] then None else map_option (\<lambda>n. (n, 10 ^ length f)) (digits_val 10 0 (w @ f))
      | _ \<Rightarrow> None)"

definition round_half_even :: "nat \<Rightarrow> nat \<Rightarrow> nat" where
  "round_half_even n d =
     (let q = n div d; r = n mod d in
      if 2 * r < d then q else if 2 * r > d then q + 1 else if even q then q else q + 1)"

fun bit_length :: "nat \<Rightarrow> nat" where
  "bit_length n = (if n = 0 then 0 else Suc (bit_length (n div 2)))"

declare bit_length.simps [simp del]

text \<open>
  \<open>ms.round().max(1.0).min(u32::MAX as f64) as u32\<close> for the double nearest to \<open>n / d\<close> (53 bits, half
  to even), rounded half away from zero.  Below one the result is one, above 2 to the 33 the largest.
\<close>

definition rounded_ms :: "nat \<Rightarrow> nat \<Rightarrow> nat" where
  "rounded_ms n d =
     (if n < d then 1
      else let e = bit_length (n div d) - 1 in
           if e \<ge> 33 then u32_max
           else let m = round_half_even (n * 2 ^ (52 - e)) d in
                max 1 (min u32_max ((m + 2 ^ (51 - e)) div 2 ^ (52 - e))))"

fun after_str :: "string \<Rightarrow> string \<Rightarrow> string option" where
  "after_str p s = map_option snd (split_once_str p s)"

definition rtt_of_line :: "string \<Rightarrow> nat option" where
  "rtt_of_line line =
     Option.bind (after_str ''time='' line) (\<lambda>rest.
     map_option (\<lambda>(n, d). rounded_ms n d)
       (parse_decimal (takeWhile (\<lambda>c. is_digit c \<or> c = CHR ''.'') rest)))"

definition ping_seconds :: "nat \<Rightarrow> nat" where
  "ping_seconds timeout_ms = max 1 (min 10 ((timeout_ms + 999) div 1000))"

definition icmp_ping :: "os \<Rightarrow> string \<Rightarrow> nat \<Rightarrow> (trace, string + nat) io" where
  "icmp_ping os host timeout_ms =
     try_io (return_io (valid_probe_host host)) (\<lambda>_.
     map_io (\<lambda>r. case r of
         Inl e \<Rightarrow> Err (''spawn ping: '' @ err_text e)
       | Inr out \<Rightarrow>
           if \<not> out_success out then Err ''ping failed''
           else ok_or ''no RTT in ping output'' (find_map rtt_of_line (str_lines (from_utf8_lossy (out_stdout out)))))
       (run_command os ''ping'' [''-n'', ''-c'', ''1'', ''-W'', dec (ping_seconds timeout_ms), host] []))"

section \<open>The watcher\<close>

definition NETLINK_CONNECTOR :: nat where "NETLINK_CONNECTOR = 11"
definition CN_IDX_PROC :: nat where "CN_IDX_PROC = 1"
definition CN_VAL_PROC :: nat where "CN_VAL_PROC = 1"
definition PROC_CN_MCAST_LISTEN :: nat where "PROC_CN_MCAST_LISTEN = 1"
definition PROC_EVENT_EXEC :: nat where "PROC_EVENT_EXEC = 2"
definition PROC_EVENT_COMM :: nat where "PROC_EVENT_COMM = 512"

definition ne_text :: "bool \<Rightarrow> nat \<Rightarrow> nat \<Rightarrow> string" where
  "ne_text little n v = map (\<lambda>b. char_of (unat b)) (ne_bytes little n v)"

definition zero_text :: "nat \<Rightarrow> string" where
  "zero_text n = replicate n (char_of (0 :: nat))"

text \<open>The subscription: a netlink header, a connector header and the operation.\<close>

definition listen_message :: "bool \<Rightarrow> nat \<Rightarrow> string" where
  "listen_message little pid =
     ne_text little 4 40 @ ne_text little 2 3 @ zero_text 6 @ ne_text little 4 pid
     @ ne_text little 4 CN_IDX_PROC @ ne_text little 4 CN_VAL_PROC @ zero_text 8
     @ ne_text little 2 4 @ zero_text 2 @ ne_text little 4 PROC_CN_MCAST_LISTEN"

definition read_ne :: "bool \<Rightarrow> string \<Rightarrow> nat" where
  "read_ne little s = foldl (\<lambda>n c. n * 256 + byte_val c) 0 (if little then rev s else s)"

definition event_word :: "bool \<Rightarrow> nat \<Rightarrow> string \<Rightarrow> nat" where
  "event_word little off datagram = read_ne little (take 4 (drop off datagram))"

text \<open>The process of a datagram that tells of a start or a new name.\<close>

definition started_process :: "bool \<Rightarrow> string \<Rightarrow> nat option" where
  "started_process little datagram =
     (if length datagram < 60 then None
      else let what = event_word little 36 datagram; tgid = event_word little 56 datagram in
           if (what = PROC_EVENT_EXEC \<or> what = PROC_EVENT_COMM) \<and> tgid \<noteq> 0 then Some tgid else None)"

definition EINTR :: nat where "EINTR = 4"
definition EAGAIN :: nat where "EAGAIN = 11"

text \<open>The parent's process id; the call cannot fail.\<close>

definition parent_pid :: "os \<Rightarrow> (trace, nat) io" where
  "parent_pid os = map_io (\<lambda>r. case r of Inl _ \<Rightarrow> 0 | Inr n \<Rightarrow> n) (ask_number os ParentPid)"

text \<open>One turn of the loop: whether it goes on.\<close>

definition watch_turn :: "os \<Rightarrow> bool \<Rightarrow> nat \<Rightarrow> nat \<Rightarrow> string \<Rightarrow> string list \<Rightarrow> (trace, bool) io" where
  "watch_turn os little fd gui_pid procs excluded =
     then_io (ask_text os (RecvBytes fd 4096)) (\<lambda>r. case r of
       Inl e \<Rightarrow>
         if errno e = EINTR then return_io True
         else if errno e = EAGAIN then map_io (\<lambda>p. p = gui_pid) (parent_pid os)
         else map_io (\<lambda>_. False) (ask os (PrintErr (''bypass-watch recv: '' @ err_text e)))
     | Inr datagram \<Rightarrow>
         (case started_process little datagram of
            None \<Rightarrow> return_io True
          | Some pid \<Rightarrow> map_io (\<lambda>_. True) (bypass_move_if_match os procs excluded pid)))"

text \<open>The loop ends only with the parent or an error; \<open>None\<close> when it has not after \<open>n\<close> turns.\<close>

fun watch_loop :: "os \<Rightarrow> bool \<Rightarrow> nat \<Rightarrow> nat \<Rightarrow> string \<Rightarrow> string list \<Rightarrow> nat \<Rightarrow> (trace, unit option) io" where
  "watch_loop os little fd gui_pid procs excluded 0 = return_io None"
| "watch_loop os little fd gui_pid procs excluded (Suc n) =
     then_io (watch_turn os little fd gui_pid procs excluded) (\<lambda>on.
       if on then watch_loop os little fd gui_pid procs excluded n else return_io (Some ()))"

definition watch_failed :: "os \<Rightarrow> string \<Rightarrow> os_error \<Rightarrow> (trace, nat option) io" where
  "watch_failed os what e = map_io (\<lambda>_. Some 1) (ask os (PrintErr (what @ '': '' @ err_text e)))"

text \<open>The descriptor of the subscription, bound to the group of process events.\<close>

definition bypass_watch ::
    "os \<Rightarrow> helper_machine \<Rightarrow> nat \<Rightarrow> string \<Rightarrow> string list \<Rightarrow> nat \<Rightarrow> (trace, nat option) io" where
  "bypass_watch os hm pid cgroup_rel excluded turns =
     (if \<not> cg_valid cgroup_rel
      then map_io (\<lambda>_. Some 2) (ask os (PrintErr ''invalid cgroup path''))
      else then_io (parent_pid os) (\<lambda>gui_pid.
        then_io (bypass_sweep os (helper_procs_path cgroup_rel) excluded) (\<lambda>_.
        then_io (ask_number os OpenProcEvents) (\<lambda>opened. case opened of
          Inl e \<Rightarrow> watch_failed os ''netlink socket'' e
        | Inr fd \<Rightarrow>
            then_io (do_call os (BindNetlink fd CN_IDX_PROC)) (\<lambda>bound. case bound of
              Inl e \<Rightarrow> then_io (watch_failed os ''netlink bind'' e) (\<lambda>rc.
                       map_io (\<lambda>_. rc) (ask os (CloseFd fd)))
            | Inr _ \<Rightarrow>
                then_io (do_call os (SendBytes fd (listen_message (hm_little hm) pid))) (\<lambda>sent. case sent of
                  Inl e \<Rightarrow> then_io (watch_failed os ''netlink send'' e) (\<lambda>rc.
                           map_io (\<lambda>_. rc) (ask os (CloseFd fd)))
                | Inr _ \<Rightarrow>
                    then_io (watch_loop os (hm_little hm) fd gui_pid (helper_procs_path cgroup_rel) excluded turns) (\<lambda>done.
                      case done of
                        None \<Rightarrow> return_io None
                      | Some _ \<Rightarrow> map_io (\<lambda>_. Some 0) (ask os (CloseFd fd)))))))))"

section \<open>The command line\<close>

definition fail_with :: "os \<Rightarrow> nat \<Rightarrow> string \<Rightarrow> (trace, nat option) io" where
  "fail_with os rc text = map_io (\<lambda>_. Some rc) (ask os (PrintErr text))"

definition report_ms :: "os \<Rightarrow> (trace, string + nat) io \<Rightarrow> (trace, nat option) io" where
  "report_ms os m =
     then_io m (\<lambda>r. case r of
       Inr ms \<Rightarrow> map_io (\<lambda>_. Some 0) (ask os (PrintOut (dec ms)))
     | Inl e \<Rightarrow> fail_with os 1 e)"

definition report :: "os \<Rightarrow> (trace, string + unit) io \<Rightarrow> (trace, nat option) io" where
  "report os m =
     then_io m (\<lambda>r. case r of Inr _ \<Rightarrow> return_io (Some 0) | Inl e \<Rightarrow> fail_with os 1 e)"

text \<open>The arguments of \<open>killswitch-up\<close>: the flag, and what reads as an address; the rest is skipped.\<close>

fun killswitch_args :: "string list \<Rightarrow> bool \<times> ip_addr list" where
  "killswitch_args [] = (False, [])"
| "killswitch_args (a # as) =
     (case killswitch_args as of (allow_lan, ips) \<Rightarrow>
        if a = ''--allow-lan'' then (True, ips)
        else case parse_ip a of None \<Rightarrow> (allow_lan, ips) | Some ip \<Rightarrow> (allow_lan, ip # ips))"

definition apply_killswitch :: "os \<Rightarrow> ip_addr list \<Rightarrow> bool \<Rightarrow> (trace, string + unit) io" where
  "apply_killswitch os server_ips allow_lan = nft_apply os (killswitch_ruleset server_ips allow_lan)"

definition remove_killswitch :: "os \<Rightarrow> (trace, unit) io" where
  "remove_killswitch os = quietly os ''nft'' [''delete'', ''table'', ''inet'', KS_TABLE]"

text \<open>The arguments of \<open>route-up\<close>; an option takes the next argument, whatever it is.\<close>

record route_up_options =
  ru_servers :: "ip_addr list"
  ru_cgroup :: "string option"
  ru_apps :: "string list"

definition route_up_option :: "string \<Rightarrow> string option \<Rightarrow> route_up_options \<Rightarrow> route_up_options" where
  "route_up_option name v o' =
     (if name = ''--server''
      then (case Option.bind v parse_ip of None \<Rightarrow> o' | Some ip \<Rightarrow> o'\<lparr>ru_servers := ru_servers o' @ [ip]\<rparr>)
      else if name = ''--bypass-cgroup''
      then (case v of None \<Rightarrow> o' | Some c \<Rightarrow> o'\<lparr>ru_cgroup := Some c\<rparr>)
      else (case v of None \<Rightarrow> o' | Some a \<Rightarrow> o'\<lparr>ru_apps := ru_apps o' @ [a]\<rparr>))"

fun route_up_args :: "string list \<Rightarrow> route_up_options \<Rightarrow> route_up_options" where
  "route_up_args [] o' = o'"
| "route_up_args [a] o' =
     (if a \<in> {''--server'', ''--bypass-cgroup'', ''--bypass-app''} then route_up_option a None o' else o')"
| "route_up_args (a # b # as) o' =
     (if a \<in> {''--server'', ''--bypass-cgroup'', ''--bypass-app''}
      then route_up_args as (route_up_option a (Some b) o') else route_up_args (b # as) o')"

definition no_options :: route_up_options where
  "no_options = \<lparr>ru_servers = [], ru_cgroup = None, ru_apps = []\<rparr>"

definition or_default :: "nat \<Rightarrow> nat option \<Rightarrow> nat" where
  "or_default d v = (case v of None \<Rightarrow> d | Some n \<Rightarrow> n)"

definition run_tcp :: "os \<Rightarrow> string list \<Rightarrow> (trace, nat option) io" where
  "run_tcp os args =
     (case args of
        host # port # tmo # _ \<Rightarrow>
          (case parse_u16 port of
             None \<Rightarrow> fail_with os 2 ''bad port''
           | Some p \<Rightarrow> report_ms os (tcp_ping_bypass os host p (or_default 2500 (parse_u32 tmo))))
      | _ \<Rightarrow> fail_with os 2 ''usage: varmlen-net tcp <host> <port> <timeout_ms>'')"

definition run_icmp :: "os \<Rightarrow> string list \<Rightarrow> (trace, nat option) io" where
  "run_icmp os args =
     (case args of
        host # tmo # _ \<Rightarrow> report_ms os (icmp_ping os host (or_default 2000 (parse_u32 tmo)))
      | _ \<Rightarrow> fail_with os 2 ''usage: varmlen-net icmp <host> <timeout_ms>'')"

definition helper_usage :: string where
  "helper_usage = ''usage: varmlen-net <tcp|icmp|killswitch-up|killswitch-down|route-up|route-down|cleanup> ...''"

text \<open>\<open>run\<close>: the exit code, or \<open>None\<close> while a watcher still runs after \<open>turns\<close> datagrams.\<close>

definition helper_command ::
    "os \<Rightarrow> helper_machine \<Rightarrow> nat \<Rightarrow> nat \<Rightarrow> string \<Rightarrow> string list \<Rightarrow> (trace, nat option) io" where
  "helper_command os hm pid turns word args =
     (if word = ''tcp'' then run_tcp os args
      else if word = ''icmp'' then run_icmp os args
      else if word = ''killswitch-up''
      then (case killswitch_args args of (allow_lan, ips) \<Rightarrow> report os (apply_killswitch os ips allow_lan))
      else if word = ''killswitch-down'' then map_io (\<lambda>_. Some 0) (remove_killswitch os)
      else if word = ''route-up''
      then (let o' = route_up_args args no_options in
            report os (helper_route_up os hm (ru_servers o') (ru_cgroup o') (ru_apps o')))
      else if word = ''route-down''
      then map_io (\<lambda>_. Some 0) (helper_route_down os hm (''--keep-bypass'' \<in> set args))
      else if word = ''bypass-up''
      then (case args of
              [] \<Rightarrow> fail_with os 2 ''usage: varmlen-net bypass-up <cgroup-path>''
            | path # _ \<Rightarrow> report os (bypass_up os hm path None))
      else if word = ''bypass-down''
      then map_io (\<lambda>_. Some 0) (bypass_down os hm (case args of [] \<Rightarrow> None | rel # _ \<Rightarrow> Some rel))
      else if word = ''bypass-watch''
      then (case args of
              [] \<Rightarrow> fail_with os 2 ''usage: varmlen-net bypass-watch <cgroup-path> <id>...''
            | path # excluded \<Rightarrow> bypass_watch os hm pid path excluded turns)
      else if word = ''cleanup''
      then map_io (\<lambda>_. Some 0) (ignore_all [remove_killswitch os, helper_route_down os hm False, delete_tun os])
      else fail_with os 2 helper_usage)"

definition helper_run ::
    "os \<Rightarrow> helper_machine \<Rightarrow> nat \<Rightarrow> nat \<Rightarrow> string list \<Rightarrow> (trace, nat option) io" where
  "helper_run os hm pid turns args =
     then_io (ask os RaiseAmbient) (\<lambda>_.
       case args of
         [] \<Rightarrow> fail_with os 2 helper_usage
       | word # rest \<Rightarrow> helper_command os hm pid turns word rest)"

text \<open>\<open>main\<close>: the search path is fixed before anything is run.\<close>

definition helper_main ::
    "os \<Rightarrow> helper_machine \<Rightarrow> nat \<Rightarrow> nat \<Rightarrow> string list \<Rightarrow> (trace, nat option) io" where
  "helper_main os hm pid turns args =
     then_io (ask os (SetEnv ''PATH'' ''/usr/sbin:/usr/bin:/sbin:/bin'')) (\<lambda>_. helper_run os hm pid turns args)"

end
