(* ===== verification/Helper_Props.thy ===== *)
theory Helper_Props
  imports Helper_Cli Daemon_Props
begin

text \<open>
  What the network helper guarantees: the kill switch the daemon asks for is the one that is applied,
  traffic is turned into the tunnel only after the ways out of it are laid and IPv6 is closed behind
  it, a set-up that fails is taken back, only excluded processes are moved, and nothing is injected
  into the bypass table.
\<close>

section \<open>The kill switch, from the request to the rules\<close>

lemma parse_show_v4: "is_v4 ip \<Longrightarrow> parse_ip (show_ip ip) = Some ip"
  by (cases ip) (simp_all add: parse_ip_show_v4)

lemma show_v4_not_flag: "is_v4 ip \<Longrightarrow> show_ip ip \<noteq> ''--allow-lan''"
proof (cases ip)
  case (V4 a b c d)
  have "is_digit (hd (dec (unat a)))" by (rule dec_digits [of _ "unat a"]) (simp add: hd_in_set)
  moreover have "\<not> is_digit (CHR ''-'')" by code_simp
  moreover have "hd (show_ip ip) = hd (dec (unat a))" by (simp add: V4 show_v4_def hd_append)
  ultimately have "hd (show_ip ip) \<noteq> CHR ''-''" by metis
  then show ?thesis by auto
qed simp

lemma killswitch_args_servers:
  "list_all is_v4 ips \<Longrightarrow> killswitch_args (map show_ip ips) = (False, ips)"
  by (induction ips) (auto simp: parse_show_v4 show_v4_not_flag)

lemma killswitch_args_request:
  "list_all is_v4 (cr_server_ips req) \<Longrightarrow>
     killswitch_args (tl (hold_arguments req)) = (cr_allow_lan req, cr_server_ips req)"
  by (simp add: hold_arguments_def killswitch_args_servers)

text \<open>The history when the helper has fixed its path and raised its capability.\<close>

definition helper_started :: "os \<Rightarrow> trace \<Rightarrow> trace" where
  "helper_started os tr =
     snd (ask os RaiseAmbient (snd (ask os (SetEnv ''PATH'' ''/usr/sbin:/usr/bin:/sbin:/bin'') tr)))"

lemma helper_main_word:
  "helper_main os hm pid n (word # args) tr = helper_command os hm pid n word args (helper_started os tr)"
  by (simp add: helper_main_def helper_run_def helper_started_def then_io_def split_beta)

lemma helper_killswitch_up:
  assumes "list_all is_v4 (cr_server_ips req)"
  shows "helper_main os hm pid n (hold_arguments req) tr =
           report os (nft_apply os (killswitch_ruleset (cr_server_ips req) (cr_allow_lan req))) (helper_started os tr)"
proof -
  obtain args where args: "hold_arguments req = ''killswitch-up'' # args"
    by (simp add: hold_arguments_def)
  have "killswitch_args args = (cr_allow_lan req, cr_server_ips req)"
    using killswitch_args_request [OF assms] by (simp add: args)
  then show ?thesis
    unfolding args helper_main_word by (simp add: helper_command_def apply_killswitch_def)
qed

lemma report_nft:
  assumes "report os (nft_apply os rules) tr = (rc, tr')"
  shows "\<exists>r. (Run ''nft'' [''-f'', ''-''] rules, r) \<in> set tr'
           \<and> (rc = Some 0 \<longleftrightarrow> (case r of Output out \<Rightarrow> out_success out | _ \<Rightarrow> False))"
  using assms
  by (cases "os tr (Run ''nft'' [''-f'', ''-''] rules)")
     (auto simp: report_def nft_apply_def fail_with_def then_io_def map_io_def ask_defs Let_def split: if_splits)

section \<open>The order of a set-up\<close>

definition flip_args :: "string list \<Rightarrow> bool" where
  "flip_args args = (args = TUN_DEFAULT_LOW \<or> args = TUN_DEFAULT_HIGH)"

definition no_flip :: "call \<Rightarrow> bool" where
  "no_flip c = (case c of Run prog args _ \<Rightarrow> prog \<noteq> ''ip'' \<or> \<not> flip_args args | _ \<Rightarrow> True)"

lemma no_flip_simps [simp]:
  "no_flip (Run prog args inp) = (prog \<noteq> ''ip'' \<or> \<not> flip_args args)"
  "no_flip (ReadFile p)" "no_flip (ReadLink p)" "no_flip (ReadDir p)" "no_flip (WriteFile p s)"
  "no_flip (WriteNoFollow p s)" "no_flip (MakeDirMode p m)" "no_flip (PathExists p)" "no_flip (RemoveFile p)"
  "no_flip (PrintErr s)" "no_flip (BpfCall n b)" "no_flip (OpenDir p)" "no_flip (CloseFd fd)" "no_flip ListInterfaces"
  by (simp_all add: no_flip_def)

lemma not_flip:
  "\<not> flip_args (a # b # (s @ ''/32'') # r)" "\<not> flip_args (''-6'' # r)" "\<not> flip_args (''-4'' # r)"
  "\<not> flip_args (''rule'' # r)" "\<not> flip_args (''addr'' # r)" "\<not> flip_args (''link'' # r)" "\<not> flip_args (''tuntap'' # r)"
  "\<not> flip_args (a # ''del'' # r)" "\<not> flip_args (a # ''flush'' # r)"
  "\<not> flip_args (a # b # ''default'' # r)" "\<not> flip_args (a # b # ''throw'' # r)"
proof -
  have "s @ ''/32'' \<noteq> ''0.0.0.0/1''" "s @ ''/32'' \<noteq> ''128.0.0.0/1''"
    by (auto dest: arg_cong [where f = last])
  then show "\<not> flip_args (a # b # (s @ ''/32'') # r)"
    by (simp add: flip_args_def TUN_DEFAULT_LOW_def TUN_DEFAULT_HIGH_def)
qed (simp_all add: flip_args_def TUN_DEFAULT_LOW_def TUN_DEFAULT_HIGH_def)

lemma ip_calls [calls_intro]:
  "P (Run ''ip'' args []) \<Longrightarrow> calls_only P (ip_req os args)"
  "P (Run ''ip'' args []) \<Longrightarrow> calls_only P (ip_quiet os args)"
  "P (Run prog args []) \<Longrightarrow> calls_only P (quietly os prog args)"
  "P (Run ''nft'' [''-f'', ''-''] rules) \<Longrightarrow> calls_only P (nft_apply os rules)"
  "P (ReadFile path) \<Longrightarrow> calls_only P (read_string os path)"
  "P (WriteFile path val) \<Longrightarrow> calls_only P (write_file os path val)"
  "P (MakeDirMode ''/run/varmlen'' 448) \<Longrightarrow> P (WriteNoFollow path val) \<Longrightarrow> calls_only P (write_state os path val)"
  unfolding ip_req_def ip_quiet_def quietly_def nft_apply_def read_string_def write_file_def write_state_def
  by (auto intro!: calls_intro)

lemma bypass_no_flip [calls_intro]:
  "calls_only no_flip (bypass_up os hm path iface)" "calls_only no_flip (bypass_down os hm rel)"
proof -
  have bpf: "calls_only no_flip (bypass_bpf os hm rel attach)" for rel attach
    unfolding bypass_bpf_def bypass_attach_def bpf_result_def Let_def by (auto intro!: calls_intro)
  then show "calls_only no_flip (bypass_up os hm path iface)" "calls_only no_flip (bypass_down os hm rel)"
    unfolding bypass_up_def bypass_down_def bypass_iface_def pick_physical_iface_def
    by (auto intro!: calls_intro)
qed

lemma processes_no_flip [calls_intro]:
  "calls_only no_flip (bypass_sweep os procs excluded)" "calls_only no_flip (pin_existing_excluded_flows os excluded)"
proof -
  have m: "calls_only no_flip (pid_matches_excluded os pid excluded)" for pid
    unfolding pid_matches_excluded_def process_names_def by (intro calls_intro) simp_all
  have p: "calls_only no_flip (proc_pids os)"
    unfolding proc_pids_def by (intro calls_intro) simp_all
  show "calls_only no_flip (bypass_sweep os procs excluded)"
    unfolding bypass_sweep_def bypass_move_if_match_def by (auto intro!: calls_intro m p)
  have l: "calls_only no_flip (link_inodes os dir names)" for dir names
    by (induction names) (auto intro!: calls_intro)
  have "calls_only no_flip (excluded_inodes os excluded pids)" for pids
    by (induction pids) (auto intro!: calls_intro m l simp: process_inodes_def)
  moreover have "calls_only no_flip (pin_files os inodes files q)" for inodes files q
    by (induction files arbitrary: q) (auto intro!: calls_intro)
  ultimately show "calls_only no_flip (pin_existing_excluded_flows os excluded)"
    unfolding pin_existing_excluded_flows_def by (auto intro!: calls_intro p)
qed

lemma pins_no_flip [calls_intro]:
  "calls_only no_flip (pin_servers os gw iface servers)" "calls_only no_flip (pin_servers6 os v6 servers)"
proof -
  show "calls_only no_flip (pin_servers os gw iface servers)"
    by (induction os gw iface servers rule: pin_servers.induct)
       (auto intro!: calls_intro simp: pin_args_def not_flip)
  show "calls_only no_flip (pin_servers6 os v6 servers)"
    by (induction os v6 servers rule: pin_servers6.induct)
       (auto intro!: calls_intro simp: pin_args6_def not_flip)
qed

lemma add_rule_no_flip [calls_intro]: "calls_only no_flip (add_rule_fwmark os v6 mark table)"
  unfolding add_rule_fwmark_def Let_def by (auto intro!: calls_intro simp: not_flip)

lemma pieces_no_flip [calls_intro]:
  "calls_only no_flip (ensure_tun os)" "calls_only no_flip (install_dns_policy_route os)"
  "calls_only no_flip (remove_dns_policy_route os)" "calls_only no_flip (set_rp_filter_loose os)"
  "calls_only no_flip (restore_rp_filter os)" "calls_only no_flip (lay_physical os gw iface)"
  "calls_only no_flip (lay_physical6 os v6)" "calls_only no_flip (helper_default_route6 os)"
  "calls_only no_flip (arm_bypass os hm cg iface apps)" "calls_only no_flip (drop_rules os fam m n)"
proof -
  have "calls_only no_flip (drop_rules os fam m n)" if "fam = ''-4'' \<or> fam = ''-6'' \<or> True"
    for fam by (induction n) (auto intro!: calls_intro simp: flip_args_def TUN_DEFAULT_LOW_def TUN_DEFAULT_HIGH_def)
  then show "calls_only no_flip (drop_rules os fam m n)" by simp
qed (auto intro!: calls_intro simp: ensure_tun_def install_dns_policy_route_def remove_dns_policy_route_def
      set_rp_filter_loose_def restore_rp_filter_def lay_physical_def lay_physical6_def helper_default_route6_def
      arm_bypass_def dns_policy_setup_commands_def dns_policy_teardown_commands_def not_flip)

lemma down_pieces_no_flip:
  assumes "m \<in> set (down_defaults os @ down_rules os
        @ (if keep then []
           else [bypass_down os hm None, delete_recorded os BYPASS_PINS_STATE delete_pin])
        @ [ip_quiet os [''route'', ''flush'', ''table'', PHYS_TABLE],
           ip_quiet os [''-6'', ''route'', ''flush'', ''table'', PHYS_TABLE],
           delete_recorded os SERVERS_STATE delete_server, restore_rp_filter os])"
  shows "calls_only no_flip m"
proof -
  have rec: "calls_only no_flip (delete_recorded os path f)" if "\<And>s. \<not> flip_args (f s)" for path f
    unfolding delete_recorded_def using that by (auto intro!: calls_intro)
  have "\<not> flip_args (delete_server s)" "\<not> flip_args (delete_server6 s)" "\<not> flip_args (delete_pin s)" for s
    by (simp_all add: delete_server_def delete_server6_def delete_pin_def not_flip)
  then show ?thesis
    using assms unfolding down_defaults_def down_rules_def
    by (auto intro!: calls_intro rec simp: not_flip split: if_splits)
qed

lemma down_no_flip: "calls_only no_flip (helper_route_down os hm keep)"
  unfolding helper_route_down_def by (rule calls_only_ignore_all) (rule down_pieces_no_flip)

lemma before_flip_calls: "calls_only no_flip (before_flip os hm gw iface servers cg apps)"
  unfolding before_flip_def by (auto intro!: calls_intro)

text \<open>A command that was run and succeeded, somewhere in a history.\<close>

definition ran :: "string list \<Rightarrow> trace \<Rightarrow> bool" where
  "ran args tr \<longleftrightarrow> (\<exists>out. (Run ''ip'' args [], Output out) \<in> set tr \<and> out_success out)"

lemma ran_extends: "extends_by P tr tr' \<Longrightarrow> ran args tr \<Longrightarrow> ran args tr'"
  by (auto simp: extends_by_def ran_def)

lemma ip_req_ran: "ip_req os args tr = (Inr u, tr') \<Longrightarrow> ran args tr'"
  by (auto simp: ip_req_def map_io_def ran_def ask_defs Let_def split: reply.splits if_splits option.splits)

lemma calls_kept: "calls_only P m \<Longrightarrow> m tr = (r, tr') \<Longrightarrow> ran args tr \<Longrightarrow> ran args tr'"
  by (rule ran_extends [OF calls_onlyD])

text \<open>The ways out of the tunnel: the table of marked dials, its rule, and the pins of the servers.\<close>

definition ways_out :: "ip_addr list \<Rightarrow> trace \<Rightarrow> bool" where
  "ways_out servers tr \<longleftrightarrow>
     (\<exists>gw iface. ran ([''route'', ''replace'', ''default''] @ via_dev gw iface @ [''table'', PHYS_TABLE]) tr
        \<and> ran [''-4'', ''rule'', ''add'', ''fwmark'', mark_text HELPER_DIAL_MARK, ''lookup'', PHYS_TABLE] tr
        \<and> list_all (\<lambda>ip. ran (pin_args gw iface ip) tr) (filter is_v4 servers))"

lemma ways_out_extends: "extends_by P tr tr' \<Longrightarrow> ways_out servers tr \<Longrightarrow> ways_out servers tr'"
  unfolding ways_out_def list_all_iff using ran_extends by blast

lemma add_rule_ran:
  assumes "add_rule_fwmark os v6 mark table tr = (Inr u, tr')"
  shows "ran [if v6 then ''-6'' else ''-4'', ''rule'', ''add'', ''fwmark'', mark_text mark, ''lookup'', table] tr'"
  using assms by (auto simp: add_rule_fwmark_def then_io_def Let_def split: prod.splits dest: ip_req_ran)

lemma all_ok_ran:
  assumes "all_ok ms tr = (Inr u, tr')" and "\<And>m. m \<in> set ms \<Longrightarrow> calls_only no_flip m"
    and "m \<in> set ms" and "\<And>tr1 u1 tr2. m tr1 = (Inr u1, tr2) \<Longrightarrow> ran args tr2"
  shows "ran args tr'"
  using assms(1-3)
proof (induction ms arbitrary: tr)
  case Nil
  then show ?case by simp
next
  case (Cons m1 ms)
  obtain tr1 u1 where m1: "m1 tr = (Inr u1, tr1)" and rest: "all_ok ms tr1 = (Inr u, tr')"
    using Cons.prems(1) by (auto simp: try_io_def split: prod.splits sum.splits)
  have "calls_only no_flip (all_ok ms)"
    using Cons.prems(2) by (auto intro!: calls_intro)
  then have ext: "extends_by no_flip tr1 tr'"
    using calls_onlyD [where f = "all_ok ms", OF _ rest] by blast
  show ?case
  proof (cases "m = m1")
    case True
    then show ?thesis using ran_extends [OF ext] assms(4) m1 by blast
  next
    case False
    then show ?thesis using Cons rest by auto
  qed
qed

lemma lay_physical_ran:
  assumes "lay_physical os gw iface tr = (Inr u, tr')"
  shows "ran ([''route'', ''replace'', ''default''] @ via_dev gw iface @ [''table'', PHYS_TABLE]) tr'"
    and "ran [''-4'', ''rule'', ''add'', ''fwmark'', mark_text HELPER_DIAL_MARK, ''lookup'', PHYS_TABLE] tr'"
proof -
  let ?ms = "ip_req os ([''route'', ''replace'', ''default''] @ via_dev gw iface @ [''table'', PHYS_TABLE])
        # map (\<lambda>net. ip_req os [''route'', ''replace'', ''throw'', net, ''table'', PHYS_TABLE]) PHYS_THROWS
        @ [add_rule_fwmark os False HELPER_DIAL_MARK PHYS_TABLE, add_rule_fwmark os False HELPER_BYPASS_MARK PHYS_TABLE]"
  have ok: "all_ok ?ms tr = (Inr u, tr')" using assms by (simp only: lay_physical_def)
  have calls: "m \<in> set ?ms \<Longrightarrow> calls_only no_flip m" for m
    by (auto intro!: calls_intro simp: not_flip)
  show "ran ([''route'', ''replace'', ''default''] @ via_dev gw iface @ [''table'', PHYS_TABLE]) tr'"
    by (rule all_ok_ran [OF ok calls, of "ip_req os ([''route'', ''replace'', ''default''] @ via_dev gw iface @ [''table'', PHYS_TABLE])"])
       (auto dest: ip_req_ran)
  show "ran [''-4'', ''rule'', ''add'', ''fwmark'', mark_text HELPER_DIAL_MARK, ''lookup'', PHYS_TABLE] tr'"
    by (rule all_ok_ran [OF ok calls, of "add_rule_fwmark os False HELPER_DIAL_MARK PHYS_TABLE"])
       (auto dest: add_rule_ran)
qed

lemma pin_servers_ran:
  "pin_servers os gw iface servers tr = (Inr l, tr') \<Longrightarrow> ip \<in> set (filter is_v4 servers) \<Longrightarrow> ran (pin_args gw iface ip) tr'"
proof (induction os gw iface servers arbitrary: tr l rule: pin_servers.induct)
  case (2 os gw iface a b c d ips)
  obtain u tr1 where h: "ip_req os (pin_args gw iface (V4 a b c d)) tr = (Inr u, tr1)"
    and t: "\<exists>l'. pin_servers os gw iface ips tr1 = (Inr l', tr')"
    using 2(2) unfolding pin_servers.simps by (elim try_io_Inr) auto
  obtain l' where l': "pin_servers os gw iface ips tr1 = (Inr l', tr')" using t by blast
  have "ran (pin_args gw iface (V4 a b c d)) tr'"
    by (rule calls_kept [OF pins_no_flip(1) l' ip_req_ran [OF h]])
  then show ?case using 2(1) [OF l'] 2(3) by auto
qed auto

end
