(* ===== verification/Helper_Safety.thy ===== *)
theory Helper_Safety
  imports Helper_Props
begin

text \<open>
  The order of a set-up of the network helper, over whole histories: when the default route is
  turned into the tunnel, what a success guarantees, what a failure takes back, and which processes
  are moved.
\<close>

section \<open>Before the flip\<close>

lemma before_flip_ways_out:
  assumes "before_flip os hm gw iface servers cg apps tr = (Inr v6, tr')"
  shows "ways_out servers tr'"
proof -
  obtain u1 tr1 tr2 v r3 tr3 ls tr4 x tr5 u5 where phys: "lay_physical os gw iface tr1 = (Inr u1, tr2)"
    and v6: "helper_default_route6 os tr2 = (v, r3)" and phys6: "lay_physical6 os v r3 = (Inr (), tr3)"
    and pins: "pin_servers os gw iface servers tr3 = (Inr ls, tr4)"
    and state: "write_state os SERVERS_STATE ls tr4 = (x, tr5)"
    and arm: "arm_bypass os hm cg iface apps tr5 = (Inr u5, tr')"
    using assms unfolding before_flip_def by (elim try_io_Inr then_io_eqE) (rule that, (assumption | simp)+)
  have w: "calls_only no_flip (write_state os SERVERS_STATE ls)" by (auto intro!: calls_intro)
  have after: "ran args tr4 \<Longrightarrow> ran args tr'" for args
    using calls_kept [OF w state] calls_kept [OF pieces_no_flip(9) arm] by blast
  have kept: "ran args tr2 \<Longrightarrow> ran args tr'" for args
    using calls_kept [OF pieces_no_flip(8) v6] calls_kept [OF pieces_no_flip(7) phys6]
      calls_kept [OF pins_no_flip(1) pins] after by blast
  have "ran (pin_args gw iface ip) tr'" if "ip \<in> set (filter is_v4 servers)" for ip
    by (rule after [OF pin_servers_ran [OF pins that]])
  then show ?thesis
    using kept [OF lay_physical_ran(1) [OF phys]] kept [OF lay_physical_ran(2) [OF phys]]
    unfolding ways_out_def list_all_iff by blast
qed

text \<open>Every time the default was turned into the tunnel, the ways out had been laid.\<close>

fun flips_prepared :: "ip_addr list \<Rightarrow> trace \<Rightarrow> bool" where
  "flips_prepared servers [] = True"
| "flips_prepared servers ((c, r) # tr) = ((no_flip c \<or> ways_out servers tr) \<and> flips_prepared servers tr)"

lemma flips_prepared_extends:
  assumes "extends_by P tr tr'" and "flips_prepared servers tr"
    and "(\<forall>c. P c \<longrightarrow> no_flip c) \<or> ways_out servers tr"
  shows "flips_prepared servers tr'"
proof -
  obtain es where tr': "tr' = es @ tr" and P: "\<forall>(c, r) \<in> set es. P c"
    using assms(1) by (auto simp: extends_by_def)
  have later: "ways_out servers tr \<Longrightarrow> ways_out servers (es' @ tr)" for es'
    by (rule ways_out_extends [of "\<lambda>_. True"]) (auto simp: extends_by_def)
  show ?thesis
    using P unfolding tr'
    by (induction es) (use assms(2,3) later in auto)
qed

lemma flip_default_calls: "calls_only (\<lambda>_. True) (flip_default os v6 servers)"
proof -
  have "calls_only (\<lambda>_. True) (pin_servers6 os v6 servers)"
    by (rule calls_only_mono [OF pins_no_flip(2)]) simp
  then show ?thesis unfolding flip_default_def by (auto intro!: calls_intro)
qed

lemma flip_default_ok:
  assumes "flip_default os v6 servers tr = (Inr u, tr')"
  shows "ran TUN_DEFAULT_LOW tr'" "ran TUN_DEFAULT_HIGH tr'" "ran BLACKHOLE6_LOW tr'" "ran BLACKHOLE6_HIGH tr'"
proof -
  obtain a tr1 b tr2 l tr3 x tr4 d tr5 where low: "ip_req os TUN_DEFAULT_LOW tr = (Inr a, tr1)"
    and high: "ip_req os TUN_DEFAULT_HIGH tr1 = (Inr b, tr2)"
    and pins: "pin_servers6 os v6 servers tr2 = (Inr l, tr3)"
    and state: "write_state os SERVERS6_STATE l tr3 = (x, tr4)"
    and low6: "ip_req os BLACKHOLE6_LOW tr4 = (Inr d, tr5)" and high6: "ip_req os BLACKHOLE6_HIGH tr5 = (Inr u, tr')"
    using assms unfolding flip_default_def by (elim try_io_Inr then_io_eqE) (rule that, assumption+)
  have w: "calls_only no_flip (write_state os SERVERS6_STATE l)" by (auto intro!: calls_intro)
  have any: "calls_only (\<lambda>_. True) (ip_req os args)" for args by (auto intro!: calls_intro)
  note to5 = calls_kept [OF any high] calls_kept [OF pins_no_flip(2) pins] calls_kept [OF w state]
    calls_kept [OF any low6] calls_kept [OF any high6]
  show "ran TUN_DEFAULT_LOW tr'" using ip_req_ran [OF low] to5 by blast
  show "ran TUN_DEFAULT_HIGH tr'" using ip_req_ran [OF high] to5 by blast
  show "ran BLACKHOLE6_LOW tr'" using ip_req_ran [OF low6] to5 by blast
  show "ran BLACKHOLE6_HIGH tr'" by (rule ip_req_ran [OF high6])
qed

section \<open>A set-up\<close>

text \<open>The newest attempt on a half of the default route was to turn it into the tunnel.\<close>

definition turned :: "string list \<Rightarrow> string \<Rightarrow> trace \<Rightarrow> bool" where
  "turned flip net =
     switched_on (\<lambda>(c, r). c = Run ''ip'' flip [])
       (\<lambda>(c, r). c = Run ''ip'' [''route'', ''del'', net, ''dev'', TUN_IFACE] [])"

lemma turned_no_flip:
  "flip_args flip \<Longrightarrow> extends_by no_flip tr tr' \<Longrightarrow> \<not> turned flip net tr \<Longrightarrow> \<not> turned flip net tr'"
proof -
  assume f: "flip_args flip" and e: "extends_by no_flip tr tr'" and n: "\<not> turned flip net tr"
  obtain es where tr': "tr' = es @ tr" and P: "\<forall>(c, r) \<in> set es. no_flip c"
    using e by (auto simp: extends_by_def)
  show ?thesis
    using P unfolding tr' by (induction es) (use f n in \<open>auto simp: turned_def\<close>)
qed

lemma down_turns_back:
  assumes "helper_route_down os hm keep tr = (u, tr')"
  shows "\<not> turned TUN_DEFAULT_LOW ''0.0.0.0/1'' tr'" "\<not> turned TUN_DEFAULT_HIGH ''128.0.0.0/1'' tr'"
proof -
  let ?low = "ip_quiet os [''route'', ''del'', ''0.0.0.0/1'', ''dev'', TUN_IFACE]"
  let ?high = "ip_quiet os [''route'', ''del'', ''128.0.0.0/1'', ''dev'', TUN_IFACE]"
  let ?rest = "down_rules os
        @ (if keep then [] else [bypass_down os hm None, delete_recorded os BYPASS_PINS_STATE delete_pin])
        @ [ip_quiet os [''route'', ''flush'', ''table'', PHYS_TABLE],
           ip_quiet os [''-6'', ''route'', ''flush'', ''table'', PHYS_TABLE],
           delete_recorded os SERVERS_STATE delete_server, restore_rp_filter os]"
  obtain ds where ds: "down_defaults os = ?low # ?high # ds"
    unfolding down_defaults_def by blast
  have down: "helper_route_down os hm keep = ignore_all (?low # ?high # ds @ ?rest)"
    unfolding helper_route_down_def ds by simp
  have "calls_only no_flip m" if "m \<in> set (ds @ ?rest)" for m
  proof (rule down_pieces_no_flip)
    show "m \<in> set (down_defaults os @ ?rest)"
      using that unfolding ds set_append list.set by blast
  qed
  then have c: "calls_only no_flip (ignore_all (ds @ ?rest))" by (rule calls_only_ignore_all)
  obtain tr1 tr2 where low: "snd (?low tr) = tr1" and high: "snd (?high tr1) = tr2"
    and rest: "ignore_all (ds @ ?rest) tr2 = (u, tr')"
    using assms unfolding down by (simp only: ignore_all.simps)
  have t1: "\<exists>r. tr1 = (Run ''ip'' [''route'', ''del'', ''0.0.0.0/1'', ''dev'', TUN_IFACE] [], r) # tr"
    and t2: "\<exists>r. tr2 = (Run ''ip'' [''route'', ''del'', ''128.0.0.0/1'', ''dev'', TUN_IFACE] [], r) # tr1"
    using low high by (auto simp: ip_quiet_def quietly_def map_io_def ask_defs Let_def)
  have ext: "extends_by no_flip tr2 tr'" by (rule calls_onlyD [OF c rest])
  have "\<not> turned TUN_DEFAULT_LOW ''0.0.0.0/1'' tr2" "\<not> turned TUN_DEFAULT_HIGH ''128.0.0.0/1'' tr2"
    using t1 t2 by (auto simp: turned_def TUN_DEFAULT_LOW_def TUN_DEFAULT_HIGH_def)
  then show "\<not> turned TUN_DEFAULT_LOW ''0.0.0.0/1'' tr'" "\<not> turned TUN_DEFAULT_HIGH ''128.0.0.0/1'' tr'"
    using turned_no_flip [OF _ ext] by (auto simp: flip_args_def)
qed

text \<open>What a set-up leaves: the tunnel with IPv6 closed, or no default route in the tunnel.\<close>

definition tunnel_closed :: "trace \<Rightarrow> bool" where
  "tunnel_closed tr \<longleftrightarrow>
     ran TUN_DEFAULT_LOW tr \<and> ran TUN_DEFAULT_HIGH tr \<and> ran BLACKHOLE6_LOW tr \<and> ran BLACKHOLE6_HIGH tr"

definition not_turned :: "trace \<Rightarrow> bool" where
  "not_turned tr \<longleftrightarrow> \<not> turned TUN_DEFAULT_LOW ''0.0.0.0/1'' tr \<and> \<not> turned TUN_DEFAULT_HIGH ''128.0.0.0/1'' tr"

lemma not_turned_no_flip: "extends_by no_flip tr tr' \<Longrightarrow> not_turned tr \<Longrightarrow> not_turned tr'"
  unfolding not_turned_def using turned_no_flip by (auto simp: flip_args_def)

lemma default_route_no_flip: "calls_only no_flip (helper_default_route os)"
  unfolding helper_default_route_def by (auto intro!: calls_intro simp: not_flip)

lemma route_up_outcome:
  assumes up: "helper_route_up os hm servers cg apps tr = (r, tr')"
    and start: "flips_prepared servers tr" "not_turned tr"
  shows "flips_prepared servers tr'" "if is_ok r then tunnel_closed tr' else not_turned tr'"
proof -
  obtain d tr1 where d: "helper_default_route os tr = (d, tr1)" by fastforce
  have ext1: "extends_by no_flip tr tr1" by (rule calls_onlyD [OF default_route_no_flip d])
  have p1: "flips_prepared servers tr1" by (rule flips_prepared_extends [OF ext1 start(1)]) simp
  have n1: "not_turned tr1" by (rule not_turned_no_flip [OF ext1 start(2)])
  have "flips_prepared servers tr' \<and> (if is_ok r then tunnel_closed tr' else not_turned tr')"
  proof (cases d)
    case (Inl e)
    then have "r = Inl e" "tr' = tr1" using up d by (simp_all add: helper_route_up_def try_io_def)
    then show ?thesis using p1 n1 by simp
  next
    case (Inr gi)
    obtain gw iface where gi: "gi = (gw, iface)" by fastforce
    let ?set_up = "try_io (before_flip os hm gw iface servers cg apps) (\<lambda>v6. flip_default os v6 servers)"
    obtain result tr2 where s: "?set_up tr1 = (result, tr2)" by fastforce
    have rest: "then_io (if is_err result then helper_route_down os hm False else return_io ()) (\<lambda>_. return_io result) tr2 = (r, tr')"
      using up d s by (simp add: helper_route_up_def try_io_def then_io_def Inr gi)
    obtain b tr3 where b: "before_flip os hm gw iface servers cg apps tr1 = (b, tr3)" by fastforce
    have ext3: "extends_by no_flip tr1 tr3" by (rule calls_onlyD [OF before_flip_calls b])
    have p3: "flips_prepared servers tr3" by (rule flips_prepared_extends [OF ext3 p1]) simp
    have p2: "flips_prepared servers tr2"
    proof (cases b)
      case (Inl e)
      then show ?thesis using s b p3 by (simp add: try_io_def)
    next
      case (Inr v6)
      have f: "flip_default os v6 servers tr3 = (result, tr2)" using s b by (simp add: try_io_def Inr)
      show ?thesis
        using flips_prepared_extends [OF calls_onlyD [OF flip_default_calls f] p3] before_flip_ways_out b
        unfolding Inr by blast
    qed
    show ?thesis
    proof (cases result)
      case (Inl e)
      then obtain u where down: "helper_route_down os hm False tr2 = (u, tr')" and r: "r = Inl e"
        using rest by (auto simp: then_io_def is_err_def split: prod.splits)
      have "flips_prepared servers tr'"
        by (rule flips_prepared_extends [OF calls_onlyD [OF down_no_flip down] p2]) simp
      then show ?thesis using down_turns_back [OF down] by (simp add: r not_turned_def)
    next
      case (Inr u)
      have eq: "r = Inr u" "tr' = tr2" using rest by (simp_all add: then_io_def is_err_def Inr)
      obtain v6 where f: "flip_default os v6 servers tr3 = (Inr u, tr2)"
        using s b by (auto simp: try_io_def Inr split: sum.splits)
      show ?thesis using flip_default_ok [OF f] p2 by (simp add: eq tunnel_closed_def)
    qed
  qed
  then show "flips_prepared servers tr'" "if is_ok r then tunnel_closed tr' else not_turned tr'"
    by blast+
qed

section \<open>The command\<close>

lemma started_calm: "flips_prepared servers (helper_started os [])" "not_turned (helper_started os [])"
  by (auto simp: helper_started_def ask_def Let_def no_flip_def not_turned_def turned_def)

lemma route_up_command:
  assumes "helper_main os hm pid n (''route-up'' # args) [] = (rc, tr)"
  shows "flips_prepared (ru_servers (route_up_args args no_options)) tr"
    "if rc = Some 0 then tunnel_closed tr else not_turned tr"
proof -
  let ?o = "route_up_args args no_options"
  obtain r tr1 where up: "helper_route_up os hm (ru_servers ?o) (ru_cgroup ?o) (ru_apps ?o) (helper_started os []) = (r, tr1)"
    by fastforce
  note outcome = route_up_outcome [OF up started_calm]
  have "report os (helper_route_up os hm (ru_servers ?o) (ru_cgroup ?o) (ru_apps ?o)) (helper_started os []) = (rc, tr)"
    using assms unfolding helper_main_word by (simp add: helper_command_def Let_def)
  then have run: "report os (\<lambda>_. (r, tr1)) [] = (rc, tr)"
    unfolding report_def then_io_def up by simp
  have "flips_prepared (ru_servers ?o) tr \<and> (if rc = Some 0 then tunnel_closed tr else not_turned tr)"
  proof (cases r)
    case (Inl e)
    then have rc: "rc = Some 1" and tr: "\<exists>x. tr = (PrintErr e, x) # tr1"
      using run by (auto simp: report_def fail_with_def then_io_def map_io_def ask_def Let_def)
    have "extends_by no_flip tr1 tr" using tr by auto
    then show ?thesis
      using outcome not_turned_no_flip flips_prepared_extends [of no_flip tr1 tr] by (simp add: rc Inl)
  next
    case (Inr u)
    then show ?thesis using run outcome by (simp add: report_def then_io_def return_io_def)
  qed
  then show "flips_prepared (ru_servers ?o) tr" "if rc = Some 0 then tunnel_closed tr else not_turned tr"
    by blast+
qed

end
