(* ===== verification/Helper_Moves.thy ===== *)
theory Helper_Moves
  imports Helper_Safety
begin

text \<open>
  Which processes the network helper moves, over every command it has; that its socket program
  and throw routes are those of the daemon's split; and that nothing can be injected into its
  bypass table.
\<close>

section \<open>Moves\<close>

text \<open>
  Writes other than of the reverse-path filter are moves, and directly before one the names of that
  very process were read and matched.
\<close>

definition move_identified :: "os \<Rightarrow> string list \<Rightarrow> string \<Rightarrow> trace \<Rightarrow> bool" where
  "move_identified os excluded content tr \<longleftrightarrow>
     (\<exists>pid names tr0. process_names os pid tr0 = (names, tr) \<and> content = dec pid \<and> names_match excluded names)"

fun moves_identified :: "os \<Rightarrow> string list \<Rightarrow> trace \<Rightarrow> bool" where
  "moves_identified os excluded [] = True"
| "moves_identified os excluded ((c, r) # tr) =
     ((case c of WriteFile path content \<Rightarrow> path = RP_ALL \<or> move_identified os excluded content tr | _ \<Rightarrow> True)
      \<and> moves_identified os excluded tr)"

definition no_process_move :: "call \<Rightarrow> bool" where
  "no_process_move c = (case c of WriteFile path content \<Rightarrow> path = RP_ALL | _ \<Rightarrow> True)"

lemma no_process_move_simps [simp]:
  "no_process_move (Run prog args inp)" "no_process_move (ReadFile p)" "no_process_move (ReadLink p)" "no_process_move (ReadDir p)"
  "no_process_move (WriteFile p s) = (p = RP_ALL)" "no_process_move (WriteNoFollow p s)" "no_process_move (MakeDirMode p m)"
  "no_process_move (PathExists p)" "no_process_move (RemoveFile p)" "no_process_move (PrintErr s)" "no_process_move (PrintOut s)"
  "no_process_move (BpfCall n b)" "no_process_move (OpenDir p)" "no_process_move (CloseFd fd)" "no_process_move ListInterfaces"
  "no_process_move ParentPid" "no_process_move OpenProcEvents" "no_process_move (BindNetlink fd g)" "no_process_move (SendBytes fd s)"
  "no_process_move (RecvBytes fd n)" "no_process_move (ResolveHost h q)" "no_process_move (ConnectMarked ip q i t)"
  "no_process_move RaiseAmbient" "no_process_move (SetEnv k v)"
  by (simp_all add: no_process_move_def)

lemma keeps_no_process_move:
  assumes "calls_only no_process_move m"
  shows "keeps (moves_identified os excluded) m"
proof (rule keeps_calls_only [OF assms])
  show "no_process_move c \<Longrightarrow> moves_identified os excluded tr \<Longrightarrow> moves_identified os excluded ((c, r) # tr)" for c r tr
    by (cases c) (simp_all add: no_process_move_def)
qed

lemma bypass_no_process_move [calls_intro]:
  "calls_only no_process_move (bypass_up os hm path iface)" "calls_only no_process_move (bypass_down os hm rel)"
proof -
  have bpf: "calls_only no_process_move (bypass_bpf os hm rel attach)" for rel attach
    unfolding bypass_bpf_def bypass_attach_def bpf_result_def Let_def by (auto intro!: calls_intro)
  then show "calls_only no_process_move (bypass_up os hm path iface)" "calls_only no_process_move (bypass_down os hm rel)"
    unfolding bypass_up_def bypass_down_def bypass_iface_def pick_physical_iface_def
    by (auto intro!: calls_intro)
qed

lemma reading_no_process_move [calls_intro]:
  "calls_only no_process_move (process_names os pid)" "calls_only no_process_move (pid_matches_excluded os pid excluded)"
  "calls_only no_process_move (proc_pids os)" "calls_only no_process_move (pin_existing_excluded_flows os excluded)"
proof -
  show n: "calls_only no_process_move (process_names os pid)" for pid
    unfolding process_names_def by (intro calls_intro) simp_all
  show m: "calls_only no_process_move (pid_matches_excluded os pid excluded)" for pid
    unfolding pid_matches_excluded_def by (intro calls_intro n)
  show p: "calls_only no_process_move (proc_pids os)"
    unfolding proc_pids_def by (intro calls_intro) simp_all
  have l: "calls_only no_process_move (link_inodes os dir names)" for dir names
    by (induction names) (auto intro!: calls_intro)
  have "calls_only no_process_move (excluded_inodes os excluded pids)" for pids
    by (induction pids) (auto intro!: calls_intro m l simp: process_inodes_def)
  moreover have "calls_only no_process_move (pin_files os inodes files q)" for inodes files q
    by (induction files arbitrary: q) (auto intro!: calls_intro)
  ultimately show "calls_only no_process_move (pin_existing_excluded_flows os excluded)"
    unfolding pin_existing_excluded_flows_def by (auto intro!: calls_intro p)
qed

lemma route_no_process_move [calls_intro]:
  "calls_only no_process_move (pin_servers os gw iface servers)" "calls_only no_process_move (pin_servers6 os v6 servers)"
  "calls_only no_process_move (ensure_tun os)" "calls_only no_process_move (install_dns_policy_route os)"
  "calls_only no_process_move (remove_dns_policy_route os)" "calls_only no_process_move (set_rp_filter_loose os)"
  "calls_only no_process_move (restore_rp_filter os)" "calls_only no_process_move (lay_physical os gw iface)"
  "calls_only no_process_move (lay_physical6 os v6)" "calls_only no_process_move (helper_default_route6 os)"
  "calls_only no_process_move (helper_default_route os)" "calls_only no_process_move (drop_rules os fam m n)"
  "calls_only no_process_move (delete_recorded os path f)"
proof -
  show "calls_only no_process_move (pin_servers os gw iface servers)"
    by (induction os gw iface servers rule: pin_servers.induct) (auto intro!: calls_intro)
  show "calls_only no_process_move (pin_servers6 os v6 servers)"
    by (induction os v6 servers rule: pin_servers6.induct) (auto intro!: calls_intro)
  show "calls_only no_process_move (drop_rules os fam m n)"
    by (induction n) (auto intro!: calls_intro)
qed (auto intro!: calls_intro simp: ensure_tun_def install_dns_policy_route_def remove_dns_policy_route_def
      set_rp_filter_loose_def restore_rp_filter_def lay_physical_def lay_physical6_def add_rule_fwmark_def Let_def
      helper_default_route6_def helper_default_route_def delete_recorded_def)

lemma down_no_process_move [calls_intro]: "calls_only no_process_move (helper_route_down os hm keep)"
  unfolding helper_route_down_def down_defaults_def down_rules_def by (auto intro!: calls_intro)

lemma flip_no_process_move [calls_intro]: "calls_only no_process_move (flip_default os v6 servers)"
  unfolding flip_default_def by (auto intro!: calls_intro)

text \<open>A move follows the reading of its process.\<close>

lemma move_keeps: "keeps (moves_identified os excluded) (bypass_move_if_match os procs excluded pid)"
  unfolding keeps_def
proof (intro allI impI)
  fix tr assume tr: "moves_identified os excluded tr"
  obtain names tr1 where names: "process_names os pid tr = (names, tr1)" by fastforce
  have tr1: "moves_identified os excluded tr1"
    by (rule keepsD [OF keeps_no_process_move [OF reading_no_process_move(1)] names tr])
  have "move_identified os excluded (dec pid) tr1" if "names_match excluded names"
    using names that unfolding move_identified_def by blast
  then show "moves_identified os excluded (snd (bypass_move_if_match os procs excluded pid tr))"
    using tr1 names
    by (simp add: bypass_move_if_match_def pid_matches_excluded_def then_io_def map_io_def ask_def Let_def return_io_def)
qed

lemma sweep_keeps: "keeps (moves_identified os excluded) (bypass_sweep os procs excluded)"
  unfolding bypass_sweep_def
  by (intro keeps_then keeps_ignore_all) (auto intro: keeps_no_process_move calls_intro move_keeps)

lemma arm_keeps: "keeps (moves_identified os apps) (arm_bypass os hm cg iface apps)"
proof -
  have "keeps (moves_identified os apps) (bypass_up os hm c i)" for c i
    by (intro keeps_no_process_move calls_intro)
  moreover have "keeps (moves_identified os apps) (pin_existing_excluded_flows os apps)"
    by (intro keeps_no_process_move calls_intro)
  ultimately show ?thesis
    unfolding arm_bypass_def by (intro keeps_intro sweep_keeps)
qed

lemma route_up_keeps: "keeps (moves_identified os apps) (helper_route_up os hm servers cg apps)"
proof -
  let ?I = "moves_identified os apps"
  note calm = keeps_no_process_move [where os = os and excluded = apps]
  have "keeps ?I (write_state os path s)" for path s
    by (intro calm) (auto intro!: calls_intro)
  then have before: "keeps ?I (before_flip os hm gw iface servers cg apps)" for gw iface
    unfolding before_flip_def
    by (intro keeps_try keeps_then arm_keeps keeps_return calm [OF route_no_process_move(1)] calm [OF route_no_process_move(3)]
        calm [OF route_no_process_move(4)] calm [OF route_no_process_move(6)] calm [OF route_no_process_move(8)]
        calm [OF route_no_process_move(9)] calm [OF route_no_process_move(10)])
  show ?thesis
    unfolding helper_route_up_def
    by (intro keeps_try keeps_then)
       (auto intro!: keeps_try keeps_then keeps_return before calm [OF flip_no_process_move] calm [OF down_no_process_move]
          calm [OF route_no_process_move(11)])
qed

lemma watch_keeps: "keeps (moves_identified os excluded) (bypass_watch os hm pid rel excluded turns)"
proof -
  let ?I = "moves_identified os excluded"
  have parent: "keeps ?I (parent_pid os)"
    by (rule keeps_no_process_move) (auto simp: parent_pid_def intro!: calls_intro)
  have print: "keeps ?I (map_io f (ask os (PrintErr s)))" for f :: "reply \<Rightarrow> 'a" and s
    by (rule keeps_no_process_move) (auto intro!: calls_intro)
  have failed: "keeps ?I (watch_failed os what e)" for what e
    unfolding watch_failed_def by (rule print)
  have close: "keeps ?I (map_io f (ask os (CloseFd fd)))" for f :: "reply \<Rightarrow> nat option" and fd
    by (rule keeps_no_process_move) (auto intro!: calls_intro)
  have "keeps ?I (ask_text os (RecvBytes fd n))" for fd n
    by (rule keeps_no_process_move) (auto intro!: calls_intro)
  then have turn: "keeps ?I (watch_turn os little fd gui procs excluded)" for little fd gui procs
    unfolding watch_turn_def by (intro keeps_intro parent print move_keeps)
  have loop: "keeps ?I (watch_loop os little fd gui procs excluded n)" for little fd gui procs n
    by (induction n) (auto intro!: keeps_intro turn)
  have asks: "keeps ?I (ask_number os OpenProcEvents)" "keeps ?I (do_call os (BindNetlink fd g))"
    "keeps ?I (do_call os (SendBytes fd s))" for fd g s
    by (rule keeps_no_process_move, auto intro!: calls_intro)+
  show ?thesis
    unfolding bypass_watch_def
    by (intro keeps_intro parent print failed close loop asks sweep_keeps)
qed

text \<open>The applications a command is told to exclude.\<close>

definition told_apps :: "string \<Rightarrow> string list \<Rightarrow> string list" where
  "told_apps word args = (if word = ''bypass-watch'' then tl args else ru_apps (route_up_args args no_options))"

lemma probes_no_process_move:
  "calls_only no_process_move (run_tcp os args)" "calls_only no_process_move (run_icmp os args)"
proof -
  have fail: "calls_only no_process_move (fail_with os k s)" for k s
    unfolding fail_with_def by (intro calls_intro) simp
  have ms: "calls_only no_process_move m \<Longrightarrow> calls_only no_process_move (report_ms os m)" for m
    unfolding report_ms_def by (intro calls_intro fail) simp_all
  have tcp: "calls_only no_process_move (tcp_ping_bypass os host port tmo)" for host port tmo
    unfolding tcp_ping_bypass_def pick_physical_iface_def by (intro calls_intro) simp_all
  have icmp: "calls_only no_process_move (icmp_ping os host tmo)" for host tmo
    unfolding icmp_ping_def by (intro calls_intro) simp_all
  show "calls_only no_process_move (run_tcp os args)"
    unfolding run_tcp_def by (intro calls_intro fail ms tcp)
  show "calls_only no_process_move (run_icmp os args)"
    unfolding run_icmp_def by (intro calls_intro fail ms icmp)
qed

lemma keeps_split:
  "(xs = [] \<Longrightarrow> keeps I f) \<Longrightarrow> (\<And>y ys. xs = y # ys \<Longrightarrow> keeps I (g y ys)) \<Longrightarrow> keeps I (case xs of [] \<Rightarrow> f | y # ys \<Rightarrow> g y ys)"
  "(\<And>a b. p = (a, b) \<Longrightarrow> keeps I (h a b)) \<Longrightarrow> keeps I (case p of (a, b) \<Rightarrow> h a b)"
  by (auto split: list.splits prod.splits)

lemma command_keeps: "keeps (moves_identified os (told_apps word args)) (helper_command os hm pid n word args)"
proof -
  let ?I = "moves_identified os (told_apps word args)"
  have fail: "keeps ?I (fail_with os k s)" for k s
    by (rule keeps_no_process_move) (auto simp: fail_with_def intro!: calls_intro)
  have report: "keeps ?I m \<Longrightarrow> keeps ?I (report os m)" for m
    unfolding report_def by (intro keeps_intro fail)
  have up: "keeps ?I (bypass_up os hm c i)" and down: "keeps ?I (bypass_down os hm rel)"
    and nft: "keeps ?I (nft_apply os r)" and quiet: "keeps ?I (quietly os p a)"
    and tcp: "keeps ?I (run_tcp os as)" and icmp: "keeps ?I (run_icmp os as)"
    and rdown: "keeps ?I (helper_route_down os hm k)" for c i rel r p a as k
    by (rule keeps_no_process_move, auto intro: bypass_no_process_move probes_no_process_move down_no_process_move ip_calls)+
  have run: "keeps ?I (helper_route_up os hm servers cg (ru_apps (route_up_args args no_options)))"
    if "word \<noteq> ''bypass-watch''" for servers cg
    using route_up_keeps that by (simp add: told_apps_def)
  have watch: "keeps ?I (bypass_watch os hm pid path ex n)" if "word = ''bypass-watch''" and "args = path # ex" for path ex
    using watch_keeps that by (simp add: told_apps_def)
  have cleanup: "keeps ?I (ignore_all [quietly os p a, helper_route_down os hm False, delete_tun os])" for p a
    by (rule keeps_ignore_all) (auto simp: delete_tun_def ip_quiet_def intro: rdown quiet)
  show ?thesis
    unfolding helper_command_def apply_killswitch_def remove_killswitch_def Let_def
    by (intro keeps_cases keeps_map keeps_split report tcp icmp nft quiet run rdown up down watch fail cleanup) simp_all
qed

lemma helper_moves: "moves_identified os (told_apps word args) (snd (helper_main os hm pid n (word # args) []))"
proof -
  have "keeps (moves_identified os (told_apps word args)) (ask os c)" if "no_process_move c" for c
    by (rule keeps_no_process_move) (use that in \<open>auto intro!: calls_intro\<close>)
  then have "keeps (moves_identified os (told_apps word args)) (helper_main os hm pid n (word # args))"
    unfolding helper_main_def helper_run_def by (auto intro!: keeps_intro command_keeps)
  then show ?thesis unfolding keeps_def by simp
qed

section \<open>The bypass table\<close>

lemma helper_program_same: "bypass_sock_prog little = socket_mark_program little"
  by (simp add: bypass_sock_prog_def socket_mark_program_def bpf_insn_def instruction_def)

lemma helper_throws_same: "PHYS_THROWS = LOCAL_THROWS"
  by (simp add: PHYS_THROWS_def LOCAL_THROWS_def)

definition bypass_text_parts :: "string list" where
  "bypass_text_parts =
     [unlines (take 5 (bypass_lines 0 [] [])) @ tab @ tab @ ''socket cgroupv2 level '',
      '' '' @ [dquote],
      dquote # unlines ('' meta mark set 0x2025'' # take 3 (drop 6 (bypass_lines 0 [] [])))
        @ tab @ tab @ ''meta mark 0x2025 oifname '' @ [dquote],
      dquote # unlines ['' masquerade'', tab @ ''}'', ''}'']]"

lemma bypass_text_eq:
  "unlines (bypass_lines level path i) =
     bypass_text_parts ! 0 @ dec level @ bypass_text_parts ! 1 @ path @ bypass_text_parts ! 2 @ i
     @ bypass_text_parts ! 3"
  by (simp add: bypass_text_parts_def bypass_lines_def unlines_def quoted_def)

lemma bypass_text_counts:
  "map structure_counts bypass_text_parts = [[0, 5, 2, 0, 2], [1, 0, 0, 0, 0], [2, 4, 1, 1, 2], [1, 3, 0, 2, 0]]"
  by code_simp

lemma bypass_structure:
  assumes "bypass_ruleset path iface = Ok rules"
  shows "structure_counts rules = [4, 12, 3, 3, 4]"
proof -
  have "cg_valid path" and i: "list_all interface_char iface"
    and rules: "rules = unlines (bypass_lines (length (path_parts path)) path iface)"
    using assms by (auto simp: bypass_ruleset_def bypass_path_error_def split: if_splits option.splits)
  then have p: "structure_counts path = [0, 0, 0, 0, 0]"
    by (intro structure_counts_safe)
       (auto simp: list_all_iff cg_valid_def component_char_def interface_char_def)
  have i': "structure_counts iface = [0, 0, 0, 0, 0]"
    using i by (intro structure_counts_safe) (auto simp: list_all_iff component_char_def)
  have "structure_counts (bypass_text_parts ! k) = map structure_counts bypass_text_parts ! k"
    if "k < length bypass_text_parts" for k
    using that by (simp only: nth_map)
  moreover have "length bypass_text_parts = 4" by (simp add: bypass_text_parts_def)
  ultimately have parts: "structure_counts (bypass_text_parts ! 0) = [0, 5, 2, 0, 2]"
    "structure_counts (bypass_text_parts ! 1) = [1, 0, 0, 0, 0]"
    "structure_counts (bypass_text_parts ! 2) = [2, 4, 1, 1, 2]"
    "structure_counts (bypass_text_parts ! 3) = [1, 3, 0, 2, 0]"
    by (simp_all add: bypass_text_counts)
  show ?thesis
    unfolding rules bypass_text_eq structure_counts_append parts p i' structure_counts_dec by simp
qed

end
