(* ===== verification/Helper_Watch.thy ===== *)
theory Helper_Watch
  imports Helper_Moves
begin

text \<open>
  The watcher of the helper ends with its parent: once the parent is gone and no process events
  come, the loop needs only so many turns as calls were made before.
\<close>

text \<open>From the \<open>N\<close>-th call on, receiving times out and the parent is another process.\<close>

definition parent_gone_after :: "os \<Rightarrow> nat \<Rightarrow> nat \<Rightarrow> bool" where
  "parent_gone_after os gui_pid N \<longleftrightarrow>
     (\<forall>tr. N \<le> length tr \<longrightarrow>
        (\<forall>fd. \<exists>msg. os tr (RecvBytes fd 4096) = Failed EAGAIN msg) \<and> fst (parent_pid os tr) \<noteq> gui_pid)"

lemma extends_length: "extends_by P tr tr' \<Longrightarrow> length tr \<le> length tr'"
  by (auto simp: extends_by_def)

lemma moving_extends: "calls_only (\<lambda>c. True) (bypass_move_if_match os procs excluded pid)"
  unfolding bypass_move_if_match_def pid_matches_excluded_def process_names_def by (intro calls_intro) simp_all

lemma turn_grows:
  assumes "watch_turn os little fd gui procs excluded tr = (on, tr')"
  shows "length tr < length tr'"
proof -
  have "calls_only (\<lambda>c. True) (parent_pid os)" "calls_only (\<lambda>c. True) (ask os (PrintErr s))" for s
    unfolding parent_pid_def by (intro calls_intro; simp)+
  then have rest: "calls_only (\<lambda>c. True) (case r of
       Inl e \<Rightarrow>
         if errno e = EINTR then return_io True
         else if errno e = EAGAIN then map_io (\<lambda>p. p = gui) (parent_pid os)
         else map_io (\<lambda>_. False) (ask os (PrintErr (''bypass-watch recv: '' @ err_text e)))
     | Inr datagram \<Rightarrow>
         (case started_process little datagram of
            None \<Rightarrow> return_io True
          | Some pid \<Rightarrow> map_io (\<lambda>_. True) (bypass_move_if_match os procs excluded pid)))" for r
    by (intro calls_intro moving_extends) simp_all
  obtain r tr1 where r: "ask_text os (RecvBytes fd 4096) tr = (r, tr1)" by fastforce
  then have "length tr1 = Suc (length tr)" by (auto simp: ask_defs Let_def)
  moreover have "extends_by (\<lambda>c. True) tr1 tr'"
    using assms r by (auto simp: watch_turn_def then_io_def intro: calls_onlyD [OF rest])
  ultimately show ?thesis using extends_length by fastforce
qed

lemma turn_stops:
  assumes "parent_gone_after os gui N" and "N \<le> length tr"
  shows "\<not> fst (watch_turn os little fd gui procs excluded tr)"
proof -
  obtain msg where recv: "os tr (RecvBytes fd 4096) = Failed EAGAIN msg"
    using assms unfolding parent_gone_after_def by blast
  have "fst (parent_pid os ((RecvBytes fd 4096, Failed EAGAIN msg) # tr)) \<noteq> gui"
    using assms(1) [unfolded parent_gone_after_def, rule_format, of "(RecvBytes fd 4096, Failed EAGAIN msg) # tr"] assms(2)
    by simp
  then show ?thesis
    using recv
    by (simp add: watch_turn_def then_io_def map_io_def ask_defs Let_def failure_of_def EAGAIN_def EINTR_def case_prod_beta)
qed

lemma loop_ends:
  "parent_gone_after os gui N \<Longrightarrow> N - length tr < n \<Longrightarrow>
     fst (watch_loop os little fd gui procs excluded n tr) = Some ()"
proof (induction n arbitrary: tr)
  case (Suc n)
  obtain on tr' where turn: "watch_turn os little fd gui procs excluded tr = (on, tr')" by fastforce
  show ?case
  proof (cases on)
    case True
    then have "\<not> N \<le> length tr" using turn_stops [OF Suc.prems(1), of tr] turn by (metis fst_conv)
    then have "N - length tr' < n" using turn_grows [OF turn] Suc.prems(2) by linarith
    then show ?thesis using Suc.IH [OF Suc.prems(1)] turn True by (simp add: then_io_def)
  qed (simp add: then_io_def turn return_io_def)
qed simp

lemma watcher_ends:
  assumes gone: "parent_gone_after os (fst (parent_pid os [])) N"
  shows "fst (bypass_watch os hm pid rel excluded (Suc N) []) \<noteq> None"
proof -
  have loop: "fst (watch_loop os little fd (fst (parent_pid os [])) procs excluded (Suc N) tr) = Some ()"
    for little fd procs tr
    by (rule loop_ends [OF gone]) simp
  have after: "fst (then_io (watch_loop os little fd (fst (parent_pid os [])) procs excluded (Suc N))
      (\<lambda>done. case done of None \<Rightarrow> return_io None | Some _ \<Rightarrow> map_io (\<lambda>_. Some 0) (ask os (CloseFd fd'))) tr)
      = Some (0 :: nat)" for little fd procs fd' tr
    using loop [of little fd procs tr] by (simp add: then_io_def map_io_def case_prod_beta del: watch_loop.simps)
  show ?thesis
    using after
    by (simp add: bypass_watch_def then_io_def map_io_def watch_failed_def case_prod_beta del: watch_loop.simps
        split: sum.split)
qed

end
