(* ===== verification/Client_Types.thy ===== *)
theory Client_Types
  imports Json
begin

text \<open>
  The data of the desktop client (\<open>src-tauri\<close>): a location (\<open>VlessServer\<close>), the split
  selection, and what the code uses of \<open>serde_json\<close> maps and of the URL parser.  A
  \<open>HashMap<String, String>\<close> is a function to options.
\<close>

unbundle bit_operations_syntax

section \<open>Building JSON\<close>

text \<open>\<open>json!({ ... })\<close>: the entries inserted in the order written.\<close>

definition obj_of :: "(string \<times> json) list \<Rightarrow> json_map" where
  "obj_of kvs = fold (\<lambda>(k, v). obj_insert k v) kvs []"

definition jobj :: "(string \<times> json) list \<Rightarrow> json" where
  "jobj kvs = JObj (obj_of kvs)"

definition jstrs :: "string list \<Rightarrow> json" where
  "jstrs ss = JArr (map JStr ss)"

definition obj_remove :: "string \<Rightarrow> json_map \<Rightarrow> json_map" where
  "obj_remove k kvs = filter (\<lambda>(k', v). k' \<noteq> k) kvs"

text \<open>\<open>entry(k).or_insert(v)\<close>.\<close>

definition obj_or_insert :: "string \<Rightarrow> json \<Rightarrow> json_map \<Rightarrow> json_map" where
  "obj_or_insert k v kvs = (case map_of kvs k of None \<Rightarrow> obj_insert k v kvs | Some _ \<Rightarrow> kvs)"

fun is_object :: "json \<Rightarrow> bool" where
  "is_object (JObj _) = True"
| "is_object _ = False"

text \<open>The entry of a map as an object: what is there, or an empty one where there is none or it is no object.\<close>

definition entry_object :: "string \<Rightarrow> json_map \<Rightarrow> json_map" where
  "entry_object k kvs = (case map_of kvs k of Some (JObj o') \<Rightarrow> o' | _ \<Rightarrow> [])"

definition to_lower :: "string \<Rightarrow> string" where
  "to_lower = map lower_byte"

definition ends_with :: "string \<Rightarrow> string \<Rightarrow> bool" where
  "ends_with suf s = (length suf \<le> length s \<and> drop (length s - length suf) s = suf)"

text \<open>\<open>opt.clone().unwrap_or_else(...)\<close>.\<close>

definition unwrap_or :: "'a \<Rightarrow> 'a option \<Rightarrow> 'a" where
  "unwrap_or d x = (case x of None \<Rightarrow> d | Some a \<Rightarrow> a)"

definition non_empty :: "string option \<Rightarrow> string option" where
  "non_empty x = Option.bind x (\<lambda>s. if s = [] then None else Some s)"

section \<open>A location\<close>

record vless_server =
  vs_id :: string
  vs_protocol :: string
  vs_uuid :: string
  vs_password :: "string option"
  vs_method :: "string option"
  vs_host :: string
  vs_port :: nat
  vs_label :: string
  vs_transport :: string
  vs_security :: string
  vs_sni :: "string option"
  vs_fingerprint :: "string option"
  vs_public_key :: "string option"
  vs_short_id :: "string option"
  vs_flow :: "string option"
  vs_path :: "string option"
  vs_mode :: "string option"
  vs_packet_encoding :: "string option"
  vs_raw_params :: "string \<Rightarrow> string option"
  vs_source_json :: "string option"
  vs_raw_outbound :: "json option"
  vs_raw_profile :: "json option"

definition base_server :: "string \<Rightarrow> string \<Rightarrow> nat \<Rightarrow> string \<Rightarrow> vless_server" where
  "base_server protocol host port label =
     \<lparr>vs_id = host @ ''_'' @ dec port, vs_protocol = protocol, vs_uuid = [], vs_password = None, vs_method = None,
      vs_host = host, vs_port = port, vs_label = label, vs_transport = ''tcp'', vs_security = ''none'',
      vs_sni = None, vs_fingerprint = None, vs_public_key = None, vs_short_id = None, vs_flow = None,
      vs_path = None, vs_mode = None, vs_packet_encoding = None, vs_raw_params = (\<lambda>_. None),
      vs_source_json = None, vs_raw_outbound = None, vs_raw_profile = None\<rparr>"

definition set_param :: "string \<Rightarrow> string \<Rightarrow> vless_server \<Rightarrow> vless_server" where
  "set_param k v s = s\<lparr>vs_raw_params := (vs_raw_params s)(k := Some v)\<rparr>"

definition param :: "string \<Rightarrow> vless_server \<Rightarrow> string option" where
  "param k s = vs_raw_params s k"

section \<open>The split selection\<close>

record split_input =
  sp_apps_mode :: string
  sp_sites_mode :: string
  sp_apps :: "string list"
  sp_sites :: "string list"

definition apps_selective :: "split_input \<Rightarrow> bool" where
  "apps_selective sp = (sp_apps_mode sp = ''selective'')"

definition sites_selective :: "split_input \<Rightarrow> bool" where
  "sites_selective sp = (sp_sites_mode sp = ''selective'')"

definition enabled_apps :: "split_input \<Rightarrow> string list" where
  "enabled_apps sp = filter (\<lambda>a. a \<noteq> []) (sp_apps sp)"

section \<open>URLs\<close>

text \<open>What the client reads of a parsed URL; the parser is an argument.\<close>

record full_url =
  fu_scheme :: string
  fu_username :: string
  fu_password :: "string option"
  fu_host :: "string option"
  fu_port :: "nat option"
  fu_fragment :: "string option"
  fu_pairs :: "(string \<times> string) list"
  fu_text :: string

section \<open>Addresses\<close>

fun is_safe_remote_dns_ip :: "ip_addr \<Rightarrow> bool" where
  "is_safe_remote_dns_ip (V4 a b c d) =
     (\<not> (a = 10 \<or> (a = 172 \<and> b AND 0xf0 = 16) \<or> (a = 192 \<and> b = 168))
      \<and> \<not> is_loopback (V4 a b c d) \<and> \<not> is_link_local_v4 (V4 a b c d) \<and> \<not> is_multicast (V4 a b c d)
      \<and> \<not> is_unspecified (V4 a b c d)
      \<and> \<not> (a = 255 \<and> b = 255 \<and> c = 255 \<and> d = 255)
      \<and> \<not> (a = 100 \<and> 64 \<le> b \<and> b \<le> 127))"
| "is_safe_remote_dns_ip (V6 ss) =
     (\<not> is_loopback (V6 ss) \<and> \<not> is_unspecified (V6 ss) \<and> \<not> is_multicast (V6 ss)
      \<and> \<not> (ss \<noteq> [] \<and> hd ss AND 0xfe00 = 0xfc00) \<and> \<not> (ss \<noteq> [] \<and> hd ss AND 0xffc0 = 0xfe80))"

section \<open>Facts\<close>

lemma map_of_fold_insert:
  "map_of (fold (\<lambda>(k, v). obj_insert k v) kvs m) k =
     (case map_of (rev kvs) k of None \<Rightarrow> map_of m k | Some v \<Rightarrow> Some v)"
  by (induction kvs arbitrary: m) (auto simp: map_add_def split: option.splits)

lemma map_of_obj_of: "map_of (obj_of kvs) k = map_of (rev kvs) k"
  by (simp add: obj_of_def map_of_fold_insert split: option.splits)

lemma json_get_jobj [simp]: "json_get k (jobj kvs) = map_of (rev kvs) k"
  by (simp add: jobj_def map_of_obj_of)

lemma keys_fold_insert: "fst ` set (fold (\<lambda>(k, v). obj_insert k v) kvs m) = fst ` set kvs \<union> fst ` set m"
  by (induction kvs arbitrary: m) (simp_all add: case_prod_beta fst_set_obj_insert)

lemma keys_obj_of: "fst ` set (obj_of kvs) = fst ` set kvs"
  by (simp add: obj_of_def keys_fold_insert)

lemma wf_fold_insert:
  "json_wf (JObj m) \<Longrightarrow> list_all (\<lambda>(k, v). json_wf v) kvs \<Longrightarrow>
     json_wf (JObj (fold (\<lambda>(k, v). obj_insert k v) kvs m))"
proof (induction kvs arbitrary: m)
  case (Cons kv kvs)
  obtain k v where kv: "kv = (k, v)" by fastforce
  have "json_wf (JObj (obj_insert k v m))"
    by (rule json_wf_insert) (use Cons.prems kv in auto)
  with Cons kv show ?case by simp
qed simp

lemma wf_jobj: "list_all (\<lambda>(k, v). json_wf v) kvs \<Longrightarrow> json_wf (jobj kvs)"
  unfolding jobj_def obj_of_def by (rule wf_fold_insert) simp_all

lemma set_fold_insert: "set (fold (\<lambda>(k, v). obj_insert k v) kvs m) \<subseteq> set kvs \<union> set m"
proof (induction kvs arbitrary: m)
  case (Cons kv kvs)
  obtain k v where kv: "kv = (k, v)" by fastforce
  show ?case using Cons.IH [of "obj_insert k v m"] set_obj_insert [of k v m] by (auto simp: kv)
qed simp

text \<open>Nothing is forbidden in what is built of nothing forbidden.\<close>

definition kv_clean :: "string \<times> json \<Rightarrow> bool" where
  "kv_clean kv = (fst kv \<notin> set forbidden_file_keys \<and> \<not> contains_forbidden_file_key (snd kv))"

lemma clean_obj: "\<not> contains_forbidden_file_key (JObj kvs) \<longleftrightarrow> list_all kv_clean kvs"
  by (induction kvs) (auto simp: kv_clean_def)

lemma clean_jobj: "list_all kv_clean kvs \<Longrightarrow> \<not> contains_forbidden_file_key (jobj kvs)"
  using set_fold_insert [of kvs "[]"] unfolding jobj_def obj_of_def clean_obj
  by (auto simp: list_all_iff)

end
