(* ===== verification/Gen_Outbound.thy ===== *)
theory Gen_Outbound
  imports Client_Types
begin

text \<open>
  The outbounds of the generated Xray configuration (\<open>src-tauri/src/xray.rs\<close>): the one built
  from the fields of a location, and the provider's own, cleaned.  \<open>from_str\<close> is
  \<open>serde_json::from_str\<close>, with \<open>None\<close> for an error.
\<close>

section \<open>Constants\<close>

definition PROXY_PROTOCOLS :: "string list" where
  "PROXY_PROTOCOLS =
     [''http'', ''socks'', ''shadowsocks'', ''vmess'', ''vless'', ''trojan'', ''hysteria'', ''wireguard'']"

definition RESERVED_OUTBOUND_TAGS :: "string list" where
  "RESERVED_OUTBOUND_TAGS = [''direct'', ''dns-out'', ''block'']"

definition XRAY_SOCKS_PORT :: nat where "XRAY_SOCKS_PORT = 2081"
definition CLIENT_DIAL_MARK :: nat where "CLIENT_DIAL_MARK = 0x2024"
definition TUN_NAME :: string where "TUN_NAME = ''varmlen0''"
definition TUN_MTU :: nat where "TUN_MTU = 1500"
definition TUN_MTU_MIN :: nat where "TUN_MTU_MIN = 1280"
definition TUN_MTU_MAX :: nat where "TUN_MTU_MAX = 9000"

definition tun_mtu :: "nat option \<Rightarrow> nat" where
  "tun_mtu v = (case v of None \<Rightarrow> TUN_MTU | Some n \<Rightarrow> max TUN_MTU_MIN (min TUN_MTU_MAX n))"

definition PRIVATE_CIDRS :: "string list" where
  "PRIVATE_CIDRS =
     [''10.0.0.0/8'', ''172.16.0.0/12'', ''192.168.0.0/16'', ''127.0.0.0/8'', ''169.254.0.0/16'',
      ''100.64.0.0/10'', ''::1/128'', ''fc00::/7'', ''fe80::/10'']"

datatype tun_mode = XrayNative | Tun2socks

fun inbound_tag :: "tun_mode \<Rightarrow> string" where
  "inbound_tag XrayNative = ''tun-in''"
| "inbound_tag Tun2socks = ''socks-in''"

definition is_known_protocol :: "string \<Rightarrow> bool" where
  "is_known_protocol p = (p \<in> set PROXY_PROTOCOLS)"

section \<open>The provider's outbound\<close>

fun contains_forbidden_provider_file_reference :: "json \<Rightarrow> bool" where
  "contains_forbidden_provider_file_reference (JObj kvs) =
     list_ex (\<lambda>(k, v). ends_with ''file'' (to_lower k) \<or> ends_with ''filepath'' (to_lower k)
                        \<or> to_lower k = ''masterkeylog'' \<or> contains_forbidden_provider_file_reference v) kvs"
| "contains_forbidden_provider_file_reference (JArr vs) = list_ex contains_forbidden_provider_file_reference vs"
| "contains_forbidden_provider_file_reference _ = False"

text \<open>The mark that takes the dials of an outbound out of the tunnel.\<close>

definition mark_stream :: "bool \<Rightarrow> json_map \<Rightarrow> json_map" where
  "mark_stream keep object =
     (let stream = entry_object ''streamSettings'' object;
          sockopt = entry_object ''sockopt'' stream;
          sockopt' = obj_insert ''mark'' (JInt (int CLIENT_DIAL_MARK))
                       (if keep then sockopt else obj_remove ''dialerProxy'' sockopt)
      in obj_insert ''streamSettings'' (JObj (obj_insert ''sockopt'' (JObj sockopt') stream)) object)"

definition sanitize_raw_outbound :: "json \<Rightarrow> bool \<Rightarrow> string + json" where
  "sanitize_raw_outbound outbound keep =
     (if contains_forbidden_provider_file_reference outbound
      then Err ''JSON proxy outbound may not reference local files''
      else try_then (ok_or ''JSON proxy outbound must be an object'' (as_object outbound)) (\<lambda>object.
           try_then (ok_or ''JSON proxy outbound has no protocol'' (get_str ''protocol'' outbound)) (\<lambda>p.
           let protocol = to_lower p;
               object1 = obj_remove ''sendThrough'' object;
               object2 = (if keep then object1
                          else obj_insert ''tag'' (JStr ''proxy'') (obj_remove ''proxySettings'' object1))
           in if \<not> is_known_protocol protocol
              then Err (''unsupported proxy protocol in JSON: '' @ protocol)
              else if protocol = ''wireguard'' then Ok (JObj (obj_remove ''streamSettings'' object2))
              else Ok (JObj (mark_stream keep object2)))))"

section \<open>The stream of a location\<close>

definition xray_network :: "string \<Rightarrow> string" where
  "xray_network transport =
     (let t = to_lower transport in
      if t = ''xhttp'' \<or> t = ''splithttp'' then ''xhttp''
      else if t = ''ws'' \<or> t = ''websocket'' then ''ws''
      else if t = ''grpc'' \<or> t = ''gun'' then ''grpc''
      else if t = ''httpupgrade'' then ''httpupgrade''
      else if t = ''http'' \<or> t = ''h2'' \<or> t = ''h3'' then ''http''
      else if t = ''kcp'' \<or> t = ''mkcp'' then ''kcp''
      else if t = ''hysteria'' then ''hysteria''
      else ''tcp'')"

definition split_list :: "string \<Rightarrow> string list" where
  "split_list raw = filter (\<lambda>p. p \<noteq> []) (map trim (split_on (CHR '','') raw))"

definition optional_entry :: "string \<Rightarrow> json option \<Rightarrow> (string \<times> json) list" where
  "optional_entry k v = (case v of None \<Rightarrow> [] | Some j \<Rightarrow> [(k, j)])"

definition server_name :: "vless_server \<Rightarrow> string" where
  "server_name s = unwrap_or (vs_host s) (non_empty (vs_sni s))"

definition tls_fingerprint :: "vless_server \<Rightarrow> string" where
  "tls_fingerprint s = unwrap_or ''chrome'' (non_empty (vs_fingerprint s))"

definition security_entries :: "vless_server \<Rightarrow> (string \<times> json) list" where
  "security_entries s =
     (if vs_security s = ''reality''
      then [(''security'', JStr ''reality''),
            (''realitySettings'',
             jobj [(''show'', JBool False), (''serverName'', JStr (server_name s)),
                   (''fingerprint'', JStr (tls_fingerprint s)),
                   (''publicKey'', JStr (unwrap_or [] (vs_public_key s))),
                   (''shortId'', JStr (unwrap_or [] (vs_short_id s))),
                   (''spiderX'', JStr (unwrap_or ''/'' (param ''spx'' s)))])]
      else if vs_security s = ''tls''
      then [(''security'', JStr ''tls''),
            (''tlsSettings'',
             jobj ([(''serverName'', JStr (server_name s)), (''fingerprint'', JStr (tls_fingerprint s)),
                    (''allowInsecure'',
                     JBool (param ''allowInsecure'' s \<in> {Some ''1'', Some ''true''}))]
                   @ optional_entry ''alpn'' (map_option (\<lambda>a. jstrs (split_list a)) (non_empty (param ''alpn'' s)))))]
      else [(''security'', JStr ''none'')])"

definition path_or_root :: "vless_server \<Rightarrow> string" where
  "path_or_root s = unwrap_or ''/'' (vs_path s)"

definition host_header :: "vless_server \<Rightarrow> string option" where
  "host_header s = non_empty (param ''host'' s)"

definition xhttp_settings :: "(string \<Rightarrow> json option) \<Rightarrow> vless_server \<Rightarrow> json_map" where
  "xhttp_settings from_str s =
     (let extra = (case Option.bind (Option.bind (param ''extra'' s) from_str) as_object of None \<Rightarrow> [] | Some m \<Rightarrow> m);
          with_path = (case vs_path s of
             Some p \<Rightarrow> obj_insert ''path'' (JStr p) extra
           | None \<Rightarrow> obj_or_insert ''path'' (JStr (path_or_root s)) extra);
          with_mode = (case vs_mode s of
             Some m \<Rightarrow> obj_insert ''mode'' (JStr m) with_path
           | None \<Rightarrow> obj_or_insert ''mode'' (JStr ''auto'') with_path)
      in case host_header s of None \<Rightarrow> with_mode | Some h \<Rightarrow> obj_insert ''host'' (JStr h) with_mode)"

definition transport_entries :: "(string \<Rightarrow> json option) \<Rightarrow> vless_server \<Rightarrow> (string \<times> json) list" where
  "transport_entries from_str s =
     (let network = xray_network (vs_transport s); path = JStr (path_or_root s); host = host_header s in
      if network = ''xhttp'' then [(''xhttpSettings'', JObj (xhttp_settings from_str s))]
      else if network = ''ws''
      then [(''wsSettings'',
             jobj ((''path'', path) # optional_entry ''headers'' (map_option (\<lambda>h. jobj [(''Host'', JStr h)]) host)))]
      else if network = ''httpupgrade''
      then [(''httpupgradeSettings'', jobj ((''path'', path) # optional_entry ''host'' (map_option JStr host)))]
      else if network = ''grpc''
      then [(''grpcSettings'',
             jobj ([(''serviceName'', JStr (unwrap_or [] (param ''serviceName'' s))),
                    (''multiMode'', JBool (vs_mode s \<in> {Some ''multi'', Some ''gun''}))]
                   @ optional_entry ''authority'' (map_option JStr (non_empty (param ''authority'' s)))))]
      else if network = ''http''
      then [(''httpSettings'', jobj ((''path'', path) # optional_entry ''host'' (map_option (\<lambda>h. jstrs (split_list h)) host)))]
      else if network = ''kcp''
      then [(''kcpSettings'',
             jobj ((''header'', jobj [(''type'', JStr (unwrap_or ''none'' (param ''headerType'' s)))])
                   # optional_entry ''seed'' (map_option JStr (non_empty (param ''seed'' s)))))]
      else if network = ''hysteria''
      then [(''hysteriaSettings'', jobj [(''version'', JInt 2), (''auth'', JStr (vs_uuid s))])]
      else if param ''headerType'' s = Some ''http''
      then [(''tcpSettings'',
             jobj [(''header'',
                    jobj [(''type'', JStr ''http''),
                          (''request'',
                           jobj (optional_entry ''headers'' (map_option (\<lambda>h. jobj [(''Host'', jstrs (split_list h))]) host)
                                 @ (if vs_path s = None then []
                                    else [(''path'', jstrs (split_list (path_or_root s)))])))])])]
      else [])"

definition dial_sockopt :: json where
  "dial_sockopt = jobj [(''mark'', JInt (int CLIENT_DIAL_MARK))]"

definition build_stream_settings :: "(string \<Rightarrow> json option) \<Rightarrow> vless_server \<Rightarrow> json" where
  "build_stream_settings from_str s =
     jobj ((''network'', JStr (xray_network (vs_transport s)))
           # security_entries s @ transport_entries from_str s @ [(''sockopt'', dial_sockopt)])"

section \<open>The outbound of a location\<close>

definition reserved_bytes :: "string \<Rightarrow> nat list" where
  "reserved_bytes raw = List.map_filter (\<lambda>v. parse_uint_radix 10 255 (trim v)) (split_on (CHR '','') raw)"

definition build_wireguard_outbound :: "vless_server \<Rightarrow> json" where
  "build_wireguard_outbound s =
     (let addresses = (case map_option split_list (param ''localAddress'' s) of
             None \<Rightarrow> [''10.0.0.1/32''] | Some items \<Rightarrow> if items = [] then [''10.0.0.1/32''] else items);
          peer = jobj ([(''endpoint'', JStr (vs_host s @ '':'' @ dec (vs_port s))),
                        (''publicKey'', JStr (unwrap_or [] (vs_public_key s)))]
                       @ optional_entry ''preSharedKey'' (map_option JStr (non_empty (param ''preSharedKey'' s))));
          bytes = (case param ''reserved'' s of None \<Rightarrow> [] | Some r \<Rightarrow> reserved_bytes r);
          settings = jobj
            ([(''secretKey'', JStr (vs_uuid s)), (''address'', jstrs addresses), (''peers'', JArr [peer]),
              (''noKernelTun'', JBool True)]
             @ optional_entry ''mtu'' (map_option (\<lambda>n. JInt (int n)) (Option.bind (param ''mtu'' s) parse_u32))
             @ (if bytes = [] then [] else [(''reserved'', JArr (map (\<lambda>n. JInt (int n)) bytes))])
             @ [(''domainStrategy'', JStr (unwrap_or ''ForceIP'' (param ''domainStrategy'' s)))])
      in jobj [(''tag'', JStr ''proxy''), (''protocol'', JStr ''wireguard''), (''settings'', settings)])"

definition proxy_outbound :: "string \<Rightarrow> json \<Rightarrow> json \<Rightarrow> json" where
  "proxy_outbound protocol settings stream =
     jobj [(''tag'', JStr ''proxy''), (''protocol'', JStr protocol), (''settings'', settings),
           (''streamSettings'', stream)]"

definition endpoint_entries :: "vless_server \<Rightarrow> (string \<times> json) list" where
  "endpoint_entries s = [(''address'', JStr (vs_host s)), (''port'', JInt (int (vs_port s)))]"

definition build_simple_proxy_outbound :: "vless_server \<Rightarrow> json \<Rightarrow> json" where
  "build_simple_proxy_outbound s stream =
     proxy_outbound (vs_protocol s)
       (jobj (endpoint_entries s @ (if vs_uuid s = [] then [] else [(''user'', JStr (vs_uuid s))])
              @ optional_entry ''pass'' (map_option JStr (non_empty (vs_password s))))) stream"

definition vnext_settings :: "vless_server \<Rightarrow> (string \<times> json) list \<Rightarrow> json" where
  "vnext_settings s user = jobj [(''vnext'', JArr [jobj (endpoint_entries s @ [(''users'', JArr [jobj user])])])]"

definition servers_settings :: "vless_server \<Rightarrow> (string \<times> json) list \<Rightarrow> json" where
  "servers_settings s credentials = jobj [(''servers'', JArr [jobj (endpoint_entries s @ credentials)])]"

definition proxy_of_fields :: "(string \<Rightarrow> json option) \<Rightarrow> vless_server \<Rightarrow> json" where
  "proxy_of_fields from_str s =
     (let stream = build_stream_settings from_str s; p = vs_protocol s in
      if p = ''vmess'' then
        proxy_outbound ''vmess''
          (vnext_settings s [(''id'', JStr (vs_uuid s)), (''security'', JStr (unwrap_or ''auto'' (param ''scy'' s))),
             (''alterId'', JInt (int (unwrap_or 0 (Option.bind (param ''aid'' s) parse_u32))))]) stream
      else if p = ''trojan'' then
        proxy_outbound ''trojan''
          (servers_settings s [(''password'', JStr (unwrap_or (vs_uuid s) (vs_password s))),
             (''flow'', JStr (unwrap_or [] (vs_flow s)))]) stream
      else if p = ''shadowsocks'' then
        proxy_outbound ''shadowsocks''
          (servers_settings s [(''method'', JStr (unwrap_or [] (vs_method s))),
             (''password'', JStr (unwrap_or [] (vs_password s))), (''uot'', JBool True)]) stream
      else if p = ''hysteria'' then
        proxy_outbound ''hysteria'' (jobj ((''version'', JInt 2) # endpoint_entries s)) stream
      else if p = ''http'' \<or> p = ''socks'' then build_simple_proxy_outbound s stream
      else
        proxy_outbound ''vless''
          (vnext_settings s [(''id'', JStr (vs_uuid s)), (''encryption'', JStr ''none''),
             (''flow'', JStr (unwrap_or [] (vs_flow s)))]) stream)"

text \<open>\<open>None\<close> is the panic of \<open>expect\<close> on a provider outbound that is refused.\<close>

definition build_proxy_outbound :: "(string \<Rightarrow> json option) \<Rightarrow> vless_server \<Rightarrow> json option" where
  "build_proxy_outbound from_str s =
     (case vs_raw_outbound s of
        Some raw \<Rightarrow> res_ok (sanitize_raw_outbound raw False)
      | None \<Rightarrow>
          if vs_protocol s = ''wireguard'' then Some (build_wireguard_outbound s)
          else Some (proxy_of_fields from_str s))"

definition direct_outbound :: json where
  "direct_outbound =
     jobj [(''tag'', JStr ''direct''), (''protocol'', JStr ''freedom''),
           (''settings'', jobj [(''domainStrategy'', JStr ''UseIP'')]),
           (''streamSettings'', jobj [(''sockopt'', dial_sockopt)])]"

end
