(* ===== verification/Sub_Outbound.thy ===== *)
theory Sub_Outbound
  imports Gen_Outbound "HOL-Library.Product_Lexorder"
begin

text \<open>
  Reading an Xray outbound back into a location (\<open>src-tauri/src/subscription.rs\<close>).  The
  third-party parsers are fields of one record: the URL parser, the four base64 engines in the
  order tried, percent decoding to bytes, the JSON parser and printer, and how a JSON number is
  printed.
\<close>

record parsers =
  pa_url :: "string \<Rightarrow> string + full_url"
  pa_engines :: "(string \<Rightarrow> string option) list"
  pa_percent :: "string \<Rightarrow> string"
  pa_json :: "string \<Rightarrow> string + json"
  pa_print :: "json \<Rightarrow> string + string"
  pa_number :: "json \<Rightarrow> string"

definition url_ok :: "parsers \<Rightarrow> string \<Rightarrow> full_url option" where
  "url_ok pa raw = res_ok (pa_url pa raw)"

definition is_balancer_sentinel :: "string \<Rightarrow> bool" where
  "is_balancer_sentinel host = (to_lower (trim host) = ''balancer.host'')"

section \<open>Reading fields\<close>

definition json_str :: "string \<Rightarrow> json \<Rightarrow> string option" where
  "json_str k v = non_empty (get_str k v)"

text \<open>The first of the keys whose text is not blank, trimmed.\<close>

definition json_str_any :: "string list \<Rightarrow> json \<Rightarrow> string option" where
  "json_str_any keys v = find_map (\<lambda>k. non_empty (map_option trim (get_str k v))) keys"

definition json_port :: "json option \<Rightarrow> nat option" where
  "json_port v =
     (case v of
        Some (JInt i) \<Rightarrow> if 0 \<le> i \<and> i \<le> int u16_max then Some (nat i) else None
      | Some (JStr t) \<Rightarrow> parse_u16 t
      | _ \<Rightarrow> None)"

definition endpoint_host_port :: "parsers \<Rightarrow> string \<Rightarrow> (string \<times> nat) option" where
  "endpoint_host_port pa endpoint =
     Option.bind (url_ok pa (''tcp://'' @ endpoint)) (\<lambda>u.
     Option.bind (fu_host u) (\<lambda>h. map_option (\<lambda>p. (h, p)) (fu_port u)))"

definition first_of :: "json list \<Rightarrow> json option" where
  "first_of xs = (case xs of [] \<Rightarrow> None | x # _ \<Rightarrow> Some x)"

definition direct_or_first :: "string \<Rightarrow> json \<Rightarrow> json option" where
  "direct_or_first array_key settings =
     (if json_get ''address'' settings \<noteq> None then Some settings
      else Option.bind (get_array array_key settings) first_of)"

definition normalize_network :: "string \<Rightarrow> string" where
  "normalize_network net =
     (if net = ''raw'' \<or> net = ''tcp'' then ''tcp''
      else if net = ''splithttp'' \<or> net = ''xhttp'' then ''xhttp''
      else if net = ''h2'' then ''http'' else net)"

section \<open>The stream\<close>

text \<open>An optional value set in the parameters.\<close>

definition set_param_opt :: "string \<Rightarrow> string option \<Rightarrow> vless_server \<Rightarrow> vless_server" where
  "set_param_opt k v s = (case v of None \<Rightarrow> s | Some x \<Rightarrow> set_param k x s)"

definition apply_reality :: "json option \<Rightarrow> vless_server \<Rightarrow> vless_server" where
  "apply_reality r s =
     (case r of
        None \<Rightarrow> s
      | Some v \<Rightarrow>
          set_param_opt ''spx'' (json_str ''spiderX'' v)
            (s\<lparr>vs_sni := json_str ''serverName'' v, vs_public_key := json_str ''publicKey'' v,
               vs_short_id := json_str ''shortId'' v, vs_fingerprint := json_str ''fingerprint'' v\<rparr>))"

definition or_option :: "'a option \<Rightarrow> 'a option \<Rightarrow> 'a option" where
  "or_option a b = (case a of None \<Rightarrow> b | Some x \<Rightarrow> Some x)"

definition alpn_text :: "json \<Rightarrow> string option" where
  "alpn_text tls =
     Option.bind (get_array ''alpn'' tls) (\<lambda>xs.
       let list = List.map_filter as_str xs in if list = [] then None else Some (join_with '','' list))"

definition apply_tls :: "json option \<Rightarrow> vless_server \<Rightarrow> vless_server" where
  "apply_tls t s =
     (case t of
        None \<Rightarrow> s
      | Some v \<Rightarrow>
          set_param_opt ''alpn'' (alpn_text v)
            (set_param_opt ''allowInsecure''
               (if Option.bind (json_get ''allowInsecure'' v) as_bool = Some True then Some ''1'' else None)
               (s\<lparr>vs_sni := or_option (vs_sni s) (json_str ''serverName'' v),
                  vs_fingerprint := or_option (vs_fingerprint s) (json_str ''fingerprint'' v)\<rparr>)))"

definition apply_transport :: "json \<Rightarrow> vless_server \<Rightarrow> vless_server" where
  "apply_transport st s =
     (if vs_transport s = ''ws'' then
        (case json_get ''wsSettings'' st of
           None \<Rightarrow> s
         | Some v \<Rightarrow>
             set_param_opt ''host'' (Option.bind (json_get ''headers'' v) (get_str ''Host''))
               (s\<lparr>vs_path := json_str ''path'' v\<rparr>))
      else if vs_transport s = ''xhttp'' then
        (case or_option (json_get ''xhttpSettings'' st) (json_get ''splithttpSettings'' st) of
           None \<Rightarrow> s
         | Some v \<Rightarrow>
             set_param_opt ''host'' (json_str ''host'' v)
               (s\<lparr>vs_path := json_str ''path'' v, vs_mode := json_str ''mode'' v\<rparr>))
      else if vs_transport s = ''httpupgrade'' then
        (case json_get ''httpupgradeSettings'' st of
           None \<Rightarrow> s
         | Some v \<Rightarrow> set_param_opt ''host'' (json_str ''host'' v) (s\<lparr>vs_path := json_str ''path'' v\<rparr>))
      else if vs_transport s = ''grpc'' then
        (case json_get ''grpcSettings'' st of
           None \<Rightarrow> s
         | Some v \<Rightarrow>
             set_param_opt ''authority'' (json_str ''authority'' v)
               ((if Option.bind (json_get ''multiMode'' v) as_bool = Some True
                 then (\<lambda>x. x\<lparr>vs_mode := Some ''multi''\<rparr>) else (\<lambda>x. x))
                (set_param_opt ''serviceName'' (json_str ''serviceName'' v) s)))
      else s)"

definition apply_stream :: "json option \<Rightarrow> vless_server \<Rightarrow> vless_server" where
  "apply_stream stream s =
     (case stream of
        None \<Rightarrow> s
      | Some st \<Rightarrow>
          let s1 = (case get_str ''network'' st of None \<Rightarrow> s | Some n \<Rightarrow> s\<lparr>vs_transport := normalize_network n\<rparr>);
              s2 = s1\<lparr>vs_security := unwrap_or ''none'' (get_str ''security'' st)\<rparr>
          in apply_transport st
               (apply_tls (json_get ''tlsSettings'' st) (apply_reality (json_get ''realitySettings'' st) s2)))"

section \<open>The outbound\<close>

definition outbound_label :: "json \<Rightarrow> string \<Rightarrow> nat \<Rightarrow> string" where
  "outbound_label ob host port =
     (let tag = unwrap_or [] (get_str ''tag'' ob) in
      if tag \<noteq> [] \<and> tag \<notin> {''proxy'', ''direct'', ''block'', ''dns-out''} then tag
      else host @ '':'' @ dec port)"

text \<open>The endpoint of an outbound as a location without credentials.\<close>

definition endpoint_base :: "json \<Rightarrow> string \<Rightarrow> json \<Rightarrow> vless_server option" where
  "endpoint_base ob protocol endpoint =
     Option.bind (json_str ''address'' endpoint) (\<lambda>host.
     map_option (\<lambda>port. base_server protocol host port (outbound_label ob host port))
       (json_port (json_get ''port'' endpoint)))"

definition vmess_params :: "json \<Rightarrow> vless_server \<Rightarrow> vless_server" where
  "vmess_params user s =
     set_param_opt ''aid'' (map_option dec (get_u64 ''alterId'' user))
       (set_param_opt ''scy'' (json_str ''security'' user) s)"

definition parse_vnext :: "json \<Rightarrow> string \<Rightarrow> json \<Rightarrow> vless_server option" where
  "parse_vnext ob protocol settings =
     Option.bind (direct_or_first ''vnext'' settings) (\<lambda>endpoint.
     Option.bind (endpoint_base ob protocol endpoint) (\<lambda>s.
     let user = unwrap_or endpoint (Option.bind (get_array ''users'' endpoint) first_of) in
     map_option (\<lambda>uuid.
         (if protocol = ''vmess'' then vmess_params user else (\<lambda>x. x))
           (s\<lparr>vs_uuid := uuid, vs_flow := json_str ''flow'' user\<rparr>))
       (json_str ''id'' user)))"

definition parse_server_entry :: "json \<Rightarrow> string \<Rightarrow> json \<Rightarrow> (json \<times> vless_server) option" where
  "parse_server_entry ob protocol settings =
     Option.bind (direct_or_first ''servers'' settings) (\<lambda>srv.
     map_option (\<lambda>s. (srv, s)) (endpoint_base ob protocol srv))"

definition parse_protocol :: "parsers \<Rightarrow> json \<Rightarrow> string \<Rightarrow> vless_server option" where
  "parse_protocol pa ob p =
     Option.bind (json_get ''settings'' ob) (\<lambda>settings.
     if p = ''vless'' \<or> p = ''vmess'' then parse_vnext ob p settings
     else if p = ''trojan'' then
       Option.bind (parse_server_entry ob p settings) (\<lambda>(srv, s).
       map_option (\<lambda>pw. s\<lparr>vs_uuid := pw, vs_password := Some pw, vs_flow := json_str ''flow'' srv\<rparr>)
         (json_str ''password'' srv))
     else if p = ''shadowsocks'' then
       map_option (\<lambda>(srv, s). s\<lparr>vs_method := json_str ''method'' srv, vs_password := json_str ''password'' srv\<rparr>)
         (parse_server_entry ob p settings)
     else if p = ''hysteria'' then
       map_option (\<lambda>s. s\<lparr>vs_uuid := unwrap_or []
           (or_option (Option.bind (Option.bind (json_get ''streamSettings'' ob) (json_get ''hysteriaSettings'')) (json_str ''auth''))
              (json_str ''auth'' settings))\<rparr>)
         (endpoint_base ob p settings)
     else if p = ''wireguard'' then
       Option.bind (Option.bind (get_array ''peers'' settings) first_of) (\<lambda>peer.
       Option.bind (json_str ''endpoint'' peer) (\<lambda>endpoint.
       map_option (\<lambda>(host, port).
           (base_server p host port (outbound_label ob host port))
             \<lparr>vs_uuid := unwrap_or [] (json_str ''secretKey'' settings), vs_transport := ''wireguard''\<rparr>)
         (endpoint_host_port pa endpoint)))
     else if p = ''http'' \<or> p = ''socks'' then
       map_option (\<lambda>(srv, s).
           let user = unwrap_or srv (Option.bind (get_array ''users'' srv) first_of) in
           s\<lparr>vs_uuid := unwrap_or [] (json_str_any [''user'', ''username''] user),
             vs_password := json_str_any [''pass'', ''password''] user\<rparr>)
         (parse_server_entry ob p settings)
     else None)"

definition parse_outbound :: "parsers \<Rightarrow> json \<Rightarrow> vless_server option" where
  "parse_outbound pa ob =
     Option.bind (get_str ''protocol'' ob) (\<lambda>p.
     Option.bind (parse_protocol pa ob p) (\<lambda>s.
     let s' = apply_stream (json_get ''streamSettings'' ob) s in
     if is_balancer_sentinel (vs_host s') then None else Some s'))"

text \<open>Every endpoint a location can dial, in order and once each.\<close>

definition server_endpoints :: "parsers \<Rightarrow> vless_server \<Rightarrow> (string \<times> nat) list" where
  "server_endpoints pa s =
     (let parsed = (\<lambda>v. map_option (\<lambda>p. (vs_host p, vs_port p)) (parse_outbound pa v));
          found = (case vs_raw_profile s of
             Some profile \<Rightarrow> List.map_filter parsed (unwrap_or [] (get_array ''outbounds'' profile))
           | None \<Rightarrow> (case vs_raw_outbound s of None \<Rightarrow> [] | Some v \<Rightarrow> List.map_filter parsed [v]))
      in if found = [] then [(vs_host s, vs_port s)] else remdups_adj (sort found))"

end
