(* ===== verification/Sub_Uri.thy ===== *)
theory Sub_Uri
  imports Sub_Outbound
begin

text \<open>
  Share links (\<open>src-tauri/src/subscription.rs\<close>): \<open>vless\<close>, \<open>trojan\<close>, \<open>ss\<close> and \<open>vmess\<close>.
\<close>

datatype parse_error =
    Invalid_Uri string
  | Unsupported_Scheme string
  | Missing_Credentials
  | Missing_Host
  | Missing_Port
  | Balancer_Entry

section \<open>Decoding\<close>

definition without_ws :: "string \<Rightarrow> string" where
  "without_ws s = concat (filter (\<lambda>g. \<not> is_ws g) (utf8_chars s))"

text \<open>The first engine whose bytes are UTF-8.\<close>

definition decode_first :: "parsers \<Rightarrow> string \<Rightarrow> string option" where
  "decode_first pa compact =
     find_map (\<lambda>engine. Option.bind (engine compact) (\<lambda>b. if valid_utf8 b then Some b else None)) (pa_engines pa)"

definition b64_decode_str :: "parsers \<Rightarrow> string \<Rightarrow> string option" where
  "b64_decode_str pa s = decode_first pa (without_ws s)"

definition percent_decode :: "parsers \<Rightarrow> string \<Rightarrow> string" where
  "percent_decode pa s = from_utf8_lossy (pa_percent pa s)"

definition label_from :: "parsers \<Rightarrow> string option \<Rightarrow> string \<Rightarrow> nat \<Rightarrow> string" where
  "label_from pa fragment host port =
     (case non_empty fragment of None \<Rightarrow> host @ '':'' @ dec port | Some f \<Rightarrow> percent_decode pa f)"

definition uri_schemes :: "string list" where
  "uri_schemes = [''vless://'', ''trojan://'', ''ss://'', ''vmess://'']"

definition is_supported_uri :: "string \<Rightarrow> bool" where
  "is_supported_uri line = list_ex (\<lambda>p. starts_with p (trim line)) uri_schemes"

section \<open>VLESS and Trojan\<close>

definition parse_url_as :: "parsers \<Rightarrow> string \<Rightarrow> string \<Rightarrow> parse_error + full_url" where
  "parse_url_as pa scheme uri =
     try_then (map_err Invalid_Uri (pa_url pa (trim uri))) (\<lambda>u.
     if fu_scheme u \<noteq> scheme then Err (Unsupported_Scheme (fu_scheme u)) else Ok u)"

definition url_endpoint :: "full_url \<Rightarrow> parse_error + (string \<times> nat)" where
  "url_endpoint u =
     try_then (ok_or Missing_Host (fu_host u)) (\<lambda>host.
     try_then (ok_or Missing_Port (fu_port u)) (\<lambda>port. Ok (host, port)))"

definition url_params :: "full_url \<Rightarrow> string \<Rightarrow> string option" where
  "url_params u = map_of (rev (fu_pairs u))"

text \<open>The extra settings of \<open>xhttp\<close> have to be a JSON object.\<close>

definition check_extra :: "parsers \<Rightarrow> (string \<Rightarrow> string option) \<Rightarrow> parse_error + unit" where
  "check_extra pa ps =
     (if ps ''type'' \<noteq> Some ''xhttp'' then Ok ()
      else case ps ''extra'' of
        None \<Rightarrow> Ok ()
      | Some extra \<Rightarrow>
          try_then (map_err (\<lambda>e. Invalid_Uri (''xhttp extra JSON: '' @ e)) (pa_json pa extra)) (\<lambda>v.
          if is_object v then Ok () else Err (Invalid_Uri ''xhttp extra JSON must be an object'')))"

text \<open>The fields both kinds take from the query.\<close>

definition with_query :: "string \<Rightarrow> (string \<Rightarrow> string option) \<Rightarrow> vless_server \<Rightarrow> vless_server" where
  "with_query default_security ps s =
     s\<lparr>vs_transport := unwrap_or ''tcp'' (ps ''type''), vs_security := unwrap_or default_security (ps ''security''),
       vs_sni := ps ''sni'', vs_fingerprint := ps ''fp'', vs_public_key := ps ''pbk'', vs_short_id := ps ''sid'',
       vs_flow := ps ''flow'', vs_path := ps ''path'', vs_mode := ps ''mode'', vs_raw_params := ps\<rparr>"

definition parse_vless :: "parsers \<Rightarrow> string \<Rightarrow> parse_error + vless_server" where
  "parse_vless pa uri =
     try_then (parse_url_as pa ''vless'' uri) (\<lambda>u.
     if fu_username u = [] then Err Missing_Credentials
     else try_then (url_endpoint u) (\<lambda>(host, port).
          let ps = url_params u in
          try_then (check_extra pa ps) (\<lambda>_.
          Ok (with_query ''none'' ps
                ((base_server ''vless'' host port (label_from pa (fu_fragment u) host port))
                   \<lparr>vs_uuid := percent_decode pa (fu_username u), vs_packet_encoding := ps ''packetEncoding''\<rparr>)))))"

definition parse_trojan :: "parsers \<Rightarrow> string \<Rightarrow> parse_error + vless_server" where
  "parse_trojan pa uri =
     try_then (parse_url_as pa ''trojan'' uri) (\<lambda>u.
     let password = percent_decode pa (fu_username u) in
     if password = [] then Err Missing_Credentials
     else try_then (url_endpoint u) (\<lambda>(host, port).
          Ok (with_query ''tls'' (url_params u)
                ((base_server ''trojan'' host port (label_from pa (fu_fragment u) host port))
                   \<lparr>vs_uuid := password, vs_password := Some password\<rparr>))))"

section \<open>Shadowsocks\<close>

definition trim_brackets :: "string \<Rightarrow> string" where
  "trim_brackets s =
     (let P = (\<lambda>c. c = CHR ''['' \<or> c = CHR '']'') in rev (dropWhile P (rev (dropWhile P s))))"

text \<open>Credentials and endpoint: two parts of the link, or both in base64.\<close>

definition ss_parts :: "parsers \<Rightarrow> string \<Rightarrow> parse_error + (string \<times> string)" where
  "ss_parts pa main =
     (case rsplit_once (CHR ''@'') main of
        Some (u, hp) \<Rightarrow> Ok (unwrap_or (percent_decode pa u) (b64_decode_str pa u), hp)
      | None \<Rightarrow>
          try_then (ok_or (Invalid_Uri ''ss base64'') (b64_decode_str pa main)) (\<lambda>decoded.
          ok_or Missing_Host (rsplit_once (CHR ''@'') decoded)))"

definition parse_shadowsocks :: "parsers \<Rightarrow> string \<Rightarrow> parse_error + vless_server" where
  "parse_shadowsocks pa uri =
     (let rest = unwrap_or [] (strip_prefix ''ss://'' (trim uri));
          parts = (case split_once (CHR ''#'') rest of None \<Rightarrow> (rest, None) | Some (m, f) \<Rightarrow> (m, Some f));
          main = hd (split_on (CHR ''?'') (fst parts)) in
      try_then (ss_parts pa main) (\<lambda>(creds, hostport).
      try_then (ok_or Missing_Credentials (split_once (CHR '':'') creds)) (\<lambda>(method, password).
      try_then (ok_or Missing_Port (rsplit_once (CHR '':'') hostport)) (\<lambda>(host, port_text).
      try_then (ok_or Missing_Port (parse_u16 port_text)) (\<lambda>port.
      let h = trim_brackets host in
      Ok ((base_server ''shadowsocks'' h port (label_from pa (snd parts) h port))
            \<lparr>vs_method := Some method, vs_password := Some password\<rparr>))))))"

section \<open>VMess\<close>

definition vmess_port :: "json option \<Rightarrow> parse_error + nat" where
  "vmess_port v =
     try_then (ok_or Missing_Port
        (case v of
           Some (JInt i) \<Rightarrow> if 1 \<le> i \<and> i \<le> 65535 then Some (nat i) else None
         | Some (JStr t) \<Rightarrow> parse_u16 t
         | _ \<Rightarrow> None)) (\<lambda>port.
     if port = 0 then Err Missing_Port else Ok port)"

definition vmess_aid :: "parsers \<Rightarrow> json \<Rightarrow> string option" where
  "vmess_aid pa v =
     (case json_get ''aid'' v of
        Some (JInt i) \<Rightarrow> Some (pa_number pa (JInt i))
      | Some (JFloat f) \<Rightarrow> Some (pa_number pa (JFloat f))
      | Some (JStr t) \<Rightarrow> non_empty (Some t)
      | _ \<Rightarrow> None)"

text \<open>Where the overloaded keys go: for \<open>grpc\<close> the path is the service and the type the mode.\<close>

definition vmess_transport :: "json \<Rightarrow> string \<Rightarrow> vless_server \<Rightarrow> vless_server" where
  "vmess_transport v net s =
     (let header = Option.bind (non_empty (get_str ''type'' v)) (\<lambda>t. if t = ''none'' then None else Some t) in
      if net = ''grpc''
      then (set_param_opt ''serviceName'' (non_empty (vs_path s)) s)\<lparr>vs_path := None, vs_mode := header\<rparr>
      else set_param_opt ''headerType'' header s)"

definition vmess_security :: "json \<Rightarrow> string" where
  "vmess_security v =
     (case get_str ''tls'' v of
        Some t \<Rightarrow> if t = ''tls'' \<or> t = ''reality'' then t else ''none''
      | None \<Rightarrow> ''none'')"

definition vmess_of_json :: "parsers \<Rightarrow> json \<Rightarrow> parse_error + vless_server" where
  "vmess_of_json pa v =
     try_then (ok_or Missing_Host (non_empty (get_str ''add'' v))) (\<lambda>host.
     try_then (vmess_port (json_get ''port'' v)) (\<lambda>port.
     try_then (ok_or Missing_Credentials (non_empty (get_str ''id'' v))) (\<lambda>uuid.
     let net = unwrap_or ''tcp'' (get_str ''net'' v);
         s = (base_server ''vmess'' host port (unwrap_or (host @ '':'' @ dec port) (get_str ''ps'' v)))
               \<lparr>vs_uuid := uuid, vs_transport := net, vs_security := vmess_security v, vs_sni := get_str ''sni'' v,
                vs_path := get_str ''path'' v, vs_fingerprint := get_str ''fp'' v\<rparr>;
         s1 = set_param_opt ''aid'' (vmess_aid pa v)
                (set_param_opt ''scy'' (non_empty (get_str ''scy'' v))
                  (set_param_opt ''alpn'' (non_empty (get_str ''alpn'' v))
                    (set_param_opt ''host'' (non_empty (get_str ''host'' v)) s)))
     in Ok (vmess_transport v net s1))))"

definition parse_vmess :: "parsers \<Rightarrow> string \<Rightarrow> parse_error + vless_server" where
  "parse_vmess pa uri =
     (let payload = unwrap_or [] (strip_prefix ''vmess://'' (trim uri)) in
      try_then (ok_or (Invalid_Uri ''vmess base64'') (b64_decode_str pa payload)) (\<lambda>text.
      try_then (map_err Invalid_Uri (pa_json pa text)) (vmess_of_json pa)))"

section \<open>Any link\<close>

definition scheme_of :: "string \<Rightarrow> string" where
  "scheme_of uri = (case split_once_str ''://'' uri of None \<Rightarrow> uri | Some (s, _) \<Rightarrow> s)"

definition parse_proxy_uri :: "parsers \<Rightarrow> string \<Rightarrow> parse_error + vless_server" where
  "parse_proxy_uri pa raw =
     (let uri = trim raw in
      try_then
        (if starts_with ''vless://'' uri then parse_vless pa uri
         else if starts_with ''trojan://'' uri then parse_trojan pa uri
         else if starts_with ''ss://'' uri then parse_shadowsocks pa uri
         else if starts_with ''vmess://'' uri then parse_vmess pa uri
         else Err (Unsupported_Scheme (scheme_of uri))) (\<lambda>s.
      if is_balancer_sentinel (vs_host s) then Err Balancer_Entry else Ok s))"

end
