(* ===== verification/Sub_Body.thy ===== *)
theory Sub_Body
  imports Sub_Uri
begin

text \<open>
  Whole subscriptions (\<open>src-tauri/src/subscription.rs\<close>): JSON documents, lists of links, the
  comment block at the top of a body, and the metadata of the response headers.
\<close>

section \<open>JSON documents\<close>

definition is_importable_protocol :: "string \<Rightarrow> bool" where
  "is_importable_protocol p =
     (p \<in> {''vless'', ''vmess'', ''trojan'', ''shadowsocks'', ''hysteria'', ''wireguard'', ''http'', ''socks''})"

definition has_proxy_protocol :: "json \<Rightarrow> bool" where
  "has_proxy_protocol v = (case get_str ''protocol'' v of None \<Rightarrow> False | Some p \<Rightarrow> is_importable_protocol p)"

definition location_names :: "string list" where
  "location_names = [''remarks'', ''name'', ''ps'', ''title'']"

text \<open>The location of an outbound, named and sourced by the object it stands in.\<close>

definition with_source :: "parsers \<Rightarrow> json \<Rightarrow> json \<Rightarrow> vless_server \<Rightarrow> vless_server" where
  "with_source pa source raw s =
     s\<lparr>vs_label := unwrap_or (vs_label s) (json_str_any location_names source),
       vs_source_json := res_ok (pa_print pa source), vs_raw_outbound := Some raw\<rparr>"

definition profile_proxies :: "json \<Rightarrow> json list" where
  "profile_proxies v = filter has_proxy_protocol (unwrap_or [] (get_array ''outbounds'' v))"

definition location_of_profile :: "parsers \<Rightarrow> json \<Rightarrow> json \<Rightarrow> vless_server list" where
  "location_of_profile pa source v =
     (case find_map (parse_outbound pa) (profile_proxies v) of
        None \<Rightarrow> []
      | Some s \<Rightarrow> [(with_source pa source (hd (profile_proxies v)) s)\<lparr>vs_raw_profile := Some v\<rparr>])"

definition location_of_outbound :: "parsers \<Rightarrow> json \<Rightarrow> json \<Rightarrow> vless_server list" where
  "location_of_outbound pa source v =
     (case parse_outbound pa v of None \<Rightarrow> [] | Some s \<Rightarrow> [with_source pa source v s])"

definition location_of_text :: "parsers \<Rightarrow> string \<Rightarrow> vless_server list" where
  "location_of_text pa t =
     (if is_supported_uri (trim t)
      then (case parse_proxy_uri pa (trim t) of Inl _ \<Rightarrow> [] | Inr s \<Rightarrow> [s]) else [])"

definition wrapper_keys :: "string list" where
  "wrapper_keys = [''servers'', ''links'', ''proxies'', ''configs'', ''list'']"

definition children :: "string list \<Rightarrow> json \<Rightarrow> json list" where
  "children keys v = List.map_filter (\<lambda>k. json_get k v) keys"

text \<open>\<open>depth\<close> counts the levels entered; below the seventh nothing is read.\<close>

function collect_json_servers :: "parsers \<Rightarrow> nat \<Rightarrow> json option \<Rightarrow> json \<Rightarrow> vless_server list" where
  "collect_json_servers pa depth source v =
     (if 6 < depth then []
      else case v of
        JArr vs \<Rightarrow>
          concat (map (\<lambda>x. collect_json_servers pa (depth + 1)
                             (or_option source (if is_object x then Some x else None)) x) vs)
      | JStr t \<Rightarrow> location_of_text pa t
      | JObj _ \<Rightarrow>
          if profile_proxies v \<noteq> [] then location_of_profile pa (unwrap_or v source) v
          else if has_proxy_protocol v then location_of_outbound pa (unwrap_or v source) v
          else concat (map (collect_json_servers pa (depth + 1) (Some (unwrap_or v source))) (children [''outbounds''] v))
               @ concat (map (collect_json_servers pa (depth + 1) None) (children wrapper_keys v))
      | _ \<Rightarrow> [])"
  by pat_completeness auto

termination
  by (relation "measure (\<lambda>(pa, depth, source, v). 7 - depth)") auto

declare collect_json_servers.simps [simp del]

definition parse_json_subscription :: "parsers \<Rightarrow> string \<Rightarrow> string option \<times> vless_server list" where
  "parse_json_subscription pa body =
     (case pa_json pa body of
        Inl _ \<Rightarrow> (None, [])
      | Inr v \<Rightarrow>
          let name = json_str_any [''remarks'', ''name'', ''ps'', ''title'', ''Profile-Title''] v;
              out = collect_json_servers pa 0 None v
          in (name,
              case (out, name) of
                ([s], Some n) \<Rightarrow> [s\<lparr>vs_label := n\<rparr>]
              | _ \<Rightarrow> out))"

section \<open>Lists of links\<close>

definition decode_body :: "parsers \<Rightarrow> string \<Rightarrow> string" where
  "decode_body pa body =
     (let compact = without_ws body in
      if list_ex (\<lambda>p. str_contains p compact) uri_schemes then body
      else unwrap_or body (decode_first pa compact))"

definition byte_order_mark :: string where
  "byte_order_mark = [char_of (0xef :: nat), char_of (0xbb :: nat), char_of (0xbf :: nat)]"

definition trim_start :: "string \<Rightarrow> string" where
  "trim_start s = concat (dropWhile is_ws (dropWhile (\<lambda>g. g = byte_order_mark) (utf8_chars s)))"

definition location_of_line :: "parsers \<Rightarrow> string \<Rightarrow> vless_server option" where
  "location_of_line pa line =
     (let t = trim line in
      if t = [] \<or> starts_with ''#'' t \<or> \<not> is_supported_uri t then None
      else res_ok (parse_proxy_uri pa t))"

definition parse_subscription :: "parsers \<Rightarrow> string \<Rightarrow> vless_server list" where
  "parse_subscription pa body =
     (let trimmed = trim_start body in
      if starts_with ''{'' trimmed \<or> starts_with ''['' trimmed
      then snd (parse_json_subscription pa trimmed)
      else List.map_filter (location_of_line pa) (str_lines (decode_body pa body)))"

section \<open>The comment block\<close>

definition meta_keys :: "string list" where
  "meta_keys =
     [''profile-title'', ''profile-update-interval'', ''support-url'', ''profile-web-page-url'',
      ''subscription-userinfo'', ''announce'', ''hide-settings'', ''subscriptions-collapse'',
      ''subscriptions-expand-now'', ''encrypted-subscription'', ''allow-insecure'',
      ''subscription-ping-onopen-enabled'', ''mux-enable'', ''mux-tcp-connections'', ''mux-xudp-connections'',
      ''mux-quic'', ''routing'', ''dns'']"

text \<open>A comment is a metadata entry or a line of the description.\<close>

definition comment_entry :: "string \<Rightarrow> (string \<times> string) option" where
  "comment_entry text =
     Option.bind (split_once (CHR '':'') text) (\<lambda>(k, v).
       let key = to_lower (trim k) in if key \<in> set meta_keys then Some (key, trim v) else None)"

fun meta_lines :: "string list \<Rightarrow> (string \<times> string) list \<Rightarrow> string list \<Rightarrow> (string \<times> string) list \<times> string list" where
  "meta_lines [] headers desc = (headers, desc)"
| "meta_lines (raw # lines) headers desc =
     (let line = trim raw in
      if line = [] then (if headers = [] \<and> desc = [] then meta_lines lines headers desc else (headers, desc))
      else case strip_prefix ''#'' line of
        None \<Rightarrow> (headers, desc)
      | Some rest \<Rightarrow>
          (case comment_entry (trim rest) of
             Some kv \<Rightarrow> meta_lines lines (kv # headers) desc
           | None \<Rightarrow> meta_lines lines headers (desc @ [trim rest])))"

definition parse_body_meta :: "parsers \<Rightarrow> string \<Rightarrow> (string \<Rightarrow> string option) \<times> string option" where
  "parse_body_meta pa body =
     (case meta_lines (str_lines (decode_body pa body)) [] [] of
        (headers, desc) \<Rightarrow>
          (map_of headers, if desc = [] then None else Some (join_with [newline] desc)))"

section \<open>Header values\<close>

definition is_control :: "string \<Rightarrow> bool" where
  "is_control g =
     (case map byte_val g of
        [b] \<Rightarrow> b < 32 \<or> b = 127
      | [b, c] \<Rightarrow> b = 194 \<and> 128 \<le> c \<and> c \<le> 159
      | _ \<Rightarrow> False)"

text \<open>With a prefix any text is taken; without one only text that is new and printable.\<close>

definition decoded_header :: "parsers \<Rightarrow> bool \<Rightarrow> string \<Rightarrow> string \<Rightarrow> string option" where
  "decoded_header pa explicit trimmed candidate =
     find_map (\<lambda>engine.
         Option.bind (engine candidate) (\<lambda>b.
         if \<not> valid_utf8 b then None
         else let s = trim b in
              if explicit \<or> (s \<noteq> [] \<and> s \<noteq> trimmed \<and> list_all (\<lambda>g. \<not> is_control g) (utf8_chars s))
              then Some s else None))
       (pa_engines pa)"

definition decode_maybe_b64 :: "parsers \<Rightarrow> string \<Rightarrow> string" where
  "decode_maybe_b64 pa raw =
     (let trimmed = trim raw;
          payload = map_option trim (or_option (strip_prefix ''base64:'' trimmed) (strip_prefix ''Base64:'' trimmed))
      in unwrap_or trimmed
           (case payload of
              Some p \<Rightarrow> decoded_header pa True trimmed p
            | None \<Rightarrow> decoded_header pa False trimmed trimmed))"

record subscription_meta =
  sm_title :: "string option"
  sm_update_interval_hours :: "nat option"
  sm_upload_bytes :: "nat option"
  sm_download_bytes :: "nat option"
  sm_total_bytes :: "nat option"
  sm_expires_at_unix :: "nat option"
  sm_has_userinfo :: bool
  sm_support_url :: "string option"
  sm_web_page_url :: "string option"

definition positive :: "nat option \<Rightarrow> nat option" where
  "positive x = Option.bind x (\<lambda>n. if n = 0 then None else Some n)"

definition i64_max :: nat where "i64_max = 9223372036854775807"

text \<open>One \<open>key=value\<close> of the user information.  A negative expiry is no expiry, as is zero.\<close>

definition userinfo_entry :: "string \<Rightarrow> subscription_meta \<Rightarrow> subscription_meta" where
  "userinfo_entry kv m =
     (case split_once (CHR ''='') (trim kv) of
        None \<Rightarrow> m
      | Some (k, raw) \<Rightarrow>
          let key = trim k; v = trim raw in
          if key = ''upload'' then m\<lparr>sm_upload_bytes := parse_u64 v\<rparr>
          else if key = ''download'' then m\<lparr>sm_download_bytes := parse_u64 v\<rparr>
          else if key = ''total'' then m\<lparr>sm_total_bytes := positive (parse_u64 v)\<rparr>
          else if key = ''expire'' then m\<lparr>sm_expires_at_unix := positive (parse_uint_radix 10 i64_max v)\<rparr>
          else m)"

definition parse_headers :: "parsers \<Rightarrow> (string \<Rightarrow> string option) \<Rightarrow> subscription_meta" where
  "parse_headers pa get =
     (let m = \<lparr>sm_title = non_empty (map_option (decode_maybe_b64 pa) (get ''profile-title'')),
               sm_update_interval_hours = Option.bind (get ''profile-update-interval'') (\<lambda>s. parse_u32 (trim s)),
               sm_upload_bytes = None, sm_download_bytes = None, sm_total_bytes = None, sm_expires_at_unix = None,
               sm_has_userinfo = False,
               sm_support_url = non_empty (map_option trim (get ''support-url'')),
               sm_web_page_url = non_empty (map_option trim (get ''profile-web-page-url''))\<rparr>
      in case get ''subscription-userinfo'' of
           None \<Rightarrow> m
         | Some info \<Rightarrow> fold userinfo_entry (split_on (CHR '';'') info) (m\<lparr>sm_has_userinfo := True\<rparr>))"

end
