(* ===== verification/Gen_Dns.thy ===== *)
theory Gen_Dns
  imports Gen_Outbound
begin

text \<open>
  The DNS section of the generated configuration: which resolvers of a provider's profile are
  kept, over which transports they are asked, and the addresses that have to go through the proxy.
  \<open>url_parse\<close> is \<open>Url::parse\<close>.
\<close>

section \<open>Acceptable resolvers\<close>

text \<open>A resolver: its entry in the section, its addresses, and the URL it can be probed at.\<close>

type_synonym dns_entry = "json \<times> string list \<times> string option"

definition DEFAULT_DOH_SERVERS :: "(string \<times> string list) list" where
  "DEFAULT_DOH_SERVERS =
     [(''https://cloudflare-dns.com/dns-query'', [''1.1.1.1'', ''1.0.0.1'']),
      (''https://dns.google/dns-query'', [''8.8.8.8'', ''8.8.4.4''])]"

definition DOH_BY_RESOLVER_IP :: "(string list \<times> string \<times> string list) list" where
  "DOH_BY_RESOLVER_IP =
     [([''8.8.8.8'', ''8.8.4.4''], ''https://dns.google/dns-query'', [''8.8.8.8'', ''8.8.4.4'']),
      ([''1.1.1.1'', ''1.0.0.1''], ''https://cloudflare-dns.com/dns-query'', [''1.1.1.1'', ''1.0.0.1'']),
      ([''9.9.9.9'', ''149.112.112.112''], ''https://dns.quad9.net/dns-query'', [''9.9.9.9'', ''149.112.112.112'']),
      ([''77.88.8.8'', ''77.88.8.1''], ''https://common.dot.dns.yandex.net/dns-query'', [''77.88.8.8'', ''77.88.8.1''])]"

definition dns_url_ok :: "full_url \<Rightarrow> bool" where
  "dns_url_ok u =
     (fu_scheme u \<in> {''https'', ''tls'', ''tcp'', ''quic''} \<and> fu_username u = [] \<and> fu_password u = None
      \<and> fu_fragment u = None)"

definition url_entry :: "full_url \<Rightarrow> string list \<Rightarrow> string \<times> string list \<times> string option" where
  "url_entry u ips = (fu_text u, ips, if fu_scheme u = ''https'' then Some (fu_text u) else None)"

definition safe_remote_dns_address ::
    "(string \<Rightarrow> full_url option) \<Rightarrow> string \<Rightarrow> (string \<times> string list \<times> string option) option" where
  "safe_remote_dns_address url_parse raw =
     (case parse_ip raw of
        Some a \<Rightarrow> if is_safe_remote_dns_ip a then Some (raw, [show_ip a], None) else None
      | None \<Rightarrow>
          Option.bind (url_parse raw) (\<lambda>u.
          if \<not> dns_url_ok u then None
          else Option.bind (Option.bind (fu_host u) parse_ip) (\<lambda>a.
               if \<not> is_safe_remote_dns_ip a then None else Some (url_entry u [show_ip a]))))"

text \<open>The addresses a profile gives for a host name, by its plain, \<open>full:\<close> or \<open>domain:\<close> key.\<close>

definition profile_dns :: "vless_server \<Rightarrow> json option" where
  "profile_dns s = Option.bind (vs_raw_profile s) (json_get ''dns'')"

definition host_values :: "json option \<Rightarrow> string list" where
  "host_values v =
     (case v of
        Some (JStr t) \<Rightarrow> [t]
      | Some (JArr vs) \<Rightarrow> List.map_filter as_str vs
      | _ \<Rightarrow> [])"

definition first_some :: "'a option list \<Rightarrow> 'a option" where
  "first_some = find_map (\<lambda>x. x)"

definition provider_dns_host_ips :: "vless_server \<Rightarrow> string \<Rightarrow> string list" where
  "provider_dns_host_ips s hostname =
     (case Option.bind (profile_dns s) (get_object ''hosts'') of
        None \<Rightarrow> []
      | Some hosts \<Rightarrow>
          remdups_adj (sort (map show_ip (filter is_safe_remote_dns_ip (List.map_filter parse_ip
            (host_values (first_some [map_of hosts hostname, map_of hosts (''full:'' @ hostname),
                                      map_of hosts (''domain:'' @ hostname)])))))))"

definition safe_provider_dns_address ::
    "(string \<Rightarrow> full_url option) \<Rightarrow> vless_server \<Rightarrow> string \<Rightarrow> (string \<times> string list \<times> string option) option" where
  "safe_provider_dns_address url_parse s raw =
     (case safe_remote_dns_address url_parse raw of
        Some x \<Rightarrow> Some x
      | None \<Rightarrow>
          Option.bind (url_parse raw) (\<lambda>u.
          if \<not> dns_url_ok u then None
          else Option.bind (fu_host u) (\<lambda>hostname.
               let ips = provider_dns_host_ips s hostname in
               if ips = [] then None else Some (url_entry u ips))))"

text \<open>An entry is a text or an object; its address is replaced and the rest of an object kept.\<close>

fun dns_entry_address :: "json \<Rightarrow> string option" where
  "dns_entry_address (JStr a) = Some a"
| "dns_entry_address (JObj kvs) = Option.bind (map_of kvs ''address'') as_str"
| "dns_entry_address _ = None"

fun with_address :: "json \<Rightarrow> string \<Rightarrow> json" where
  "with_address (JStr _) a = JStr a"
| "with_address (JObj kvs) a = JObj (obj_insert ''address'' (JStr a) kvs)"
| "with_address v a = v"

definition safe_provider_dns_servers :: "(string \<Rightarrow> full_url option) \<Rightarrow> vless_server \<Rightarrow> dns_entry list" where
  "safe_provider_dns_servers url_parse s =
     (case Option.bind (profile_dns s) (get_array ''servers'') of
        None \<Rightarrow> []
      | Some servers \<Rightarrow>
          List.map_filter (\<lambda>v.
            Option.bind (dns_entry_address v) (\<lambda>raw.
            map_option (\<lambda>(address, ips, probe). (with_address v address, ips, probe))
              (safe_provider_dns_address url_parse s raw))) servers)"

section \<open>Transports\<close>

definition doh_operator :: "string \<Rightarrow> (string \<times> string list) option" where
  "doh_operator resolver =
     find_map (\<lambda>(addresses, u, bootstrap). if resolver \<in> set addresses then Some (u, bootstrap) else None)
       DOH_BY_RESOLVER_IP"

text \<open>A bare address is asked over DoH of its operator, then TCP, then as written.\<close>

definition doh_variants :: "string \<Rightarrow> dns_entry \<Rightarrow> dns_entry list" where
  "doh_variants resolver e =
     (case e of (entry, ips, probe) \<Rightarrow>
        (case doh_operator resolver of
           None \<Rightarrow> []
         | Some (u, bootstrap) \<Rightarrow> [(with_address entry u, bootstrap, Some u)])
        @ [(with_address entry (''tcp://'' @ resolver), [resolver], None), (entry, [resolver], probe)])"

fun prefer_doh_from :: "string list \<Rightarrow> dns_entry list \<Rightarrow> dns_entry list" where
  "prefer_doh_from covered [] = []"
| "prefer_doh_from covered (e # es) =
     (case Option.bind (dns_entry_address (fst e)) (\<lambda>r. if parse_ip r = None then None else Some r) of
        None \<Rightarrow> e # prefer_doh_from covered es
      | Some resolver \<Rightarrow>
          let key = (case doh_operator resolver of None \<Rightarrow> resolver | Some (u, _) \<Rightarrow> u) in
          if key \<in> set covered then prefer_doh_from covered es
          else doh_variants resolver e @ prefer_doh_from (covered @ [key]) es)"

definition prefer_doh_transports :: "dns_entry list \<Rightarrow> dns_entry list" where
  "prefer_doh_transports = prefer_doh_from []"

section \<open>The plan\<close>

record dns_plan =
  dp_config :: json
  dp_upstream_ips :: "string list"
  dp_probe_urls :: "string list"

definition default_entries :: "dns_entry list" where
  "default_entries = map (\<lambda>(u, ips). (JStr u, ips, Some u)) DEFAULT_DOH_SERVERS"

definition dns_entries :: "(string \<Rightarrow> full_url option) \<Rightarrow> vless_server \<Rightarrow> dns_entry list" where
  "dns_entries url_parse s =
     (let own = safe_provider_dns_servers url_parse s in
      if own = [] then default_entries else prefer_doh_transports own)"

definition query_strategies :: "string list" where
  "query_strategies = [''UseIP'', ''UseIPv4'', ''UseIPv6'', ''UseIPv4v6'', ''UseIPv6v4'']"

definition query_strategy :: "vless_server \<Rightarrow> string" where
  "query_strategy s =
     (case Option.bind (profile_dns s) (get_str ''queryStrategy'') of
        Some q \<Rightarrow> if q \<in> set query_strategies then q else ''UseIPv4''
      | None \<Rightarrow> ''UseIPv4'')"

definition bootstraps :: "(string \<Rightarrow> full_url option) \<Rightarrow> dns_entry list \<Rightarrow> (string \<times> string list) list" where
  "bootstraps url_parse entries =
     List.map_filter (\<lambda>(_, ips, u). map_option (\<lambda>h. (h, ips)) (Option.bind (Option.bind u url_parse) fu_host)) entries"

definition dns_hosts :: "(string \<times> string list) list \<Rightarrow> json_map \<Rightarrow> json_map" where
  "dns_hosts boots hosts =
     obj_or_insert ''domain:googleapis.cn'' (JStr ''googleapis.com'')
       (fold (\<lambda>(h, ips). obj_or_insert h (jstrs ips)) boots hosts)"

definition dns_config ::
    "(string \<Rightarrow> full_url option) \<Rightarrow> vless_server \<Rightarrow> dns_entry list \<Rightarrow> json_map" where
  "dns_config url_parse s entries =
     (let own = (case Option.bind (profile_dns s) as_object of None \<Rightarrow> [] | Some m \<Rightarrow> m);
          config = obj_insert ''queryStrategy'' (JStr (query_strategy s))
                     (obj_insert ''servers'' (JArr (map fst entries)) (obj_remove ''clientIp'' own));
          hosts = dns_hosts (bootstraps url_parse entries) (entry_object ''hosts'' config)
      in obj_or_insert ''enableParallelQuery'' (JBool True) (obj_insert ''hosts'' (JObj hosts) config))"

definition build_dns_plan :: "(string \<Rightarrow> full_url option) \<Rightarrow> vless_server \<Rightarrow> dns_plan" where
  "build_dns_plan url_parse s =
     (let entries = dns_entries url_parse s in
      \<lparr>dp_config = JObj (dns_config url_parse s entries),
       dp_upstream_ips = remdups_adj (sort (concat (map (\<lambda>(_, ips, _). ips) entries))),
       dp_probe_urls = List.map_filter (\<lambda>(_, _, u). u) entries\<rparr>)"

definition client_dns_probe_urls :: "(string \<Rightarrow> full_url option) \<Rightarrow> vless_server \<Rightarrow> string list" where
  "client_dns_probe_urls url_parse s = dp_probe_urls (build_dns_plan url_parse s)"

end
