(* ===== verification/Gen_Plan.thy ===== *)
theory Gen_Plan
  imports Gen_Dns
begin

text \<open>
  Which outbounds a configuration has and where traffic that uses the proxy goes: one outbound of
  a location's fields, or the outbounds, balancers and rules of a provider's profile.  A panic of
  the code is \<open>None\<close>.
\<close>

section \<open>Targets\<close>

datatype proxy_target = To_Outbound string | To_Balancer string

fun target_entry :: "proxy_target \<Rightarrow> string \<times> json" where
  "target_entry (To_Outbound tag) = (''outboundTag'', JStr tag)"
| "target_entry (To_Balancer tag) = (''balancerTag'', JStr tag)"

text \<open>\<open>apply\<close> on a rule that \<open>json!\<close> has built.\<close>

definition rule_to :: "proxy_target \<Rightarrow> (string \<times> json) list \<Rightarrow> json" where
  "rule_to target entries = jobj (entries @ [target_entry target])"

record outbound_plan =
  op_proxies :: "json list"
  op_target :: proxy_target
  op_balancers :: "json option"
  op_observatory :: "json option"
  op_burst_observatory :: "json option"
  op_provider_rules :: "json list"

section \<open>The outbounds of a profile\<close>

fun set_tag :: "string \<Rightarrow> json \<Rightarrow> json" where
  "set_tag t (JObj kvs) = JObj (obj_insert ''tag'' (JStr t) kvs)"
| "set_tag t v = v"

definition profile_tag :: "nat \<Rightarrow> json \<Rightarrow> string" where
  "profile_tag index v =
     (case non_empty (get_str ''tag'' v) of
        Some t \<Rightarrow> t
      | None \<Rightarrow> if index = 0 then ''proxy'' else ''proxy-'' @ dec (index + 1))"

fun provider_proxies_from :: "nat \<Rightarrow> string list \<Rightarrow> json list \<Rightarrow> string + json list" where
  "provider_proxies_from index tags [] = Ok []"
| "provider_proxies_from index tags (v # vs) =
     (if \<not> is_known_protocol (to_lower (unwrap_or [] (get_str ''protocol'' v)))
      then provider_proxies_from (Suc index) tags vs
      else try_then (sanitize_raw_outbound v True) (\<lambda>clean.
           let tag = profile_tag index clean in
           if tag \<in> set RESERVED_OUTBOUND_TAGS \<or> tag \<in> set tags
           then Err (''unsafe or duplicate proxy outbound tag: '' @ tag)
           else try_then (provider_proxies_from (Suc index) (tag # tags) vs) (\<lambda>rest.
                Ok (set_tag tag clean # rest))))"

definition provider_proxy_outbounds :: "json \<Rightarrow> string + json list" where
  "provider_proxy_outbounds profile =
     try_then (ok_or ''Xray profile has no outbounds array'' (get_array ''outbounds'' profile)) (\<lambda>outs.
     try_then (provider_proxies_from 0 [] outs) (\<lambda>proxies.
     if proxies = [] then Err ''Xray profile has no supported proxy outbounds'' else Ok proxies))"

definition tags_of :: "json list \<Rightarrow> string list" where
  "tags_of = List.map_filter (get_str ''tag'')"

section \<open>The rules of a profile\<close>

definition is_external_route_selector :: "json \<Rightarrow> bool" where
  "is_external_route_selector v =
     (case as_str v of
        None \<Rightarrow> False
      | Some raw \<Rightarrow> list_ex (\<lambda>p. starts_with p (to_lower raw)) [''geoip:'', ''ext:'', ''ext-ip:''])"

definition is_local_route_selector :: "json \<Rightarrow> bool" where
  "is_local_route_selector v =
     (case as_str v of
        None \<Rightarrow> True
      | Some raw \<Rightarrow>
          eq_ignore_ascii_case raw ''geoip:private''
          \<or> (case parse_ip (hd (split_on (CHR ''/'') raw)) of
               None \<Rightarrow> False | Some a \<Rightarrow> \<not> is_safe_remote_dns_ip a))"

definition has_key :: "string \<Rightarrow> json \<Rightarrow> bool" where
  "has_key k v = (json_get k v \<noteq> None)"

definition any_ip :: "(json \<Rightarrow> bool) \<Rightarrow> json \<Rightarrow> bool" where
  "any_ip P rule = (case get_array ''ip'' rule of None \<Rightarrow> False | Some xs \<Rightarrow> list_ex P xs)"

definition safe_provider_rule :: "string list \<Rightarrow> string list \<Rightarrow> json \<Rightarrow> bool" where
  "safe_provider_rule proxy_tags balancer_tags rule =
     (is_object rule
      \<and> \<not> list_ex (\<lambda>k. has_key k rule) [''domain'', ''process'', ''inboundTag'']
      \<and> list_ex (\<lambda>k. has_key k rule) [''protocol'', ''ip'', ''port'', ''source'', ''sourcePort'', ''user'', ''attrs'']
      \<and> \<not> any_ip is_external_route_selector rule
      \<and> ((case get_str ''outboundTag'' rule of
             None \<Rightarrow> False | Some t \<Rightarrow> t = ''direct'' \<or> t = ''block'' \<or> t \<in> set proxy_tags)
         \<or> (case get_str ''balancerTag'' rule of None \<Rightarrow> False | Some t \<Rightarrow> t \<in> set balancer_tags))
      \<and> \<not> (get_str ''outboundTag'' rule = Some ''direct'' \<and> any_ip is_local_route_selector rule))"

definition profile_routing :: "vless_server \<Rightarrow> json option" where
  "profile_routing s = Option.bind (vs_raw_profile s) (json_get ''routing'')"

definition safe_provider_route_rules :: "vless_server \<Rightarrow> json list \<Rightarrow> json option \<Rightarrow> json list" where
  "safe_provider_route_rules s proxies balancers =
     (case Option.bind (profile_routing s) (get_array ''rules'') of
        None \<Rightarrow> []
      | Some rules \<Rightarrow>
          filter (safe_provider_rule (tags_of proxies)
                    (case Option.bind balancers as_array of None \<Rightarrow> [] | Some bs \<Rightarrow> tags_of bs)) rules)"

definition provider_routing_options :: "vless_server \<Rightarrow> (string \<times> json) list" where
  "provider_routing_options s =
     (case profile_routing s of
        None \<Rightarrow> []
      | Some provider \<Rightarrow>
          (case get_str ''domainStrategy'' provider of
             None \<Rightarrow> []
           | Some v \<Rightarrow> if v \<in> {''AsIs'', ''IPIfNonMatch'', ''IPOnDemand''} then [(''domainStrategy'', JStr v)] else [])
          @ (case get_str ''domainMatcher'' provider of
               None \<Rightarrow> []
             | Some v \<Rightarrow> if v \<in> {''linear'', ''hybrid''} then [(''domainMatcher'', JStr v)] else []))"

section \<open>The plan of a profile\<close>

fun check_balancers :: "string list \<Rightarrow> json list \<Rightarrow> string + unit" where
  "check_balancers proxy_tags [] = Ok ()"
| "check_balancers proxy_tags (b # bs) =
     try_then (ok_or ''profile balancer has no tag'' (get_str ''tag'' b)) (\<lambda>tag.
     try_then (ok_or (''profile balancer '' @ tag @ '' has no selectors'') (get_array ''selector'' b)) (\<lambda>selectors.
     if list_ex (\<lambda>sel. list_ex (starts_with sel) proxy_tags) (List.map_filter as_str selectors)
     then check_balancers proxy_tags bs
     else Err (''profile balancer '' @ tag @ '' does not select a proxy outbound'')))"

definition rule_target :: "string list \<Rightarrow> string list \<Rightarrow> json \<Rightarrow> proxy_target option" where
  "rule_target proxy_tags balancer_tags rule =
     (case get_str ''balancerTag'' rule of
        Some t \<Rightarrow> if t \<in> set balancer_tags then Some (To_Balancer t)
                  else map_option To_Outbound
                         (Option.bind (get_str ''outboundTag'' rule) (\<lambda>u. if u \<in> set proxy_tags then Some u else None))
      | None \<Rightarrow> map_option To_Outbound
                  (Option.bind (get_str ''outboundTag'' rule) (\<lambda>u. if u \<in> set proxy_tags then Some u else None)))"

text \<open>
  The last rule that names a known balancer or outbound; else some balancer (\<open>pick\<close>: the
  iteration order of a hash set is not defined); else the first outbound.
\<close>

definition profile_target ::
    "nat \<Rightarrow> json list \<Rightarrow> string list \<Rightarrow> string list \<Rightarrow> json list \<Rightarrow> proxy_target" where
  "profile_target pick proxies proxy_tags balancer_tags rules =
     (case find_map (rule_target proxy_tags balancer_tags) (rev rules) of
        Some t \<Rightarrow> t
      | None \<Rightarrow>
          if balancer_tags \<noteq> [] then To_Balancer (balancer_tags ! (pick mod length balancer_tags))
          else To_Outbound (unwrap_or [] (get_str ''tag'' (hd proxies))))"

definition profile_balancers :: "json \<Rightarrow> json option" where
  "profile_balancers profile =
     Option.bind (Option.bind (get_object ''routing'' profile) (\<lambda>r. map_of r ''balancers''))
       (\<lambda>b. case as_array b of Some (x # xs) \<Rightarrow> Some b | _ \<Rightarrow> None)"

definition profile_plan :: "nat \<Rightarrow> vless_server \<Rightarrow> string + outbound_plan option" where
  "profile_plan pick s =
     (case vs_raw_profile s of
        None \<Rightarrow> Ok None
      | Some profile \<Rightarrow>
          try_then (provider_proxy_outbounds profile) (\<lambda>proxies.
          let balancers = profile_balancers profile;
              balancer_list = (case Option.bind balancers as_array of None \<Rightarrow> [] | Some bs \<Rightarrow> bs);
              proxy_tags = tags_of proxies; balancer_tags = tags_of balancer_list in
          if length proxies \<le> 1 \<and> balancers = None \<and> \<not> has_key ''observatory'' profile
             \<and> \<not> has_key ''burstObservatory'' profile
          then Ok None
          else try_then (check_balancers proxy_tags balancer_list) (\<lambda>_.
               Ok (Some \<lparr>op_proxies = proxies,
                         op_target = profile_target pick proxies proxy_tags balancer_tags
                           (unwrap_or [] (Option.bind (get_object ''routing'' profile) (\<lambda>r. Option.bind (map_of r ''rules'') as_array))),
                         op_balancers = balancers,
                         op_observatory = json_get ''observatory'' profile,
                         op_burst_observatory = json_get ''burstObservatory'' profile,
                         op_provider_rules = safe_provider_route_rules s proxies balancers\<rparr>))))"

definition outbound_plan_of ::
    "(string \<Rightarrow> json option) \<Rightarrow> nat \<Rightarrow> vless_server \<Rightarrow> (string + outbound_plan) option" where
  "outbound_plan_of from_str pick s =
     (case profile_plan pick s of
        Inl e \<Rightarrow> Some (Err e)
      | Inr (Some plan) \<Rightarrow> Some (Ok plan)
      | Inr None \<Rightarrow>
          map_option (\<lambda>outbound.
            Ok \<lparr>op_proxies = [outbound], op_target = To_Outbound ''proxy'', op_balancers = None,
                op_observatory = None, op_burst_observatory = None,
                op_provider_rules = safe_provider_route_rules s [outbound] None\<rparr>)
            (build_proxy_outbound from_str s))"

text \<open>The outbound a single ping goes through.\<close>

definition first_proxy_tag :: "outbound_plan \<Rightarrow> string" where
  "first_proxy_tag plan = unwrap_or [] (get_str ''tag'' (hd (op_proxies plan)))"

definition ping_outbound_tag :: "outbound_plan \<Rightarrow> string" where
  "ping_outbound_tag plan =
     (case op_target plan of
        To_Outbound tag \<Rightarrow> tag
      | To_Balancer target \<Rightarrow>
          (let proxy_tags = tags_of (op_proxies plan);
               balancers = (case Option.bind (op_balancers plan) as_array of None \<Rightarrow> [] | Some bs \<Rightarrow> bs) in
           case find (\<lambda>b. get_str ''tag'' b = Some target) balancers of
             None \<Rightarrow> first_proxy_tag plan
           | Some b \<Rightarrow>
               (case Option.bind (get_str ''fallbackTag'' b) (\<lambda>t. if t \<in> set proxy_tags then Some t else None) of
                  Some t \<Rightarrow> t
                | None \<Rightarrow>
                    unwrap_or (first_proxy_tag plan)
                      (find_map (\<lambda>sel. find (starts_with sel) proxy_tags)
                        (List.map_filter as_str (unwrap_or [] (get_array ''selector'' b)))))))"

section \<open>What is refused\<close>

definition known_transports :: "string list" where
  "known_transports =
     ['''', ''raw'', ''tcp'', ''xhttp'', ''splithttp'', ''ws'', ''websocket'', ''grpc'', ''gun'', ''httpupgrade'',
      ''http'', ''h2'', ''h3'', ''kcp'', ''mkcp'', ''hysteria'']"

definition validate_fields :: "vless_server \<Rightarrow> string + unit" where
  "validate_fields s =
     (let protocol = to_lower (vs_protocol s); transport = to_lower (vs_transport s) in
      if \<not> is_known_protocol protocol then Err (''unsupported protocol: '' @ vs_protocol s)
      else if protocol = ''wireguard'' then
        (if trim (vs_uuid s) = [] then Err ''WireGuard private key is required''
         else if trim (unwrap_or [] (vs_public_key s)) = [] then Err ''WireGuard peer public key is required''
         else Ok ())
      else if transport \<notin> set known_transports then Err (''unsupported transport: '' @ vs_transport s)
      else if protocol = ''hysteria''
              \<and> (transport \<noteq> ''hysteria'' \<or> \<not> eq_ignore_ascii_case (vs_security s) ''tls'')
      then Err ''Hysteria2 requires the Hysteria transport with TLS''
      else Ok ())"

text \<open>\<open>None\<close>: the panic of \<open>outbound_plan\<close>.\<close>

definition validate_server ::
    "(string \<Rightarrow> json option) \<Rightarrow> nat \<Rightarrow> vless_server \<Rightarrow> (string + unit) option" where
  "validate_server from_str pick s =
     (if vs_raw_profile s \<noteq> None
      then map_option (\<lambda>r. try_then r (\<lambda>_. Ok ())) (outbound_plan_of from_str pick s)
      else case vs_raw_outbound s of
        Some raw \<Rightarrow>
          Some (try_then (ok_or ''JSON location has no outbound protocol'' (get_str ''protocol'' raw)) (\<lambda>p.
                if is_known_protocol (to_lower p) then Ok ()
                else Err (''unsupported proxy protocol in JSON: '' @ to_lower p)))
      | None \<Rightarrow> Some (validate_fields s))"

end
