(* ===== verification/Gen_Config.thy ===== *)
theory Gen_Config
  imports Gen_Plan
begin

text \<open>
  The configurations the client generates: of a connection, of a ping, of a connection's probe,
  and the form an older daemon takes.
\<close>

section \<open>Inbounds\<close>

definition sniffing :: json where
  "sniffing =
     jobj [(''enabled'', JBool True), (''destOverride'', jstrs [''http'', ''tls'', ''quic'']), (''routeOnly'', JBool True)]"

definition build_inbounds :: "tun_mode \<Rightarrow> nat \<Rightarrow> json list" where
  "build_inbounds tun mtu =
     (case tun of
        XrayNative \<Rightarrow>
          [jobj [(''tag'', JStr ''tun-in''), (''protocol'', JStr ''tun''),
                 (''settings'', jobj [(''name'', JStr TUN_NAME), (''mtu'', JInt (int mtu))]),
                 (''sniffing'', sniffing)]]
      | Tun2socks \<Rightarrow>
          [jobj [(''tag'', JStr ''socks-in''), (''listen'', JStr ''127.0.0.1''),
                 (''port'', JInt (int XRAY_SOCKS_PORT)), (''protocol'', JStr ''socks''),
                 (''settings'', jobj [(''udp'', JBool True), (''auth'', JStr ''noauth'')]),
                 (''sniffing'', sniffing)]])"

section \<open>Rules\<close>

definition site_domain_rule :: "string \<Rightarrow> string" where
  "site_domain_rule site =
     (let s = trim site in
      case strip_prefix ''='' s of
        Some host \<Rightarrow> ''full:'' @ host
      | None \<Rightarrow>
          ''domain:'' @ (case strip_prefix ''*.'' s of
             Some t \<Rightarrow> t
           | None \<Rightarrow> (case strip_prefix ''.'' s of Some t \<Rightarrow> t | None \<Rightarrow> s)))"

definition site_domains :: "split_input \<Rightarrow> string list" where
  "site_domains sp = map site_domain_rule (filter (\<lambda>t. t \<noteq> []) (map trim (sp_sites sp)))"

definition field_rule :: "(string \<times> json) list \<Rightarrow> (string \<times> json) list" where
  "field_rule entries = (''type'', JStr ''field'') # entries"

definition use_proxy :: "bool \<Rightarrow> proxy_target \<Rightarrow> proxy_target" where
  "use_proxy proxied target = (if proxied then target else To_Outbound ''direct'')"

definition default_uses_proxy :: "split_input \<Rightarrow> tun_mode \<Rightarrow> bool" where
  "default_uses_proxy sp tun =
     (if tun \<noteq> XrayNative then \<not> sites_selective sp else \<not> (apps_selective sp \<or> sites_selective sp))"

definition dns_rule :: "string \<Rightarrow> json" where
  "dns_rule tag =
     rule_to (To_Outbound ''dns-out'') (field_rule [(''inboundTag'', jstrs [tag]), (''port'', JInt 53)])"

definition lan_rule :: json where
  "lan_rule = rule_to (To_Outbound ''direct'') (field_rule [(''ip'', jstrs PRIVATE_CIDRS)])"

definition app_rule :: "proxy_target \<Rightarrow> string \<Rightarrow> json" where
  "app_rule target app = rule_to target (field_rule [(''process'', jstrs [app])])"

definition sites_rule :: "proxy_target \<Rightarrow> string list \<Rightarrow> json" where
  "sites_rule target domains = rule_to target (field_rule [(''domain'', jstrs domains)])"

definition upstream_rule :: "proxy_target \<Rightarrow> string list \<Rightarrow> json" where
  "upstream_rule target ips = rule_to target (field_rule [(''ip'', jstrs ips)])"

definition default_rule :: "proxy_target \<Rightarrow> json" where
  "default_rule target = rule_to target (field_rule [(''network'', JStr ''tcp,udp'')])"

definition build_route_rules ::
    "split_input \<Rightarrow> bool \<Rightarrow> string \<Rightarrow> tun_mode \<Rightarrow> proxy_target \<Rightarrow> string list \<Rightarrow> json list \<Rightarrow> json list" where
  "build_route_rules sp allow_lan tag tun target upstream_ips provider_rules =
     [dns_rule tag]
     @ (if allow_lan then [lan_rule] else [])
     @ (if tun = XrayNative
        then map (app_rule (use_proxy (apps_selective sp) target)) (enabled_apps sp) else [])
     @ (if site_domains sp = [] then []
        else [sites_rule (use_proxy (sites_selective sp) target) (site_domains sp)])
     @ provider_rules
     @ [upstream_rule target upstream_ips,
        default_rule (use_proxy (default_uses_proxy sp tun) target)]"

definition xray_loglevel :: "string \<Rightarrow> string" where
  "xray_loglevel level =
     (if level \<in> {''debug'', ''info'', ''error'', ''none''} then level else ''warning'')"

section \<open>The configuration of a connection\<close>

definition system_outbounds :: "json list" where
  "system_outbounds =
     [direct_outbound, jobj [(''tag'', JStr ''dns-out''), (''protocol'', JStr ''dns'')],
      jobj [(''tag'', JStr ''block''), (''protocol'', JStr ''blackhole'')]]"

definition observatory_entries :: "outbound_plan \<Rightarrow> (string \<times> json) list" where
  "observatory_entries plan =
     optional_entry ''observatory'' (op_observatory plan)
     @ optional_entry ''burstObservatory'' (op_burst_observatory plan)"

definition connection_config ::
    "vless_server \<Rightarrow> dns_plan \<Rightarrow> outbound_plan \<Rightarrow> split_input \<Rightarrow> tun_mode \<Rightarrow> bool \<Rightarrow> string \<Rightarrow> nat \<Rightarrow> json" where
  "connection_config s dns plan sp tun allow_lan level mtu =
     (let rules = build_route_rules sp allow_lan (inbound_tag tun) tun (op_target plan) (dp_upstream_ips dns)
                    (op_provider_rules plan);
          routing = jobj ([(''rules'', JArr rules)] @ provider_routing_options s
                          @ optional_entry ''balancers'' (op_balancers plan))
      in jobj ([(''log'', jobj [(''loglevel'', JStr (xray_loglevel level))]), (''dns'', dp_config dns),
                (''inbounds'', JArr (build_inbounds tun mtu)),
                (''outbounds'', JArr (op_proxies plan @ system_outbounds)), (''routing'', routing)]
               @ observatory_entries plan))"

text \<open>\<open>None\<close>: a panic of \<open>expect\<close>, on a location whose plan fails.\<close>

definition build_xray_config ::
    "(string \<Rightarrow> json option) \<Rightarrow> (string \<Rightarrow> full_url option) \<Rightarrow> nat \<Rightarrow> vless_server \<Rightarrow> split_input
     \<Rightarrow> string \<Rightarrow> tun_mode \<Rightarrow> bool \<Rightarrow> string \<Rightarrow> nat \<Rightarrow> json option" where
  "build_xray_config from_str url_parse pick s sp mode tun allow_lan level mtu =
     Option.bind (Option.bind (outbound_plan_of from_str pick s) res_ok) (\<lambda>plan.
     Some (connection_config s (build_dns_plan url_parse s) plan sp
             (if mode = ''proxy'' then Tun2socks else tun) allow_lan level mtu))"

section \<open>Pings\<close>

definition ping_proxy_count ::
    "(string \<Rightarrow> json option) \<Rightarrow> nat \<Rightarrow> vless_server \<Rightarrow> (string + nat) option" where
  "ping_proxy_count from_str pick s =
     map_option (\<lambda>r. try_then r (\<lambda>plan. Ok (length (op_proxies plan)))) (outbound_plan_of from_str pick s)"

definition socks_inbound :: "string \<Rightarrow> nat \<Rightarrow> json" where
  "socks_inbound tag port =
     jobj [(''tag'', JStr tag), (''listen'', JStr ''127.0.0.1''), (''port'', JInt (int port)),
           (''protocol'', JStr ''socks''),
           (''settings'', jobj [(''udp'', JBool False), (''auth'', JStr ''noauth'')])]"

definition plain_direct :: json where
  "plain_direct = jobj [(''tag'', JStr ''direct''), (''protocol'', JStr ''freedom'')]"

definition all_traffic :: "string list \<Rightarrow> (string \<times> json) list" where
  "all_traffic tags = field_rule [(''inboundTag'', jstrs tags), (''network'', JStr ''tcp,udp'')]"

definition ping_rule :: "string \<Rightarrow> string \<Rightarrow> json" where
  "ping_rule inbound outbound = rule_to (To_Outbound outbound) (all_traffic [inbound])"

definition ping_tag :: "nat \<Rightarrow> string" where
  "ping_tag index = ''socks-in-'' @ dec index"

text \<open>One inbound and one rule for every proxy.\<close>

fun ping_parts :: "nat \<Rightarrow> json list \<Rightarrow> nat list \<Rightarrow> string + (json \<times> json) list" where
  "ping_parts index (v # vs) (port # ports) =
     try_then (ok_or (''ping proxy '' @ dec index @ '' has no tag'') (get_str ''tag'' v)) (\<lambda>tag.
     try_then (ping_parts (Suc index) vs ports) (\<lambda>rest.
     Ok ((socks_inbound (ping_tag index) port, ping_rule (ping_tag index) tag) # rest)))"
| "ping_parts index _ _ = Ok []"

definition probe_document :: "json list \<Rightarrow> json list \<Rightarrow> json \<Rightarrow> (string \<times> json) list \<Rightarrow> json" where
  "probe_document inbounds proxies routing sections =
     jobj ([(''log'', jobj [(''loglevel'', JStr ''warning'')]), (''inbounds'', JArr inbounds),
            (''outbounds'', JArr (proxies @ [plain_direct])), (''routing'', routing)] @ sections)"

definition build_ping_config ::
    "(string \<Rightarrow> json option) \<Rightarrow> nat \<Rightarrow> vless_server \<Rightarrow> nat list \<Rightarrow> (string + json) option" where
  "build_ping_config from_str pick s ports =
     map_option (\<lambda>r. try_then r (\<lambda>plan.
         if length ports \<noteq> length (op_proxies plan)
         then Err (''ping config needs '' @ dec (length (op_proxies plan)) @ '' SOCKS ports, got '' @ dec (length ports))
         else try_then (ping_parts 0 (op_proxies plan) ports) (\<lambda>parts.
              Ok (probe_document (map fst parts) (op_proxies plan)
                    (jobj [(''rules'', JArr (map snd parts))]) []))))
       (outbound_plan_of from_str pick s)"

definition CONNECTION_PROBE_PORT_BASE :: nat where "CONNECTION_PROBE_PORT_BASE = 20810"

definition ping_placeholder_ports ::
    "(string \<Rightarrow> json option) \<Rightarrow> nat \<Rightarrow> vless_server \<Rightarrow> (string + nat list) option" where
  "ping_placeholder_ports from_str pick s =
     map_option (\<lambda>r. try_then r (\<lambda>count.
         if count < 1 \<or> 64 < count then Err (''invalid proxy path count: '' @ dec count)
         else Ok (map (\<lambda>i. CONNECTION_PROBE_PORT_BASE + i) [0..<count])))
       (ping_proxy_count from_str pick s)"

definition build_connection_probe_config ::
    "(string \<Rightarrow> json option) \<Rightarrow> nat \<Rightarrow> vless_server \<Rightarrow> (string + json) option" where
  "build_connection_probe_config from_str pick s =
     map_option (\<lambda>r. try_then r (\<lambda>plan.
         Ok (probe_document [socks_inbound ''socks-in-0'' CONNECTION_PROBE_PORT_BASE] (op_proxies plan)
               (jobj ([(''rules'', JArr [rule_to (op_target plan) (all_traffic [''socks-in-0''])])]
                      @ optional_entry ''balancers'' (op_balancers plan)))
               (observatory_entries plan))))
       (outbound_plan_of from_str pick s)"

definition build_legacy_ping_config ::
    "(string \<Rightarrow> json option) \<Rightarrow> nat \<Rightarrow> vless_server \<Rightarrow> nat \<Rightarrow> (string + json) option" where
  "build_legacy_ping_config from_str pick s port =
     map_option (\<lambda>r. try_then r (\<lambda>plan.
         Ok (probe_document [socks_inbound ''socks-in'' port] (op_proxies plan)
               (jobj [(''rules'', JArr [default_rule (To_Outbound (ping_outbound_tag plan))])]) [])))
       (outbound_plan_of from_str pick s)"

text \<open>The command of the user interface; \<open>print\<close> is \<open>serde_json::to_string_pretty\<close>.\<close>

definition generate_xray_config ::
    "(string \<Rightarrow> json option) \<Rightarrow> (string \<Rightarrow> full_url option) \<Rightarrow> (json \<Rightarrow> string + string) \<Rightarrow> nat \<Rightarrow> vless_server
     \<Rightarrow> split_input \<Rightarrow> string \<Rightarrow> bool \<Rightarrow> nat option \<Rightarrow> (string + string) option" where
  "generate_xray_config from_str url_parse print pick s sp mode allow_lan mtu =
     Option.bind (validate_server from_str pick s) (\<lambda>r. case r of
       Inl e \<Rightarrow> Some (Err e)
     | Inr _ \<Rightarrow>
         map_option print
           (build_xray_config from_str url_parse pick s sp mode XrayNative allow_lan ''warning'' (tun_mtu mtu)))"

end
