(* ===== verification/Gen_Accepted.thy ===== *)
theory Gen_Accepted
  imports Gen_Config Xray_Doc_Props
begin

text \<open>
  What the client generates from the fields of a location is what the daemon accepts: the
  document of a connection, of its probe, and of a ping.
\<close>

section \<open>Nothing forbidden\<close>

abbreviation clean :: "json \<Rightarrow> bool" where
  "clean v \<equiv> \<not> contains_forbidden_file_key v"

lemma kv_clean_iff [simp]: "kv_clean (k, v) \<longleftrightarrow> k \<notin> set forbidden_file_keys \<and> clean v"
  by (simp add: kv_clean_def)

lemma clean_parts:
  "list_all kv_clean kvs \<Longrightarrow> clean (jobj kvs)" "list_all clean vs \<Longrightarrow> clean (JArr vs)"
  "clean (jstrs ss)" "(\<And>a. x = Some a \<Longrightarrow> clean (f a)) \<Longrightarrow> k \<notin> set forbidden_file_keys \<Longrightarrow> list_all kv_clean (optional_entry k (map_option f x))"
  by (auto simp: clean_jobj list_ex_iff list_all_iff jstrs_def optional_entry_def split: option.splits)

lemma clean_insert: "list_all kv_clean m \<Longrightarrow> kv_clean (k, v) \<Longrightarrow> list_all kv_clean (obj_insert k v m)"
  by (rule obj_insert_list_all)

lemma clean_or_insert: "list_all kv_clean m \<Longrightarrow> kv_clean (k, v) \<Longrightarrow> list_all kv_clean (obj_or_insert k v m)"
  by (auto simp: obj_or_insert_def simp del: kv_clean_iff intro: clean_insert split: option.splits)

lemma lower_not_forbidden: "to_lower h = h \<Longrightarrow> h \<notin> set forbidden_file_keys"
proof
  assume l: "to_lower h = h" and "h \<in> set forbidden_file_keys"
  then consider "h = ''certificateFile''" | "h = ''keyFile''" | "h = ''certificatePath''" | "h = ''keyPath''"
    by (auto simp: forbidden_file_keys_def)
  moreover have "to_lower ''certificateFile'' \<noteq> ''certificateFile''" "to_lower ''keyFile'' \<noteq> ''keyFile''"
    "to_lower ''certificatePath'' \<noteq> ''certificatePath''" "to_lower ''keyPath'' \<noteq> ''keyPath''"
    by code_simp+
  ultimately show False using l by cases auto
qed

section \<open>The outbound of the fields\<close>

text \<open>The extra settings of a location name no file.\<close>

definition extra_clean :: "(string \<Rightarrow> json option) \<Rightarrow> vless_server \<Rightarrow> bool" where
  "extra_clean from_str s =
     (case Option.bind (param ''extra'' s) from_str of None \<Rightarrow> True | Some v \<Rightarrow> clean v)"

lemma stream_clean: "extra_clean from_str s \<Longrightarrow> clean (build_stream_settings from_str s)"
proof -
  assume e: "extra_clean from_str s"
  have extra: "list_all kv_clean (case Option.bind (Option.bind (param ''extra'' s) from_str) as_object of None \<Rightarrow> [] | Some m \<Rightarrow> m)"
  proof (cases "Option.bind (param ''extra'' s) from_str")
    case (Some v)
    then show ?thesis
      using e clean_obj by (cases v) (simp_all add: extra_clean_def del: contains_forbidden_file_key.simps(1) bind_assoc)
  qed (simp del: bind_assoc)
  have x: "list_all kv_clean (xhttp_settings from_str s)"
    unfolding xhttp_settings_def Let_def using extra
    by (auto intro!: clean_insert clean_or_insert simp: forbidden_file_keys_def split: option.splits)
  have "list_all kv_clean (transport_entries from_str s)"
    unfolding transport_entries_def Let_def using x
    by (auto intro!: clean_parts simp: forbidden_file_keys_def clean_obj simp del: contains_forbidden_file_key.simps(1))
  moreover have "list_all kv_clean (security_entries s)"
    unfolding security_entries_def
    by (auto intro!: clean_parts simp: forbidden_file_keys_def simp del: contains_forbidden_file_key.simps(1))
  moreover have "clean dial_sockopt"
    unfolding dial_sockopt_def by (intro clean_parts) (simp add: forbidden_file_keys_def)
  ultimately show ?thesis
    unfolding build_stream_settings_def by (intro clean_parts) (simp add: forbidden_file_keys_def)
qed

lemma stream_mark: "json_pointer [''sockopt'', ''mark''] (build_stream_settings from_str s) = Some (JInt (int CLIENT_DIAL_MARK))"
  by (simp add: build_stream_settings_def dial_sockopt_def)

text \<open>What every outbound of the fields is.\<close>

definition field_outbound :: "json \<Rightarrow> bool" where
  "field_outbound v \<longleftrightarrow>
     get_str ''tag'' v = Some ''proxy'' \<and> is_proxy_protocol (get_str ''protocol'' v)
     \<and> (get_str ''protocol'' v = Some ''wireguard'' \<or> outbound_marked v) \<and> clean v"

lemma proxy_outbound_ok:
  assumes "p \<in> set proxy_protocols" and "clean settings" and "extra_clean from_str s"
  shows "field_outbound (proxy_outbound p settings (build_stream_settings from_str s))"
proof -
  have "clean (proxy_outbound p settings (build_stream_settings from_str s))"
    unfolding proxy_outbound_def using assms(2) stream_clean [OF assms(3)]
    by (intro clean_parts) (simp add: forbidden_file_keys_def)
  then show ?thesis
    using assms(1) stream_mark [of from_str s]
    by (simp add: field_outbound_def proxy_outbound_def get_str_def is_proxy_protocol_def outbound_marked_def
        CLIENT_DIAL_MARK_def XRAY_DIAL_MARK_def u64_max_def)
qed

lemma settings_clean:
  "clean (jobj (endpoint_entries s @ kvs))" if "list_all kv_clean kvs" for kvs
  using that unfolding endpoint_entries_def by (intro clean_parts) (simp add: forbidden_file_keys_def)

lemma fields_outbound_ok:
  assumes "extra_clean from_str s"
  shows "field_outbound (proxy_of_fields from_str s)"
proof -
  have v: "clean (vnext_settings s kvs)" if "list_all kv_clean kvs" for kvs
    unfolding vnext_settings_def using that
    by (auto intro!: clean_parts settings_clean simp: forbidden_file_keys_def simp del: contains_forbidden_file_key.simps(1))
  have r: "clean (servers_settings s kvs)" if "list_all kv_clean kvs" for kvs
    unfolding servers_settings_def using that
    by (auto intro!: clean_parts settings_clean simp: forbidden_file_keys_def simp del: contains_forbidden_file_key.simps(1))
  have simple: "clean (jobj (endpoint_entries s @ (if vs_uuid s = [] then [] else [(''user'', JStr (vs_uuid s))])
              @ optional_entry ''pass'' (map_option JStr (non_empty (vs_password s)))))"
    by (intro settings_clean) (auto intro!: clean_parts simp: forbidden_file_keys_def)
  have h: "clean (jobj ((''version'', JInt 2) # endpoint_entries s))"
    unfolding endpoint_entries_def by (intro clean_parts) (simp add: forbidden_file_keys_def)
  show ?thesis
    unfolding proxy_of_fields_def Let_def build_simple_proxy_outbound_def
    using simple h
    by (auto intro!: proxy_outbound_ok assms v r simp: proxy_protocols_def forbidden_file_keys_def)
qed

lemma wireguard_outbound_ok: "field_outbound (build_wireguard_outbound s)"
proof -
  have "clean (build_wireguard_outbound s)"
    unfolding build_wireguard_outbound_def Let_def
    by (auto intro!: clean_parts simp: forbidden_file_keys_def list_ex_iff simp del: contains_forbidden_file_key.simps(1) split: option.splits)
  then show ?thesis
    by (simp add: field_outbound_def build_wireguard_outbound_def Let_def get_str_def is_proxy_protocol_def proxy_protocols_def)
qed

definition of_fields :: "vless_server \<Rightarrow> bool" where
  "of_fields s = (vs_raw_profile s = None \<and> vs_raw_outbound s = None)"

lemma plan_of_fields:
  assumes "of_fields s" and "extra_clean from_str s"
  obtains v where "field_outbound v"
    and "outbound_plan_of from_str pick s =
           Some (Ok \<lparr>op_proxies = [v], op_target = To_Outbound ''proxy'', op_balancers = None,
                     op_observatory = None, op_burst_observatory = None, op_provider_rules = []\<rparr>)"
proof -
  obtain v where "build_proxy_outbound from_str s = Some v" and "field_outbound v"
    using assms(1) fields_outbound_ok [OF assms(2)] wireguard_outbound_ok [of s]
    by (cases "vs_protocol s = ''wireguard''") (simp_all add: build_proxy_outbound_def of_fields_def)
  then show ?thesis
    using assms(1) that [of v]
    by (simp add: outbound_plan_of_def profile_plan_def of_fields_def safe_provider_route_rules_def profile_routing_def)
qed

section \<open>The DNS section\<close>

text \<open>
  What the URL parser is relied on for: an \<open>https\<close> URL is written with its scheme, its host is in
  lower case, and a URL of a resolver is no bare address.
\<close>

definition url_parser_ok :: "(string \<Rightarrow> full_url option) \<Rightarrow> bool" where
  "url_parser_ok url_parse \<longleftrightarrow>
     (\<forall>raw u. url_parse raw = Some u \<longrightarrow>
        (fu_scheme u = ''https'' \<longrightarrow> starts_with ''https://'' (fu_text u))
        \<and> (dns_url_ok u \<longrightarrow> parse_ip (fu_text u) = None)
        \<and> (starts_with ''https://'' raw \<longrightarrow> (case fu_host u of None \<Rightarrow> True | Some h \<Rightarrow> to_lower h = h)))"

lemma entries_of_fields: "of_fields s \<Longrightarrow> dns_entries url_parse s = default_entries"
  by (simp add: dns_entries_def safe_provider_dns_servers_def profile_dns_def of_fields_def)

lemma default_boots:
  assumes "url_parser_ok url_parse" and "(h, ips) \<in> set (bootstraps url_parse default_entries)"
  shows "h \<notin> set forbidden_file_keys"
proof -
  obtain u v where u: "u \<in> {''https://cloudflare-dns.com/dns-query'', ''https://dns.google/dns-query''}"
    and v: "url_parse u = Some v" and h: "fu_host v = Some h"
    using assms(2) by (auto simp: bootstraps_def default_entries_def DEFAULT_DOH_SERVERS_def map_filter_def bind_eq_Some_conv
        split: if_splits option.splits)
  have "starts_with ''https://'' u" using u by (auto simp: starts_with_def)
  then have "to_lower h = h" using assms(1) v h unfolding url_parser_ok_def by fastforce
  then show ?thesis by (rule lower_not_forbidden)
qed

lemma hosts_clean:
  "list_all kv_clean m \<Longrightarrow> list_all (\<lambda>(h, ips). h \<notin> set forbidden_file_keys) boots \<Longrightarrow> list_all kv_clean (dns_hosts boots m)"
proof -
  assume m: "list_all kv_clean m" and b: "list_all (\<lambda>(h, ips). h \<notin> set forbidden_file_keys) boots"
  have "list_all kv_clean (fold (\<lambda>(h, ips). obj_or_insert h (jstrs ips)) boots m)"
    using m b
  proof (induction boots arbitrary: m)
    case (Cons hb boots)
    obtain h ips where hb: "hb = (h, ips)" by fastforce
    have "list_all kv_clean (obj_or_insert h (jstrs ips) m)"
      using Cons.prems by (intro clean_or_insert) (simp_all add: hb clean_parts)
    then show ?case using Cons by (simp add: hb)
  qed simp
  then show ?thesis
    unfolding dns_hosts_def by (rule clean_or_insert) (simp add: forbidden_file_keys_def)
qed

lemma config_of_fields_clean:
  assumes "of_fields s" and "url_parser_ok url_parse"
  shows "clean (dp_config (build_dns_plan url_parse s))"
proof -
  have b: "list_all (\<lambda>(h, ips). h \<notin> set forbidden_file_keys) (bootstraps url_parse default_entries)"
    using default_boots [OF assms(2)] by (auto simp: list_all_iff)
  have own: "Option.bind (profile_dns s) as_object = None"
    using assms(1) by (simp add: profile_dns_def of_fields_def)
  have servers: "clean (JArr (map fst default_entries))"
    by (simp add: default_entries_def DEFAULT_DOH_SERVERS_def)
  have m: "list_all kv_clean (obj_insert ''queryStrategy'' (JStr (query_strategy s))
             (obj_insert ''servers'' (JArr (map fst default_entries)) (obj_remove ''clientIp'' [])))"
    using servers by (intro clean_insert) (simp_all add: obj_remove_def forbidden_file_keys_def)
  have none: "map_of (obj_insert ''queryStrategy'' (JStr (query_strategy s))
             (obj_insert ''servers'' (JArr (map fst default_entries)) (obj_remove ''clientIp'' []))) ''hosts'' = None"
    by (simp add: obj_remove_def)
  have h: "list_all kv_clean (dns_hosts (bootstraps url_parse default_entries) [])"
    by (rule hosts_clean [OF _ b]) simp
  have "list_all kv_clean (dns_config url_parse s default_entries)"
    unfolding dns_config_def own Let_def entry_object_def none option.case
    by (intro clean_or_insert clean_insert m)
       (use h clean_obj in \<open>simp_all add: forbidden_file_keys_def del: contains_forbidden_file_key.simps(1)\<close>)
  then show ?thesis
    using clean_obj by (simp add: build_dns_plan_def entries_of_fields [OF assms(1)] Let_def del: contains_forbidden_file_key.simps(1))
qed

section \<open>The document of a connection\<close>

lemma rules_clean:
  assumes "list_all clean provider"
  shows "list_all clean (build_route_rules sp lan tag tun target ips provider)"
proof -
  have rule: "clean (rule_to t kvs)" if "list_all kv_clean kvs" for t kvs
    unfolding rule_to_def using that by (cases t) (auto intro!: clean_parts simp: forbidden_file_keys_def)
  have strs: "clean (rule_to t (field_rule [(k, jstrs v)]))" if "k \<notin> set forbidden_file_keys" for t k v
    using that by (intro rule) (simp add: field_rule_def clean_parts forbidden_file_keys_def)
  have dns: "clean (dns_rule tag)"
    unfolding dns_rule_def by (intro rule) (simp add: field_rule_def clean_parts forbidden_file_keys_def)
  have default: "clean (default_rule t)" for t
    unfolding default_rule_def by (intro rule) (simp add: field_rule_def forbidden_file_keys_def)
  have others: "clean lan_rule" "clean (app_rule t app)" "clean (sites_rule t ds)" "clean (upstream_rule t ds)" for t app ds
    unfolding lan_rule_def app_rule_def sites_rule_def upstream_rule_def
    by (rule strs, simp add: forbidden_file_keys_def)+
  show ?thesis
    using assms dns default others unfolding build_route_rules_def list_all_append
    by (auto simp: list_all_iff)
qed

lemma inbounds_clean: "list_all clean (build_inbounds tun mtu)"
  unfolding build_inbounds_def sniffing_def
  by (cases tun) (auto intro!: clean_parts simp: forbidden_file_keys_def simp del: contains_forbidden_file_key.simps(1))

lemma system_outbounds_clean: "list_all clean system_outbounds"
  unfolding system_outbounds_def direct_outbound_def dial_sockopt_def
  by (auto intro!: clean_parts simp: forbidden_file_keys_def simp del: contains_forbidden_file_key.simps(1))

lemma system_outbounds_facts:
  "map (\<lambda>v. (get_str ''tag'' v, get_str ''protocol'' v)) system_outbounds =
     [(Some ''direct'', Some ''freedom''), (Some ''dns-out'', Some ''dns''), (Some ''block'', Some ''blackhole'')]"
  by (simp add: system_outbounds_def direct_outbound_def get_str_def)

lemma outbound_set_ok:
  assumes "field_outbound v"
  defines "outs \<equiv> v # system_outbounds"
  shows "tags_valid [] outs \<and> 1 \<le> proxy_count outs \<and> proxy_count outs \<le> MAX_SERVER_IPS
         \<and> length outs = proxy_count outs + length required_system_outbounds \<and> system_outbounds_are_exact outs"
proof -
  obtain a b c where abc: "system_outbounds = [a, b, c]"
    by (simp add: system_outbounds_def)
  have tags: "get_str ''tag'' a = Some ''direct''" "get_str ''tag'' b = Some ''dns-out''" "get_str ''tag'' c = Some ''block''"
    "get_str ''protocol'' a = Some ''freedom''" "get_str ''protocol'' b = Some ''dns''" "get_str ''protocol'' c = Some ''blackhole''"
    using system_outbounds_facts by (simp_all add: abc)
  have v: "get_str ''tag'' v = Some ''proxy''" "is_proxy_protocol (get_str ''protocol'' v)"
    using assms(1) by (simp_all add: field_outbound_def)
  have count: "proxy_count outs = 1"
    using v tags by (simp add: outs_def abc proxy_count_def is_proxy_protocol_def proxy_protocols_def)
  show ?thesis
    unfolding count using v tags
    by (simp add: outs_def abc MAX_SERVER_IPS_def required_system_outbounds_def system_outbounds_are_exact_def has_tag_protocol_def)
qed

lemma connection_config_accepted:
  assumes "field_outbound v" and "of_fields s" and "url_parser_ok url_parse"
    and "parse raw = Inr (connection_config s (build_dns_plan url_parse s)
           \<lparr>op_proxies = [v], op_target = To_Outbound ''proxy'', op_balancers = None,
            op_observatory = None, op_burst_observatory = None, op_provider_rules = []\<rparr> sp tun lan level mtu)"
  shows "validate_xray_document parse raw (tun = XrayNative) = Ok ()"
proof -
  let ?rules = "build_route_rules sp lan (inbound_tag tun) tun (To_Outbound ''proxy'')
                  (dp_upstream_ips (build_dns_plan url_parse s)) []"
  let ?log = "jobj [(''loglevel'', JStr (xray_loglevel level))]"
  let ?dns = "dp_config (build_dns_plan url_parse s)"
  let ?kvs = "[(''log'', ?log), (''dns'', ?dns), (''inbounds'', JArr (build_inbounds tun mtu)),
     (''outbounds'', JArr (v # system_outbounds)), (''routing'', jobj [(''rules'', JArr ?rules)])]"
  have options: "provider_routing_options s = []"
    using assms(2) by (simp add: provider_routing_options_def profile_routing_def of_fields_def)
  have doc: "parse raw = Inr (jobj ?kvs)"
    using assms(4) by (simp add: connection_config_def Let_def options observatory_entries_def optional_entry_def)
  then have parsed: "parse_document parse msg raw = Inr (jobj ?kvs)" for msg by simp
  obtain dns where dns: "?dns = JObj dns" by (simp add: build_dns_plan_def Let_def)
  have clean_doc: "clean (jobj ?kvs)"
  proof (rule clean_parts(1))
    have "clean ?log" by (rule clean_parts(1)) (simp add: forbidden_file_keys_def)
    moreover have "clean (jobj [(''rules'', JArr ?rules)])"
      by (rule clean_parts(1)) (simp add: forbidden_file_keys_def clean_parts(2) rules_clean del: contains_forbidden_file_key.simps(2))
    moreover have "clean (JArr (v # system_outbounds))"
      using assms(1) system_outbounds_clean by (intro clean_parts) (simp add: field_outbound_def)
    ultimately show "list_all kv_clean ?kvs"
      using config_of_fields_clean [OF assms(2,3)] clean_parts(2) [OF inbounds_clean]
      by (simp add: forbidden_file_keys_def del: contains_forbidden_file_key.simps)
  qed
  have keys: "list_all (\<lambda>k. k \<in> set xray_sections) (obj_keys (obj_of ?kvs))"
    "list_all (\<lambda>k. k = ''loglevel'') (obj_keys (obj_of [(''loglevel'', JStr (xray_loglevel level))]))"
    unfolding obj_keys_def list_all_iff set_map keys_obj_of by (auto simp: xray_sections_def)
  have get: "get_object ''log'' (jobj ?kvs) = Some (obj_of [(''loglevel'', JStr (xray_loglevel level))])"
    "get_array ''inbounds'' (jobj ?kvs) = Some (build_inbounds tun mtu)"
    "get_array ''outbounds'' (jobj ?kvs) = Some (v # system_outbounds)"
    "get_object ''dns'' (jobj ?kvs) = Some dns"
    "get_object ''routing'' (jobj ?kvs) = Some (obj_of [(''rules'', JArr ?rules)])"
    by (simp_all add: get_object_def get_array_def dns) (simp_all add: jobj_def)
  have obj: "as_object (jobj ?kvs) = Some (obj_of ?kvs)" by (simp add: jobj_def)
  obtain data where data: "inbound_by_tag (build_inbounds tun mtu)
        (if tun = XrayNative then ''tun-in'' else ''socks-in'') (if tun = XrayNative then ''tun'' else ''socks'') = Ok data"
    and data_ok: "data_inbound_ok (tun = XrayNative) data = Ok ()"
    by (cases tun) (auto simp: inbound_by_tag_def build_inbounds_def has_tag_protocol_def get_str_def get_u64_def data_inbound_ok_def
        TUN_NAME_def TUN_INTERFACE_def XRAY_SOCKS_PORT_def PROXY_PORT_def u64_max_def)
  have one: "length (build_inbounds tun mtu) = 1" by (cases tun) (simp_all add: build_inbounds_def)
  show ?thesis
    unfolding validate_xray_document_def parsed
    by (simp only: try_then_simps obj require_def ok_or_simps keys get one data data_ok ensure_True
        outbound_set_ok [OF assms(1)] option.distinct simp_thms clean_doc)
qed

end
