(* ===== verification/Sub_Reimport.thy ===== *)
theory Sub_Reimport
  imports Sub_Outbound
begin

text \<open>
  Reading back what the generator wrote.  \<open>parse_outbound\<close> says it inverts
  \<open>build_proxy_outbound\<close>; it does for the locations of \<open>reimportable\<close>: the location read
  back has the same endpoint and generates the same outbound.
\<close>

section \<open>Which locations survive\<close>

text \<open>The part of the security layer that is carried in the parameters.\<close>

definition security_kept :: "vless_server \<Rightarrow> bool" where
  "security_kept s =
     (if vs_security s = ''reality'' then param ''spx'' s \<noteq> Some []
      else if vs_security s = ''tls''
      then (case non_empty (param ''alpn'' s) of
              None \<Rightarrow> True | Some a \<Rightarrow> split_list a \<noteq> [] \<and> join_with '','' (split_list a) = a)
      else True)"

text \<open>
  The import reads no \<open>httpSettings\<close>, \<open>kcpSettings\<close> or \<open>tcpSettings\<close>, and of
  \<open>xhttpSettings\<close> only three fields.
\<close>

definition transport_kept :: "vless_server \<Rightarrow> bool" where
  "transport_kept s =
     (let network = xray_network (vs_transport s) in
      if network = ''xhttp'' then vs_path s \<noteq> Some [] \<and> vs_mode s \<noteq> Some [] \<and> param ''extra'' s = None
      else if network = ''ws'' \<or> network = ''httpupgrade'' then vs_path s \<noteq> Some []
      else if network = ''grpc'' then True
      else if network = ''hysteria'' then vs_protocol s \<noteq> ''trojan'' \<and> vs_protocol s \<noteq> ''shadowsocks''
      else if network = ''http'' then path_or_root s = ''/'' \<and> host_header s = None
      else if network = ''kcp''
      then unwrap_or ''none'' (param ''headerType'' s) = ''none'' \<and> non_empty (param ''seed'' s) = None
      else param ''headerType'' s \<noteq> Some ''http'')"

definition credentials_kept :: "vless_server \<Rightarrow> bool" where
  "credentials_kept s =
     (let p = vs_protocol s in
      if p = ''vless'' then vs_uuid s \<noteq> []
      else if p = ''vmess'' then vs_uuid s \<noteq> [] \<and> param ''scy'' s \<noteq> Some []
      else if p = ''trojan'' then unwrap_or (vs_uuid s) (vs_password s) \<noteq> []
      else if p = ''http'' \<or> p = ''socks''
      then trim (vs_uuid s) = vs_uuid s \<and> trim (unwrap_or [] (vs_password s)) = unwrap_or [] (vs_password s)
      else p = ''shadowsocks'' \<or> p = ''hysteria'')"

definition reimportable :: "vless_server \<Rightarrow> bool" where
  "reimportable s \<longleftrightarrow>
     vs_host s \<noteq> [] \<and> \<not> is_balancer_sentinel (vs_host s) \<and> vs_port s \<le> u16_max
     \<and> credentials_kept s \<and> security_kept s \<and> transport_kept s"

section \<open>The fields of a generated stream\<close>

definition security_kind :: "vless_server \<Rightarrow> string" where
  "security_kind s = (if vs_security s = ''reality'' \<or> vs_security s = ''tls'' then vs_security s else ''none'')"

lemma non_empty_simps [simp]:
  "non_empty None = None" "non_empty (Some []) = None" "non_empty (Some (c # cs)) = Some (c # cs)"
  "x \<noteq> [] \<Longrightarrow> non_empty (Some x) = Some x"
  by (simp_all add: non_empty_def)

lemma non_empty_cases: "non_empty x = Some y \<longleftrightarrow> x = Some y \<and> y \<noteq> []"
  by (cases x) (auto simp: non_empty_def)

lemma non_empty_twice: "non_empty (non_empty x) = non_empty x"
  by (cases x) (simp_all add: non_empty_def)

lemma unwrap_or_simps [simp]: "unwrap_or d None = d" "unwrap_or d (Some x) = x"
  by (simp_all add: unwrap_or_def)

lemma unwrap_non_empty: "unwrap_or [] (non_empty (Some x)) = x"
  by (cases x) simp_all

lemma optional_entry_simps [simp]: "optional_entry k None = []" "optional_entry k (Some v) = [(k, v)]"
  by (simp_all add: optional_entry_def)

lemma server_name_ne: "vs_host s \<noteq> [] \<Longrightarrow> server_name s \<noteq> []"
  by (auto simp: server_name_def unwrap_or_def non_empty_cases split: option.splits)

lemma tls_fingerprint_ne: "tls_fingerprint s \<noteq> []"
  by (auto simp: tls_fingerprint_def unwrap_or_def non_empty_cases split: option.splits)

lemma networks: "xray_network t \<in> {''xhttp'', ''ws'', ''grpc'', ''httpupgrade'', ''http'', ''kcp'', ''hysteria'', ''tcp''}"
  by (simp add: xray_network_def Let_def)

lemma normalize_network: "normalize_network (xray_network t) = xray_network t"
  using networks [of t] by (auto simp: normalize_network_def)

lemma network_fixed: "xray_network (xray_network t) = xray_network t"
proof -
  have "xray_network n = n"
    if "n \<in> {''xhttp'', ''ws'', ''grpc'', ''httpupgrade'', ''http'', ''kcp'', ''hysteria'', ''tcp''}" for n
    using that by (elim insertE emptyE) (simp_all, (code_simp+))
  then show ?thesis using networks [of t] by blast
qed

definition stream_keys :: "string set" where
  "stream_keys =
     {''xhttpSettings'', ''wsSettings'', ''httpupgradeSettings'', ''grpcSettings'', ''httpSettings'', ''kcpSettings'',
      ''hysteriaSettings'', ''tcpSettings''}"

lemma keys_security: "fst ` set (security_entries s) \<subseteq> {''security'', ''realitySettings'', ''tlsSettings''}"
  by (simp add: security_entries_def)

lemma keys_transport: "fst ` set (transport_entries f s) \<subseteq> stream_keys"
  by (cases "param ''headerType'' s = Some ''http''")
     (simp_all add: transport_entries_def stream_keys_def Let_def)

lemma map_of_rev_None: "fst ` set kvs \<subseteq> K \<Longrightarrow> k \<notin> K \<Longrightarrow> map_of (rev kvs) k = None"
  by (auto simp: map_of_eq_None_iff)

lemma stream_get:
  "json_get ''network'' (build_stream_settings f s) = Some (JStr (xray_network (vs_transport s)))"
  "k \<in> {''security'', ''realitySettings'', ''tlsSettings''} \<Longrightarrow>
     json_get k (build_stream_settings f s) = map_of (rev (security_entries s)) k"
  "k \<in> stream_keys \<Longrightarrow> json_get k (build_stream_settings f s) = map_of (rev (transport_entries f s)) k"
proof -
  note sec = map_of_rev_None [OF keys_security [of s]] and tra = map_of_rev_None [OF keys_transport [of f s]]
  have "''network'' \<notin> stream_keys" by (simp add: stream_keys_def)
  then show "json_get ''network'' (build_stream_settings f s) = Some (JStr (xray_network (vs_transport s)))"
    by (simp add: build_stream_settings_def map_add_def sec tra)
  show "json_get k (build_stream_settings f s) = map_of (rev (security_entries s)) k"
    if k: "k \<in> {''security'', ''realitySettings'', ''tlsSettings''}"
  proof -
    have "k \<notin> stream_keys" "k \<noteq> ''sockopt''" "k \<noteq> ''network''" using k by (auto simp: stream_keys_def)
    then show ?thesis by (simp add: build_stream_settings_def map_add_def tra split: option.splits)
  qed
  show "json_get k (build_stream_settings f s) = map_of (rev (transport_entries f s)) k"
    if k: "k \<in> stream_keys"
  proof -
    have "k \<notin> {''security'', ''realitySettings'', ''tlsSettings''}" "k \<noteq> ''sockopt''" "k \<noteq> ''network''"
      using k by (auto simp: stream_keys_def)
    then show ?thesis by (simp add: build_stream_settings_def map_add_def sec split: option.splits)
  qed
qed

lemma stream_security: "get_str ''security'' (build_stream_settings f s) = Some (security_kind s)"
  by (simp add: get_str_def stream_get security_entries_def security_kind_def)

lemma stream_network: "get_str ''network'' (build_stream_settings f s) = Some (xray_network (vs_transport s))"
  by (simp add: get_str_def stream_get)

section \<open>Security\<close>

lemma set_param_simps [simp]:
  "vs_protocol (set_param k v x) = vs_protocol x" "vs_uuid (set_param k v x) = vs_uuid x"
  "vs_password (set_param k v x) = vs_password x" "vs_method (set_param k v x) = vs_method x"
  "vs_host (set_param k v x) = vs_host x" "vs_port (set_param k v x) = vs_port x"
  "vs_transport (set_param k v x) = vs_transport x" "vs_security (set_param k v x) = vs_security x"
  "vs_sni (set_param k v x) = vs_sni x" "vs_fingerprint (set_param k v x) = vs_fingerprint x"
  "vs_public_key (set_param k v x) = vs_public_key x" "vs_short_id (set_param k v x) = vs_short_id x"
  "vs_flow (set_param k v x) = vs_flow x" "vs_path (set_param k v x) = vs_path x" "vs_mode (set_param k v x) = vs_mode x"
  "param k' (set_param k v x) = (if k' = k then Some v else param k' x)"
  by (simp_all add: set_param_def param_def)

lemma set_param_opt_simps [simp]:
  "set_param_opt k None x = x" "set_param_opt k (Some v) x = set_param k v x"
  "vs_protocol (set_param_opt k w x) = vs_protocol x" "vs_uuid (set_param_opt k w x) = vs_uuid x"
  "vs_password (set_param_opt k w x) = vs_password x" "vs_method (set_param_opt k w x) = vs_method x"
  "vs_host (set_param_opt k w x) = vs_host x" "vs_port (set_param_opt k w x) = vs_port x"
  "vs_transport (set_param_opt k w x) = vs_transport x" "vs_security (set_param_opt k w x) = vs_security x"
  "vs_sni (set_param_opt k w x) = vs_sni x" "vs_fingerprint (set_param_opt k w x) = vs_fingerprint x"
  "vs_public_key (set_param_opt k w x) = vs_public_key x" "vs_short_id (set_param_opt k w x) = vs_short_id x"
  "vs_flow (set_param_opt k w x) = vs_flow x" "vs_path (set_param_opt k w x) = vs_path x"
  "vs_mode (set_param_opt k w x) = vs_mode x"
  "param k' (set_param_opt k w x) = (if k' = k then or_option w (param k' x) else param k' x)"
  by (simp_all add: set_param_opt_def or_option_def split: option.split)

lemma param_update [simp]:
  "param k (x\<lparr>vs_sni := a\<rparr>) = param k x" "param k (x\<lparr>vs_path := a\<rparr>) = param k x"
  "param k (x\<lparr>vs_mode := a\<rparr>) = param k x" "param k (x\<lparr>vs_fingerprint := a\<rparr>) = param k x"
  "param k (x\<lparr>vs_public_key := a\<rparr>) = param k x" "param k (x\<lparr>vs_short_id := a\<rparr>) = param k x"
  "param k (x\<lparr>vs_transport := b\<rparr>) = param k x" "param k (x\<lparr>vs_security := b\<rparr>) = param k x"
  "param k (x\<lparr>vs_uuid := b\<rparr>) = param k x" "param k (x\<lparr>vs_password := a\<rparr>) = param k x"
  "param k (x\<lparr>vs_method := a\<rparr>) = param k x" "param k (x\<lparr>vs_flow := a\<rparr>) = param k x"
  by (simp_all add: param_def)

text \<open>What the two layers leave alone.\<close>

definition transport_params :: "string set" where
  "transport_params = {''host'', ''serviceName'', ''authority''}"

definition security_params :: "string set" where
  "security_params = {''spx'', ''alpn'', ''allowInsecure''}"

lemma apply_transport_simps [simp]:
  "vs_protocol (apply_transport st x) = vs_protocol x" "vs_uuid (apply_transport st x) = vs_uuid x"
  "vs_password (apply_transport st x) = vs_password x" "vs_method (apply_transport st x) = vs_method x"
  "vs_host (apply_transport st x) = vs_host x" "vs_port (apply_transport st x) = vs_port x"
  "vs_transport (apply_transport st x) = vs_transport x" "vs_security (apply_transport st x) = vs_security x"
  "vs_sni (apply_transport st x) = vs_sni x" "vs_fingerprint (apply_transport st x) = vs_fingerprint x"
  "vs_public_key (apply_transport st x) = vs_public_key x" "vs_short_id (apply_transport st x) = vs_short_id x"
  "vs_flow (apply_transport st x) = vs_flow x"
  by (simp_all add: apply_transport_def split: option.split)

lemma apply_transport_param: "k \<notin> transport_params \<Longrightarrow> param k (apply_transport st x) = param k x"
  by (simp add: apply_transport_def transport_params_def split: option.split)

lemma apply_security_simps [simp]:
  "vs_protocol (apply_tls t (apply_reality r x)) = vs_protocol x" "vs_uuid (apply_tls t (apply_reality r x)) = vs_uuid x"
  "vs_password (apply_tls t (apply_reality r x)) = vs_password x" "vs_method (apply_tls t (apply_reality r x)) = vs_method x"
  "vs_host (apply_tls t (apply_reality r x)) = vs_host x" "vs_port (apply_tls t (apply_reality r x)) = vs_port x"
  "vs_transport (apply_tls t (apply_reality r x)) = vs_transport x"
  "vs_security (apply_tls t (apply_reality r x)) = vs_security x"
  "vs_path (apply_tls t (apply_reality r x)) = vs_path x" "vs_mode (apply_tls t (apply_reality r x)) = vs_mode x"
  "vs_flow (apply_tls t (apply_reality r x)) = vs_flow x"
  by (simp_all add: apply_tls_def apply_reality_def split: option.split)

lemma apply_security_param:
  "k \<notin> security_params \<Longrightarrow> param k (apply_tls t (apply_reality r x)) = param k x"
  by (simp add: apply_tls_def apply_reality_def security_params_def split: option.split)

lemma security_read:
  assumes host: "vs_host s \<noteq> []" and kept: "security_kept s"
    and x: "vs_host x = vs_host s" "vs_security x = security_kind s" "vs_sni x = None" "vs_fingerprint x = None"
      "vs_public_key x = None" "vs_short_id x = None" "\<And>k. k \<in> security_params \<Longrightarrow> param k x = None"
    and st: "st = build_stream_settings f s"
  shows "security_entries (apply_tls (json_get ''tlsSettings'' st) (apply_reality (json_get ''realitySettings'' st) x))
           = security_entries s"
proof -
  note fields = json_str_def get_str_def security_params_def server_name_def [of "apply_tls _ _"]
    tls_fingerprint_def [of "apply_tls _ _"] stream_get(2) st
  have none: "param k x = None" if "k = ''spx'' \<or> k = ''alpn'' \<or> k = ''allowInsecure''" for k
    using x(7) that by (auto simp: security_params_def)
  have name: "server_name s \<noteq> []" "tls_fingerprint s \<noteq> []"
    using server_name_ne [OF host] tls_fingerprint_ne by auto
  consider (reality) "vs_security s = ''reality''" | (tls) "vs_security s = ''tls''"
    | (plain) "security_kind s = ''none''" "vs_security s \<noteq> ''reality''" "vs_security s \<noteq> ''tls''"
    by (auto simp: security_kind_def)
  then show ?thesis
  proof cases
    case reality
    then have e: "json_get ''tlsSettings'' st = None"
      "json_get ''realitySettings'' st =
         Some (jobj [(''show'', JBool False), (''serverName'', JStr (server_name s)),
                     (''fingerprint'', JStr (tls_fingerprint s)),
                     (''publicKey'', JStr (unwrap_or [] (vs_public_key s))),
                     (''shortId'', JStr (unwrap_or [] (vs_short_id s))),
                     (''spiderX'', JStr (unwrap_or ''/'' (param ''spx'' s)))])"
      by (simp_all add: st stream_get(2) security_entries_def)
    have spx: "unwrap_or ''/'' (param ''spx'' s) \<noteq> []"
      using kept reality by (auto simp: security_kept_def unwrap_or_def split: option.splits)
    show ?thesis
      unfolding e using reality x name spx none
      by (simp add: apply_tls_def apply_reality_def security_entries_def security_kind_def json_str_def get_str_def
          server_name_def [of "set_param _ _ _"] tls_fingerprint_def [of "set_param _ _ _"] unwrap_non_empty
          param_def [of _ "_\<lparr>vs_sni := _\<rparr>"])
  next
    case tls
    let ?base = "[(''serverName'', JStr (server_name s)), (''fingerprint'', JStr (tls_fingerprint s)),
       (''allowInsecure'', JBool (param ''allowInsecure'' s \<in> {Some ''1'', Some ''true''}))]"
    have e: "json_get ''realitySettings'' st = None"
      "json_get ''tlsSettings'' st =
         Some (jobj (?base @ optional_entry ''alpn'' (map_option (\<lambda>a. jstrs (split_list a)) (non_empty (param ''alpn'' s)))))"
      using tls by (simp_all add: st stream_get(2) security_entries_def)
    have strs: "List.map_filter as_str (map JStr xs) = xs" for xs
      by (induction xs) (simp_all add: List.map_filter_simps)
    show ?thesis
    proof (cases "non_empty (param ''alpn'' s)")
      case None
      then show ?thesis
        unfolding e using tls x name none
        by (simp add: apply_tls_def apply_reality_def security_entries_def security_kind_def json_str_def get_str_def
            server_name_def [of "set_param_opt _ _ _"] tls_fingerprint_def [of "set_param_opt _ _ _"]
            or_option_def alpn_text_def get_array_def)
    next
      case (Some a)
      then have "split_list a \<noteq> []" "join_with '','' (split_list a) = a" "a \<noteq> []"
        using kept tls by (auto simp: security_kept_def non_empty_cases)
      then show ?thesis
        unfolding e using tls x name none Some
        by (simp add: apply_tls_def apply_reality_def security_entries_def security_kind_def json_str_def get_str_def
            server_name_def [of "set_param _ _ _"] tls_fingerprint_def [of "set_param _ _ _"]
            or_option_def alpn_text_def get_array_def jstrs_def strs)
    qed
  next
    case plain
    then have e: "json_get ''tlsSettings'' st = None" "json_get ''realitySettings'' st = None"
      by (simp_all add: st stream_get(2) security_entries_def)
    show ?thesis
      unfolding e using plain x by (simp add: apply_tls_def apply_reality_def security_entries_def)
  qed
qed

lemma transport_read:
  assumes kept: "transport_kept s"
    and x: "vs_transport x = xray_network (vs_transport s)" "vs_path x = None" "vs_mode x = None"
      "\<And>k. k \<in> transport_params \<union> {''extra'', ''headerType'', ''seed''} \<Longrightarrow> param k x = None"
    and uuid: "xray_network (vs_transport s) = ''hysteria'' \<Longrightarrow> vs_uuid x = vs_uuid s"
    and st: "st = build_stream_settings f s"
  shows "transport_entries f (apply_transport st x) = transport_entries f s"
proof -
  have none: "param k x = None" if "k \<in> {''host'', ''serviceName'', ''authority'', ''extra'', ''headerType'', ''seed''}" for k
    using x(4) that by (auto simp: transport_params_def)
  have fixed: "xray_network n = n" if "xray_network (vs_transport s) = n" for n
    using that network_fixed [of "vs_transport s"] by simp
  have again: "non_empty (Some y) = Some y" if "non_empty z = Some y" for y and z :: "string option"
    using that by (auto simp: non_empty_cases)
  note defs = transport_entries_def transport_kept_def apply_transport_def stream_get(3) stream_keys_def st x none
    fixed again json_str_def get_str_def or_option_def path_or_root_def host_header_def
  consider "xray_network (vs_transport s) = ''xhttp''" | "xray_network (vs_transport s) = ''ws''"
    | "xray_network (vs_transport s) = ''grpc''" | "xray_network (vs_transport s) = ''httpupgrade''"
    | "xray_network (vs_transport s) = ''http''" | "xray_network (vs_transport s) = ''kcp''"
    | "xray_network (vs_transport s) = ''hysteria''" | "xray_network (vs_transport s) = ''tcp''"
    using networks [of "vs_transport s"] by auto
  then show ?thesis
  proof cases
    case 1
    then show ?thesis using kept
      by (cases "vs_path s"; cases "vs_mode s"; cases "host_header s")
         (simp_all add: defs xhttp_settings_def obj_or_insert_def)
  next
    case 2
    then show ?thesis using kept
      by (cases "vs_path s"; cases "host_header s") (simp_all add: defs)
  next
    case 3
    then show ?thesis
      by (cases "non_empty (param ''authority'' s)"; cases "param ''serviceName'' s = Some []"; cases "param ''serviceName'' s")
         (simp_all add: defs)
  next
    case 4
    then show ?thesis using kept by (cases "vs_path s"; cases "host_header s") (simp_all add: defs)
  next
    case 5
    then show ?thesis using kept by (simp add: defs)
  next
    case 6
    then show ?thesis using kept by (simp add: defs)
  next
    case 7
    then show ?thesis using kept uuid by (simp add: defs)
  next
    case 8
    then show ?thesis using kept by (simp add: defs)
  qed
qed

section \<open>The stream\<close>

definition blank :: "vless_server \<Rightarrow> bool" where
  "blank x \<longleftrightarrow>
     vs_sni x = None \<and> vs_fingerprint x = None \<and> vs_public_key x = None \<and> vs_short_id x = None
     \<and> vs_path x = None \<and> vs_mode x = None \<and> (\<forall>k. k \<notin> {''scy'', ''aid''} \<longrightarrow> param k x = None)"

lemma blank_base: "blank (base_server p h n l)"
  by (simp add: blank_def base_server_def param_def)

lemma blank_update:
  "blank x \<Longrightarrow> blank (x\<lparr>vs_uuid := u\<rparr>)" "blank x \<Longrightarrow> blank (x\<lparr>vs_password := v\<rparr>)"
  "blank x \<Longrightarrow> blank (x\<lparr>vs_method := v\<rparr>)" "blank x \<Longrightarrow> blank (x\<lparr>vs_flow := v\<rparr>)"
  "blank x \<Longrightarrow> blank (vmess_params user x)"
  by (simp_all add: blank_def vmess_params_def)

lemma security_of_transport: "security_entries (apply_transport st x) = security_entries x"
  by (simp add: security_entries_def server_name_def tls_fingerprint_def apply_transport_param transport_params_def)

lemma apply_stream_some:
  "apply_stream (Some (build_stream_settings f s)) x =
     apply_transport (build_stream_settings f s)
       (apply_tls (json_get ''tlsSettings'' (build_stream_settings f s))
         (apply_reality (json_get ''realitySettings'' (build_stream_settings f s))
           (x\<lparr>vs_transport := xray_network (vs_transport s), vs_security := security_kind s\<rparr>)))"
  by (simp add: apply_stream_def stream_network stream_security normalize_network)

lemma stream_reread:
  assumes host: "vs_host s \<noteq> []" and kept: "security_kept s" "transport_kept s"
    and x: "blank x" "vs_host x = vs_host s"
    and uuid: "xray_network (vs_transport s) = ''hysteria'' \<Longrightarrow> vs_uuid x = vs_uuid s"
  shows "build_stream_settings f (apply_stream (Some (build_stream_settings f s)) x) = build_stream_settings f s"
proof -
  let ?st = "build_stream_settings f s"
  let ?x = "x\<lparr>vs_transport := xray_network (vs_transport s), vs_security := security_kind s\<rparr>"
  let ?y = "apply_tls (json_get ''tlsSettings'' ?st) (apply_reality (json_get ''realitySettings'' ?st) ?x)"
  have params: "param k ?x = None" if "k \<noteq> ''scy''" "k \<noteq> ''aid''" for k
    using x that by (simp add: blank_def)
  have "k \<in> security_params \<Longrightarrow> k \<noteq> ''scy'' \<and> k \<noteq> ''aid''" for k
    by (auto simp: security_params_def)
  then have none: "param k ?x = None" if "k \<in> security_params" for k
    using params that by blast
  have "vs_host ?x = vs_host s" "vs_security ?x = security_kind s" "vs_sni ?x = None" "vs_fingerprint ?x = None"
    "vs_public_key ?x = None" "vs_short_id ?x = None"
    using x by (simp_all add: blank_def)
  from security_read [OF host kept(1) this none refl]
  have "security_entries (apply_transport ?st ?y) = security_entries s"
    unfolding security_of_transport by blast
  moreover have "transport_entries f (apply_transport ?st ?y) = transport_entries f s"
  proof (rule transport_read [OF kept(2) _ _ _ _ _ refl])
    fix k assume k: "k \<in> transport_params \<union> {''extra'', ''headerType'', ''seed''}"
    then have "k \<notin> security_params" "k \<noteq> ''scy''" "k \<noteq> ''aid''"
      by (auto simp: transport_params_def security_params_def)
    then show "param k ?y = None" using params by (simp add: apply_security_param)
  qed (use x uuid in \<open>simp_all add: blank_def\<close>)
  ultimately show ?thesis
    unfolding apply_stream_some by (simp add: build_stream_settings_def network_fixed)
qed

lemma apply_stream_simps:
  assumes "st = build_stream_settings f s"
  shows "vs_protocol (apply_stream (Some st) x) = vs_protocol x" "vs_uuid (apply_stream (Some st) x) = vs_uuid x"
    "vs_password (apply_stream (Some st) x) = vs_password x" "vs_method (apply_stream (Some st) x) = vs_method x"
    "vs_host (apply_stream (Some st) x) = vs_host x" "vs_port (apply_stream (Some st) x) = vs_port x"
    "vs_flow (apply_stream (Some st) x) = vs_flow x"
    "param ''scy'' (apply_stream (Some st) x) = param ''scy'' x" "param ''aid'' (apply_stream (Some st) x) = param ''aid'' x"
  unfolding assms apply_stream_some
  by (simp_all add: apply_transport_param apply_security_param transport_params_def security_params_def)

section \<open>The outbound\<close>

lemma proxy_outbound_get:
  "get_str ''protocol'' (proxy_outbound p settings st) = Some p"
  "get_str ''tag'' (proxy_outbound p settings st) = Some ''proxy''"
  "json_get ''settings'' (proxy_outbound p settings st) = Some settings"
  "json_get ''streamSettings'' (proxy_outbound p settings st) = Some st"
  by (simp_all add: proxy_outbound_def get_str_def)

text \<open>Reading an endpoint written by \<open>endpoint_entries\<close>, whatever follows it.\<close>

lemma endpoint_read:
  assumes "vs_host s \<noteq> []" "vs_port s \<le> u16_max" "get_str ''tag'' ob = Some ''proxy''"
    and "json_get ''address'' v = Some (JStr (vs_host s))" "json_get ''port'' v = Some (JInt (int (vs_port s)))"
  shows "endpoint_base ob p v =
           Some (base_server p (vs_host s) (vs_port s) (vs_host s @ '':'' @ dec (vs_port s)))"
  using assms by (simp add: endpoint_base_def json_str_def get_str_def json_port_def outbound_label_def)

lemma base_server_simps [simp]:
  "vs_protocol (base_server p h n l) = p" "vs_host (base_server p h n l) = h" "vs_port (base_server p h n l) = n"
  "vs_uuid (base_server p h n l) = []" "vs_password (base_server p h n l) = None" "vs_method (base_server p h n l) = None"
  "vs_flow (base_server p h n l) = None" "param k (base_server p h n l) = None"
  by (simp_all add: base_server_def param_def)

text \<open>What has to be read of an outbound for its generation to repeat.\<close>

definition reread :: "parsers \<Rightarrow> (string \<Rightarrow> json option) \<Rightarrow> vless_server \<Rightarrow> vless_server \<Rightarrow> bool" where
  "reread pa f s x \<longleftrightarrow>
     parse_protocol pa (proxy_of_fields f s) (vs_protocol s) = Some x \<and> blank x
     \<and> vs_protocol x = vs_protocol s \<and> vs_host x = vs_host s \<and> vs_port x = vs_port s
     \<and> (xray_network (vs_transport s) = ''hysteria'' \<longrightarrow> vs_uuid x = vs_uuid s)
     \<and> (\<forall>y. vs_protocol y = vs_protocol x \<longrightarrow> vs_host y = vs_host x \<longrightarrow> vs_port y = vs_port x
            \<longrightarrow> vs_uuid y = vs_uuid x \<longrightarrow> vs_password y = vs_password x \<longrightarrow> vs_method y = vs_method x
            \<longrightarrow> vs_flow y = vs_flow x \<longrightarrow> param ''scy'' y = param ''scy'' x \<longrightarrow> param ''aid'' y = param ''aid'' x
            \<longrightarrow> build_stream_settings f y = build_stream_settings f s
            \<longrightarrow> proxy_of_fields f y = proxy_of_fields f s)"

lemma vnext_read:
  assumes s: "vs_host s \<noteq> []" "vs_port s \<le> u16_max" and tag: "get_str ''tag'' ob = Some ''proxy''"
    and uuid: "json_str ''id'' (jobj user) = Some (vs_uuid s)"
  shows "parse_vnext ob p (vnext_settings s user) =
           Some ((if p = ''vmess'' then vmess_params (jobj user) else (\<lambda>x. x))
             ((base_server p (vs_host s) (vs_port s) (vs_host s @ '':'' @ dec (vs_port s)))
                \<lparr>vs_uuid := vs_uuid s, vs_flow := json_str ''flow'' (jobj user)\<rparr>))"
proof -
  let ?ep = "jobj (endpoint_entries s @ [(''users'', JArr [jobj user])])"
  have "endpoint_base ob p ?ep = Some (base_server p (vs_host s) (vs_port s) (vs_host s @ '':'' @ dec (vs_port s)))"
    by (rule endpoint_read [OF s tag]) (simp_all add: endpoint_entries_def)
  moreover have "direct_or_first ''vnext'' (vnext_settings s user) = Some ?ep"
    by (simp add: direct_or_first_def vnext_settings_def get_array_def first_of_def)
  moreover have "Option.bind (get_array ''users'' ?ep) first_of = Some (jobj user)"
    by (simp add: get_array_def first_of_def)
  ultimately show ?thesis using uuid by (simp add: parse_vnext_def Let_def)
qed

lemma servers_read:
  assumes s: "vs_host s \<noteq> []" "vs_port s \<le> u16_max" and tag: "get_str ''tag'' ob = Some ''proxy''"
    and keys: "map_of (rev creds) ''address'' = None" "map_of (rev creds) ''port'' = None"
  shows "parse_server_entry ob p (servers_settings s creds) =
           Some (jobj (endpoint_entries s @ creds),
                 base_server p (vs_host s) (vs_port s) (vs_host s @ '':'' @ dec (vs_port s)))"
proof -
  let ?ep = "jobj (endpoint_entries s @ creds)"
  have "endpoint_base ob p ?ep = Some (base_server p (vs_host s) (vs_port s) (vs_host s @ '':'' @ dec (vs_port s)))"
    by (rule endpoint_read [OF s tag]) (use keys in \<open>simp_all add: endpoint_entries_def map_add_def\<close>)
  moreover have "direct_or_first ''servers'' (servers_settings s creds) = Some ?ep"
    by (simp add: direct_or_first_def servers_settings_def get_array_def first_of_def)
  ultimately show ?thesis by (simp add: parse_server_entry_def)
qed

lemma reimportable_host: "reimportable s \<Longrightarrow> vs_host s \<noteq> [] \<and> vs_port s \<le> u16_max"
  by (simp add: reimportable_def)

lemma reread_vless:
  assumes s: "reimportable s" and p: "vs_protocol s = ''vless''"
  shows "\<exists>x. reread pa f s x"
proof -
  let ?user = "[(''id'', JStr (vs_uuid s)), (''encryption'', JStr ''none''), (''flow'', JStr (unwrap_or [] (vs_flow s)))]"
  let ?x = "(base_server ''vless'' (vs_host s) (vs_port s) (vs_host s @ '':'' @ dec (vs_port s)))
     \<lparr>vs_uuid := vs_uuid s, vs_flow := json_str ''flow'' (jobj ?user)\<rparr>"
  have ob: "proxy_of_fields f y = proxy_outbound ''vless'' (vnext_settings y
      [(''id'', JStr (vs_uuid y)), (''encryption'', JStr ''none''), (''flow'', JStr (unwrap_or [] (vs_flow y)))])
      (build_stream_settings f y)" if "vs_protocol y = ''vless''" for y
    using that by (simp add: proxy_of_fields_def)
  have "vs_uuid s \<noteq> []" using s p by (simp add: reimportable_def credentials_kept_def)
  then have "json_str ''id'' (jobj ?user) = Some (vs_uuid s)" by (simp add: json_str_def get_str_def)
  from vnext_read [OF _ _ proxy_outbound_get(2) this, where p = "''vless''"] reimportable_host [OF s]
  have "parse_protocol pa (proxy_of_fields f s) ''vless'' = Some ?x"
    unfolding ob [OF p] by (simp add: parse_protocol_def proxy_outbound_get)
  moreover have "unwrap_or [] (json_str ''flow'' (jobj ?user)) = unwrap_or [] (vs_flow s)"
    by (simp add: json_str_def get_str_def unwrap_non_empty)
  ultimately have "reread pa f s ?x"
    using p by (auto simp: reread_def blank_update blank_base ob vnext_settings_def endpoint_entries_def)
  then show ?thesis ..
qed

lemma reread_vmess:
  assumes s: "reimportable s" and p: "vs_protocol s = ''vmess''"
  shows "\<exists>x. reread pa f s x"
proof -
  let ?aid = "\<lambda>y. unwrap_or 0 (Option.bind (param ''aid'' y) parse_u32)"
  let ?user = "\<lambda>y. [(''id'', JStr (vs_uuid y)), (''security'', JStr (unwrap_or ''auto'' (param ''scy'' y))),
                  (''alterId'', JInt (int (?aid y)))]"
  let ?x = "vmess_params (jobj (?user s))
     ((base_server ''vmess'' (vs_host s) (vs_port s) (vs_host s @ '':'' @ dec (vs_port s)))
        \<lparr>vs_uuid := vs_uuid s, vs_flow := json_str ''flow'' (jobj (?user s))\<rparr>)"
  have ob: "proxy_of_fields f y = proxy_outbound ''vmess'' (vnext_settings y (?user y)) (build_stream_settings f y)"
    if "vs_protocol y = ''vmess''" for y
    using that by (simp add: proxy_of_fields_def)
  have "vs_uuid s \<noteq> []" and scy: "unwrap_or ''auto'' (param ''scy'' s) \<noteq> []"
    using s p by (auto simp: reimportable_def credentials_kept_def unwrap_or_def split: option.splits)
  then have "json_str ''id'' (jobj (?user s)) = Some (vs_uuid s)" by (simp add: json_str_def get_str_def)
  from vnext_read [OF _ _ proxy_outbound_get(2) this, where p = "''vmess''"] reimportable_host [OF s]
  have "parse_protocol pa (proxy_of_fields f s) ''vmess'' = Some ?x"
    unfolding ob [OF p] by (simp add: parse_protocol_def proxy_outbound_get)
  moreover have "param ''scy'' ?x = Some (unwrap_or ''auto'' (param ''scy'' s))"
    using scy by (simp add: vmess_params_def json_str_def get_str_def or_option_def)
  moreover have "?aid ?x = ?aid s"
  proof -
    have aid: "?aid s \<le> u32_max"
      using parse_uint_radix_le [where r = 10 and hi = u32_max]
      by (cases "Option.bind (param ''aid'' s) parse_u32") (auto simp: bind_eq_Some_conv)
    then have "get_u64 ''alterId'' (jobj (?user s)) = Some (?aid s)"
      by (simp add: get_u64_def u32_max_def u64_max_def)
    then have "param ''aid'' ?x = Some (dec (?aid s))" by (simp add: vmess_params_def or_option_def)
    then show ?thesis using aid by simp
  qed
  moreover have "vs_protocol ?x = vs_protocol s" "vs_host ?x = vs_host s" "vs_port ?x = vs_port s" "vs_uuid ?x = vs_uuid s"
    by (simp_all add: vmess_params_def p)
  moreover have "blank ?x" by (intro blank_update blank_base)
  ultimately have "reread pa f s ?x"
    using p by (simp add: reread_def ob vnext_settings_def endpoint_entries_def)
  then show ?thesis ..
qed

lemma kept_over_hysteria:
  "reimportable s \<Longrightarrow> vs_protocol s = ''trojan'' \<or> vs_protocol s = ''shadowsocks'' \<Longrightarrow>
     xray_network (vs_transport s) \<noteq> ''hysteria''"
  by (auto simp: reimportable_def transport_kept_def Let_def)

lemma reread_servers:
  assumes s: "reimportable s" and p: "vs_protocol s = ''trojan'' \<or> vs_protocol s = ''shadowsocks''"
  shows "\<exists>x. reread pa f s x"
proof -
  let ?base = "\<lambda>p. base_server p (vs_host s) (vs_port s) (vs_host s @ '':'' @ dec (vs_port s))"
  note network = kept_over_hysteria [OF s p]
  from p show ?thesis
  proof
    assume p: "vs_protocol s = ''trojan''"
    let ?creds = "\<lambda>y. [(''password'', JStr (unwrap_or (vs_uuid y) (vs_password y))), (''flow'', JStr (unwrap_or [] (vs_flow y)))]"
    let ?pw = "unwrap_or (vs_uuid s) (vs_password s)"
    let ?x = "(?base ''trojan'')\<lparr>vs_uuid := ?pw, vs_password := Some ?pw,
                vs_flow := json_str ''flow'' (jobj (endpoint_entries s @ ?creds s))\<rparr>"
    have ob: "proxy_of_fields f y = proxy_outbound ''trojan'' (servers_settings y (?creds y)) (build_stream_settings f y)"
      if "vs_protocol y = ''trojan''" for y
      using that by (simp add: proxy_of_fields_def)
    have "?pw \<noteq> []" using s p by (simp add: reimportable_def credentials_kept_def)
    moreover from this have "parse_protocol pa (proxy_of_fields f s) ''trojan'' = Some ?x"
      unfolding ob [OF p]
      using servers_read [OF _ _ proxy_outbound_get(2), where creds = "?creds s"] reimportable_host [OF s]
      by (simp add: parse_protocol_def proxy_outbound_get json_str_def get_str_def)
    moreover have "unwrap_or [] (vs_flow ?x) = unwrap_or [] (vs_flow s)"
      by (simp add: json_str_def get_str_def unwrap_non_empty)
    ultimately have "reread pa f s ?x"
      using p network by (auto simp: reread_def blank_update blank_base ob servers_settings_def endpoint_entries_def)
    then show ?thesis ..
  next
    assume p: "vs_protocol s = ''shadowsocks''"
    let ?creds = "\<lambda>y. [(''method'', JStr (unwrap_or [] (vs_method y))), (''password'', JStr (unwrap_or [] (vs_password y))),
                     (''uot'', JBool True)]"
    let ?entry = "jobj (endpoint_entries s @ ?creds s)"
    let ?x = "(?base ''shadowsocks'')\<lparr>vs_method := json_str ''method'' ?entry, vs_password := json_str ''password'' ?entry\<rparr>"
    have ob: "proxy_of_fields f y = proxy_outbound ''shadowsocks'' (servers_settings y (?creds y)) (build_stream_settings f y)"
      if "vs_protocol y = ''shadowsocks''" for y
      using that by (simp add: proxy_of_fields_def)
    have "parse_protocol pa (proxy_of_fields f s) ''shadowsocks'' = Some ?x"
      unfolding ob [OF p]
      using servers_read [OF _ _ proxy_outbound_get(2), where creds = "?creds s"] reimportable_host [OF s]
      by (simp add: parse_protocol_def proxy_outbound_get)
    moreover have "unwrap_or [] (vs_method ?x) = unwrap_or [] (vs_method s)"
      "unwrap_or [] (vs_password ?x) = unwrap_or [] (vs_password s)"
      by (simp_all add: json_str_def get_str_def unwrap_non_empty)
    ultimately have "reread pa f s ?x"
      using p network by (auto simp: reread_def blank_update blank_base ob servers_settings_def endpoint_entries_def)
    then show ?thesis ..
  qed
qed

lemma reread_hysteria:
  assumes s: "reimportable s" and p: "vs_protocol s = ''hysteria''"
  shows "\<exists>x. reread pa f s x"
proof -
  let ?settings = "\<lambda>y. jobj ((''version'', JInt 2) # endpoint_entries y)"
  let ?st = "build_stream_settings f s"
  let ?auth = "unwrap_or [] (Option.bind (json_get ''hysteriaSettings'' ?st) (json_str ''auth''))"
  let ?x = "(base_server ''hysteria'' (vs_host s) (vs_port s) (vs_host s @ '':'' @ dec (vs_port s)))\<lparr>vs_uuid := ?auth\<rparr>"
  have ob: "proxy_of_fields f y = proxy_outbound ''hysteria'' (?settings y) (build_stream_settings f y)"
    if "vs_protocol y = ''hysteria''" for y
    using that by (simp add: proxy_of_fields_def)
  have "endpoint_base (proxy_of_fields f s) ''hysteria'' (?settings s) =
      Some (base_server ''hysteria'' (vs_host s) (vs_port s) (vs_host s @ '':'' @ dec (vs_port s)))"
    by (rule endpoint_read)
       (use reimportable_host [OF s] in \<open>simp_all add: ob [OF p] proxy_outbound_get endpoint_entries_def\<close>)
  moreover have "json_str ''auth'' (?settings s) = None"
    by (simp add: json_str_def get_str_def endpoint_entries_def)
  ultimately have "parse_protocol pa (proxy_of_fields f s) ''hysteria'' = Some ?x"
    unfolding ob [OF p]
    by (simp add: parse_protocol_def proxy_outbound_get or_option_def del: json_get_jobj split: option.split)
  moreover have "?auth = vs_uuid s" if "xray_network (vs_transport s) = ''hysteria''"
    using that by (cases "vs_uuid s")
      (simp_all add: stream_get(3) stream_keys_def transport_entries_def json_str_def get_str_def)
  ultimately have "reread pa f s ?x"
    using p by (auto simp: reread_def blank_update blank_base ob endpoint_entries_def)
  then show ?thesis ..
qed

lemma reread_simple:
  assumes s: "reimportable s" and p: "vs_protocol s = ''http'' \<or> vs_protocol s = ''socks''"
  shows "\<exists>x. reread pa f s x"
proof -
  let ?p = "vs_protocol s"
  let ?settings = "\<lambda>y. jobj (endpoint_entries y @ (if vs_uuid y = [] then [] else [(''user'', JStr (vs_uuid y))])
                     @ optional_entry ''pass'' (map_option JStr (non_empty (vs_password y))))"
  let ?x = "(base_server ?p (vs_host s) (vs_port s) (vs_host s @ '':'' @ dec (vs_port s)))
     \<lparr>vs_uuid := vs_uuid s, vs_password := non_empty (vs_password s)\<rparr>"
  have ob: "proxy_of_fields f y = proxy_outbound ?p (?settings y) (build_stream_settings f y)"
    if "vs_protocol y = ?p" for y
    using that p by (auto simp: proxy_of_fields_def build_simple_proxy_outbound_def)
  have trims: "trim (vs_uuid s) = vs_uuid s" "trim (unwrap_or [] (vs_password s)) = unwrap_or [] (vs_password s)"
    using s p by (auto simp: reimportable_def credentials_kept_def)
  define S where "S = ?settings s"
  have get: "json_get ''address'' S = Some (JStr (vs_host s))" "json_get ''port'' S = Some (JInt (int (vs_port s)))"
    "json_get ''users'' S = None" "json_get ''username'' S = None" "json_get ''password'' S = None"
    "json_get ''user'' S = (if vs_uuid s = [] then None else Some (JStr (vs_uuid s)))"
    "json_get ''pass'' S = map_option JStr (non_empty (vs_password s))"
    unfolding S_def by (cases "non_empty (vs_password s)"; simp add: endpoint_entries_def map_add_def)+
  have "endpoint_base (proxy_of_fields f s) ?p S =
      Some (base_server ?p (vs_host s) (vs_port s) (vs_host s @ '':'' @ dec (vs_port s)))"
    by (rule endpoint_read [OF _ _ _ get(1,2)])
       (use reimportable_host [OF s] in \<open>simp_all add: ob proxy_outbound_get\<close>)
  then have entry: "parse_server_entry (proxy_outbound ?p S (build_stream_settings f s)) ?p S =
      Some (S, base_server ?p (vs_host s) (vs_port s) (vs_host s @ '':'' @ dec (vs_port s)))"
    unfolding ob [OF refl] S_def [symmetric] by (simp add: parse_server_entry_def direct_or_first_def get)
  have user: "unwrap_or [] (json_str_any [''user'', ''username''] S) = vs_uuid s"
    by (simp add: json_str_any_def get_str_def get trims)
  have pass: "json_str_any [''pass'', ''password''] S = non_empty (vs_password s)"
    using trims(2)
    by (cases "non_empty (vs_password s)") (auto simp: json_str_any_def get_str_def get non_empty_cases)
  have "get_array ''users'' S = None" by (simp add: get_array_def get)
  then have "parse_protocol pa (proxy_of_fields f s) ?p = Some ?x"
    using p entry user pass unfolding ob [OF refl] S_def [symmetric] parse_protocol_def proxy_outbound_get
    by (auto simp: Let_def)
  then have "reread pa f s ?x"
    by (auto simp: reread_def blank_update blank_base ob endpoint_entries_def non_empty_twice)
  then show ?thesis ..
qed

text \<open>The round trip.\<close>

lemma reimport_generated:
  assumes s: "reimportable s"
  obtains y where "parse_outbound pa (proxy_of_fields f s) = Some y"
    "vs_protocol y = vs_protocol s" "vs_host y = vs_host s" "vs_port y = vs_port s"
    "proxy_of_fields f y = proxy_of_fields f s"
proof -
  let ?st = "build_stream_settings f s"
  have "vs_protocol s \<in> {''vless'', ''vmess'', ''trojan'', ''shadowsocks'', ''hysteria'', ''http'', ''socks''}"
    using s by (auto simp: reimportable_def credentials_kept_def Let_def split: if_splits)
  then have "\<exists>x. reread pa f s x"
    using reread_vless [OF s, of pa f] reread_vmess [OF s, of pa f] reread_servers [OF s, of pa f]
      reread_hysteria [OF s, of pa f] reread_simple [OF s, of pa f] by auto
  then obtain x where x: "reread pa f s x" ..
  let ?y = "apply_stream (Some ?st) x"
  have st: "get_str ''protocol'' (proxy_of_fields f s) = Some (vs_protocol s)"
    "json_get ''streamSettings'' (proxy_of_fields f s) = Some ?st"
    using s by (auto simp: proxy_of_fields_def build_simple_proxy_outbound_def proxy_outbound_get
        reimportable_def credentials_kept_def Let_def split: if_splits)
  have fields: "vs_host x = vs_host s" "vs_protocol x = vs_protocol s" "vs_port x = vs_port s"
    using x by (simp_all add: reread_def)
  have "build_stream_settings f ?y = ?st"
    by (rule stream_reread) (use s x in \<open>simp_all add: reimportable_def reread_def\<close>)
  with x have "proxy_of_fields f ?y = proxy_of_fields f s"
    unfolding reread_def using apply_stream_simps [OF refl, of f s x] by blast
  moreover have "parse_outbound pa (proxy_of_fields f s) = Some ?y"
    using x s by (simp add: parse_outbound_def st reread_def reimportable_def apply_stream_simps [OF refl] fields)
  ultimately show ?thesis
    using that [of ?y] fields by (simp add: apply_stream_simps [OF refl])
qed

end
