(* ===== verification/Sub_Typed.thy ===== *)
theory Sub_Typed
  imports Sub_Body Gen_Accepted Sub_Reimport
begin

text \<open>What every location read from a subscription is.\<close>

text \<open>A port of a parsed URL fits its type.\<close>

definition ports_fit :: "parsers \<Rightarrow> bool" where
  "ports_fit pa \<longleftrightarrow> (\<forall>raw u n. pa_url pa raw = Inr u \<longrightarrow> fu_port u = Some n \<longrightarrow> n \<le> u16_max)"

definition location_typed :: "vless_server \<Rightarrow> bool" where
  "location_typed s \<longleftrightarrow>
     vs_port s \<le> u16_max \<and> \<not> is_balancer_sentinel (vs_host s) \<and> is_importable_protocol (vs_protocol s)
     \<and> (vs_raw_profile s \<noteq> None \<longrightarrow> vs_raw_outbound s \<noteq> None)
     \<and> (\<forall>raw. vs_raw_outbound s = Some raw \<longrightarrow> has_proxy_protocol raw)"

section \<open>Outbounds\<close>

lemma json_port_fits: "json_port v = Some n \<Longrightarrow> n \<le> u16_max"
  using parse_uint_radix_le
  by (auto simp: json_port_def split: option.splits json.splits if_splits)

lemma endpoint_base_fits: "endpoint_base ob p e = Some s \<Longrightarrow> vs_port s \<le> u16_max \<and> vs_protocol s = p
     \<and> vs_raw_profile s = None \<and> vs_raw_outbound s = None"
  using json_port_fits by (auto simp: endpoint_base_def bind_eq_Some_conv base_server_def)

lemma url_ok_Some: "url_ok pa raw = Some u \<longleftrightarrow> pa_url pa raw = Inr u"
  by (simp add: url_ok_def res_ok_def split: sum.split)

lemma endpoint_host_port_fits: "ports_fit pa \<Longrightarrow> endpoint_host_port pa e = Some (h, n) \<Longrightarrow> n \<le> u16_max"
  by (auto simp: endpoint_host_port_def bind_eq_Some_conv url_ok_Some ports_fit_def)

lemma set_param_raw [simp]:
  "vs_raw_profile (set_param_opt k v x) = vs_raw_profile x" "vs_raw_outbound (set_param_opt k v x) = vs_raw_outbound x"
  by (simp_all add: set_param_opt_def set_param_def split: option.split)

lemma vmess_params_simps [simp]:
  "vs_port (vmess_params u x) = vs_port x" "vs_protocol (vmess_params u x) = vs_protocol x"
  "vs_raw_profile (vmess_params u x) = vs_raw_profile x" "vs_raw_outbound (vmess_params u x) = vs_raw_outbound x"
  by (simp_all add: vmess_params_def)

lemma stream_raw [simp]:
  "vs_raw_profile (apply_transport st x) = vs_raw_profile x" "vs_raw_outbound (apply_transport st x) = vs_raw_outbound x"
  "vs_raw_profile (apply_tls t x) = vs_raw_profile x" "vs_raw_outbound (apply_tls t x) = vs_raw_outbound x"
  "vs_raw_profile (apply_reality r x) = vs_raw_profile x" "vs_raw_outbound (apply_reality r x) = vs_raw_outbound x"
  "vs_port (apply_tls t x) = vs_port x" "vs_protocol (apply_tls t x) = vs_protocol x"
  "vs_port (apply_reality r x) = vs_port x" "vs_protocol (apply_reality r x) = vs_protocol x"
  by (simp_all add: apply_transport_def apply_tls_def apply_reality_def set_param_def split: option.split)

lemma apply_stream_keeps:
  "vs_port (apply_stream st x) = vs_port x" "vs_protocol (apply_stream st x) = vs_protocol x"
  "vs_raw_profile (apply_stream st x) = vs_raw_profile x" "vs_raw_outbound (apply_stream st x) = vs_raw_outbound x"
  by (simp_all add: apply_stream_def Let_def split: option.split)

lemma parse_protocol_fits:
  assumes "ports_fit pa" and "parse_protocol pa ob p = Some s"
  shows "vs_port s \<le> u16_max \<and> vs_protocol s = p \<and> vs_raw_profile s = None \<and> vs_raw_outbound s = None
    \<and> is_importable_protocol p"
proof -
  note fits = endpoint_base_fits
  consider (vnext) "p = ''vless'' \<or> p = ''vmess''" | (trojan) "p = ''trojan''" | (ss) "p = ''shadowsocks''"
    | (hysteria) "p = ''hysteria''" | (wg) "p = ''wireguard''" | (simple) "p = ''http'' \<or> p = ''socks''"
    using assms(2) by (auto simp: parse_protocol_def bind_eq_Some_conv split: if_splits)
  then show ?thesis
  proof cases
    case vnext
    then obtain settings where "parse_vnext ob p settings = Some s"
      using assms(2) by (auto simp: parse_protocol_def bind_eq_Some_conv)
    then show ?thesis using vnext fits
      by (auto simp: parse_vnext_def bind_eq_Some_conv Let_def is_importable_protocol_def)
  next
    case trojan
    then show ?thesis using assms(2) fits
      by (fastforce simp: parse_protocol_def parse_server_entry_def bind_eq_Some_conv is_importable_protocol_def)
  next
    case ss
    then show ?thesis using assms(2) fits
      by (fastforce simp: parse_protocol_def parse_server_entry_def bind_eq_Some_conv is_importable_protocol_def)
  next
    case hysteria
    then show ?thesis using assms(2) fits
      by (fastforce simp: parse_protocol_def bind_eq_Some_conv is_importable_protocol_def)
  next
    case wg
    then obtain e h n where "endpoint_host_port pa e = Some (h, n)" "vs_port s = n"
        "vs_protocol s = p" "vs_raw_profile s = None" "vs_raw_outbound s = None"
      using assms(2) by (auto simp: parse_protocol_def bind_eq_Some_conv base_server_def)
    then show ?thesis
      using wg endpoint_host_port_fits [OF assms(1)] by (auto simp: is_importable_protocol_def)
  next
    case simple
    then show ?thesis using assms(2) fits
      by (fastforce simp: parse_protocol_def parse_server_entry_def bind_eq_Some_conv is_importable_protocol_def Let_def)
  qed
qed

lemma parse_outbound_typed:
  assumes "ports_fit pa" and "parse_outbound pa ob = Some s"
  shows "location_typed s \<and> get_str ''protocol'' ob = Some (vs_protocol s) \<and> of_fields s"
  using assms(2) parse_protocol_fits [OF assms(1)]
  by (auto simp: parse_outbound_def bind_eq_Some_conv Let_def location_typed_def of_fields_def apply_stream_keeps
      split: if_splits)

section \<open>Links\<close>

lemma url_endpoint_fits:
  "ports_fit pa \<Longrightarrow> parse_url_as pa scheme uri = Inr u \<Longrightarrow> url_endpoint u = Inr (h, n) \<Longrightarrow> n \<le> u16_max"
  by (auto simp: parse_url_as_def url_endpoint_def try_then_eq_Inr ports_fit_def map_err_def ok_or_def
      split: if_splits sum.splits option.splits)

lemma with_query_keeps [simp]:
  "vs_port (with_query d ps x) = vs_port x" "vs_protocol (with_query d ps x) = vs_protocol x"
  "vs_raw_profile (with_query d ps x) = vs_raw_profile x" "vs_raw_outbound (with_query d ps x) = vs_raw_outbound x"
  by (simp_all add: with_query_def)

text \<open>What is the same of a location of a link, whatever its kind.\<close>

definition link_fits :: "vless_server \<Rightarrow> bool" where
  "link_fits s \<longleftrightarrow> vs_port s \<le> u16_max \<and> is_importable_protocol (vs_protocol s) \<and> of_fields s"

lemma base_link: "n \<le> u16_max \<Longrightarrow> is_importable_protocol p \<Longrightarrow> link_fits (base_server p h n l)"
  by (simp add: link_fits_def of_fields_def base_server_def)

lemma link_update:
  "link_fits (x\<lparr>vs_uuid := u\<rparr>) = link_fits x" "link_fits (x\<lparr>vs_password := v\<rparr>) = link_fits x"
  "link_fits (x\<lparr>vs_method := v\<rparr>) = link_fits x" "link_fits (x\<lparr>vs_packet_encoding := v\<rparr>) = link_fits x"
  "link_fits (with_query d ps x) = link_fits x"
  by (simp_all add: link_fits_def of_fields_def)

lemma parse_vless_fits: "ports_fit pa \<Longrightarrow> parse_vless pa uri = Inr s \<Longrightarrow> link_fits s"
  using url_endpoint_fits
  by (fastforce simp: parse_vless_def try_then_eq_Inr Let_def link_update is_importable_protocol_def
      intro!: base_link split: if_splits)

lemma parse_trojan_fits: "ports_fit pa \<Longrightarrow> parse_trojan pa uri = Inr s \<Longrightarrow> link_fits s"
  using url_endpoint_fits
  by (fastforce simp: parse_trojan_def try_then_eq_Inr Let_def link_update is_importable_protocol_def
      intro!: base_link split: if_splits)

lemma parse_shadowsocks_fits: "parse_shadowsocks pa uri = Inr s \<Longrightarrow> link_fits s"
  using parse_uint_radix_le
  by (fastforce simp: parse_shadowsocks_def try_then_eq_Inr Let_def link_update is_importable_protocol_def ok_or_def
      intro!: base_link split: option.splits)

lemma vmess_port_fits: "vmess_port v = Inr n \<Longrightarrow> n \<le> u16_max"
  using parse_uint_radix_le
  by (auto simp: vmess_port_def try_then_eq_Inr ok_or_def u16_max_def split: option.splits json.splits if_splits)

lemma vmess_transport_keeps:
  "link_fits (vmess_transport v net x) = link_fits x"
  by (simp add: vmess_transport_def Let_def link_fits_def of_fields_def)

lemma parse_vmess_fits: "parse_vmess pa uri = Inr s \<Longrightarrow> link_fits s"
  using vmess_port_fits
  by (auto simp: parse_vmess_def vmess_of_json_def try_then_eq_Inr Let_def vmess_transport_keeps)
     (simp add: link_fits_def of_fields_def base_server_def is_importable_protocol_def)

lemma parse_proxy_uri_typed:
  assumes pa: "ports_fit pa" and s: "parse_proxy_uri pa raw = Inr s"
  shows "location_typed s \<and> of_fields s"
proof -
  have "link_fits s \<and> \<not> is_balancer_sentinel (vs_host s)"
    using s parse_vless_fits [OF pa] parse_trojan_fits [OF pa] parse_shadowsocks_fits parse_vmess_fits
    by (auto simp: parse_proxy_uri_def try_then_eq_Inr Let_def split: if_splits)
  then show ?thesis by (simp add: link_fits_def location_typed_def of_fields_def)
qed

section \<open>Documents and bodies\<close>

lemma with_source_typed: "location_typed x \<Longrightarrow> has_proxy_protocol raw \<Longrightarrow> location_typed (with_source pa src raw x)"
  by (simp add: location_typed_def with_source_def)

lemma profile_update_typed:
  "location_typed x \<Longrightarrow> vs_raw_outbound x \<noteq> None \<Longrightarrow> location_typed (x\<lparr>vs_raw_profile := v\<rparr>)"
  by (simp add: location_typed_def)

lemma profile_typed:
  assumes pa: "ports_fit pa"
  shows "list_all location_typed (location_of_profile pa src v)"
proof (cases "find_map (parse_outbound pa) (profile_proxies v)")
  case (Some x)
  then obtain ob where ob: "ob \<in> set (profile_proxies v)" "parse_outbound pa ob = Some x"
    using find_map_Some [OF Some] by blast
  then have "hd (profile_proxies v) \<in> set (profile_proxies v)" by (intro hd_in_set) auto
  then have "has_proxy_protocol (hd (profile_proxies v))" by (simp add: profile_proxies_def)
  moreover have "location_typed x" using parse_outbound_typed [OF pa ob(2)] ..
  ultimately show ?thesis
    using Some with_source_typed [of x "hd (profile_proxies v)" pa src]
    by (simp add: location_of_profile_def profile_update_typed with_source_def)
qed (simp add: location_of_profile_def)

lemma outbound_typed: "ports_fit pa \<Longrightarrow> has_proxy_protocol v \<Longrightarrow> list_all location_typed (location_of_outbound pa src v)"
  using parse_outbound_typed [of pa v] by (auto simp: location_of_outbound_def with_source_typed split: option.split)

lemma text_typed: "ports_fit pa \<Longrightarrow> list_all location_typed (location_of_text pa t)"
  using parse_proxy_uri_typed [of pa "trim t"] by (auto simp: location_of_text_def split: sum.split)

lemma list_all_concat: "list_all P (concat (map f xs)) \<longleftrightarrow> (\<forall>x\<in>set xs. list_all P (f x))"
  by (induction xs) auto

lemma collect_typed:
  "ports_fit pa \<Longrightarrow> list_all location_typed (collect_json_servers pa depth source v)"
proof (induction pa depth source v rule: collect_json_servers.induct)
  case (1 pa depth source v)
  note IH = "1.IH" and pa = "1.prems"
  show ?case
  proof (cases "6 < depth")
    case True
    then show ?thesis by (simp add: collect_json_servers.simps)
  next
    case shallow: False
    show ?thesis
    proof (cases v)
      case (JArr vs)
      then show ?thesis
        using IH(1) [OF shallow JArr _ pa] shallow
        by (subst collect_json_servers.simps) (simp add: list_all_concat)
    next
      case (JStr t)
      then show ?thesis using text_typed [OF pa] shallow by (simp add: collect_json_servers.simps)
    next
      case (JObj kvs)
      have "list_all location_typed (collect_json_servers pa (depth + 1) (Some (unwrap_or v source)) x)"
        if "x \<in> set (children [''outbounds''] v)" "profile_proxies v = []" "\<not> has_proxy_protocol v" for x
        using IH(2) [OF shallow JObj _ _ that(1) pa] that by simp
      moreover have "list_all location_typed (collect_json_servers pa (depth + 1) None x)"
        if "x \<in> set (children wrapper_keys v)" "profile_proxies v = []" "\<not> has_proxy_protocol v" for x
        using IH(3) [OF shallow JObj _ _ that(1) pa] that by simp
      ultimately show ?thesis
        using shallow JObj profile_typed [OF pa] outbound_typed [OF pa]
        by (subst collect_json_servers.simps) (simp add: list_all_concat)
    qed (simp_all add: collect_json_servers.simps)
  qed
qed

lemma subscription_typed:
  assumes pa: "ports_fit pa"
  shows "list_all location_typed (parse_subscription pa body)"
proof -
  have label: "location_typed (x\<lparr>vs_label := n\<rparr>) = location_typed x" for x n by (simp add: location_typed_def)
  have json: "list_all location_typed (snd (parse_json_subscription pa t))" for t
  proof (cases "pa_json pa t")
    case (Inr v)
    let ?name = "json_str_any [''remarks'', ''name'', ''ps'', ''title'', ''Profile-Title''] v"
    let ?out = "collect_json_servers pa 0 None v"
    have "snd (parse_json_subscription pa t) =
        (case (?out, ?name) of ([s], Some n) \<Rightarrow> [s\<lparr>vs_label := n\<rparr>] | _ \<Rightarrow> ?out)"
      using Inr by (simp add: parse_json_subscription_def Let_def)
    then show ?thesis
      using collect_typed [OF pa, of 0 None v] label by (auto split: list.split option.split)
  qed (simp add: parse_json_subscription_def)
  have "location_typed s" if "location_of_line pa line = Some s" for line s
    using that parse_proxy_uri_typed [OF pa]
    by (auto simp: location_of_line_def Let_def res_ok_def split: if_splits sum.splits)
  then show ?thesis
    using json by (auto simp: parse_subscription_def Let_def list_all_iff List.map_filter_def)
qed

end
