(* ===== verification/Gen_Probe.thy ===== *)
theory Gen_Probe
  imports Gen_Accepted
begin

text \<open>
  The probe documents of the client are accepted by the daemon, and when generating a
  configuration panics.
\<close>

section \<open>Probe documents\<close>

lemma socks_inbound_ok:
  assumes "ping_inbound_tag_ok 1 0 (Some t)"
  shows "ping_inbounds 1 0 [socks_inbound t (unat p)] [p] = Ok [t]"
proof -
  have "uint p \<le> int u64_max"
    using uint_lt2p [of p] by (simp add: u64_max_def)
  then show ?thesis
    using assms by (simp add: ping_inbound_ok_def socks_inbound_def get_str_def get_u64_def)
qed

lemma socks_inbound_clean: "clean (socks_inbound t n)"
  unfolding socks_inbound_def
  by (auto intro!: clean_parts simp: forbidden_file_keys_def simp del: contains_forbidden_file_key.simps(1))

text \<open>A rule that sends the only inbound to the only proxy.\<close>

definition measures_proxy :: "string \<Rightarrow> json \<Rightarrow> bool" where
  "measures_proxy t rule \<longleftrightarrow>
     clean rule \<and> get_str ''type'' rule = Some ''field'' \<and> get_str ''network'' rule = Some ''tcp,udp''
     \<and> rule_inbound_matches 1 t rule \<and> get_str ''outboundTag'' rule = Some ''proxy''
     \<and> get_str ''balancerTag'' rule = None"

lemma ping_rule_measures: "measures_proxy t (ping_rule t ''proxy'')"
proof -
  have "clean (ping_rule t ''proxy'')"
    unfolding ping_rule_def rule_to_def all_traffic_def field_rule_def
    by (rule clean_parts(1)) (simp add: forbidden_file_keys_def clean_parts)
  then show ?thesis
    by (simp add: measures_proxy_def ping_rule_def rule_to_def all_traffic_def field_rule_def get_str_def
        rule_inbound_matches_def jstrs_def)
qed

lemma default_rule_measures: "measures_proxy t (default_rule (To_Outbound ''proxy''))"
proof -
  have "clean (default_rule (To_Outbound ''proxy''))"
    unfolding default_rule_def rule_to_def field_rule_def
    by (rule clean_parts(1)) (simp add: forbidden_file_keys_def)
  then show ?thesis
    by (simp add: measures_proxy_def default_rule_def rule_to_def field_rule_def get_str_def rule_inbound_matches_def)
qed

lemma probe_document_accepted:
  assumes v: "field_outbound v" and t: "ping_inbound_tag_ok 1 0 (Some t)" and rule: "measures_proxy t rule"
    and parse: "parse raw = Inr (probe_document [socks_inbound t (unat p)] [v] (jobj [(''rules'', JArr [rule])]) [])"
  shows "validate_ping_xray_document parse raw [p] = Ok ()"
proof -
  let ?log = "jobj [(''loglevel'', JStr ''warning'')]"
  let ?routing = "jobj [(''rules'', JArr [rule])]"
  let ?kvs = "[(''log'', ?log), (''inbounds'', JArr [socks_inbound t (unat p)]),
     (''outbounds'', JArr [v, plain_direct]), (''routing'', ?routing)]"
  have parsed: "parse_document parse msg raw = Inr (jobj ?kvs)" for msg
    using parse by (simp add: probe_document_def)
  have "clean plain_direct"
    unfolding plain_direct_def by (rule clean_parts(1)) (simp add: forbidden_file_keys_def)
  moreover have "clean ?log" by (rule clean_parts(1)) (simp add: forbidden_file_keys_def)
  moreover have "clean ?routing"
    using rule by (intro clean_parts(1)) (simp add: forbidden_file_keys_def measures_proxy_def)
  ultimately have "clean (jobj ?kvs)"
    using v socks_inbound_clean [of t "unat p"]
    by (intro clean_parts(1)) (simp add: forbidden_file_keys_def field_outbound_def)
  moreover have "list_all (\<lambda>k. k \<in> set ping_sections) (obj_keys (obj_of ?kvs))"
    "list_all (\<lambda>k. k = ''loglevel'') (obj_keys (obj_of [(''loglevel'', JStr ''warning'')]))"
    "list_all (\<lambda>k. k = ''rules'' \<or> k = ''balancers'') (obj_keys (obj_of [(''rules'', JArr [rule])]))"
    unfolding obj_keys_def list_all_iff set_map keys_obj_of by (auto simp: ping_sections_def)
  moreover have "get_object ''log'' (jobj ?kvs) = Some (obj_of [(''loglevel'', JStr ''warning'')])"
    "get_array ''inbounds'' (jobj ?kvs) = Some [socks_inbound t (unat p)]"
    "get_array ''outbounds'' (jobj ?kvs) = Some [v, plain_direct]"
    "get_object ''routing'' (jobj ?kvs) = Some (obj_of [(''rules'', JArr [rule])])"
    by (simp_all add: get_object_def get_array_def) (simp_all add: jobj_def)
  moreover have "ping_outbound_set_ok [v, plain_direct]"
    by (simp add: ping_outbound_set_ok_def MAX_SERVER_IPS_def has_tag_protocol_def plain_direct_def get_str_def)
  moreover have "ping_proxy_tags [] [v] = Ok [''proxy'']"
    using v by (auto simp: field_outbound_def)
  moreover have "ping_balancer_tags [''proxy''] (obj_of [(''rules'', JArr [rule])]) = Ok []"
    by (simp add: ping_balancer_tags_def map_of_obj_of)
  moreover have "Option.bind (map_of (obj_of [(''rules'', JArr [rule])]) ''rules'') as_array = Some [rule]"
    by (simp add: map_of_obj_of)
  moreover have "ping_rule_ok 1 [''proxy''] [] t rule"
    using rule by (simp add: measures_proxy_def ping_rule_ok_def rule_targets_def)
  moreover have "as_object (jobj ?kvs) = Some (obj_of ?kvs)" by (simp add: jobj_def)
  ultimately show ?thesis
    unfolding validate_ping_xray_document_def parsed
    using socks_inbound_ok [OF t, of p]
    by (simp del: contains_forbidden_file_key.simps ping_proxy_tags.simps add: require_def)
qed

lemma ping_tag_0: "ping_tag 0 = ''socks-in-0''" "ping_inbound_tag_ok 1 0 (Some ''socks-in-0'')"
  "ping_inbound_tag_ok 1 0 (Some ''socks-in'')"
proof -
  have "dec 0 = ''0''" by code_simp
  then show "ping_tag 0 = ''socks-in-0''" "ping_inbound_tag_ok 1 0 (Some ''socks-in-0'')"
    "ping_inbound_tag_ok 1 0 (Some ''socks-in'')"
    by (simp_all add: ping_tag_def ping_inbound_tag_ok_def)
qed

lemma generated_documents:
  assumes s: "of_fields s" and extra: "extra_clean from_str s" and url: "url_parser_ok url_parse"
  obtains cfg probe ping legacy where
    "build_xray_config from_str url_parse pick s sp mode XrayNative lan level mtu = Some cfg"
    "\<And>parse raw. parse raw = Inr cfg \<Longrightarrow> validate_xray_document parse raw (mode \<noteq> ''proxy'') = Ok ()"
    "build_connection_probe_config from_str pick s = Some (Ok probe)"
    "\<And>parse raw. parse raw = Inr probe \<Longrightarrow> validate_ping_xray_document parse raw [of_nat CONNECTION_PROBE_PORT_BASE] = Ok ()"
    "build_ping_config from_str pick s [unat p] = Some (Ok ping)"
    "\<And>parse raw. parse raw = Inr ping \<Longrightarrow> validate_ping_xray_document parse raw [p] = Ok ()"
    "build_legacy_ping_config from_str pick s (unat p) = Some (Ok legacy)"
    "\<And>parse raw. parse raw = Inr legacy \<Longrightarrow> validate_ping_xray_document parse raw [p] = Ok ()"
proof -
  let ?plan = "\<lambda>v. \<lparr>op_proxies = [v], op_target = To_Outbound ''proxy'', op_balancers = None,
                     op_observatory = None, op_burst_observatory = None, op_provider_rules = []\<rparr>"
  obtain v where v: "field_outbound v" and plan: "outbound_plan_of from_str pick s = Some (Ok (?plan v))"
    by (rule plan_of_fields [OF s extra])
  have tag: "get_str ''tag'' v = Some ''proxy''" using v by (simp add: field_outbound_def)
  let ?tun = "if mode = ''proxy'' then Tun2socks else XrayNative"
  let ?cfg = "connection_config s (build_dns_plan url_parse s) (?plan v) sp ?tun lan level mtu"
  let ?doc = "\<lambda>t n rule. probe_document [socks_inbound t n] [v] (jobj [(''rules'', JArr [rule])]) []"
  have base: "CONNECTION_PROBE_PORT_BASE = unat (of_nat CONNECTION_PROBE_PORT_BASE :: u16)"
    by (simp add: CONNECTION_PROBE_PORT_BASE_def)
  note accepted = probe_document_accepted [OF v]
  show ?thesis
  proof (rule that)
    show "build_xray_config from_str url_parse pick s sp mode XrayNative lan level mtu = Some ?cfg"
      by (simp add: build_xray_config_def plan res_ok_def)
    show "validate_xray_document parse raw (mode \<noteq> ''proxy'') = Ok ()" if cfg: "parse raw = Inr ?cfg"
      for parse :: "string \<Rightarrow> string + json" and raw
    proof -
      have "validate_xray_document parse raw (?tun = XrayNative) = Ok ()"
        using connection_config_accepted [where tun = "?tun", OF v s url, where sp = sp and lan = lan] cfg by blast
      then show ?thesis by (simp split: if_splits)
    qed
    show "build_connection_probe_config from_str pick s =
        Some (Ok (?doc ''socks-in-0'' CONNECTION_PROBE_PORT_BASE (ping_rule ''socks-in-0'' ''proxy'')))"
      by (simp add: build_connection_probe_config_def plan ping_rule_def observatory_entries_def optional_entry_def)
    show "validate_ping_xray_document parse raw [of_nat CONNECTION_PROBE_PORT_BASE] = Ok ()"
      if "parse raw = Inr (?doc ''socks-in-0'' CONNECTION_PROBE_PORT_BASE (ping_rule ''socks-in-0'' ''proxy''))"
        for parse :: "string \<Rightarrow> string + json" and raw
      using accepted [OF ping_tag_0(2) ping_rule_measures] that base by metis
    show "build_ping_config from_str pick s [unat p] =
        Some (Ok (?doc ''socks-in-0'' (unat p) (ping_rule ''socks-in-0'' ''proxy'')))"
      by (simp add: build_ping_config_def plan tag ping_tag_0)
    show "validate_ping_xray_document parse raw [p] = Ok ()"
      if "parse raw = Inr (?doc ''socks-in-0'' (unat p) (ping_rule ''socks-in-0'' ''proxy''))"
        for parse :: "string \<Rightarrow> string + json" and raw
      by (rule accepted [where parse = parse and raw = raw and p = p, OF ping_tag_0(2) ping_rule_measures that])
    show "build_legacy_ping_config from_str pick s (unat p) =
        Some (Ok (?doc ''socks-in'' (unat p) (default_rule (To_Outbound ''proxy''))))"
      by (simp add: build_legacy_ping_config_def plan ping_outbound_tag_def)
    show "validate_ping_xray_document parse raw [p] = Ok ()"
      if "parse raw = Inr (?doc ''socks-in'' (unat p) (default_rule (To_Outbound ''proxy'')))"
        for parse :: "string \<Rightarrow> string + json" and raw
      by (rule accepted [where parse = parse and raw = raw and p = p, OF ping_tag_0(3) default_rule_measures that])
  qed
qed

section \<open>Panics\<close>

text \<open>
  A location is generated without a panic unless its provider's outbound is refused at a point
  where validation has not looked at it.
\<close>

lemma build_panics:
  "build_proxy_outbound from_str s = None \<longleftrightarrow>
     (case vs_raw_outbound s of None \<Rightarrow> False | Some raw \<Rightarrow> is_err (sanitize_raw_outbound raw False))"
  by (auto simp: build_proxy_outbound_def res_ok_def is_err_def split: option.splits sum.splits)

lemma generate_panics:
  "generate_xray_config from_str url_parse print pick s sp mode lan mtu = None \<longleftrightarrow>
     (case vs_raw_outbound s of
        None \<Rightarrow> False
      | Some raw \<Rightarrow>
          is_err (sanitize_raw_outbound raw False)
          \<and> (if vs_raw_profile s = None
             then (case get_str ''protocol'' raw of None \<Rightarrow> False | Some p \<Rightarrow> is_known_protocol (to_lower p))
             else profile_plan pick s = Ok None))"
proof -
  have plan: "outbound_plan_of from_str pick s = None \<longleftrightarrow>
      profile_plan pick s = Ok None \<and> build_proxy_outbound from_str s = None"
    by (auto simp: outbound_plan_of_def split: sum.splits option.splits)
  have no_profile: "vs_raw_profile s = None \<Longrightarrow> profile_plan pick s = Ok None" by (simp add: profile_plan_def)
  have res: "res_ok r = None \<longleftrightarrow> is_err r" for r :: "string + outbound_plan"
    by (cases r) (simp_all add: res_ok_def)
  show ?thesis
  proof (cases "vs_raw_profile s")
    case None
    then show ?thesis
      using plan no_profile build_panics [of from_str s]
      by (auto simp: generate_xray_config_def validate_server_def build_xray_config_def outbound_plan_of_def res_ok_def
          try_then_def ok_or_def bind_eq_None_conv
          split: option.splits sum.splits if_splits)
  next
    case (Some profile)
    have v: "validate_server from_str pick s = map_option (\<lambda>r. try_then r (\<lambda>_. Ok ())) (outbound_plan_of from_str pick s)"
      by (simp add: validate_server_def Some)
    have "generate_xray_config from_str url_parse print pick s sp mode lan mtu = None \<longleftrightarrow>
        outbound_plan_of from_str pick s = None"
      by (cases "outbound_plan_of from_str pick s")
         (auto simp: generate_xray_config_def v build_xray_config_def res_ok_def try_then_def split: sum.splits)
    then show ?thesis
      using plan build_panics [of from_str s] by (auto simp: Some split: option.splits)
  qed
qed

end
