(* ===== verification/Sub_Panic.thy ===== *)
theory Sub_Panic
  imports Sub_Typed Gen_Probe
begin

text \<open>
  A run that ends in a panic: a subscription with one outbound that names a certificate file is
  imported, passes validation, and the generator's \<open>expect\<close> fails.
\<close>

definition file_outbound :: json where
  "file_outbound =
     JObj [(''protocol'', JStr ''trojan''),
           (''settings'', JObj [(''address'', JStr ''example''), (''password'', JStr ''secret''), (''port'', JInt 443)]),
           (''streamSettings'',
            JObj [(''security'', JStr ''tls''), (''tlsSettings'', JObj [(''certificateFile'', JStr ''/tmp/a.pem'')])])]"

lemma lower_known: "to_lower ''trojan'' = ''trojan''" "to_lower ''example'' = ''example''"
  by code_simp+

lemma file_outbound_location:
  obtains s where "parse_outbound pa file_outbound = Some s" "vs_raw_profile s = None"
proof -
  have h: "\<not> is_balancer_sentinel ''example''" by code_simp
  have "\<exists>x. parse_protocol pa file_outbound ''trojan'' = Some x \<and> vs_host x = ''example''"
    by (simp add: file_outbound_def parse_protocol_def parse_server_entry_def direct_or_first_def endpoint_base_def
        json_str_def get_str_def json_port_def u16_max_def)
  then obtain x where x: "parse_protocol pa file_outbound ''trojan'' = Some x" "vs_host x = ''example''" by blast
  have p: "get_str ''protocol'' file_outbound = Some ''trojan''" by (simp add: file_outbound_def get_str_def)
  have "vs_host (apply_stream st x) = ''example''" for st
    using x(2) by (simp add: apply_stream_def apply_tls_def apply_reality_def Let_def split: option.split)
  then have s: "parse_outbound pa file_outbound = Some (apply_stream (json_get ''streamSettings'' file_outbound) x)"
    using p x h by (simp add: parse_outbound_def Let_def)
  have "vs_raw_profile x = None"
    using x(1)
    by (auto simp: file_outbound_def parse_protocol_def parse_server_entry_def direct_or_first_def endpoint_base_def
        json_str_def get_str_def json_port_def u16_max_def base_server_def)
  then show ?thesis using that [OF s] by (simp add: apply_stream_keeps)
qed

lemma file_outbound_refused: "is_err (sanitize_raw_outbound file_outbound False)"
proof -
  have "ends_with ''file'' (to_lower ''certificateFile'')" by code_simp
  then have "contains_forbidden_provider_file_reference file_outbound" by (simp add: file_outbound_def)
  then show ?thesis by (simp add: sanitize_raw_outbound_def is_err_def)
qed

lemma collect_single:
  "v = JObj kvs \<Longrightarrow> profile_proxies v = [] \<Longrightarrow> has_proxy_protocol v \<Longrightarrow>
     collect_json_servers pa 0 None v = location_of_outbound pa v v"
  by (subst collect_json_servers.simps) simp

lemma imported_location_panics:
  assumes json: "pa_json pa t = Inr file_outbound"
  obtains s where "snd (parse_json_subscription pa t) = [s]"
    "validate_server from_str pick s = Some (Ok ())"
    "generate_xray_config from_str url_parse print pick s sp mode lan mtu = None"
proof -
  obtain x where x: "parse_outbound pa file_outbound = Some x" "vs_raw_profile x = None"
    by (rule file_outbound_location)
  have p: "get_str ''protocol'' file_outbound = Some ''trojan''" "profile_proxies file_outbound = []"
    by (simp_all add: file_outbound_def get_str_def profile_proxies_def get_array_def)
  then have "has_proxy_protocol file_outbound" by (simp add: has_proxy_protocol_def is_importable_protocol_def)
  moreover obtain kvs where "file_outbound = JObj kvs" by (simp add: file_outbound_def)
  ultimately have "collect_json_servers pa 0 None file_outbound = location_of_outbound pa file_outbound file_outbound"
    using collect_single p(2) by blast
  then have "collect_json_servers pa 0 None file_outbound = [with_source pa file_outbound file_outbound x]"
    using x by (simp add: location_of_outbound_def)
  then obtain s where s: "snd (parse_json_subscription pa t) = [s]"
    "vs_raw_profile s = None" "vs_raw_outbound s = Some file_outbound"
    using json x
    by (cases "json_str_any [''remarks'', ''name'', ''ps'', ''title'', ''Profile-Title''] file_outbound")
       (simp_all add: parse_json_subscription_def Let_def with_source_def)
  have known: "is_known_protocol (to_lower ''trojan'')" by (simp add: lower_known is_known_protocol_def PROXY_PROTOCOLS_def)
  have "validate_server from_str pick s = Some (Ok ())"
    using s p known by (simp add: validate_server_def)
  moreover have "generate_xray_config from_str url_parse print pick s sp mode lan mtu = None"
    unfolding generate_panics using s p known file_outbound_refused by simp
  ultimately show ?thesis using s that by blast
qed

end
