(* ===== verification/Gen_Dns_Props.thy ===== *)
theory Gen_Dns_Props
  imports Gen_Accepted Helper_Rules
begin

text \<open>
  The resolvers of a generated configuration: every address in the rule that forces them through
  the proxy is public, so no range that \<open>allow LAN\<close> keeps direct has it, although the rule of
  those ranges comes first.
\<close>

section \<open>Ranges\<close>

definition private_ranges :: "cidr list" where
  "private_ranges =
     [(V4 10 0 0 0, 8), (V4 172 16 0 0, 12), (V4 192 168 0 0, 16), (V4 127 0 0 0, 8), (V4 169 254 0 0, 16),
      (V4 100 64 0 0, 10), (V6 [0, 0, 0, 0, 0, 0, 0, 1], 128), (V6 [0xfc00, 0, 0, 0, 0, 0, 0, 0], 7),
      (V6 [0xfe80, 0, 0, 0, 0, 0, 0, 0], 10)]"

lemma private_ranges_text: "PRIVATE_CIDRS = map (\<lambda>(a, n). show_ip a @ ''/'' @ dec n) private_ranges"
proof -
  have v4: "show_ip (V4 10 0 0 0) = ''10.0.0.0''" "show_ip (V4 172 16 0 0) = ''172.16.0.0''"
    "show_ip (V4 192 168 0 0) = ''192.168.0.0''" "show_ip (V4 127 0 0 0) = ''127.0.0.0''"
    "show_ip (V4 169 254 0 0) = ''169.254.0.0''" "show_ip (V4 100 64 0 0) = ''100.64.0.0''"
    by code_simp+
  have v6: "show_ip (V6 [0, 0, 0, 0, 0, 0, 0, 1]) = ''::1''"
    "show_ip (V6 [0xfc00, 0, 0, 0, 0, 0, 0, 0]) = ''fc00::''" "show_ip (V6 [0xfe80, 0, 0, 0, 0, 0, 0, 0]) = ''fe80::''"
    by (simp_all add: show_v6_def show_segments_def hex.simps hex_digit_def Let_def)
  have n: "dec 7 = ''7''" "dec 8 = ''8''" "dec 10 = ''10''" "dec 12 = ''12''" "dec 16 = ''16''" "dec 128 = ''128''"
    by code_simp+
  show ?thesis by (simp add: PRIVATE_CIDRS_def private_ranges_def v4 v6 n del: show_ip.simps)
qed

text \<open>Agreeing on the first bits is agreeing after the others are dropped.\<close>

definition word_bits :: "nat \<Rightarrow> 'a::len word \<Rightarrow> bool list" where
  "word_bits n w = map (bit w) (rev [0..<n])"

lemma length_word_bits [simp]: "length (word_bits n w) = n"
  by (simp add: word_bits_def)

lemma take_bits:
  fixes w v :: "'a::len word"
  assumes eq: "take k (word_bits n w) = take k (word_bits n v)" and k: "k \<le> n" and n: "n = LENGTH('a)"
  shows "drop_bit (n - k) w = drop_bit (n - k) v"
proof (rule bit_eqI)
  fix m
  show "bit (drop_bit (n - k) w) m = bit (drop_bit (n - k) v) m"
  proof (cases "n - k + m < n")
    case True
    define i where "i = k - 1 - m"
    have i: "i < k" "i < n" "n - Suc i = n - k + m" using True k by (auto simp: i_def)
    have "take k (word_bits n w) ! i = take k (word_bits n v) ! i" using eq by simp
    then have "bit w (n - Suc i) = bit v (n - Suc i)" using i by (simp add: rev_nth word_bits_def)
    then show ?thesis using i by (simp add: bit_drop_bit_eq add.commute)
  next
    case False
    then show ?thesis
      using n bit_imp_le_length [of w "n - k + m"] bit_imp_le_length [of v "n - k + m"]
      by (auto simp: bit_drop_bit_eq add.commute)
  qed
qed

lemma all_bits: "word_bits n w = word_bits n v \<Longrightarrow> n = LENGTH('a) \<Longrightarrow> w = v"
  for w v :: "'a::len word"
  using take_bits [of n n w v] by simp

lemma ip_bits_words:
  "ip_bits (V4 a b c d) = word_bits 8 a @ word_bits 8 b @ word_bits 8 c @ word_bits 8 d"
  "ip_bits (V6 ss) = concat (map (word_bits 16) ss)"
proof -
  have fold: "word_bits n = (\<lambda>w. map (bit w) (rev [0..<n]))" for n by (rule ext) (rule word_bits_def)
  show "ip_bits (V4 a b c d) = word_bits 8 a @ word_bits 8 b @ word_bits 8 c @ word_bits 8 d"
    unfolding ip_bits.simps fold [symmetric] by simp
  show "ip_bits (V6 ss) = concat (map (word_bits 16) ss)" unfolding ip_bits.simps fold [symmetric] ..
qed

lemma high_bits:
  fixes x v :: "'a::len word"
  assumes "drop_bit k x = drop_bit k v"
  shows "x AND NOT (mask k) = v AND NOT (mask k)"
proof -
  have "z AND NOT (mask k) = push_bit k (drop_bit k z)" for z :: "'a word"
    by (rule bit_eqI) (auto simp: bit_simps)
  with assms show ?thesis by simp
qed

text \<open>The leading octets and segments of a member of a range.\<close>

lemma in_cidr_v4:
  assumes cidr: "in_cidr (V4 a b c d) (V4 a' b' c' d', 8 + k)" and k: "k \<le> 8"
  shows "a = a' \<and> drop_bit (8 - k) b = drop_bit (8 - k) b'"
proof -
  have "word_bits 8 a @ take k (word_bits 8 b) = word_bits 8 a' @ take k (word_bits 8 b')"
    using cidr k unfolding in_cidr_def fst_conv snd_conv ip_bits_words by simp
  then have heads: "word_bits 8 a = word_bits 8 a'" and tails: "take k (word_bits 8 b) = take k (word_bits 8 b')"
    by simp_all
  have "a = a'" by (rule all_bits [OF heads]) simp
  moreover have "drop_bit (8 - k) b = drop_bit (8 - k) b'" by (rule take_bits [OF tails k]) simp
  ultimately show ?thesis ..
qed

lemma in_cidr_v6:
  assumes cidr: "in_cidr (V6 (x # xs)) (V6 (y # ys), k)" and k: "k \<le> 16"
  shows "drop_bit (16 - k) x = drop_bit (16 - k) y"
proof -
  have heads: "take k (word_bits 16 x) = take k (word_bits 16 y)"
    using cidr k unfolding in_cidr_def fst_conv snd_conv ip_bits_words by simp
  show ?thesis by (rule take_bits [OF heads k]) simp
qed

lemma segments_eq:
  "length ss = length ts \<Longrightarrow> concat (map (word_bits 16) ss) = concat (map (word_bits 16) ts) \<Longrightarrow> ss = ts"
  for ss :: "u16 list"
proof (induction ss ts rule: list_induct2)
  case (Cons x xs y ys)
  then have heads: "word_bits 16 x = word_bits 16 y" and "concat (map (word_bits 16) xs) = concat (map (word_bits 16) ys)"
    by simp_all
  then have "xs = ys" using Cons.IH by blast
  moreover have "x = y" by (rule all_bits [OF heads]) simp
  ultimately show ?case by simp
qed simp

lemma in_cidr_all_v6:
  assumes cidr: "in_cidr (V6 ss) (V6 ts, 16 * length ts)" and n: "length ss = length ts"
  shows "ss = ts"
proof (rule segments_eq [OF n])
  have len: "length (concat (map (word_bits 16) us)) = 16 * length us" for us :: "u16 list"
    by (induction us) simp_all
  show "concat (map (word_bits 16) ss) = concat (map (word_bits 16) ts)"
    using cidr len [of ss] len [of ts] n unfolding in_cidr_def fst_conv snd_conv ip_bits_words by simp
qed

lemma safe_not_private:
  assumes safe: "is_safe_remote_dns_ip a" and wf: "ip_wf a" and c: "c \<in> set private_ranges"
  shows "\<not> in_cidr a c"
proof
  assume cidr: "in_cidr a c"
  show False
  proof (cases a)
    case (V4 w x y z)
    have high: "x AND 0xf0 = v AND 0xf0" if "drop_bit 4 x = drop_bit 4 v" for v
    proof -
      have "NOT (mask 4) = (0xf0 :: u8)" by (simp add: mask_eq_exp_minus_1)
      then show ?thesis using high_bits [OF that] by simp
    qed
    have shared: "64 \<le> x \<and> x \<le> 127" if "drop_bit 6 x = drop_bit 6 64"
    proof -
      have "drop_bit 6 (unat x) = drop_bit 6 (unat (64 :: u8))" using that by (metis unat_drop_bit_eq)
      then have "unat x div 64 = 1" by (simp add: drop_bit_eq_div)
      then have "64 \<le> unat x \<and> unat x \<le> 127" by presburger
      then show ?thesis by (simp add: word_le_nat_alt)
    qed
    from c cidr V4 consider "w = 10" | "w = 172" "x AND 0xf0 = 16" | "w = 192" "x = 168" | "w = 127" | "w = 169" "x = 254"
      | "w = 100" "64 \<le> x \<and> x \<le> 127"
      using in_cidr_v4 [of w x y z 10 0 0 0 0] in_cidr_v4 [of w x y z 172 16 0 0 4] high [of 16]
        in_cidr_v4 [of w x y z 192 168 0 0 8] in_cidr_v4 [of w x y z 127 0 0 0 0]
        in_cidr_v4 [of w x y z 169 254 0 0 8] in_cidr_v4 [of w x y z 100 64 0 0 2] shared
      by (auto simp: private_ranges_def in_cidr_def [of _ "(V6 _, _)"])
    then show False using safe V4 by cases auto
  next
    case (V6 ss)
    then obtain s ts where ss: "ss = s # ts" "length ts = 7" using wf by (cases ss) auto
    have m: "NOT (mask 9) = (0xfe00 :: u16)" "NOT (mask 6) = (0xffc0 :: u16)"
      by (simp_all add: mask_eq_exp_minus_1)
    have local: "s AND 0xfe00 = 0xfc00" if "drop_bit 9 s = drop_bit 9 0xfc00"
      using high_bits [OF that] by (simp add: m)
    have link: "s AND 0xffc0 = 0xfe80" if "drop_bit 6 s = drop_bit 6 0xfe80"
      using high_bits [OF that] by (simp add: m)
    have loop: "ss = [0, 0, 0, 0, 0, 0, 0, 1]" if "in_cidr (V6 ss) (V6 [0, 0, 0, 0, 0, 0, 0, 1], 128)"
      by (rule in_cidr_all_v6) (use that ss in simp_all)
    from c cidr V6 ss consider "ss = [0, 0, 0, 0, 0, 0, 0, 1]" | "s AND 0xfe00 = 0xfc00" | "s AND 0xffc0 = 0xfe80"
      using in_cidr_v6 [of s ts "0xfc00" "[0, 0, 0, 0, 0, 0, 0]" 7] in_cidr_v6 [of s ts "0xfe80" "[0, 0, 0, 0, 0, 0, 0]" 10]
        local link loop
      by (auto simp: private_ranges_def in_cidr_def [of _ "(V4 _ _ _ _, _)"])
    then show False using safe V6 ss by cases auto
  qed
qed

section \<open>Parsed addresses\<close>

lemma read_groups_length: "length (fst (read_groups limit first s)) \<le> limit"
proof (induction limit first s rule: read_groups.induct)
  case (2 limit first s)
  show ?case
    by (cases limit) (use 2 in \<open>auto split: option.splits prod.splits ip_addr.splits\<close>)
qed simp

lemma read_ipv6_wf:
  assumes "read_ipv6 s = Some (a, r)" shows "ip_wf a"
proof -
  obtain hs v4 rest where h: "read_groups 8 True s = (hs, v4, rest)" by (cases "read_groups 8 True s")
  have hs: "length hs \<le> 8" using read_groups_length [of 8 True s] h by simp
  show ?thesis
  proof (cases "length hs = 8")
    case True
    then show ?thesis using assms h by (auto simp: read_ipv6_def)
  next
    case False
    with assms h obtain r2 where r2: "(case read_groups (8 - (length hs + 1)) True r2 of (ts, _, r3) \<Rightarrow>
        Some (V6 (hs @ replicate (8 - length hs - length ts) 0 @ ts), r3)) = Some (a, r)"
      by (auto simp: read_ipv6_def bind_eq_Some_conv split: if_splits)
    obtain ts w r3 where ts: "read_groups (8 - (length hs + 1)) True r2 = (ts, w, r3)"
      by (cases "read_groups (8 - (length hs + 1)) True r2")
    have "length ts \<le> 8 - (length hs + 1)" using read_groups_length [of "8 - (length hs + 1)" True r2] ts by simp
    with r2 ts hs False show ?thesis by auto
  qed
qed

lemma parse_ip_wf:
  assumes "parse_ip s = Some a" shows "ip_wf a"
proof -
  have "ip_wf b" if "read_ipv4 s = Some (b, r)" for b r
    using that by (auto simp: read_ipv4_def bind_eq_Some_conv)
  then show ?thesis
    using assms read_ipv6_wf by (auto simp: parse_ip_def split: option.splits prod.splits list.splits)
qed

text \<open>A text that begins like no address is none.\<close>

lemma no_ip:
  assumes "digit_val 10 c = None" "digit_val 16 c = None" "c \<noteq> CHR '':''"
  shows "parse_ip (c # cs) = None"
proof -
  have 4: "read_ipv4 (c # cs) = None"
    using assms(1) by (simp add: read_ipv4_def read_octet_def read_number_def)
  have "read_groups (Suc 7) True (c # cs) = ([], False, c # cs)"
    unfolding read_groups.simps(2) using assms(2) 4 by (simp add: read_sep_def read_number_def)
  then have "read_groups 8 True (c # cs) = ([], False, c # cs)" by simp
  then have "read_ipv6 (c # cs) = None" using assms(3) by (simp add: read_ipv6_def read_char_def)
  with 4 show ?thesis by (simp add: parse_ip_def)
qed

section \<open>Resolvers\<close>

text \<open>A text that stands for a public address.\<close>

definition public_text :: "string \<Rightarrow> bool" where
  "public_text t \<longleftrightarrow>
     (\<exists>a. (parse_ip t = Some a \<or> t = show_ip a) \<and> ip_wf a \<and> is_safe_remote_dns_ip a
          \<and> (\<forall>c \<in> set private_ranges. \<not> in_cidr a c))"

lemma public_textI: "parse_ip t = Some a \<Longrightarrow> is_safe_remote_dns_ip a \<Longrightarrow> public_text t"
  "parse_ip u = Some a \<Longrightarrow> is_safe_remote_dns_ip a \<Longrightarrow> public_text (show_ip a)"
  unfolding public_text_def using parse_ip_wf safe_not_private by blast+

lemma public_shown: "is_safe_remote_dns_ip (V4 a b c d) \<Longrightarrow> public_text (show_v4 a b c d)"
  by (rule public_textI(1) [OF parse_ip_show_v4])

lemma known_resolvers_public:
  "list_all (\<lambda>(u, ips). ips \<noteq> [] \<and> list_all public_text ips) DEFAULT_DOH_SERVERS"
  "list_all (\<lambda>(addresses, u, ips). ips \<noteq> [] \<and> list_all public_text ips) DOH_BY_RESOLVER_IP"
proof -
  have shown: "''1.1.1.1'' = show_v4 1 1 1 1" "''1.0.0.1'' = show_v4 1 0 0 1" "''8.8.8.8'' = show_v4 8 8 8 8"
    "''8.8.4.4'' = show_v4 8 8 4 4" "''9.9.9.9'' = show_v4 9 9 9 9" "''149.112.112.112'' = show_v4 149 112 112 112"
    "''77.88.8.8'' = show_v4 77 88 8 8" "''77.88.8.1'' = show_v4 77 88 8 1"
    by code_simp+
  have "public_text ''1.1.1.1''" "public_text ''1.0.0.1''" "public_text ''8.8.8.8''" "public_text ''8.8.4.4''"
    "public_text ''9.9.9.9''" "public_text ''149.112.112.112''" "public_text ''77.88.8.8''" "public_text ''77.88.8.1''"
    unfolding shown by (rule public_shown; simp add: word_le_nat_alt)+
  then show "list_all (\<lambda>(u, ips). ips \<noteq> [] \<and> list_all public_text ips) DEFAULT_DOH_SERVERS"
    "list_all (\<lambda>(addresses, u, ips). ips \<noteq> [] \<and> list_all public_text ips) DOH_BY_RESOLVER_IP"
    by (simp_all add: DEFAULT_DOH_SERVERS_def DOH_BY_RESOLVER_IP_def)
qed

definition public_addresses :: "string list \<Rightarrow> bool" where
  "public_addresses ips \<longleftrightarrow> ips \<noteq> [] \<and> list_all public_text ips"

text \<open>An address text that is a bare address is a public one.\<close>

definition safe_text :: "string \<Rightarrow> bool" where
  "safe_text t \<longleftrightarrow> (\<forall>a. parse_ip t = Some a \<longrightarrow> is_safe_remote_dns_ip a)"

definition public_entry :: "dns_entry \<Rightarrow> bool" where
  "public_entry e \<longleftrightarrow>
     public_addresses (fst (snd e)) \<and> (\<forall>t. dns_entry_address (fst e) = Some t \<longrightarrow> safe_text t)"

lemma host_ips_public: "list_all public_text (provider_dns_host_ips s h)"
proof -
  have "public_text t" if "t \<in> set (map show_ip (filter is_safe_remote_dns_ip (List.map_filter parse_ip vs)))" for t vs
    using that public_textI(2) by (auto simp: List.map_filter_def)
  then show ?thesis
    by (auto simp: provider_dns_host_ips_def list_all_iff split: option.split)
qed

lemma provider_address_public:
  assumes url: "url_parser_ok url_parse" and "safe_provider_dns_address url_parse s raw = Some (t, ips, probe)"
  shows "public_addresses ips \<and> safe_text t"
proof -
  have remote: "public_addresses ips' \<and> safe_text t'"
    if "safe_remote_dns_address url_parse raw = Some (t', ips', probe')" for t' ips' probe'
  proof (cases "parse_ip raw")
    case (Some a)
    then show ?thesis
      using that public_textI by (auto simp: safe_remote_dns_address_def public_addresses_def safe_text_def split: if_splits)
  next
    case None
    then show ?thesis
      using that url public_textI(2)
      by (auto simp: safe_remote_dns_address_def public_addresses_def safe_text_def bind_eq_Some_conv url_entry_def
          url_parser_ok_def split: if_splits)
  qed
  show ?thesis
  proof (cases "safe_remote_dns_address url_parse raw")
    case None
    then show ?thesis
      using assms host_ips_public [of s]
      by (auto simp: safe_provider_dns_address_def bind_eq_Some_conv url_entry_def Let_def public_addresses_def
          safe_text_def url_parser_ok_def split: if_splits)
  next
    case (Some x)
    then show ?thesis using assms(2) remote by (simp add: safe_provider_dns_address_def)
  qed
qed

lemma address_replaced: "dns_entry_address v = Some r \<Longrightarrow> dns_entry_address (with_address v t) = Some t"
  by (cases v) (simp_all add: bind_eq_Some_conv)

lemma provider_servers_public:
  assumes "url_parser_ok url_parse"
  shows "list_all public_entry (safe_provider_dns_servers url_parse s)"
  using provider_address_public [OF assms, of s] address_replaced
  by (fastforce simp: safe_provider_dns_servers_def list_all_iff List.map_filter_def bind_eq_Some_conv public_entry_def
      split: option.splits)

lemma doh_variants_public:
  assumes e: "public_entry e" and r: "dns_entry_address (fst e) = Some r" "parse_ip r = Some a"
  shows "list_all (\<lambda>x. public_addresses (fst (snd x))) (doh_variants r e)"
proof -
  have "is_safe_remote_dns_ip a" using e r by (auto simp: public_entry_def safe_text_def)
  then have own: "public_addresses [r]" using public_textI(1) [OF r(2)] by (simp add: public_addresses_def)
  have "public_addresses ips" if op: "doh_operator r = Some (u, ips)" for u ips
  proof -
    obtain addresses where "(addresses, u, ips) \<in> set DOH_BY_RESOLVER_IP"
      using find_map_Some [OF op [unfolded doh_operator_def]] by (auto split: if_splits)
    then show ?thesis using known_resolvers_public(2) by (auto simp: list_all_iff public_addresses_def)
  qed
  with own show ?thesis by (cases e) (auto simp: doh_variants_def split: option.split)
qed

lemma prefer_doh_public:
  "list_all public_entry es \<Longrightarrow> list_all (\<lambda>x. public_addresses (fst (snd x))) (prefer_doh_from covered es)"
proof (induction covered es rule: prefer_doh_from.induct)
  case (2 covered e es)
  then show ?case
    using doh_variants_public [of e]
    by (auto simp: public_entry_def Let_def bind_eq_Some_conv split: option.splits if_splits)
qed simp

lemma prefer_doh_nonempty: "es \<noteq> [] \<Longrightarrow> prefer_doh_from [] es \<noteq> []"
  by (cases es) (auto simp: doh_variants_def Let_def split: option.splits prod.splits)

lemma entries_public:
  assumes "url_parser_ok url_parse"
  shows "dns_entries url_parse s \<noteq> [] \<and> list_all (\<lambda>x. public_addresses (fst (snd x))) (dns_entries url_parse s)"
proof (cases "safe_provider_dns_servers url_parse s = []")
  case True
  then show ?thesis
    using known_resolvers_public(1)
    by (auto simp: dns_entries_def default_entries_def list_all_iff public_addresses_def DEFAULT_DOH_SERVERS_def)
next
  case False
  then show ?thesis
    using prefer_doh_public [OF provider_servers_public [OF assms]] prefer_doh_nonempty
    by (simp add: dns_entries_def prefer_doh_transports_def)
qed

lemma upstreams_public:
  assumes "url_parser_ok url_parse"
  shows "public_addresses (dp_upstream_ips (build_dns_plan url_parse s))"
proof -
  let ?es = "dns_entries url_parse s"
  obtain x where x: "x \<in> set ?es" using entries_public [OF assms] by (cases ?es) auto
  then have "fst (snd x) \<noteq> []" using entries_public [OF assms, of s] by (auto simp: list_all_iff public_addresses_def)
  with x have "concat (map (\<lambda>(_, ips, _). ips) ?es) \<noteq> []" by (auto simp: case_prod_beta)
  moreover have "list_all public_text (concat (map (\<lambda>(_, ips, _). ips) ?es))"
    using entries_public [OF assms, of s] by (fastforce simp: list_all_iff public_addresses_def)
  moreover have "remdups_adj (sort xs) \<noteq> []" if "xs \<noteq> []" for xs :: "string list"
    using that remdups_adj_set [of "sort xs"] by (metis set_empty set_sort)
  ultimately show ?thesis
    by (simp add: build_dns_plan_def Let_def public_addresses_def list_all_iff)
qed

section \<open>Rules\<close>

text \<open>
  The rule that forces the resolvers is the last before the default; what comes before it is the
  capture of queries, the private ranges, the user's applications and sites, and the provider's.
\<close>

lemma route_rules_end:
  "build_route_rules sp lan tag tun target ips rules =
     [dns_rule tag] @ (if lan then [lan_rule] else [])
     @ (if tun = XrayNative then map (app_rule (use_proxy (apps_selective sp) target)) (enabled_apps sp) else [])
     @ (if site_domains sp = [] then [] else [sites_rule (use_proxy (sites_selective sp) target) (site_domains sp)])
     @ rules @ [upstream_rule target ips, default_rule (use_proxy (default_uses_proxy sp tun) target)]"
  by (simp add: build_route_rules_def)

text \<open>The rules of a generated configuration.\<close>

definition config_rules :: "json \<Rightarrow> json list option" where
  "config_rules cfg = Option.bind (json_get ''routing'' cfg) (get_array ''rules'')"

lemma options_no_rules: "map_of (rev (provider_routing_options s)) ''rules'' = None"
  by (auto simp: provider_routing_options_def split: option.splits)

lemma connection_rules:
  "config_rules (connection_config s dns plan sp tun lan level mtu) =
     Some (build_route_rules sp lan (inbound_tag tun) tun (op_target plan) (dp_upstream_ips dns) (op_provider_rules plan))"
  using options_no_rules [of s]
  by (simp add: connection_config_def config_rules_def get_array_def observatory_entries_def optional_entry_def map_add_def
      split: option.splits)

text \<open>The check sees an IPv4 address written as IPv6 as an IPv6 one: \<open>::ffff:192.168.1.1\<close> passes.\<close>

lemma mapped_address_safe: "is_safe_remote_dns_ip (V6 [0, 0, 0, 0, 0, 0xffff, 0xc0a8, 0x0101])"
  by simp

end
