(* ===== verification/Client_Daemon.thy ===== *)
theory Client_Daemon
  imports Server
begin

text \<open>
  \<open>src-tauri/src/daemon_client.rs\<close>: the connection of the desktop to the daemon, starting the
  daemon, and a request with its answer.  \<open>ser\<close> and \<open>de\<close> are \<open>serde_json\<close> on requests and
  responses.
\<close>

section \<open>Errors\<close>

datatype client_error =
    Ce_Io string
  | Ce_Protocol daemon_error_code
  | Ce_Daemon daemon_error_code string
  | Ce_OperationMismatch
  | Ce_Unavailable string
  | Ce_RestartRequired string
  | Ce_Timeout string

definition client_error_of :: "daemon_error \<Rightarrow> client_error" where
  "client_error_of e = Ce_Daemon (de_code e) (de_message e)"

fun code_debug :: "daemon_error_code \<Rightarrow> string" where
  "code_debug UnsupportedVersion = ''UnsupportedVersion''"
| "code_debug FrameTooLarge = ''FrameTooLarge''"
| "code_debug InvalidFrame = ''InvalidFrame''"
| "code_debug Unauthorized = ''Unauthorized''"
| "code_debug HoldBlockFailed = ''HoldBlockFailed''"
| "code_debug HoldBlockVerificationFailed = ''HoldBlockVerificationFailed''"
| "code_debug HoldBlockRemovalFailed = ''HoldBlockRemovalFailed''"
| "code_debug TunnelPreparationFailed = ''TunnelPreparationFailed''"
| "code_debug TunnelCommitFailed = ''TunnelCommitFailed''"
| "code_debug TunnelCleanupFailed = ''TunnelCleanupFailed''"
| "code_debug DnsInstallFailed = ''DnsInstallFailed''"
| "code_debug DnsVerificationFailed = ''DnsVerificationFailed''"
| "code_debug InvalidRequest = ''InvalidRequest''"
| "code_debug XrayUnavailable = ''XrayUnavailable''"
| "code_debug XrayValidationFailed = ''XrayValidationFailed''"
| "code_debug XrayStartFailed = ''XrayStartFailed''"
| "code_debug SplitUnavailable = ''SplitUnavailable''"
| "code_debug PingFailed = ''PingFailed''"
| "code_debug Internal = ''Internal''"

fun client_error_text :: "client_error \<Rightarrow> string" where
  "client_error_text (Ce_Io e) = ''daemon I/O: '' @ e"
| "client_error_text (Ce_Protocol c) = ''daemon protocol: '' @ code_debug c"
| "client_error_text (Ce_Daemon c m) = ''daemon operation: '' @ code_debug c @ '': '' @ m"
| "client_error_text Ce_OperationMismatch = ''daemon response operation ID mismatch''"
| "client_error_text (Ce_Unavailable e) = ''installed daemon is unavailable: '' @ e"
| "client_error_text (Ce_RestartRequired e) = ''restart required: '' @ e"
| "client_error_text (Ce_Timeout w) = ''daemon request timed out while '' @ w"

section \<open>A request\<close>

record daemon_client =
  dc_stream :: nat
  dc_next_operation_id :: u64

record client_codec =
  cc_request :: "request_envelope \<Rightarrow> string option"
  cc_response :: "string \<Rightarrow> response_envelope option"

definition timed :: "os \<Rightarrow> string \<Rightarrow> nat \<Rightarrow> (trace, os_error + 'a) io \<Rightarrow> (trace, client_error + 'a) io" where
  "timed os doing limit f =
     then_io f (\<lambda>r. map_io (\<lambda>over. if over then Err (Ce_Timeout doing) else map_err (\<lambda>e. Ce_Io (err_text e)) r)
       (ask_flag os (DeadlinePassed limit)))"

definition send_frame :: "os \<Rightarrow> nat \<Rightarrow> string \<Rightarrow> (trace, os_error + unit) io" where
  "send_frame os fd bytes =
     try_io (do_call os (WriteBytes fd (be32 (length bytes)))) (\<lambda>_. do_call os (WriteBytes fd bytes))"

definition recv_exact :: "os \<Rightarrow> nat \<Rightarrow> nat \<Rightarrow> (trace, os_error + string) io" where
  "recv_exact os fd n =
     map_io (\<lambda>r. case r of Inl e \<Rightarrow> Inl e | Inr b \<Rightarrow> if length b = n then Inr b else Inl (Os_Error 0 []))
       (ask_text os (ReadExact fd n))"

text \<open>The outcome of a response, given the operation it should answer.\<close>

definition response_outcome :: "u64 \<Rightarrow> response_envelope \<Rightarrow> client_error + daemon_state" where
  "response_outcome i response =
     (if rs_operation_id response \<noteq> i then
        (case rs_result response of
           Inl e \<Rightarrow> Err (client_error_of e)
         | Inr _ \<Rightarrow> Err Ce_OperationMismatch)
      else map_err client_error_of (rs_result response))"

definition exchange :: "os \<Rightarrow> client_codec \<Rightarrow> nat \<Rightarrow> request_envelope \<Rightarrow> (trace, client_error + daemon_state) io" where
  "exchange os cc fd rq =
     try_io (return_io (map_err Ce_Protocol (encode_frame (cc_request cc) rq))) (\<lambda>bytes.
     try_io (timed os ''writing'' 5000 (send_frame os fd bytes)) (\<lambda>_.
     try_io (timed os ''waiting for a response'' 60000 (recv_exact os fd 4)) (\<lambda>header.
     let n = read_be32 header in
     if n > MAX_FRAME_BYTES then return_io (Err (Ce_Protocol FrameTooLarge))
     else try_io (timed os ''reading a response'' 5000 (recv_exact os fd n)) (\<lambda>body.
     return_io (try_then (map_err Ce_Protocol (decode_response_frame (cc_response cc) body))
       (response_outcome (rq_operation_id rq)))))))"

definition next_operation_id :: "u64 \<Rightarrow> u64" where
  "next_operation_id i = max (i + 1) 1"

definition client_request ::
    "os \<Rightarrow> client_codec \<Rightarrow> daemon_command \<Rightarrow> daemon_client
     \<Rightarrow> (trace, (client_error + daemon_state) \<times> daemon_client) io" where
  "client_request os cc command c =
     map_io (\<lambda>r. (r, c\<lparr>dc_next_operation_id := next_operation_id (dc_next_operation_id c)\<rparr>))
       (exchange os cc (dc_stream c)
          \<lparr>rq_version = PROTOCOL_VERSION, rq_operation_id = dc_next_operation_id c, rq_command = command\<rparr>)"

section \<open>Connecting\<close>

definition installed_socket_path :: "nat \<Rightarrow> string" where
  "installed_socket_path uid = ''/run/varmlen/daemon-'' @ dec uid @ ''.sock''"

definition client_connect :: "os \<Rightarrow> string \<Rightarrow> (trace, client_error + daemon_client) io" where
  "client_connect os path =
     try_io (timed os ''connecting'' 5000 (ask_number os (ConnectUnix path))) (\<lambda>fd.
     return_io (Ok \<lparr>dc_stream = fd, dc_next_operation_id = 1\<rparr>))"

definition outdated_daemon :: client_error where
  "outdated_daemon = Ce_RestartRequired
     ''an outdated Varmlen background daemon is still running; reboot once before connecting this build''"

fun is_outdated :: "client_error \<Rightarrow> bool" where
  "is_outdated (Ce_Protocol UnsupportedVersion) = True"
| "is_outdated (Ce_Daemon UnsupportedVersion _) = True"
| "is_outdated _ = False"

fun is_restart_required :: "client_error \<Rightarrow> bool" where
  "is_restart_required (Ce_RestartRequired _) = True"
| "is_restart_required _ = False"

definition connect_compatible :: "os \<Rightarrow> client_codec \<Rightarrow> string \<Rightarrow> (trace, client_error + daemon_client) io" where
  "connect_compatible os cc path =
     try_io (client_connect os path) (\<lambda>c.
     map_io (\<lambda>(r, c'). case r of
         Inr _ \<Rightarrow> Ok c'
       | Inl e \<Rightarrow> Err (if is_outdated e then outdated_daemon else e))
       (client_request os cc Status c))"

definition connect_installed :: "os \<Rightarrow> client_codec \<Rightarrow> nat \<Rightarrow> (trace, client_error + daemon_client) io" where
  "connect_installed os cc uid = connect_compatible os cc (installed_socket_path uid)"

section \<open>Starting the daemon\<close>

definition DAEMON :: string where "DAEMON = ''/usr/libexec/varmlen/varmlend''"

text \<open>\<open>try_wait\<close>: \<open>Done\<close> while the child runs, the text of its status once it exited.\<close>

definition try_wait :: "os \<Rightarrow> nat \<Rightarrow> (trace, os_error + string option) io" where
  "try_wait os child =
     ask_as (\<lambda>r. case r of Text status \<Rightarrow> Some (Some status) | Done \<Rightarrow> Some None | _ \<Rightarrow> None) os (TryWait child)"

text \<open>At most \<open>n\<close> attempts, a tenth of a second apart, as long as the child runs.\<close>

fun await_daemon :: "os \<Rightarrow> client_codec \<Rightarrow> nat \<Rightarrow> nat \<Rightarrow> nat \<Rightarrow> (trace, client_error + daemon_client) io" where
  "await_daemon os cc uid child 0 =
     return_io (Err (Ce_Unavailable ''timed out waiting for the daemon socket''))"
| "await_daemon os cc uid child (Suc n) =
     then_io (connect_installed os cc uid) (\<lambda>r. case r of
       Inr c \<Rightarrow> then_io (ask os (SpawnThread ''wait'')) (\<lambda>_. return_io (Ok c))
     | Inl e \<Rightarrow>
         if is_restart_required e then return_io (Err e)
         else try_io (map_io (map_err (\<lambda>e. Ce_Io (err_text e))) (try_wait os child)) (\<lambda>status. case status of
           Some st \<Rightarrow> return_io (Err (Ce_Unavailable (''daemon startup was cancelled or failed ('' @ st @ '')'')))
         | None \<Rightarrow> then_io (ask os (Sleep 100)) (\<lambda>_. await_daemon os cc uid child n)))"

definition connect_or_start_installed ::
    "os \<Rightarrow> client_codec \<Rightarrow> nat \<Rightarrow> (trace, client_error + daemon_client) io" where
  "connect_or_start_installed os cc uid =
     then_io (connect_installed os cc uid) (\<lambda>r. case r of
       Inr c \<Rightarrow> return_io (Ok c)
     | Inl e \<Rightarrow>
         if is_restart_required e then return_io (Err e)
         else then_io (ask_flag os (IsFile DAEMON)) (\<lambda>there.
         if \<not> there then return_io (Err (Ce_Unavailable (DAEMON @ '' is not installed'')))
         else try_io (map_io (map_err (\<lambda>e. Ce_Unavailable (''could not start pkexec: '' @ err_text e)))
                (ask_number os (StartProgram ''pkexec'' [DAEMON]))) (\<lambda>child.
              await_daemon os cc uid child 150)))"

section \<open>What an answer means\<close>

text \<open>
  The bytes of a frame read back: what the desktop writes is what the daemon's reader gives.
\<close>

lemma be32_digits:
  assumes "n < 2 ^ 32"
  shows "((n div 2 ^ 24 mod 256 * 256 + n div 2 ^ 16 mod 256) * 256 + n div 2 ^ 8 mod 256) * 256 + n mod 256 = (n :: nat)"
proof -
  have parts: "n div 2 ^ 16 = n div 2 ^ 8 div 256" "n div 2 ^ 24 = n div 2 ^ 8 div 256 div 256" "n div 2 ^ 8 = n div 256"
    by (simp_all flip: div_mult2_eq)
  have "n div 256 div 256 div 256 < 256"
    using assms by (simp flip: div_mult2_eq add: less_mult_imp_div_less)
  then have "n div 256 div 256 div 256 mod 256 = n div 256 div 256 div 256" by simp
  then show ?thesis by (simp only: parts div_mult_mod_eq)
qed

lemma read_be32_be32: "n < 2 ^ 32 \<Longrightarrow> read_be32 (be32 n) = n"
  using be32_digits [of n] by (simp add: read_be32_def be32_def of_char_of)

lemma length_be32 [simp]: "length (be32 n) = 4"
  by (simp add: be32_def)

end
