(* ===== verification/Client_Vpn.thy ===== *)
theory Client_Vpn
  imports Client_Daemon Gen_Config Sub_Outbound
begin

text \<open>
  \<open>src-tauri/src/vpn.rs\<close> on Linux: the commands of the user interface that become requests to the
  daemon.  The commands that change the connection hold one lock from start to end, so each is
  one piece.  \<open>None\<close> is a panic.
\<close>

record desktop =
  dk_os :: os
  dk_codec :: client_codec
  dk_parsers :: parsers
  dk_print :: "json \<Rightarrow> string + string"    \<comment> \<open>\<open>serde_json::to_string\<close>\<close>
  dk_pick :: nat
  dk_uid :: nat

definition dk_from_str :: "desktop \<Rightarrow> string \<Rightarrow> json option" where
  "dk_from_str dk t = res_ok (pa_json (dk_parsers dk) t)"

definition dk_url :: "desktop \<Rightarrow> string \<Rightarrow> full_url option" where
  "dk_url dk = url_ok (dk_parsers dk)"

section \<open>Answers\<close>

record helper_response =
  hr_ok :: bool
  hr_state :: string
  hr_pid :: "u32 option"
  hr_error :: "string option"
  hr_rtt_ms :: "u32 option"

definition in_state :: "string \<Rightarrow> helper_response" where
  "in_state st = \<lparr>hr_ok = True, hr_state = st, hr_pid = None, hr_error = None, hr_rtt_ms = None\<rparr>"

definition disconnected_response :: helper_response where
  "disconnected_response = in_state ''disconnected''"

definition dropped_response :: helper_response where
  "dropped_response = in_state ''dropped''"

definition response_from_daemon :: "daemon_state \<Rightarrow> helper_response" where
  "response_from_daemon st =
     (case ds_phase st of
        Connected \<Rightarrow> in_state ''connected''
      | Blocking \<Rightarrow> dropped_response
      | RecoveryRequired \<Rightarrow> dropped_response
      | _ \<Rightarrow> disconnected_response)"

section \<open>Endpoints\<close>

text \<open>The order of \<open>BTreeSet<IpAddr>\<close>: IPv4 before IPv6, each by its value.\<close>

fun ip_order :: "ip_addr \<Rightarrow> nat" where
  "ip_order (V4 a b c d) = ((unat a * 256 + unat b) * 256 + unat c) * 256 + unat d"
| "ip_order (V6 ss) = 2 ^ 32 + foldl (\<lambda>n s. n * 65536 + unat s) 0 ss"

definition ip_set :: "ip_addr list \<Rightarrow> ip_addr list" where
  "ip_set ips = sort_key ip_order (remdups ips)"

definition lookup_endpoint :: "os \<Rightarrow> string \<times> nat \<Rightarrow> (trace, string + ip_addr list) io" where
  "lookup_endpoint os e =
     (case e of (host, port) \<Rightarrow>
        map_io (\<lambda>r. case r of
            Inl err \<Rightarrow> Err (''could not resolve VPN endpoint '' @ host @ '':'' @ dec port @ '': '' @ err_text err)
          | Inr addrs \<Rightarrow> Ok (map snd addrs))
          (ask_addrs os (ResolveHost host (of_nat port))))"

definition checked_ips :: "string \<Rightarrow> ip_addr list \<Rightarrow> string + ip_addr list" where
  "checked_ips label ips =
     (if ips = [] then Err (''VPN location '' @ label @ '' did not resolve to an address'')
      else if length ips > MAX_SERVER_IPS
      then Err (''VPN location resolves to '' @ dec (length ips) @ '' addresses; the safe limit is '' @ dec MAX_SERVER_IPS)
      else Ok ips)"

definition resolve_server_ips :: "desktop \<Rightarrow> vless_server \<Rightarrow> (trace, string + ip_addr list) io" where
  "resolve_server_ips dk s =
     try_io (map_ok (lookup_endpoint (dk_os dk)) (server_endpoints (dk_parsers dk) s)) (\<lambda>found.
     return_io (checked_ips (vs_label s) (ip_set (concat found))))"

section \<open>Connecting\<close>

definition client_mode :: "string \<Rightarrow> string + connection_mode" where
  "client_mode mode =
     (if mode = ''tun'' then Ok Tun
      else if mode = ''proxy'' then Ok Proxy
      else Err (''unsupported VPN mode: '' @ mode))"

definition client_excluded_apps :: "connection_mode \<Rightarrow> split_input \<Rightarrow> string list" where
  "client_excluded_apps m sp = (if m = Tun \<and> \<not> apps_selective sp then enabled_apps sp else [])"

text \<open>\<open>None\<close> where generating panics.\<close>

definition connect_configs ::
    "desktop \<Rightarrow> vless_server \<Rightarrow> split_input \<Rightarrow> string \<Rightarrow> bool \<Rightarrow> string \<Rightarrow> nat \<Rightarrow> (string + string \<times> string) option" where
  "connect_configs dk s sp mode allow_lan level mtu =
     Option.bind (build_xray_config (dk_from_str dk) (dk_url dk) (dk_pick dk) s sp mode XrayNative allow_lan level mtu) (\<lambda>cfg.
     case dk_print dk cfg of
       Inl e \<Rightarrow> Some (Err e)
     | Inr xray \<Rightarrow>
         map_option (\<lambda>r. try_then r (\<lambda>probe. try_then (dk_print dk probe) (\<lambda>validation. Ok (xray, validation))))
           (build_connection_probe_config (dk_from_str dk) (dk_pick dk) s))"

definition connect_request_for ::
    "desktop \<Rightarrow> vless_server \<Rightarrow> split_input \<Rightarrow> connection_mode \<Rightarrow> bool \<Rightarrow> bool \<Rightarrow> string \<times> string
     \<Rightarrow> (trace, string + connect_request) io" where
  "connect_request_for dk s sp m killswitch allow_lan configs =
     try_io (resolve_server_ips dk s) (\<lambda>ips.
     return_io (Ok
       \<lparr>cr_mode = m, cr_xray_config = fst configs, cr_validation_config = snd configs, cr_server_ips = ips,
        cr_excluded_apps = client_excluded_apps m sp, cr_killswitch = killswitch, cr_allow_lan = allow_lan\<rparr>))"

text \<open>A request over a connection, its errors as texts.\<close>

definition asked :: "desktop \<Rightarrow> daemon_command \<Rightarrow> daemon_client \<Rightarrow> (trace, string + daemon_state) io" where
  "asked dk command c =
     map_io (\<lambda>(r, c'). map_err client_error_text r) (client_request (dk_os dk) (dk_codec dk) command c)"

definition started_client :: "desktop \<Rightarrow> (trace, string + daemon_client) io" where
  "started_client dk =
     map_io (map_err client_error_text) (connect_or_start_installed (dk_os dk) (dk_codec dk) (dk_uid dk))"

text \<open>The request of a connect, before it is sent.\<close>

definition vpn_connect_request ::
    "desktop \<Rightarrow> vless_server \<Rightarrow> split_input \<Rightarrow> string \<Rightarrow> bool \<Rightarrow> bool \<Rightarrow> string option \<Rightarrow> nat option
     \<Rightarrow> (trace, (string + connect_request) option) io" where
  "vpn_connect_request dk s sp mode killswitch allow_lan log_level mtu =
     (case validate_server (dk_from_str dk) (dk_pick dk) s of
        None \<Rightarrow> return_io None
      | Some (Inl e) \<Rightarrow> return_io (Some (Err e))
      | Some (Inr _) \<Rightarrow>
          (case client_mode mode of
             Inl e \<Rightarrow> return_io (Some (Err e))
           | Inr m \<Rightarrow>
               (case connect_configs dk s sp mode allow_lan (unwrap_or ''warn'' log_level) (tun_mtu mtu) of
                  None \<Rightarrow> return_io None
                | Some (Inl e) \<Rightarrow> return_io (Some (Err e))
                | Some (Inr configs) \<Rightarrow> map_io Some (connect_request_for dk s sp m killswitch allow_lan configs))))"

definition send_connect :: "desktop \<Rightarrow> connect_request \<Rightarrow> (trace, string + helper_response) io" where
  "send_connect dk r =
     try_io (started_client dk) (\<lambda>c.
     try_io (asked dk (Connect r) c) (\<lambda>st. return_io (Ok (response_from_daemon st))))"

definition vpn_connect ::
    "desktop \<Rightarrow> vless_server \<Rightarrow> split_input \<Rightarrow> string \<Rightarrow> bool \<Rightarrow> bool \<Rightarrow> string option \<Rightarrow> nat option
     \<Rightarrow> (trace, (string + helper_response) option) io" where
  "vpn_connect dk s sp mode killswitch allow_lan log_level mtu =
     then_io (vpn_connect_request dk s sp mode killswitch allow_lan log_level mtu) (\<lambda>r. case r of
       None \<Rightarrow> return_io None
     | Some (Inl e) \<Rightarrow> return_io (Some (Err e))
     | Some (Inr request) \<Rightarrow> map_io Some (send_connect dk request))"

section \<open>The other commands\<close>

text \<open>A command to a daemon that runs; another value when none can be reached.\<close>

definition with_running ::
    "desktop \<Rightarrow> 'a \<Rightarrow> daemon_command \<Rightarrow> (string + daemon_state \<Rightarrow> 'a) \<Rightarrow> (trace, 'a) io" where
  "with_running dk absent command f =
     then_io (connect_installed (dk_os dk) (dk_codec dk) (dk_uid dk)) (\<lambda>r. case r of
       Inl _ \<Rightarrow> return_io absent
     | Inr c \<Rightarrow> map_io f (asked dk command c))"

definition vpn_disconnect :: "desktop \<Rightarrow> (trace, string + helper_response) io" where
  "vpn_disconnect dk =
     with_running dk (Ok disconnected_response) Disconnect (\<lambda>r. try_then r (\<lambda>st. Ok (response_from_daemon st)))"

definition vpn_apply_split :: "desktop \<Rightarrow> split_input \<Rightarrow> (trace, string + bool) io" where
  "vpn_apply_split dk sp =
     with_running dk (Ok False) (UpdateSplit (if apps_selective sp then [] else enabled_apps sp)) (\<lambda>r. Ok (is_ok r))"

definition vpn_status :: "desktop \<Rightarrow> (trace, string + helper_response) io" where
  "vpn_status dk =
     with_running dk (Ok disconnected_response) Status (\<lambda>r. try_then r (\<lambda>st. Ok (response_from_daemon st)))"

definition vpn_log :: "desktop \<Rightarrow> (trace, string + string) io" where
  "vpn_log dk = with_running dk (Ok []) LogTail (\<lambda>r. try_then r (\<lambda>st. Ok (unwrap_or [] (ds_log_tail st))))"

definition clear_vpn_log :: "desktop \<Rightarrow> (trace, string + unit) io" where
  "clear_vpn_log dk =
     try_io (map_io (map_err client_error_text) (connect_installed (dk_os dk) (dk_codec dk) (dk_uid dk))) (\<lambda>c.
     try_io (asked dk ClearLog c) (\<lambda>_. return_io (Ok ())))"

definition tcp_ping_host :: "desktop \<Rightarrow> string \<Rightarrow> u16 \<Rightarrow> u32 option \<Rightarrow> (trace, string + u32) io" where
  "tcp_ping_host dk host port timeout_ms =
     try_io (started_client dk) (\<lambda>c.
     try_io (asked dk (TcpPing \<lparr>tp_host = host, tp_port = port, tp_timeout_ms = unwrap_or 2500 timeout_ms\<rparr>) c) (\<lambda>st.
     return_io (ok_or ''daemon did not return a TCP RTT'' (ds_rtt_ms st))))"

section \<open>Ping of a location\<close>

definition LEGACY_MAX_PING_TIMEOUT_MS :: u32 where "LEGACY_MAX_PING_TIMEOUT_MS = 10000"

text \<open>The ports and the configuration of the first request; \<open>None\<close> where generating panics.\<close>

definition ping_documents :: "desktop \<Rightarrow> vless_server \<Rightarrow> (string + nat list \<times> string) option" where
  "ping_documents dk s =
     (case ping_placeholder_ports (dk_from_str dk) (dk_pick dk) s of
        None \<Rightarrow> None
      | Some (Inl e) \<Rightarrow> Some (Err e)
      | Some (Inr ports) \<Rightarrow>
          map_option (\<lambda>r. try_then r (\<lambda>cfg. try_then (dk_print dk cfg) (\<lambda>text. Ok (ports, text))))
            (build_ping_config (dk_from_str dk) (dk_pick dk) s ports))"

definition ping_request :: "desktop \<Rightarrow> vless_server \<Rightarrow> nat list \<Rightarrow> string \<Rightarrow> u32 \<Rightarrow> proxy_ping_request" where
  "ping_request dk s ports config timeout_ms =
     \<lparr>pp_xray_config = config, pp_socks_port = of_nat (hd ports), pp_socks_ports = map of_nat ports,
      pp_dns_probe_urls = client_dns_probe_urls (dk_url dk) s, pp_timeout_ms = timeout_ms\<rparr>"

definition legacy_ping_request :: "desktop \<Rightarrow> vless_server \<Rightarrow> nat list \<Rightarrow> string \<Rightarrow> u32 \<Rightarrow> proxy_ping_request" where
  "legacy_ping_request dk s ports config timeout_ms =
     (ping_request dk s ports config timeout_ms)
       \<lparr>pp_socks_ports := [], pp_timeout_ms := min timeout_ms LEGACY_MAX_PING_TIMEOUT_MS\<rparr>"

fun is_invalid_request :: "client_error \<Rightarrow> bool" where
  "is_invalid_request (Ce_Daemon InvalidRequest _) = True"
| "is_invalid_request _ = False"

definition ping_again ::
    "desktop \<Rightarrow> vless_server \<Rightarrow> nat list \<Rightarrow> u32 \<Rightarrow> daemon_client \<Rightarrow> (trace, (string + daemon_state) option) io" where
  "ping_again dk s ports timeout_ms c =
     (case build_legacy_ping_config (dk_from_str dk) (dk_pick dk) s (hd ports) of
        None \<Rightarrow> return_io None
      | Some r \<Rightarrow>
          (case try_then r (dk_print dk) of
             Inl e \<Rightarrow> return_io (Some (Err e))
           | Inr config \<Rightarrow> map_io Some (asked dk (ProxyPing (legacy_ping_request dk s ports config timeout_ms)) c)))"

definition send_ping ::
    "desktop \<Rightarrow> vless_server \<Rightarrow> nat list \<Rightarrow> string \<Rightarrow> u32 \<Rightarrow> daemon_client \<Rightarrow> (trace, (string + daemon_state) option) io" where
  "send_ping dk s ports config timeout_ms c =
     then_io (client_request (dk_os dk) (dk_codec dk) (ProxyPing (ping_request dk s ports config timeout_ms)) c)
       (\<lambda>(r, c'). case r of
          Inr st \<Rightarrow> return_io (Some (Ok st))
        | Inl e \<Rightarrow>
            if is_invalid_request e then ping_again dk s ports timeout_ms c'
            else return_io (Some (Err (client_error_text e))))"

definition proxy_get_ping ::
    "desktop \<Rightarrow> vless_server \<Rightarrow> u32 option \<Rightarrow> (trace, (string + u32) option) io" where
  "proxy_get_ping dk s timeout_ms =
     (case validate_server (dk_from_str dk) (dk_pick dk) s of
        None \<Rightarrow> return_io None
      | Some (Inl e) \<Rightarrow> return_io (Some (Err e))
      | Some (Inr _) \<Rightarrow>
          (case ping_documents dk s of
             None \<Rightarrow> return_io None
           | Some (Inl e) \<Rightarrow> return_io (Some (Err e))
           | Some (Inr (ports, config)) \<Rightarrow>
               then_io (started_client dk) (\<lambda>r. case r of
                 Inl e \<Rightarrow> return_io (Some (Err e))
               | Inr c \<Rightarrow>
                   map_io (map_option (\<lambda>r. try_then r (\<lambda>st.
                       ok_or ''daemon did not return an HTTP RTT'' (ds_rtt_ms st))))
                     (send_ping dk s ports config (unwrap_or 5000 timeout_ms) c))))"

section \<open>Traffic\<close>

record tunnel_stats =
  ts_tx_bytes :: nat
  ts_rx_bytes :: nat
  ts_since_unix :: "nat option"

definition stats_counter :: "os \<Rightarrow> string \<Rightarrow> string \<Rightarrow> (trace, nat option) io" where
  "stats_counter os root name =
     map_io (\<lambda>r. Option.bind (res_ok r) (\<lambda>t. if valid_utf8 t then parse_u64 (trim t) else None))
       (ask_text os (ReadFile (root @ ''/'' @ TUN_NAME @ ''/statistics/'' @ name)))"

text \<open>\<open>ModifiedAt\<close> answers the seconds since the epoch, when the clock was not before it.\<close>

definition read_tunnel_stats :: "os \<Rightarrow> string \<Rightarrow> (trace, tunnel_stats option) io" where
  "read_tunnel_stats os root =
     then_io (map_io res_ok (ask_number os (ModifiedAt (root @ ''/'' @ TUN_NAME)))) (\<lambda>appeared.
     then_io (stats_counter os root ''tx_bytes'') (\<lambda>tx. case tx of
       None \<Rightarrow> return_io None
     | Some tx_bytes \<Rightarrow>
         map_io (map_option (\<lambda>rx_bytes. \<lparr>ts_tx_bytes = tx_bytes, ts_rx_bytes = rx_bytes, ts_since_unix = appeared\<rparr>))
           (stats_counter os root ''rx_bytes'')))"

definition tunnel_stats_now :: "os \<Rightarrow> (trace, tunnel_stats option) io" where
  "tunnel_stats_now os = read_tunnel_stats os ''/sys/class/net''"

end
