(* ===== verification/Client_Shell.thy ===== *)
theory Client_Shell
  imports Client_Vpn
begin

text \<open>
  The parts of the desktop shell with logic of their own: the budget of page reloads
  (\<open>webview_recovery.rs\<close>), the autostart entry, closing and quitting (\<open>tray.rs\<close>).
\<close>

section \<open>Reloading the page\<close>

definition MAX_RELOADS :: nat where "MAX_RELOADS = 3"
definition RELOAD_WINDOW :: nat where "RELOAD_WINDOW = 120000"

text \<open>
  The times of recent reloads, oldest first, in milliseconds of a clock that does not go back;
  \<open>duration_since\<close> of a later time is nothing.
\<close>

type_synonym reload_budget = "nat list"

definition budget_take :: "nat \<Rightarrow> reload_budget \<Rightarrow> bool \<times> reload_budget" where
  "budget_take now recent =
     (let kept = dropWhile (\<lambda>t. now - t \<ge> RELOAD_WINDOW) recent in
      if length kept \<ge> MAX_RELOADS then (False, kept) else (True, kept @ [now]))"

datatype termination_reason = Crashed | ExceededMemoryLimit | TerminatedByApi

text \<open>The handler: whether the page is reloaded.\<close>

definition web_process_terminated :: "termination_reason \<Rightarrow> nat \<Rightarrow> reload_budget \<Rightarrow> bool \<times> reload_budget" where
  "web_process_terminated reason now recent =
     (if reason = TerminatedByApi then (False, recent) else budget_take now recent)"

fun terminations :: "(termination_reason \<times> nat) list \<Rightarrow> reload_budget \<Rightarrow> nat list" where
  "terminations [] recent = []"
| "terminations ((reason, now) # es) recent =
     (case web_process_terminated reason now recent of
        (reload, recent') \<Rightarrow> (if reload then [now] else []) @ terminations es recent')"

section \<open>Autostart\<close>

record autostart_status =
  as_enabled :: bool
  as_minimized :: bool

text \<open>\<open>var_os\<close> of a variable, then the path of the entry.\<close>

definition autostart_path :: "os \<Rightarrow> (trace, string option) io" where
  "autostart_path os =
     then_io (ask_text os (GetEnv ''XDG_CONFIG_HOME'')) (\<lambda>xdg. case xdg of
       Inr base \<Rightarrow> return_io (Some (base @ ''/autostart/varmlen.desktop''))
     | Inl _ \<Rightarrow>
         map_io (\<lambda>home. map_option (\<lambda>h. h @ ''/.config/autostart/varmlen.desktop'') (res_ok home))
           (ask_text os (GetEnv ''HOME'')))"

definition autostart_status_of :: "os \<Rightarrow> (trace, autostart_status) io" where
  "autostart_status_of os =
     then_io (autostart_path os) (\<lambda>p. case p of
       None \<Rightarrow> return_io \<lparr>as_enabled = False, as_minimized = False\<rparr>
     | Some path \<Rightarrow>
         map_io (\<lambda>r. case r of
             Inr c \<Rightarrow> \<lparr>as_enabled = valid_utf8 c, as_minimized = valid_utf8 c \<and> str_contains ''--minimized'' c\<rparr>
           | Inl _ \<Rightarrow> \<lparr>as_enabled = False, as_minimized = False\<rparr>)
           (ask_text os (ReadFile path)))"

definition autostart_exec :: "string \<Rightarrow> bool \<Rightarrow> string" where
  "autostart_exec exe minimized = (if minimized then exe @ '' --minimized'' else exe)"

definition autostart_entry :: "string \<Rightarrow> string" where
  "autostart_entry exec =
     concat (map (\<lambda>l. l @ [newline])
       [''[Desktop Entry]'', ''Type=Application'', ''Name=Varmlen'', ''GenericName=VPN Client'', ''Icon=varmlen'',
        ''Exec='' @ exec, ''Terminal=false'', ''Categories=Network;Security;'', ''X-GNOME-Autostart-enabled=true''])"

text \<open>The directory of the entry is its path without the name of the file.\<close>

definition autostart_dir :: "string \<Rightarrow> string" where
  "autostart_dir path = take (length path - length ''/varmlen.desktop'') path"

definition set_autostart :: "os \<Rightarrow> (string + string) \<Rightarrow> bool \<Rightarrow> bool \<Rightarrow> (trace, string + unit) io" where
  "set_autostart os current_exe enabled minimized =
     then_io (autostart_path os) (\<lambda>p. case p of
       None \<Rightarrow> return_io (Err ''no config dir'')
     | Some path \<Rightarrow>
         if \<not> enabled then then_io (ask os (RemoveFile path)) (\<lambda>_. return_io (Ok ()))
         else try_io (return_io (map_err (\<lambda>e. ''current exe: '' @ e) current_exe)) (\<lambda>exe.
              try_io (map_io (map_err (\<lambda>e. ''autostart dir: '' @ err_text e)) (do_call os (MakeDirAll (autostart_dir path)))) (\<lambda>_.
              map_io (map_err (\<lambda>e. ''write autostart: '' @ err_text e))
                (do_call os (WriteFile path (autostart_entry (autostart_exec exe minimized)))))))"

section \<open>Closing and quitting\<close>

datatype close_action = Hide_Window | Quit_App

text \<open>The flag starts as \<open>True\<close>.\<close>

definition on_close_requested :: "bool \<Rightarrow> close_action" where
  "on_close_requested close_to_tray = (if close_to_tray then Hide_Window else Quit_App)"

definition launched_minimized :: "string list \<Rightarrow> bool" where
  "launched_minimized args = list_ex (\<lambda>a. a = ''--minimized'') args"

text \<open>Quitting disconnects, whatever comes of it, and exits after a moment.\<close>

definition quit_app :: "desktop \<Rightarrow> (trace, unit) io" where
  "quit_app dk = then_io (vpn_disconnect dk) (\<lambda>_. map_io (\<lambda>_. ()) (ask (dk_os dk) (Sleep 200)))"

section \<open>The budget holds\<close>

text \<open>Times that never go back; a budget is the recent reloads in that order.\<close>

lemma budget_take_sorted:
  assumes "sorted recent" and "\<forall>t \<in> set recent. t \<le> now"
  shows "sorted (snd (budget_take now recent)) \<and> (\<forall>t \<in> set (snd (budget_take now recent)). t \<le> now)"
  using assms
  by (auto simp: budget_take_def Let_def sorted_append sorted_dropWhile dest: set_dropWhileD)

end
