(* ===== verification/Client_Fetch.thy ===== *)
theory Client_Fetch
  imports Sub_Body Gen_Dns_Props Os
begin

text \<open>
  \<open>src-tauri/src/lib.rs\<close>: fetching a subscription.  Which addresses are refused, the redirects the
  code follows by itself, the headers it sends, the bound on a body, and the result.
\<close>

section \<open>Refused addresses\<close>

definition is_private_v4 :: "u8 \<Rightarrow> u8 \<Rightarrow> bool" where
  "is_private_v4 a b = (a = 10 \<or> (a = 172 \<and> b AND 0xf0 = 16) \<or> (a = 192 \<and> b = 168))"

definition blocked_v4 :: "u8 \<Rightarrow> u8 \<Rightarrow> u8 \<Rightarrow> u8 \<Rightarrow> bool" where
  "blocked_v4 a b c d =
     (is_loopback (V4 a b c d) \<or> is_private_v4 a b \<or> is_link_local_v4 (V4 a b c d)
      \<or> is_unspecified (V4 a b c d) \<or> (a = 255 \<and> b = 255 \<and> c = 255 \<and> d = 255) \<or> is_multicast (V4 a b c d)
      \<or> a = 0 \<or> (a = 100 \<and> 64 \<le> b \<and> b \<le> 127) \<or> (a = 192 \<and> b = 0 \<and> c = 0) \<or> (a = 192 \<and> b = 0 \<and> c = 2)
      \<or> (a = 198 \<and> (b = 18 \<or> b = 19)) \<or> (a = 198 \<and> b = 51 \<and> c = 100) \<or> (a = 203 \<and> b = 0 \<and> c = 113)
      \<or> 240 \<le> a)"

text \<open>\<open>to_ipv4_mapped\<close>: the IPv4 address of \<open>::ffff:a.b.c.d\<close>.\<close>

definition ipv4_mapped :: "u16 list \<Rightarrow> (u8 \<times> u8 \<times> u8 \<times> u8) option" where
  "ipv4_mapped ss =
     (case ss of
        [s0, s1, s2, s3, s4, s5, s6, s7] \<Rightarrow>
          if s0 = 0 \<and> s1 = 0 \<and> s2 = 0 \<and> s3 = 0 \<and> s4 = 0 \<and> s5 = 0xffff
          then Some (ucast (drop_bit 8 s6), ucast s6, ucast (drop_bit 8 s7), ucast s7) else None
      | _ \<Rightarrow> None)"

text \<open>The octets the code tests are the halves of the first two segments.\<close>

definition first_octets :: "u16 list \<Rightarrow> u8 \<times> u8 \<times> u8 \<times> u8" where
  "first_octets ss =
     (case ss of
        s0 # s1 # _ \<Rightarrow> (ucast (drop_bit 8 s0), ucast s0, ucast (drop_bit 8 s1), ucast s1)
      | _ \<Rightarrow> (0, 0, 0, 0))"

fun is_blocked_ip :: "ip_addr \<Rightarrow> bool" where
  "is_blocked_ip (V4 a b c d) = blocked_v4 a b c d"
| "is_blocked_ip (V6 ss) =
     (case ipv4_mapped ss of
        Some (a, b, c, d) \<Rightarrow> blocked_v4 a b c d
      | None \<Rightarrow>
          (case first_octets ss of (o0, o1, o2, o3) \<Rightarrow>
             is_loopback (V6 ss) \<or> is_unspecified (V6 ss) \<or> is_multicast (V6 ss)
             \<or> o0 AND 0xfe = 0xfc \<or> (o0 = 0xfe \<and> o1 AND 0xc0 = 0x80)
             \<or> (o0 = 0x20 \<and> o1 = 0x01 \<and> o2 = 0x0d \<and> o3 = 0xb8)))"

definition trim_char :: "char \<Rightarrow> string \<Rightarrow> string" where
  "trim_char c s = dropWhile (\<lambda>x. x = c) s"

definition trim_char_end :: "char \<Rightarrow> string \<Rightarrow> string" where
  "trim_char_end c s = rev (dropWhile (\<lambda>x. x = c) (rev s))"

definition is_blocked_host :: "string \<Rightarrow> bool" where
  "is_blocked_host host =
     (let h = to_lower (trim_char_end (CHR '']'') (trim_char (CHR ''['') (trim host))) in
      h = ''localhost'' \<or> ends_with ''.localhost'' h
      \<or> (case parse_ip h of None \<Rightarrow> False | Some ip \<Rightarrow> is_blocked_ip ip))"

section \<open>Following redirects\<close>

definition MAX_REDIRECTS :: nat where "MAX_REDIRECTS = 5"

text \<open>
  The HTTP client: joining a reference to a URL is a parameter.  An answer is its status, how it is
  displayed, and its headers as far as they are text, by lower-case name.
\<close>

type_synonym url_join = "full_url \<Rightarrow> string \<Rightarrow> string + full_url"

record http_answer =
  ha_status :: nat
  ha_shown :: string
  ha_headers :: "(string \<times> string) list"
  ha_length :: "nat option"

fun as_answer :: "reply \<Rightarrow> http_answer option" where
  "as_answer (Answer st shown headers len) =
     Some \<lparr>ha_status = st, ha_shown = shown, ha_headers = headers, ha_length = len\<rparr>"
| "as_answer _ = None"

definition answer_header :: "http_answer \<Rightarrow> string \<Rightarrow> string option" where
  "answer_header a name = map_of (ha_headers a) name"

definition is_redirection :: "http_answer \<Rightarrow> bool" where
  "is_redirection a = (300 \<le> ha_status a \<and> ha_status a < 400)"

definition is_success :: "http_answer \<Rightarrow> bool" where
  "is_success a = (200 \<le> ha_status a \<and> ha_status a < 300)"

definition port_or_known_default :: "full_url \<Rightarrow> nat option" where
  "port_or_known_default u =
     (case fu_port u of
        Some p \<Rightarrow> Some p
      | None \<Rightarrow> if fu_scheme u = ''http'' then Some 80 else if fu_scheme u = ''https'' then Some 443 else None)"

text \<open>What is checked of a URL before anything is resolved: its host and port.\<close>

definition fetch_target :: "full_url \<Rightarrow> string + string \<times> nat" where
  "fetch_target u =
     (if fu_scheme u \<noteq> ''http'' \<and> fu_scheme u \<noteq> ''https'' then Err (''unsupported URL scheme: '' @ fu_scheme u)
      else if fu_username u \<noteq> [] \<or> fu_password u \<noteq> None
      then Err ''subscription URLs with embedded credentials are not permitted''
      else (case fu_host u of
              None \<Rightarrow> Err ''refusing to fetch a loopback/private address''
            | Some host \<Rightarrow>
                if is_blocked_host host then Err ''refusing to fetch a loopback/private address''
                else try_then (ok_or ''subscription URL has no usable port'' (port_or_known_default u))
                       (\<lambda>port. Ok (host, port))))"

definition resolve_public :: "os \<Rightarrow> string \<times> nat \<Rightarrow> (trace, string + ip_addr list) io" where
  "resolve_public os target =
     map_io (\<lambda>r. case r of
         Inl e \<Rightarrow> Err (''subscription host resolution failed: '' @ err_text e)
       | Inr addrs \<Rightarrow>
           if addrs = [] \<or> list_ex (\<lambda>(_, ip). is_blocked_ip ip) addrs
           then Err ''refusing to fetch a host that resolves to a non-public address''
           else Ok (map snd addrs))
       (ask_addrs os (ResolveHost (fst target) (of_nat (snd target))))"

definition http_get :: "os \<Rightarrow> full_url \<Rightarrow> string \<Rightarrow> string \<Rightarrow> ip_addr list \<Rightarrow> (trace, string + http_answer) io" where
  "http_get os u agent device addresses =
     map_io (map_err (\<lambda>e. ''request failed: '' @ err_text e))
       (ask_as as_answer os (HttpGet (fu_text u) [(''User-Agent'', agent), (''X-Device-OS'', device)] addresses))"

definition fetch_one :: "os \<Rightarrow> full_url \<Rightarrow> string \<Rightarrow> string \<Rightarrow> (trace, string + http_answer) io" where
  "fetch_one os u agent device =
     try_io (return_io (fetch_target u)) (\<lambda>target.
     try_io (resolve_public os target) (\<lambda>addresses.
     http_get os u agent device addresses))"

definition redirect_target :: "url_join \<Rightarrow> full_url \<Rightarrow> http_answer \<Rightarrow> string + full_url" where
  "redirect_target join_url u a =
     try_then (ok_or ''redirect response has no valid Location header'' (answer_header a ''location'')) (\<lambda>location.
     map_err (\<lambda>e. ''invalid redirect URL: '' @ e) (join_url u location))"

text \<open>\<open>n\<close> redirects may still be followed.\<close>

fun fetch_from :: "os \<Rightarrow> url_join \<Rightarrow> string \<Rightarrow> string \<Rightarrow> nat \<Rightarrow> full_url \<Rightarrow> (trace, string + http_answer) io" where
  "fetch_from os join_url agent device n u =
     try_io (fetch_one os u agent device) (\<lambda>a.
     if \<not> is_redirection a then return_io (Ok a)
     else (case n of
             0 \<Rightarrow> return_io (Err ''too many redirects'')
           | Suc m \<Rightarrow> try_io (return_io (redirect_target join_url u a)) (fetch_from os join_url agent device m)))"

declare fetch_from.simps [simp del]

definition fetch_subscription_response ::
    "os \<Rightarrow> url_join \<Rightarrow> string \<Rightarrow> string \<Rightarrow> full_url \<Rightarrow> (trace, string + http_answer) io" where
  "fetch_subscription_response os join_url agent device u = fetch_from os join_url agent device MAX_REDIRECTS u"

lemma as_addrs_Some [simp]: "as_addrs r = Some xs \<longleftrightarrow> r = Addrs xs"
  by (cases r) auto

section \<open>The body\<close>

definition MAX_SUB_BYTES :: nat where "MAX_SUB_BYTES = 8 * 1024 * 1024"

text \<open>
  Pieces are read until the end (\<open>Done\<close>), a failure, or too much.  A body that never ends within the
  bound of bytes has pieces without bytes; \<open>None\<close> when \<open>fuel\<close> pieces were not enough.
\<close>

fun read_body :: "os \<Rightarrow> nat \<Rightarrow> string \<Rightarrow> (trace, (string + string) option) io" where
  "read_body os 0 buf = return_io None"
| "read_body os (Suc fuel) buf =
     then_io (ask os HttpChunk) (\<lambda>r. case r of
       Done \<Rightarrow> return_io (Some (Ok buf))
     | Text chunk \<Rightarrow>
         if length (buf @ chunk) > MAX_SUB_BYTES then return_io (Some (Err ''subscription exceeded size limit''))
         else read_body os fuel (buf @ chunk)
     | _ \<Rightarrow> return_io (Some (Err (''read body: '' @ err_text (failure_of r)))))"

section \<open>Headers of the request\<close>

definition subscription_headers :: "string \<Rightarrow> string option \<Rightarrow> string + string \<times> string" where
  "subscription_headers arch choice =
     try_then
       (let c = unwrap_or ''varmlen'' choice in
        if c = ''varmlen'' then Ok ''Varmlen''
        else if c = ''happ'' then Ok ''Happ''
        else if c = ''incy'' then Ok ''INCY''
        else Err ''unsupported subscription User-Agent'')
       (\<lambda>brand. Ok (brand @ ''/Linux/'' @ arch, ''linux''))"

definition target_arch :: "string \<Rightarrow> string" where
  "target_arch arch = (if arch = ''aarch64'' then ''arm64'' else arch)"

section \<open>Importing\<close>

record import_result =
  ir_meta :: subscription_meta
  ir_servers :: "vless_server list"
  ir_description :: "string option"
  ir_source_json :: "string option"

definition no_meta :: subscription_meta where
  "no_meta =
     \<lparr>sm_title = None, sm_update_interval_hours = None, sm_upload_bytes = None, sm_download_bytes = None,
      sm_total_bytes = None, sm_expires_at_unix = None, sm_has_userinfo = False, sm_support_url = None,
      sm_web_page_url = None\<rparr>"

definition only_servers :: "vless_server list \<Rightarrow> import_result" where
  "only_servers servers = \<lparr>ir_meta = no_meta, ir_servers = servers, ir_description = None, ir_source_json = None\<rparr>"

text \<open>The dash of the messages, in UTF-8, and the quotation mark.\<close>

definition em_dash :: string where "em_dash = map char_of [0xe2, 0x80, 0x94 :: nat]"
definition quote_mark :: string where "quote_mark = [char_of (39 :: nat)]"

fun parse_error_text :: "parse_error \<Rightarrow> string" where
  "parse_error_text (Invalid_Uri e) = ''invalid URI: '' @ e"
| "parse_error_text (Unsupported_Scheme sc) = ''unsupported scheme '' @ quote_mark @ sc @ quote_mark"
| "parse_error_text Missing_Credentials = ''missing credentials''"
| "parse_error_text Missing_Host = ''missing host''"
| "parse_error_text Missing_Port = ''missing port''"
| "parse_error_text Balancer_Entry = ''auto-select / balancer entry '' @ em_dash @ '' not a connectable server''"

definition parse_vless_uri :: "parsers \<Rightarrow> string \<Rightarrow> string + vless_server" where
  "parse_vless_uri pa uri = map_err parse_error_text (parse_proxy_uri pa uri)"

definition parse_subscription_body :: "parsers \<Rightarrow> string \<Rightarrow> vless_server list" where
  "parse_subscription_body pa body = parse_subscription pa body"

text \<open>What was pasted instead of a URL: JSON, one link or several.\<close>

definition import_pasted :: "parsers \<Rightarrow> string \<Rightarrow> (string + import_result) option" where
  "import_pasted pa t =
     (if starts_with ''{'' t \<or> starts_with ''['' t then
        (let servers = snd (parse_json_subscription pa t) in
         Some (if servers = [] then Err ''no servers found in the JSON''
               else Ok ((only_servers servers)\<lparr>ir_source_json := Some t\<rparr>)))
      else if is_supported_uri t then
        Some (if 1 < length (filter (\<lambda>l. is_supported_uri (trim l)) (str_lines t)) then
                (let servers = parse_subscription pa t in
                 if servers = [] then Err ''no servers found'' else Ok (only_servers servers))
              else try_then (parse_vless_uri pa t) (\<lambda>s. Ok (only_servers [s])))
      else None)"

text \<open>What a response with its whole body gives.\<close>

definition trim_marks :: "string \<Rightarrow> string" where
  "trim_marks s = trim (concat (dropWhile (\<lambda>g. g = byte_order_mark) (utf8_chars s)))"

definition import_body :: "parsers \<Rightarrow> http_answer \<Rightarrow> string \<Rightarrow> import_result" where
  "import_body pa a bytes =
     (let body = from_utf8_lossy bytes;
          trimmed = trim_marks body;
          (inline, note) = parse_body_meta pa body;
          get = (\<lambda>name. or_option (answer_header a name) (inline name));
          announce = non_empty (map_option (\<lambda>t. trim (decode_maybe_b64 pa t)) (get ''announce''))
      in \<lparr>ir_meta = parse_headers pa get, ir_servers = parse_subscription pa body,
          ir_description = or_option note announce,
          ir_source_json = (if is_ok (pa_json pa trimmed) then Some trimmed else None)\<rparr>)"

definition receive_subscription ::
    "os \<Rightarrow> parsers \<Rightarrow> nat \<Rightarrow> http_answer \<Rightarrow> (trace, (string + import_result) option) io" where
  "receive_subscription os pa fuel a =
     (if \<not> is_success a then return_io (Some (Err (''HTTP '' @ ha_shown a)))
      else if (case ha_length a of None \<Rightarrow> False | Some n \<Rightarrow> n > MAX_SUB_BYTES)
      then return_io (Some (Err ''subscription too large''))
      else map_io (map_option (\<lambda>r. try_then r (\<lambda>bytes. Ok (import_body pa a bytes)))) (read_body os fuel []))"

definition fetch_subscription ::
    "os \<Rightarrow> parsers \<Rightarrow> url_join \<Rightarrow> string \<Rightarrow> nat \<Rightarrow> string \<Rightarrow> string option \<Rightarrow> (trace, (string + import_result) option) io" where
  "fetch_subscription os pa join_url arch fuel url choice =
     (let t = trim url in
      if t = [] then return_io (Some (Err ''empty URL''))
      else (case import_pasted pa t of
              Some r \<Rightarrow> return_io (Some r)
            | None \<Rightarrow>
                (case try_then (map_err (\<lambda>e. ''bad URL: '' @ e) (pa_url pa t)) (\<lambda>u.
                        try_then (subscription_headers (target_arch arch) choice) (\<lambda>h. Ok (u, h))) of
                   Inl e \<Rightarrow> return_io (Some (Err e))
                 | Inr (u, agent, device) \<Rightarrow>
                     then_io (fetch_subscription_response os join_url agent device u) (\<lambda>r. case r of
                       Inl e \<Rightarrow> return_io (Some (Err e))
                     | Inr a \<Rightarrow> receive_subscription os pa fuel a))))"

end
