(* ===== verification/Client_Core.thy ===== *)
theory Client_Core
  imports Client_Fetch Gen_Outbound
begin

text \<open>
  \<open>src-tauri/src/core.rs\<close>: the versions of Xray the user keeps, their installation from a release,
  which one is active, and their removal.  The progress events of a download are left out.  \<open>dir\<close> is the data directory of the application,
  \<open>sha\<close> the digest and \<open>unzip\<close> the archive reader, which are libraries.  There is one kind of core.
\<close>

section \<open>Tags\<close>

definition parse_core_kind :: "string \<Rightarrow> string + unit" where
  "parse_core_kind k = (if k = ''xray'' then Ok () else Err (''unknown core kind: '' @ k))"

definition strip_v :: "string \<Rightarrow> string" where
  "strip_v tag = unwrap_or tag (strip_prefix ''v'' tag)"

definition tag_char :: "char \<Rightarrow> bool" where
  "tag_char c = (is_alnum c \<or> c = CHR ''.'' \<or> c = CHR ''-'' \<or> c = CHR ''+'' \<or> c = CHR ''_'')"

definition valid_tag :: "string \<Rightarrow> bool" where
  "valid_tag tag =
     (let t = strip_v tag in
      t \<noteq> [] \<and> length t \<le> 64 \<and> t \<noteq> ''.'' \<and> t \<noteq> ''..'' \<and> list_all tag_char t)"

text \<open>The numbers of a version; what does not fit 32 bits is left out.\<close>

fun digit_runs :: "string \<Rightarrow> string \<Rightarrow> string list" where
  "digit_runs run [] = [run]"
| "digit_runs run (c # cs) =
     (if is_digit c then digit_runs (run @ [c]) cs else run # digit_runs [] cs)"

definition version_parts :: "string \<Rightarrow> nat list" where
  "version_parts t = List.map_filter parse_u32 (filter (\<lambda>p. p \<noteq> []) (digit_runs [] (strip_v t)))"

fun parts_less :: "nat list \<Rightarrow> nat list \<Rightarrow> bool" where
  "parts_less _ [] = False"
| "parts_less [] (y # ys) = True"
| "parts_less (x # xs) (y # ys) = (x < y \<or> (x = y \<and> parts_less xs ys))"

definition version_newer :: "string \<Rightarrow> string \<Rightarrow> bool" where
  "version_newer a b = parts_less (version_parts b) (version_parts a)"

text \<open>\<open>sort_by\<close> is stable: newest first, the given order among equals.\<close>

fun insert_newest :: "string \<Rightarrow> string list \<Rightarrow> string list" where
  "insert_newest t [] = [t]"
| "insert_newest t (x # xs) = (if version_newer t x then t # x # xs else x # insert_newest t xs)"

definition newest_first :: "string list \<Rightarrow> string list" where
  "newest_first ts = fold insert_newest ts []"

section \<open>Paths\<close>

record core_host =
  ch_os :: os
  ch_dir :: "string + string"         \<comment> \<open>the data directory\<close>
  ch_resources :: "string option"
  ch_json :: "string \<Rightarrow> string + json"
  ch_sha :: "string \<Rightarrow> string"
  ch_unzip :: "string \<Rightarrow> string + (string \<times> (string + string) list) list"
  ch_arch :: string
  ch_little :: bool

text \<open>The arrow of a message, in UTF-8.\<close>

definition right_arrow :: string where "right_arrow = map char_of [0xe2, 0x86, 0x92 :: nat]"

definition active_file :: string where "active_file = ''active-xray.txt''"
definition bin_name :: string where "bin_name = ''xray''"

definition done_or :: "string \<Rightarrow> os \<Rightarrow> call \<Rightarrow> (trace, string + unit) io" where
  "done_or what os c = map_io (map_err (\<lambda>e. what @ '': '' @ err_text e)) (do_call os c)"

definition core_dir :: "core_host \<Rightarrow> (trace, string + string) io" where
  "core_dir h =
     (case ch_dir h of
        Inl e \<Rightarrow> return_io (Err (''app data dir: '' @ e))
      | Inr base \<Rightarrow>
          try_io (done_or ''create core dir'' (ch_os h) (MakeDirAll (base @ ''/core''))) (\<lambda>_.
          return_io (Ok (base @ ''/core''))))"

definition versions_dir :: "core_host \<Rightarrow> (trace, string + string) io" where
  "versions_dir h =
     try_io (core_dir h) (\<lambda>d.
     try_io (done_or ''create versions dir'' (ch_os h) (MakeDirAll (d @ ''/versions/xray''))) (\<lambda>_.
     return_io (Ok (d @ ''/versions/xray''))))"

text \<open>The directory of a version; its binary lies in it.\<close>

definition version_dir :: "core_host \<Rightarrow> string \<Rightarrow> (trace, string + string) io" where
  "version_dir h tag =
     (if \<not> valid_tag tag then return_io (Err (''invalid version tag: '' @ tag))
      else try_io (versions_dir h) (\<lambda>d. return_io (Ok (d @ ''/'' @ strip_v tag))))"

definition version_binary :: "core_host \<Rightarrow> string \<Rightarrow> (trace, string + string) io" where
  "version_binary h tag = try_io (version_dir h tag) (\<lambda>d. return_io (Ok (d @ ''/'' @ bin_name)))"

section \<open>The active version\<close>

definition active_tag :: "core_host \<Rightarrow> (trace, string option) io" where
  "active_tag h =
     then_io (core_dir h) (\<lambda>r. case r of
       Inl _ \<Rightarrow> return_io None
     | Inr d \<Rightarrow>
         map_io (\<lambda>r. Option.bind (res_ok r) (\<lambda>t. if valid_utf8 t then non_empty (Some (trim t)) else None))
           (ask_text (ch_os h) (ReadFile (d @ ''/'' @ active_file))))"

definition write_active :: "core_host \<Rightarrow> string \<Rightarrow> (trace, string + unit) io" where
  "write_active h tag =
     try_io (core_dir h) (\<lambda>d. done_or ''write active file'' (ch_os h) (WriteFile (d @ ''/'' @ active_file) (strip_v tag)))"

definition clear_active :: "core_host \<Rightarrow> (trace, string + unit) io" where
  "clear_active h =
     try_io (core_dir h) (\<lambda>d.
     then_io (ask_flag (ch_os h) (PathExists (d @ ''/'' @ active_file))) (\<lambda>there.
     if there then done_or ''remove active file'' (ch_os h) (RemoveFile (d @ ''/'' @ active_file))
     else return_io (Ok ())))"

definition binary_path :: "core_host \<Rightarrow> (trace, string + string) io" where
  "binary_path h =
     then_io (active_tag h) (\<lambda>active. case active of
       None \<Rightarrow> return_io (Err (''no xray core installed (Settings '' @ right_arrow @ '' VPN core)''))
     | Some tag \<Rightarrow>
         try_io (version_binary h tag) (\<lambda>bin.
         then_io (ask_flag (ch_os h) (PathExists bin)) (\<lambda>there.
         return_io (if there then Ok bin else Err (''active xray version '' @ tag @ '' is missing on disk '' @ em_dash @ '' pick another in Settings'')))))"

section \<open>The bundled core\<close>

fun first_file :: "os \<Rightarrow> string list \<Rightarrow> (trace, string option) io" where
  "first_file os [] = return_io None"
| "first_file os (p # ps) =
     then_io (ask_flag os (IsFile p)) (\<lambda>there. if there then return_io (Some p) else first_file os ps)"

definition bundled_core_path :: "core_host \<Rightarrow> (trace, string option) io" where
  "bundled_core_path h =
     first_file (ch_os h)
       ((case ch_resources h of None \<Rightarrow> [] | Some r \<Rightarrow> [r @ ''/xray'', r @ ''/cores/xray''])
        @ [''/usr/libexec/varmlen/xray''])"

definition core_version_of :: "os \<Rightarrow> string \<Rightarrow> (trace, string option) io" where
  "core_version_of os bin =
     map_io (\<lambda>r. Option.bind (res_ok r) (\<lambda>out.
         case str_lines (from_utf8_lossy (out_stdout out)) of
           [] \<Rightarrow> None
         | l # _ \<Rightarrow> (case split_whitespace l of _ # v # _ \<Rightarrow> Some v | _ \<Rightarrow> None)))
       (run_command os bin [''version''] [])"

definition bundled_core_tag :: "core_host \<Rightarrow> (trace, string option) io" where
  "bundled_core_tag h =
     then_io (bundled_core_path h) (\<lambda>p. case p of
       None \<Rightarrow> return_io None
     | Some bin \<Rightarrow>
         map_io (\<lambda>v. Option.bind v (\<lambda>tag. if valid_tag tag then Some tag else None)) (core_version_of (ch_os h) bin))"

definition replaced_defaults :: "string list" where
  "replaced_defaults = [''26.3.27'', ''26.7.28'']"

text \<open>Copy the bundled binary to its place; whether it is there afterwards.\<close>

definition place_bundled :: "os \<Rightarrow> string \<Rightarrow> string \<Rightarrow> string \<Rightarrow> (trace, bool) io" where
  "place_bundled os src parent dest =
     then_io (ask_flag os (IsFile dest)) (\<lambda>there.
     if there then return_io True
     else then_io (do_call os (MakeDirAll parent)) (\<lambda>made.
       if is_err made then return_io False
       else then_io (do_call os (CopyFile src dest)) (\<lambda>copied.
         if is_err copied then return_io False
         else then_io (ask os (SetMode dest 493)) (\<lambda>_. return_io True))))"

definition seed_bundled_core :: "core_host \<Rightarrow> (trace, unit) io" where
  "seed_bundled_core h =
     then_io (binary_path h) (\<lambda>usable.
     then_io (active_tag h) (\<lambda>active.
     then_io (bundled_core_path h) (\<lambda>src. case src of
       None \<Rightarrow> return_io ()
     | Some bin \<Rightarrow>
         then_io (core_version_of (ch_os h) bin) (\<lambda>v. case v of
           None \<Rightarrow> return_io ()
         | Some tag \<Rightarrow>
             if \<not> valid_tag tag then return_io ()
             else then_io (version_dir h tag) (\<lambda>r. case r of
               Inl _ \<Rightarrow> return_io ()
             | Inr parent \<Rightarrow>
                 then_io (place_bundled (ch_os h) bin parent (parent @ ''/'' @ bin_name)) (\<lambda>placed.
                 if placed \<and> (is_err usable \<or> active \<in> Some ` set replaced_defaults)
                 then map_io (\<lambda>_. ()) (write_active h tag)
                 else return_io ()))))))"

section \<open>Installed versions\<close>

definition migrate_legacy_layout :: "core_host \<Rightarrow> (trace, unit) io" where
  "migrate_legacy_layout h =
     then_io (core_dir h) (\<lambda>r. case r of
       Inl _ \<Rightarrow> return_io ()
     | Inr d \<Rightarrow>
         then_io (ignore_all (map (\<lambda>f. ask (ch_os h) (RemoveFile (d @ ''/'' @ f)))
                    [''sing-box'', ''version.txt'', ''active.txt'', ''active-singbox.txt''])) (\<lambda>_.
         map_io (\<lambda>_. ()) (ask (ch_os h) (RemoveDirAll (d @ ''/versions/singbox'')))))"

fun with_binary :: "os \<Rightarrow> string \<Rightarrow> string list \<Rightarrow> (trace, string list) io" where
  "with_binary os d [] = return_io []"
| "with_binary os d (n # ns) =
     then_io (ask_flag os (PathExists (d @ ''/'' @ n @ ''/'' @ bin_name))) (\<lambda>there.
     map_io (\<lambda>rest. if there then from_utf8_lossy n # rest else rest) (with_binary os d ns))"

definition installed_tags :: "core_host \<Rightarrow> (trace, string list) io" where
  "installed_tags h =
     then_io (migrate_legacy_layout h) (\<lambda>_.
     then_io (versions_dir h) (\<lambda>r. case r of
       Inl _ \<Rightarrow> return_io []
     | Inr d \<Rightarrow>
         then_io (ask_names (ch_os h) (ReadDir d)) (\<lambda>names. case names of
           Inl _ \<Rightarrow> return_io []
         | Inr ns \<Rightarrow> map_io newest_first (with_binary (ch_os h) d ns))))"

section \<open>Releases\<close>

definition core_agent :: string where "core_agent = ''Varmlen/0.1 (core-updater)''"
definition api_base :: string where "api_base = ''https://api.github.com/repos/XTLS/Xray-core/releases''"

text \<open>A page of the API as JSON; \<open>fuel\<close> bounds the pieces of its body as for a subscription.\<close>

fun read_all :: "os \<Rightarrow> nat \<Rightarrow> string \<Rightarrow> (trace, (os_error + string) option) io" where
  "read_all os 0 buf = return_io None"
| "read_all os (Suc fuel) buf =
     then_io (ask os HttpChunk) (\<lambda>r. case r of
       Done \<Rightarrow> return_io (Some (Ok buf))
     | Text chunk \<Rightarrow> read_all os fuel (buf @ chunk)
     | _ \<Rightarrow> return_io (Some (Err (failure_of r))))"

definition fetch_json :: "core_host \<Rightarrow> nat \<Rightarrow> string \<Rightarrow> string \<Rightarrow> (trace, (string + json) option) io" where
  "fetch_json h fuel what u =
     then_io (ask_as as_answer (ch_os h) (HttpGet u [(''User-Agent'', core_agent)] [])) (\<lambda>r. case r of
       Inl e \<Rightarrow> return_io (Some (Err (what @ '' request: '' @ err_text e)))
     | Inr a \<Rightarrow>
         if \<not> is_success a then return_io (Some (Err (''GitHub API HTTP '' @ ha_shown a)))
         else map_io (map_option (\<lambda>r.
             try_then (map_err (\<lambda>e. what @ '' body: '' @ err_text e) r) (\<lambda>t.
               map_err (\<lambda>e. what @ '' json: '' @ e) (ch_json h (from_utf8_lossy t)))))
           (read_all (ch_os h) fuel []))"

definition fetch_latest_release :: "core_host \<Rightarrow> nat \<Rightarrow> (trace, (string + json) option) io" where
  "fetch_latest_release h fuel = fetch_json h fuel ''release'' (api_base @ ''/latest'')"

definition fetch_release_by_tag :: "core_host \<Rightarrow> nat \<Rightarrow> string \<Rightarrow> (trace, (string + json) option) io" where
  "fetch_release_by_tag h fuel tag =
     fetch_json h fuel ''release'' (api_base @ ''/tags/'' @ (if starts_with ''v'' tag then tag else ''v'' @ tag))"

definition version_from_tag :: "json \<Rightarrow> string option" where
  "version_from_tag release =
     Option.bind (get_str ''tag_name'' release) (\<lambda>t. if valid_tag t then Some (strip_v t) else None)"

record core_release =
  rl_tag :: string
  rl_name :: string
  rl_date :: "string option"
  rl_prerelease :: bool

definition release_entry :: "json \<Rightarrow> core_release option" where
  "release_entry r =
     map_option (\<lambda>tag.
         \<lparr>rl_tag = tag, rl_name = unwrap_or tag (get_str ''name'' r), rl_date = get_str ''published_at'' r,
          rl_prerelease = (json_get ''prerelease'' r = Some (JBool True))\<rparr>)
       (get_str ''tag_name'' r)"

definition list_core_releases :: "core_host \<Rightarrow> nat \<Rightarrow> string \<Rightarrow> (trace, (string + core_release list) option) io" where
  "list_core_releases h fuel kind =
     (case parse_core_kind kind of
        Inl e \<Rightarrow> return_io (Some (Err e))
      | Inr _ \<Rightarrow>
          map_io (map_option (\<lambda>r. try_then r (\<lambda>v. case v of
              JArr rs \<Rightarrow> Ok (List.map_filter release_entry rs)
            | _ \<Rightarrow> Err ''releases not an array'')))
            (fetch_json h fuel ''releases'' (api_base @ ''?per_page=30'')))"

section \<open>Installing\<close>

definition xray_asset_name :: "string \<Rightarrow> bool \<Rightarrow> string option" where
  "xray_asset_name arch little =
     (if arch = ''x86_64'' then Some ''Xray-linux-64.zip''
      else if arch = ''x86'' then Some ''Xray-linux-32.zip''
      else if arch = ''aarch64'' then Some ''Xray-linux-arm64-v8a.zip''
      else if arch = ''arm'' then Some ''Xray-linux-arm32-v7a.zip''
      else if arch = ''riscv64'' then Some ''Xray-linux-riscv64.zip''
      else if arch = ''loongarch64'' then Some ''Xray-linux-loong64.zip''
      else if arch = ''powerpc64'' then Some (if little then ''Xray-linux-ppc64le.zip'' else ''Xray-linux-ppc64.zip'')
      else if arch = ''s390x'' then Some ''Xray-linux-s390x.zip''
      else if arch = ''mips'' \<or> arch = ''mips32r6''
      then Some (if little then ''Xray-linux-mips32le.zip'' else ''Xray-linux-mips32.zip'')
      else if arch = ''mips64'' \<or> arch = ''mips64r6''
      then Some (if little then ''Xray-linux-mips64le.zip'' else ''Xray-linux-mips64.zip'')
      else None)"

definition asset_matches :: "core_host \<Rightarrow> string \<Rightarrow> bool" where
  "asset_matches h name = (xray_asset_name (ch_arch h) (ch_little h) = Some name)"

definition MAX_CORE_BYTES :: nat where "MAX_CORE_BYTES = 256 * 1024 * 1024"

text \<open>The URL, the declared size and the digest of the asset for this machine.\<close>

definition release_asset :: "core_host \<Rightarrow> json \<Rightarrow> string + string \<times> nat \<times> string option" where
  "release_asset h release =
     try_then (ok_or ''release has no assets'' (get_array ''assets'' release)) (\<lambda>assets.
     try_then (ok_or ''no matching xray asset for this platform''
         (List.find (\<lambda>a. case get_str ''name'' a of None \<Rightarrow> False | Some n \<Rightarrow> asset_matches h n) assets)) (\<lambda>asset.
     try_then (ok_or ''asset has no download url'' (get_str ''browser_download_url'' asset)) (\<lambda>u.
     let declared = unwrap_or 0 (get_u64 ''size'' asset) in
     if declared > MAX_CORE_BYTES then Err (''core asset too large: '' @ dec declared @ '' bytes'')
     else Ok (u, declared, map_option to_lower (Option.bind (get_str ''digest'' asset) (strip_prefix ''sha256:''))))))"

fun read_core :: "os \<Rightarrow> nat \<Rightarrow> string \<Rightarrow> (trace, (string + string) option) io" where
  "read_core os 0 buf = return_io None"
| "read_core os (Suc fuel) buf =
     then_io (ask os HttpChunk) (\<lambda>r. case r of
       Done \<Rightarrow> return_io (Some (Ok buf))
     | Text chunk \<Rightarrow>
         if length (buf @ chunk) > MAX_CORE_BYTES then return_io (Some (Err ''core download exceeded size limit''))
         else read_core os fuel (buf @ chunk)
     | _ \<Rightarrow> return_io (Some (Err (''download chunk: '' @ err_text (failure_of r)))))"

definition checksum_ok :: "core_host \<Rightarrow> string option \<Rightarrow> string \<Rightarrow> string + unit" where
  "checksum_ok h digest bytes =
     (case digest of
        None \<Rightarrow> Ok ()
      | Some expected \<Rightarrow>
          if ch_sha h bytes \<noteq> expected
          then Err (''core checksum mismatch (expected '' @ expected @ '', got '' @ ch_sha h bytes
                    @ '') '' @ em_dash @ '' refusing to install'') else Ok ())"

text \<open>
  The first member of that name is written out piece by piece, as the archive reader gives it, then
  made executable.  An empty piece is the end.
\<close>

fun write_pieces :: "os \<Rightarrow> string \<Rightarrow> (string + string) list \<Rightarrow> (trace, string + unit) io" where
  "write_pieces os dest [] = return_io (Ok ())"
| "write_pieces os dest (Inl e # ps) = return_io (Err (''zip read: '' @ e))"
| "write_pieces os dest (Inr p # ps) =
     (if p = [] then return_io (Ok ())
      else try_io (done_or ''write binary'' os (WriteAll dest p)) (\<lambda>_. write_pieces os dest ps))"

fun extract_binary_zip ::
    "os \<Rightarrow> string \<Rightarrow> (string \<times> (string + string) list) list \<Rightarrow> (trace, string + unit) io" where
  "extract_binary_zip os dest [] = return_io (Err (bin_name @ '' not found in archive''))"
| "extract_binary_zip os dest ((name, pieces) # rest) =
     (if after_last (\<lambda>c. c = CHR ''/'') name \<noteq> bin_name then extract_binary_zip os dest rest
      else try_io (done_or ''create binary'' os (WriteFile dest [])) (\<lambda>_.
           try_io (write_pieces os dest pieces) (\<lambda>_.
           then_io (ask os (SetMode dest 493)) (\<lambda>_. return_io (Ok ())))))"

definition store_core :: "core_host \<Rightarrow> string \<Rightarrow> string \<Rightarrow> (trace, string + unit) io" where
  "store_core h tag bytes =
     try_io (version_dir h tag) (\<lambda>d.
     try_io (done_or ''create version dir'' (ch_os h) (MakeDirAll d)) (\<lambda>_.
     try_io (return_io (map_err (\<lambda>e. ''zip open: '' @ e) (ch_unzip h bytes)))
       (extract_binary_zip (ch_os h) (d @ ''/'' @ bin_name))))"

definition download_and_install ::
    "core_host \<Rightarrow> nat \<Rightarrow> string \<Rightarrow> json \<Rightarrow> (trace, (string + unit) option) io" where
  "download_and_install h fuel tag release =
     (case release_asset h release of
        Inl e \<Rightarrow> return_io (Some (Err e))
      | Inr (u, declared, digest) \<Rightarrow>
          then_io (ask_as as_answer (ch_os h) (HttpGet u [(''User-Agent'', core_agent)] [])) (\<lambda>r. case r of
            Inl e \<Rightarrow> return_io (Some (Err (''download: '' @ err_text e)))
          | Inr a \<Rightarrow>
              if \<not> is_success a then return_io (Some (Err (''download HTTP '' @ ha_shown a)))
              else then_io (read_core (ch_os h) fuel []) (\<lambda>body. case body of
                None \<Rightarrow> return_io None
              | Some (Inl e) \<Rightarrow> return_io (Some (Err e))
              | Some (Inr bytes) \<Rightarrow>
                  map_io Some (try_io (return_io (checksum_ok h digest bytes)) (\<lambda>_. store_core h tag bytes)))))"

section \<open>Commands\<close>

record installed_version =
  iv_tag :: string
  iv_active :: bool
  iv_bundled :: bool

record core_info_result =
  ci_installed :: "installed_version list"
  ci_active :: "string option"
  ci_latest :: "string option"
  ci_has_update :: bool

definition has_update :: "string option \<Rightarrow> string option \<Rightarrow> bool" where
  "has_update active latest =
     (case latest of
        None \<Rightarrow> False
      | Some l \<Rightarrow> (case active of None \<Rightarrow> True | Some a \<Rightarrow> version_newer l a))"

definition latest_version :: "core_host \<Rightarrow> nat \<Rightarrow> (trace, (string + string) option) io" where
  "latest_version h fuel =
     map_io (map_option (\<lambda>r. try_then r (\<lambda>release. ok_or ''no tag_name in release'' (version_from_tag release))))
       (fetch_latest_release h fuel)"

definition core_info :: "core_host \<Rightarrow> nat \<Rightarrow> string \<Rightarrow> (trace, (string + core_info_result) option) io" where
  "core_info h fuel kind =
     (case parse_core_kind kind of
        Inl e \<Rightarrow> return_io (Some (Err e))
      | Inr _ \<Rightarrow>
          then_io (seed_bundled_core h) (\<lambda>_.
          then_io (active_tag h) (\<lambda>active.
          then_io (bundled_core_tag h) (\<lambda>bundled.
          then_io (installed_tags h) (\<lambda>tags.
          map_io (map_option (\<lambda>r. let latest = res_ok r in
              Ok \<lparr>ci_installed = map (\<lambda>t. \<lparr>iv_tag = t, iv_active = (active = Some t), iv_bundled = (bundled = Some t)\<rparr>) tags,
                  ci_active = active, ci_latest = latest, ci_has_update = has_update active latest\<rparr>))
            (latest_version h fuel))))))"

definition core_install ::
    "core_host \<Rightarrow> nat \<Rightarrow> string \<Rightarrow> string option \<Rightarrow> (trace, (string + string) option) io" where
  "core_install h fuel kind version =
     (case parse_core_kind kind of
        Inl e \<Rightarrow> return_io (Some (Err e))
      | Inr _ \<Rightarrow>
          then_io (case version of Some t \<Rightarrow> fetch_release_by_tag h fuel t | None \<Rightarrow> fetch_latest_release h fuel) (\<lambda>r.
          case map_option (\<lambda>r. try_then r (\<lambda>release.
                 try_then (ok_or ''no version in release'' (version_from_tag release)) (\<lambda>tag. Ok (release, tag)))) r of
            None \<Rightarrow> return_io None
          | Some (Inl e) \<Rightarrow> return_io (Some (Err e))
          | Some (Inr (release, tag)) \<Rightarrow>
              then_io (download_and_install h fuel tag release) (\<lambda>done. case done of
                None \<Rightarrow> return_io None
              | Some (Inl e) \<Rightarrow> return_io (Some (Err e))
              | Some (Inr _) \<Rightarrow>
                  then_io (active_tag h) (\<lambda>active.
                  if active = None then map_io (\<lambda>r. Some (try_then r (\<lambda>_. Ok tag))) (write_active h tag)
                  else return_io (Some (Ok tag))))))"

definition core_activate :: "core_host \<Rightarrow> string \<Rightarrow> string \<Rightarrow> (trace, string + unit) io" where
  "core_activate h kind tag =
     try_io (return_io (parse_core_kind kind)) (\<lambda>_.
     try_io (version_binary h tag) (\<lambda>bin.
     then_io (ask_flag (ch_os h) (PathExists bin)) (\<lambda>there.
     if there then write_active h tag else return_io (Err (''version '' @ tag @ '' isn't downloaded'')))))"

text \<open>Removing the directory of a version and, when it was the active one, the choice.\<close>

definition remove_version :: "core_host \<Rightarrow> string \<Rightarrow> (trace, string + unit) io" where
  "remove_version h tag =
     try_io (versions_dir h) (\<lambda>vs.
     let d = vs @ ''/'' @ strip_v tag in
     then_io (ask_flag (ch_os h) (PathExists d)) (\<lambda>there.
     if there then done_or ''remove version dir'' (ch_os h) (RemoveDirAll d) else return_io (Ok ())))"

definition core_uninstall :: "core_host \<Rightarrow> string \<Rightarrow> string \<Rightarrow> (trace, string + unit) io" where
  "core_uninstall h kind tag =
     try_io (return_io (parse_core_kind kind)) (\<lambda>_.
     if \<not> valid_tag tag then return_io (Err (''invalid version tag: '' @ tag))
     else then_io (bundled_core_tag h) (\<lambda>bundled.
       if bundled = Some (strip_v tag)
       then return_io (Err ''the Xray version bundled with Varmlen cannot be removed'')
       else then_io (active_tag h) (\<lambda>active.
         try_io (remove_version h tag) (\<lambda>_.
         then_io (if active = Some (strip_v tag) then map_io (\<lambda>_. ()) (clear_active h) else return_io ()) (\<lambda>_.
         then_io (installed_tags h) (\<lambda>left.
         then_io (if left = [] then map_io (\<lambda>_. ()) (clear_active h) else return_io ()) (\<lambda>_.
         return_io (Ok ()))))))))"

end
