(* ===== verification/Client_Props.thy ===== *)
theory Client_Props
  imports Client_Shell Client_Core Gen_Probe
begin

text \<open>
  What the commands of the desktop guarantee: the calls they make, what an answer means, the
  requests they send and whether the daemon accepts them, and the budget of reloads.
\<close>

section \<open>Calls\<close>

text \<open>
  The desktop talks to the socket of the daemon, asks the resolver, and may start the installed
  daemon through \<open>pkexec\<close>; it runs, writes and signals nothing else.
\<close>

definition desktop_call :: "nat \<Rightarrow> call \<Rightarrow> bool" where
  "desktop_call uid c \<longleftrightarrow>
     (case c of
        ConnectUnix p \<Rightarrow> p = installed_socket_path uid
      | WriteBytes _ _ \<Rightarrow> True
      | ReadExact _ _ \<Rightarrow> True
      | DeadlinePassed _ \<Rightarrow> True
      | IsFile p \<Rightarrow> p = DAEMON
      | StartProgram prog args \<Rightarrow> prog = ''pkexec'' \<and> args = [DAEMON]
      | TryWait _ \<Rightarrow> True
      | SpawnThread t \<Rightarrow> t = ''wait''
      | Sleep n \<Rightarrow> n = 100 \<or> n = 200
      | ResolveHost _ _ \<Rightarrow> True
      | _ \<Rightarrow> False)"

lemma desktop_call_simps [simp]:
  "desktop_call uid (ConnectUnix p) \<longleftrightarrow> p = installed_socket_path uid" "desktop_call uid (WriteBytes fd b)"
  "desktop_call uid (ReadExact fd n)" "desktop_call uid (DeadlinePassed n)" "desktop_call uid (IsFile p) \<longleftrightarrow> p = DAEMON"
  "desktop_call uid (StartProgram p args) \<longleftrightarrow> p = ''pkexec'' \<and> args = [DAEMON]" "desktop_call uid (TryWait n)"
  "desktop_call uid (SpawnThread t) \<longleftrightarrow> t = ''wait''" "desktop_call uid (Sleep n) \<longleftrightarrow> n = 100 \<or> n = 200"
  "desktop_call uid (ResolveHost h q)"
  by (simp_all add: desktop_call_def)

lemma calls_only_timed [calls_intro]:
  "calls_only P f \<Longrightarrow> P (DeadlinePassed n) \<Longrightarrow> calls_only P (timed os doing n f)"
  unfolding timed_def by (intro calls_intro)

lemma exchange_calls: "calls_only (desktop_call uid) (exchange os cc fd rq)"
  unfolding exchange_def send_frame_def recv_exact_def Let_def by (intro calls_intro) simp_all

lemma connect_installed_calls: "calls_only (desktop_call uid) (connect_installed os cc uid)"
  unfolding connect_installed_def connect_compatible_def client_connect_def client_request_def
  by (intro calls_intro exchange_calls) simp_all

lemma await_daemon_calls: "calls_only (desktop_call uid) (await_daemon os cc uid child n)"
proof (induction n)
  case 0
  then show ?case by (simp add: calls_intro)
next
  case (Suc n)
  then show ?case
    unfolding await_daemon.simps try_wait_def
    by (intro calls_intro connect_installed_calls calls_only_ask_as) simp_all
qed

lemma started_client_calls: "calls_only (desktop_call (dk_uid dk)) (started_client dk)"
  unfolding started_client_def connect_or_start_installed_def
  by (intro calls_intro connect_installed_calls await_daemon_calls) simp_all

lemma asked_calls: "calls_only (desktop_call uid) (asked dk command c)"
  unfolding asked_def client_request_def by (intro calls_intro exchange_calls)

lemma with_running_calls: "calls_only (desktop_call (dk_uid dk)) (with_running dk absent command f)"
  unfolding with_running_def by (intro calls_intro connect_installed_calls asked_calls)

lemma connect_request_calls:
  "calls_only (desktop_call uid) (vpn_connect_request dk s sp mode killswitch lan level mtu)"
  unfolding vpn_connect_request_def connect_request_for_def resolve_server_ips_def lookup_endpoint_def
  by (intro calls_intro) simp_all

lemma desktop_calls:
  "calls_only (desktop_call (dk_uid dk)) (vpn_connect dk s sp mode killswitch lan level mtu)"
  "calls_only (desktop_call (dk_uid dk)) (vpn_disconnect dk)"
  "calls_only (desktop_call (dk_uid dk)) (vpn_apply_split dk sp)"
  "calls_only (desktop_call (dk_uid dk)) (vpn_status dk)"
  "calls_only (desktop_call (dk_uid dk)) (vpn_log dk)"
  "calls_only (desktop_call (dk_uid dk)) (clear_vpn_log dk)"
  "calls_only (desktop_call (dk_uid dk)) (tcp_ping_host dk host port timeout)"
  "calls_only (desktop_call (dk_uid dk)) (proxy_get_ping dk s timeout)"
  "calls_only (desktop_call (dk_uid dk)) (quit_app dk)"
proof -
  note intros = calls_intro started_client_calls asked_calls with_running_calls connect_request_calls
    connect_installed_calls exchange_calls
  show "calls_only (desktop_call (dk_uid dk)) (vpn_connect dk s sp mode killswitch lan level mtu)"
    unfolding vpn_connect_def send_connect_def by (intro intros)
  show "calls_only (desktop_call (dk_uid dk)) (vpn_disconnect dk)"
    "calls_only (desktop_call (dk_uid dk)) (vpn_apply_split dk sp)"
    "calls_only (desktop_call (dk_uid dk)) (vpn_status dk)"
    "calls_only (desktop_call (dk_uid dk)) (vpn_log dk)"
    unfolding vpn_disconnect_def vpn_apply_split_def vpn_status_def vpn_log_def by (rule with_running_calls)+
  show "calls_only (desktop_call (dk_uid dk)) (clear_vpn_log dk)"
    "calls_only (desktop_call (dk_uid dk)) (tcp_ping_host dk host port timeout)"
    unfolding clear_vpn_log_def tcp_ping_host_def by (intro intros)+
  show "calls_only (desktop_call (dk_uid dk)) (proxy_get_ping dk s timeout)"
    unfolding proxy_get_ping_def send_ping_def ping_again_def client_request_def by (intro intros)
  show "calls_only (desktop_call (dk_uid dk)) (quit_app dk)"
    unfolding quit_app_def vpn_disconnect_def by (intro intros) simp
qed

section \<open>Answers\<close>

lemma map_err_eq_Ok: "map_err f r = Inr x \<longleftrightarrow> r = Inr x"
  by (cases r) simp_all

lemma timed_ok:
  assumes "timed os doing n f tr = (Inr a, tr')"
  shows "\<exists>tr1. f tr = (Inr a, tr1) \<and> set tr1 \<subseteq> set tr'"
  using assms
  by (fastforce simp: timed_def then_io_def map_io_def ask_defs Let_def map_err_eq_Ok split: prod.splits if_splits)

text \<open>A state is given only from a response that names the operation that was sent.\<close>

definition answered_with :: "client_codec \<Rightarrow> request_envelope \<Rightarrow> nat \<Rightarrow> daemon_state \<Rightarrow> trace \<Rightarrow> bool" where
  "answered_with cc rq fd st tr \<longleftrightarrow>
     (\<exists>bytes body response.
        cc_request cc rq = Some bytes \<and> length bytes \<le> MAX_FRAME_BYTES
        \<and> (WriteBytes fd bytes, Done) \<in> set tr \<and> (WriteBytes fd (be32 (length bytes)), Done) \<in> set tr
        \<and> (ReadExact fd (length body), Text body) \<in> set tr \<and> length body \<le> MAX_FRAME_BYTES
        \<and> cc_response cc body = Some response \<and> rs_version response = PROTOCOL_VERSION
        \<and> rs_operation_id response = rq_operation_id rq \<and> rs_result response = Ok st)"

lemma decode_response_frame_Ok:
  "decode_response_frame de bytes = Ok r \<longleftrightarrow>
     length bytes \<le> MAX_FRAME_BYTES \<and> de bytes = Some r \<and> rs_version r = PROTOCOL_VERSION"
  by (auto simp: decode_response_frame_def try_then_eq_Inr split: if_splits)

lemma response_outcome_Ok:
  "response_outcome i r = Ok st \<longleftrightarrow> rs_operation_id r = i \<and> rs_result r = Ok st"
  by (auto simp: response_outcome_def split: sum.splits if_splits)

lemma send_frame_ok:
  assumes "send_frame os fd bytes tr = (Inr u, tr')"
  shows "tr' = (WriteBytes fd bytes, Done) # (WriteBytes fd (be32 (length bytes)), Done) # tr"
  using assms by (auto simp: send_frame_def try_io_def ask_defs Let_def split: prod.splits sum.splits option.splits)

lemma recv_exact_ok:
  assumes "recv_exact os fd n tr = (Inr b, tr')"
  shows "tr' = (ReadExact fd n, Text b) # tr \<and> length b = n"
  using assms by (auto simp: recv_exact_def map_io_def ask_defs Let_def split: prod.splits sum.splits option.splits if_splits)

lemma try_io_okE:
  assumes "try_io m k tr = (Inr b, tr')"
  obtains a tr1 where "m tr = (Inr a, tr1)" and "k a tr1 = (Inr b, tr')"
  using assms by (auto simp: try_io_def split: prod.splits sum.splits)

lemma exchange_ok:
  assumes "exchange os cc fd rq tr = (Inr st, tr')"
  shows "answered_with cc rq fd st tr'"
proof -
  from assms obtain bytes where bytes: "encode_frame (cc_request cc) rq = Ok bytes"
    and rest: "try_io (timed os ''writing'' 5000 (send_frame os fd bytes)) (\<lambda>_.
       try_io (timed os ''waiting for a response'' 60000 (recv_exact os fd 4)) (\<lambda>header.
       let n = read_be32 header in
       if n > MAX_FRAME_BYTES then return_io (Err (Ce_Protocol FrameTooLarge))
       else try_io (timed os ''reading a response'' 5000 (recv_exact os fd n)) (\<lambda>body.
       return_io (try_then (map_err Ce_Protocol (decode_response_frame (cc_response cc) body))
         (response_outcome (rq_operation_id rq)))))) tr = (Inr st, tr')"
    unfolding exchange_def by (erule_tac try_io_okE) (auto simp: map_err_eq_Ok)
  from rest obtain u tr1 header tr2 where w: "timed os ''writing'' 5000 (send_frame os fd bytes) tr = (Inr u, tr1)"
    and h: "timed os ''waiting for a response'' 60000 (recv_exact os fd 4) tr1 = (Inr header, tr2)"
    and rest: "(let n = read_be32 header in
       if n > MAX_FRAME_BYTES then return_io (Err (Ce_Protocol FrameTooLarge))
       else try_io (timed os ''reading a response'' 5000 (recv_exact os fd n)) (\<lambda>body.
       return_io (try_then (map_err Ce_Protocol (decode_response_frame (cc_response cc) body))
         (response_outcome (rq_operation_id rq))))) tr2 = (Inr st, tr')"
    by (erule_tac try_io_okE, erule_tac try_io_okE) blast
  let ?n = "read_be32 header"
  have n: "?n \<le> MAX_FRAME_BYTES" using rest by (auto simp: Let_def split: if_splits)
  with rest obtain body where b: "timed os ''reading a response'' 5000 (recv_exact os fd ?n) tr2 = (Inr body, tr')"
    and out: "try_then (map_err Ce_Protocol (decode_response_frame (cc_response cc) body))
         (response_outcome (rq_operation_id rq)) = Inr st"
    by (auto simp: Let_def not_less elim!: try_io_okE)
  obtain ta where ta: "send_frame os fd bytes tr = (Inr u, ta)" "set ta \<subseteq> set tr1" using timed_ok [OF w] by blast
  obtain tb where tb: "recv_exact os fd 4 tr1 = (Inr header, tb)" "set tb \<subseteq> set tr2" using timed_ok [OF h] by blast
  obtain tc where tc: "recv_exact os fd ?n tr2 = (Inr body, tc)" "set tc \<subseteq> set tr'" using timed_ok [OF b] by blast
  obtain response where response: "decode_response_frame (cc_response cc) body = Ok response"
      "response_outcome (rq_operation_id rq) response = Ok st"
    using out by (auto simp: try_then_eq_Inr map_err_eq_Ok)
  from send_frame_ok [OF ta(1)] recv_exact_ok [OF tb(1)] recv_exact_ok [OF tc(1)] ta(2) tb(2) tc(2)
  have "(WriteBytes fd bytes, Done) \<in> set tr'" "(WriteBytes fd (be32 (length bytes)), Done) \<in> set tr'"
    "(ReadExact fd (length body), Text body) \<in> set tr'" "length body \<le> MAX_FRAME_BYTES"
    using n by auto
  with bytes response show ?thesis
    unfolding answered_with_def
    by (auto simp: encode_frame_Ok decode_response_frame_Ok response_outcome_Ok)
qed

text \<open>A peer whose answers are one byte long.\<close>

definition answering :: os where
  "answering tr c = (case c of
     ReadExact _ n \<Rightarrow> Text (if n = 4 then be32 1 else ''s'')
   | WriteBytes _ _ \<Rightarrow> Done
   | _ \<Rightarrow> Flag False)"

section \<open>The request of a connect\<close>

lemma ip_set_facts: "set (ip_set ips) = set ips" "distinct (ip_set ips)" "sorted (map ip_order (ip_set ips))"
  by (simp_all add: ip_set_def)

text \<open>The addresses are those that the resolver gave for the endpoints, each once, at least one, within the limit.\<close>

definition resolved_ips :: "trace \<Rightarrow> ip_addr list \<Rightarrow> bool" where
  "resolved_ips tr ips \<longleftrightarrow>
     ips \<noteq> [] \<and> length ips \<le> MAX_SERVER_IPS \<and> distinct ips \<and> sorted (map ip_order ips)
     \<and> (\<forall>ip \<in> set ips. \<exists>host port addrs. (ResolveHost host port, Addrs addrs) \<in> set tr \<and> ip \<in> snd ` set addrs)"

lemma lookup_endpoint_ok:
  assumes "lookup_endpoint os e tr = (Inr ips, tr')"
  shows "\<exists>host port addrs. tr' = (ResolveHost host port, Addrs addrs) # tr \<and> ips = map snd addrs"
  using assms
  by (auto simp: lookup_endpoint_def map_io_def ask_defs Let_def split: prod.splits sum.splits option.splits)

lemma map_ok_lookup:
  assumes "map_ok (lookup_endpoint os) es tr = (Inr found, tr')"
  shows "set tr \<subseteq> set tr' \<and> (\<forall>ips \<in> set found. \<forall>ip \<in> set ips.
           \<exists>host port addrs. (ResolveHost host port, Addrs addrs) \<in> set tr' \<and> ip \<in> snd ` set addrs)"
  using assms
proof (induction es arbitrary: tr found)
  case (Cons e es)
  from Cons.prems obtain ips tr1 rest where e: "lookup_endpoint os e tr = (Inr ips, tr1)"
    and es: "map_ok (lookup_endpoint os) es tr1 = (Inr rest, tr')" and found: "found = ips # rest"
    by (auto elim!: try_io_okE)
  from lookup_endpoint_ok [OF e] obtain host port addrs
    where tr1: "tr1 = (ResolveHost host port, Addrs addrs) # tr" and ips: "ips = map snd addrs" by blast
  have rest: "set tr1 \<subseteq> set tr'" and there: "(ResolveHost host port, Addrs addrs) \<in> set tr'"
    using Cons.IH [OF es] tr1 by auto
  have "\<exists>host port addrs. (ResolveHost host port, Addrs addrs) \<in> set tr' \<and> ip \<in> snd ` set addrs" if "ip \<in> set ips" for ip
    using there that ips by auto
  with Cons.IH [OF es] rest tr1 found show ?case by simp
qed simp

lemma resolve_server_ips_ok:
  assumes "resolve_server_ips dk s tr = (Inr ips, tr')"
  shows "resolved_ips tr' ips"
proof -
  from assms obtain found where m: "map_ok (lookup_endpoint (dk_os dk)) (server_endpoints (dk_parsers dk) s) tr = (Inr found, tr')"
    and ips: "checked_ips (vs_label s) (ip_set (concat found)) = Inr ips"
    unfolding resolve_server_ips_def by (auto elim!: try_io_okE)
  then have "ips = ip_set (concat found)" "ips \<noteq> []" "length ips \<le> MAX_SERVER_IPS"
    by (auto simp: checked_ips_def split: if_splits)
  with map_ok_lookup [OF m] show ?thesis
    unfolding resolved_ips_def by (auto simp: ip_set_facts)
qed

lemma connect_request_made:
  assumes "vpn_connect_request dk s sp mode killswitch lan level mtu tr = (Some (Inr r), tr')"
  shows "client_mode mode = Ok (cr_mode r)
     \<and> connect_configs dk s sp mode lan (unwrap_or ''warn'' level) (tun_mtu mtu)
         = Some (Ok (cr_xray_config r, cr_validation_config r))
     \<and> resolved_ips tr' (cr_server_ips r) \<and> cr_excluded_apps r = client_excluded_apps (cr_mode r) sp
     \<and> cr_killswitch r = killswitch \<and> cr_allow_lan r = lan"
  using assms
  by (auto simp: vpn_connect_request_def connect_request_for_def map_io_def
      split: option.splits sum.splits prod.splits elim!: try_io_okE) (rule resolve_server_ips_ok)

lemma client_mode_Ok: "client_mode mode = Ok m \<longleftrightarrow> (mode = ''tun'' \<and> m = Tun) \<or> (mode = ''proxy'' \<and> m = Proxy)"
  by (auto simp: client_mode_def split: if_splits)

lemma excluded_apps_Proxy [simp]: "client_excluded_apps Proxy sp = []"
  by (simp add: client_excluded_apps_def)

text \<open>What is left for the daemon to refuse are sizes and names that the desktop does not look at.\<close>

definition request_fits :: "connect_request \<Rightarrow> bool" where
  "request_fits r \<longleftrightarrow>
     cr_xray_config r \<noteq> [] \<and> length (cr_xray_config r) \<le> 393216
     \<and> cr_validation_config r \<noteq> [] \<and> length (cr_validation_config r) \<le> 393216
     \<and> length (cr_excluded_apps r) \<le> 256 \<and> (\<forall>a \<in> set (cr_excluded_apps r). application_bounded a)"

lemma connect_request_valid:
  assumes "vpn_connect_request dk s sp mode killswitch lan level mtu tr = (Some (Inr r), tr')"
  shows "validate_connect_request r = Ok () \<longleftrightarrow> request_fits r"
proof -
  from connect_request_made [OF assms] have "resolved_ips tr' (cr_server_ips r)"
    "cr_excluded_apps r = client_excluded_apps (cr_mode r) sp" by auto
  then show ?thesis
    by (auto simp: validate_connect_bounded command_bounded_def request_fits_def resolved_ips_def limit_defs Suc_le_eq)
qed

lemma connect_documents_accepted:
  assumes s: "of_fields s" and extra: "extra_clean (dk_from_str dk) s" and url: "url_parser_ok (dk_url dk)"
    and mode: "client_mode mode = Ok m"
  obtains cfg probe where
    "connect_configs dk s sp mode lan level mtu
       = Some (try_then (dk_print dk cfg) (\<lambda>x. try_then (dk_print dk probe) (\<lambda>v. Ok (x, v))))"
    "\<And>parse raw. parse raw = Inr cfg \<Longrightarrow> validate_xray_document parse raw (m = Tun) = Ok ()"
    "\<And>parse raw. parse raw = Inr probe \<Longrightarrow>
       validate_ping_xray_document parse raw [of_nat CONNECTION_PROBE_PORT_BASE] = Ok ()"
proof -
  have tun: "(mode \<noteq> ''proxy'') = (m = Tun)" using mode by (auto simp: client_mode_Ok)
  show ?thesis
  proof (rule generated_documents [OF s extra url, where pick = "dk_pick dk" and sp = sp and lan = lan
        and mode = mode and level = level and mtu = mtu and p = 1])
    fix cfg probe ping legacy
    assume a: "build_xray_config (dk_from_str dk) (dk_url dk) (dk_pick dk) s sp mode XrayNative lan level mtu = Some cfg"
      and ok: "\<And>parse raw. parse raw = Inr cfg \<Longrightarrow> validate_xray_document parse raw (mode \<noteq> ''proxy'') = Ok ()"
      and b: "build_connection_probe_config (dk_from_str dk) (dk_pick dk) s = Some (Ok probe)"
      and pok: "\<And>parse raw. parse raw = Inr probe \<Longrightarrow>
          validate_ping_xray_document parse raw [of_nat CONNECTION_PROBE_PORT_BASE] = Ok ()"
    have "connect_configs dk s sp mode lan level mtu
       = Some (try_then (dk_print dk cfg) (\<lambda>x. try_then (dk_print dk probe) (\<lambda>v. Ok (x, v))))"
      by (simp add: connect_configs_def a b split: sum.split)
    then show thesis using ok pok unfolding tun by (rule that)
  qed
qed

lemma of_fields_validates: "of_fields s \<Longrightarrow> validate_server from_str pick s \<noteq> None"
  by (simp add: of_fields_def validate_server_def Let_def)

lemma connect_request_no_panic:
  assumes "of_fields s" and "extra_clean (dk_from_str dk) s" and "url_parser_ok (dk_url dk)"
    and "vpn_connect_request dk s sp mode killswitch lan level mtu tr = (x, tr')"
  shows "x \<noteq> None"
proof
  assume "x = None"
  with assms(4) of_fields_validates [OF assms(1), of "dk_from_str dk" "dk_pick dk"] obtain m where mode: "client_mode mode = Ok m"
    and none: "connect_configs dk s sp mode lan (unwrap_or ''warn'' level) (tun_mtu mtu) = None"
    by (auto simp: vpn_connect_request_def map_io_def split: option.splits sum.splits prod.splits)
  show False
    by (rule connect_documents_accepted [OF assms(1-3) mode, where sp = sp and lan = lan
          and level = "unwrap_or ''warn'' level" and mtu = "tun_mtu mtu"]) (simp add: none)
qed

lemma connect_frame_decoded:
  assumes "vpn_connect_request dk s sp mode killswitch lan level mtu tr = (Some (Inr r), tr')"
    and "length bytes \<le> MAX_FRAME_BYTES" and "de bytes = Some rq"
    and "rq_version rq = PROTOCOL_VERSION" and "rq_command rq = Connect r"
  shows "decode_request_frame up de bytes = (if request_fits r then Ok rq else Err InvalidRequest)"
proof -
  have "validate_connect_request r = (if request_fits r then Ok () else Err InvalidRequest)"
  proof (cases "request_fits r")
    case True
    then show ?thesis using connect_request_valid [OF assms(1)] by simp
  next
    case False
    then have "validate_connect_request r \<noteq> Ok ()" using connect_request_valid [OF assms(1)] by simp
    then show ?thesis using False by (auto simp: validate_connect_request_def split: if_splits)
  qed
  with assms(2-5) show ?thesis by (simp add: decode_request_frame_def validate_request_def)
qed

lemma next_operation_id_other: "next_operation_id i \<noteq> 0" "i \<noteq> 0 \<Longrightarrow> next_operation_id i \<noteq> i"
proof -
  have pos: "1 \<le> x" if "x \<noteq> 0" for x :: u64
    using that by (simp add: word_le_nat_alt unat_gt_0 Suc_le_eq)
  have step: "next_operation_id i = (if i + 1 = 0 then 1 else i + 1)"
  proof (cases "i + 1 = 0")
    case True
    then show ?thesis by (simp only: next_operation_id_def if_True) (simp add: max_def)
  next
    case False
    then have "max (i + 1) 1 = i + 1" using pos by (intro max_absorb1) blast
    then show ?thesis using False by (simp only: next_operation_id_def if_False)
  qed
  have wrap: "i + 1 = 0 \<Longrightarrow> i = - 1" by (simp add: eq_neg_iff_add_eq_0)
  show "next_operation_id i \<noteq> 0" unfolding step by simp
  show "i \<noteq> 0 \<Longrightarrow> next_operation_id i \<noteq> i" unfolding step using wrap by auto
qed

end
