(* ===== verification/Client_Ping.thy ===== *)
theory Client_Ping
  imports Client_Shell Gen_Dns_Props
begin

text \<open>
  Two facts about parts that meet: the daemon refuses the ping the desktop asks for of every location
  without a DNS section, and the budget of reloads bounds every burst.
\<close>

section \<open>The ping the daemon refuses\<close>

definition cloudflare_url :: string where
  "cloudflare_url = ''https://cloudflare-dns.com/dns-query''"

text \<open>A URL parser that finds the host of that URL, if it accepts it.\<close>

definition finds_host :: "(string \<Rightarrow> url option) \<Rightarrow> bool" where
  "finds_host up \<longleftrightarrow> (case up cloudflare_url of None \<Rightarrow> True | Some u \<Rightarrow> url_host u = Some ''cloudflare-dns.com'')"

lemma read_digits_rest: "read_digits r s = (vs, rest) \<Longrightarrow> set rest \<subseteq> set s"
  by (induction s arbitrary: vs) (fastforce split: option.splits prod.splits)+

text \<open>A text without a colon is an address only if it is an IPv4 address.\<close>

lemma no_colon_no_ip:
  assumes colon: "CHR '':'' \<notin> set s" and v4: "read_ipv4 s = None"
  shows "parse_ip s = None"
proof -
  have none: "read_groups n False rest = ([], False, rest)" if "CHR '':'' \<notin> set rest" for n rest
    using that by (cases n; cases rest) (auto simp: read_sep_def read_char_def)
  have "\<exists>hs rest. read_groups (Suc 7) True s = (hs, False, rest) \<and> length hs \<le> 1 \<and> CHR '':'' \<notin> set rest"
  proof (cases "read_number 16 4 True 65535 s")
    case None
    then have "read_groups (Suc 7) True s = ([], False, s)"
      unfolding read_groups.simps(2) using v4 by (simp add: read_sep_def)
    then show ?thesis using colon by simp
  next
    case (Some gr)
    obtain g rest where gr: "gr = (g, rest)" by (cases gr)
    with Some have "set rest \<subseteq> set s"
      by (auto simp: read_number_def split: prod.splits if_splits dest!: read_digits_rest)
    then have rest: "CHR '':'' \<notin> set rest" using colon by blast
    then have "read_groups (Suc 7) True s = ([of_nat g], False, rest)"
      unfolding read_groups.simps(2) using v4 Some gr none [OF rest] by (simp add: read_sep_def)
    then show ?thesis using rest by simp
  qed
  then obtain hs rest where "read_groups 8 True s = (hs, False, rest)" "length hs \<le> 1" "CHR '':'' \<notin> set rest"
    by auto
  then have "read_ipv6 s = None"
    by (cases rest) (auto simp: read_ipv6_def read_char_def)
  with v4 show ?thesis by (simp add: parse_ip_def)
qed

lemma cloudflare_no_ip: "parse_ip ''cloudflare-dns.com'' = None"
  by (rule no_colon_no_ip) code_simp+

lemma default_probe_urls:
  assumes "vs_raw_profile s = None"
  shows "client_dns_probe_urls up s = [cloudflare_url, ''https://dns.google/dns-query'']"
proof -
  have "safe_provider_dns_servers up s = []"
    using assms by (simp add: safe_provider_dns_servers_def profile_dns_def)
  then show ?thesis
    by (simp add: client_dns_probe_urls_def build_dns_plan_def dns_entries_def default_entries_def
        DEFAULT_DOH_SERVERS_def cloudflare_url_def Let_def List.map_filter_def)
qed

lemma named_probe_refused:
  assumes "finds_host up" and "cloudflare_url \<in> set (pp_dns_probe_urls r)"
  shows "validate_proxy_ping_request up r = Err InvalidRequest"
proof -
  have "\<not> dns_probe_url_ok up cloudflare_url"
    using assms(1) by (auto simp: dns_probe_url_ok_def finds_host_def cloudflare_no_ip split: option.splits)
  with assms(2) have "\<not> dns_probe_urls_are_valid up (effective_dns_probe_urls r)"
    by (auto simp: dns_probe_urls_are_valid_def effective_dns_probe_urls_def list_all_iff)
  then show ?thesis by (simp add: validate_proxy_ping_request_def Let_def)
qed

lemma ping_requests_refused:
  assumes "vs_raw_profile s = None" and "finds_host up"
  shows "validate_proxy_ping_request up (ping_request dk s ports config timeout_ms) = Err InvalidRequest"
    and "validate_proxy_ping_request up (legacy_ping_request dk s ports config timeout_ms) = Err InvalidRequest"
  by (rule named_probe_refused [OF assms(2)];
      simp add: ping_request_def legacy_ping_request_def default_probe_urls [OF assms(1)])+

text \<open>Such a frame is answered with the rejection, which the desktop takes for an older daemon.\<close>

lemma refused_frame:
  assumes "validate_proxy_ping_request up p = Err InvalidRequest"
    and "rq_version rq = PROTOCOL_VERSION" "rq_command rq = ProxyPing p"
    and "length bytes \<le> MAX_FRAME_BYTES" "de bytes = Some rq"
  shows "decode_request_frame up de bytes = Err InvalidRequest"
  using assms by (simp add: decode_request_frame_def validate_request_def)

section \<open>Reloads\<close>

definition spaced :: "nat list \<Rightarrow> bool" where
  "spaced ts \<longleftrightarrow> (\<forall>i. i + MAX_RELOADS < length ts \<longrightarrow> ts ! i + RELOAD_WINDOW \<le> ts ! (i + MAX_RELOADS))"

lemma spaced_append:
  assumes "spaced (old @ kept)" and "length kept < MAX_RELOADS" and "\<forall>t \<in> set old. t + RELOAD_WINDOW \<le> now"
  shows "spaced (old @ kept @ [now])"
  unfolding spaced_def
proof (intro allI impI)
  fix i
  let ?ts = "old @ kept @ [now]"
  assume i: "i + MAX_RELOADS < length ?ts"
  show "?ts ! i + RELOAD_WINDOW \<le> ?ts ! (i + MAX_RELOADS)"
  proof (cases "i + MAX_RELOADS < length (old @ kept)")
    case True
    have "?ts ! j = (old @ kept) ! j" if "j < length (old @ kept)" for j
      unfolding append_assoc [symmetric] using that by (rule nth_append_left)
    then have "?ts ! i = (old @ kept) ! i" "?ts ! (i + MAX_RELOADS) = (old @ kept) ! (i + MAX_RELOADS)"
      using True by simp_all
    with True assms(1) show ?thesis by (simp add: spaced_def)
  next
    case False
    with i have at: "i + MAX_RELOADS = length (old @ kept)" by simp
    with assms(2) have "i < length old" by simp
    then have "?ts ! i \<in> set old" by (simp add: nth_append)
    moreover have "?ts ! (i + MAX_RELOADS) = now"
      unfolding at append_assoc [symmetric] by (rule nth_append_length)
    ultimately show ?thesis using assms(3) by simp
  qed
qed

text \<open>The times of the events never go back.\<close>

lemma terminations_spaced:
  assumes "sorted (map snd es)" and "spaced (old @ recent)"
    and "\<forall>t \<in> set old. \<forall>e \<in> set es. t + RELOAD_WINDOW \<le> snd e"
    and "\<forall>t \<in> set recent. \<forall>e \<in> set es. t \<le> snd e"
  shows "spaced (old @ recent @ terminations es recent)"
  using assms
proof (induction es arbitrary: old recent)
  case Nil
  then show ?case by simp
next
  case (Cons e es)
  obtain reason now where e: "e = (reason, now)" by (cases e)
  let ?P = "\<lambda>t. now - t \<ge> RELOAD_WINDOW"
  let ?gone = "takeWhile ?P recent" and ?kept = "dropWhile ?P recent"
  have later: "\<forall>x \<in> set es. now \<le> snd x" and sorted: "sorted (map snd es)" using Cons.prems(1) e by auto
  have gone: "\<forall>t \<in> set ?gone. t + RELOAD_WINDOW \<le> now"
    using Cons.prems(4) e by (auto dest!: set_takeWhileD simp: RELOAD_WINDOW_def)
  have old: "\<forall>t \<in> set (old @ ?gone). t + RELOAD_WINDOW \<le> now" using gone Cons.prems(3) e by auto
  then have old': "\<forall>t \<in> set (old @ ?gone). \<forall>x \<in> set es. t + RELOAD_WINDOW \<le> snd x" using later by force
  have kept: "\<forall>t \<in> set ?kept. \<forall>x \<in> set es. t \<le> snd x" using Cons.prems(4) by (auto dest: set_dropWhileD)
  have whole: "old @ recent = (old @ ?gone) @ ?kept" by simp
  have joined: "(old @ ?gone) @ ?kept @ xs = old @ recent @ xs" for xs
    using whole by (metis append_assoc)
  show ?case
  proof (cases "reason = TerminatedByApi")
    case True
    have "spaced (old @ recent @ terminations es recent)"
      using Cons.prems by (intro Cons.IH) auto
    then show ?thesis by (simp add: e True web_process_terminated_def)
  next
    case False
    show ?thesis
    proof (cases "length ?kept \<ge> MAX_RELOADS")
      case True
      have "spaced ((old @ ?gone) @ ?kept @ terminations es ?kept)"
        using Cons.prems(2) sorted old' kept unfolding whole by (intro Cons.IH)
      then show ?thesis
        using True False unfolding joined by (simp add: e web_process_terminated_def budget_take_def Let_def)
    next
      case few: False
      have "spaced ((old @ ?gone) @ ?kept @ [now])"
        using Cons.prems(2) few old unfolding whole by (intro spaced_append) auto
      then have "spaced ((old @ ?gone) @ (?kept @ [now]) @ terminations es (?kept @ [now]))"
        using sorted old' kept later by (intro Cons.IH) auto
      then show ?thesis
        using few False unfolding append_assoc [of ?kept] joined
        by (simp add: e web_process_terminated_def budget_take_def Let_def)
    qed
  qed
qed

text \<open>After a quiet window a reload is granted again, whatever was refused before.\<close>

lemma budget_refills:
  assumes "\<forall>t \<in> set recent. t + RELOAD_WINDOW \<le> now"
  shows "budget_take now recent = (True, [now])"
proof -
  have "\<forall>t \<in> set recent. now - t \<ge> RELOAD_WINDOW" using assms by (auto simp: RELOAD_WINDOW_def)
  then have "dropWhile (\<lambda>t. now - t \<ge> RELOAD_WINDOW) recent = []" by simp
  then show ?thesis unfolding budget_take_def Let_def by (simp only: list.size MAX_RELOADS_def) simp
qed

lemma budget_length: "length recent \<le> MAX_RELOADS \<Longrightarrow> length (snd (budget_take now recent)) \<le> MAX_RELOADS"
  using length_dropWhile_le [of "\<lambda>t. now - t \<ge> RELOAD_WINDOW" recent] by (simp add: budget_take_def Let_def)

end
