(* ===== verification/Client_Refusal.thy ===== *)
theory Client_Refusal
  imports Client_Ping Client_Props
begin

text \<open>
  The desktop against the daemon of this repository: a request that the daemon refuses while it
  decodes the frame never gives a state, so the ping of a location without a profile never gives
  a time, whatever else the machine does.
\<close>

section \<open>The peer\<close>

text \<open>The frame last written to a connection; the four bytes of a length are no frame.\<close>

fun last_write :: "nat \<Rightarrow> trace \<Rightarrow> string option" where
  "last_write fd [] = None"
| "last_write fd ((c, r) # tr) =
     (case c of WriteBytes f b \<Rightarrow> if f = fd then Some b else last_write fd tr | _ \<Rightarrow> last_write fd tr)"

text \<open>
  The peer answers a frame that it refuses as the daemon does: what is read then is no response, or
  the daemon's rejection.
\<close>

definition answers_like_daemon :: "os \<Rightarrow> codec \<Rightarrow> client_codec \<Rightarrow> bool" where
  "answers_like_daemon os cd cc \<longleftrightarrow>
     (\<forall>tr fd n body frame code response.
        os tr (ReadExact fd n) = Text body \<longrightarrow> last_write fd tr = Some frame
        \<longrightarrow> decode_request_frame (cd_url cd) (cd_request cd) frame = Inl code
        \<longrightarrow> cc_response cc body = Some response \<longrightarrow> response = rejection cd frame code)"

text \<open>What the desktop writes, the daemon reads.\<close>

definition codecs_agree :: "codec \<Rightarrow> client_codec \<Rightarrow> bool" where
  "codecs_agree cd cc \<longleftrightarrow> (\<forall>rq bytes. cc_request cc rq = Some bytes \<longrightarrow> cd_request cd bytes = Some rq)"

section \<open>A refused request\<close>

lemma timed_read:
  assumes "timed os doing limit (recv_exact os fd n) tr = (Inr b, tr')"
  shows "os tr (ReadExact fd n) = Text b \<and> last_write fd tr' = last_write fd tr"
  using assms
  by (auto simp: timed_def recv_exact_def then_io_def map_io_def ask_defs Let_def map_err_eq_Ok
      split: prod.splits sum.splits option.splits if_splits)

lemma timed_sent:
  assumes "timed os doing limit (send_frame os fd bytes) tr = (Inr u, tr')"
  shows "last_write fd tr' = Some bytes"
  using assms
  by (auto simp: timed_def send_frame_def try_io_def then_io_def map_io_def ask_defs Let_def map_err_eq_Ok
      split: prod.splits sum.splits option.splits if_splits)

lemma refused_exchange:
  assumes peer: "answers_like_daemon os cd cc" and codecs: "codecs_agree cd cc"
    and refused: "validate_request (cd_url cd) rq = Err code"
  shows "fst (exchange os cc fd rq tr) \<noteq> Inr st"
proof
  assume "fst (exchange os cc fd rq tr) = Inr st"
  then obtain tr' where run: "exchange os cc fd rq tr = (Inr st, tr')" by (metis prod.collapse)
  from run obtain bytes where bytes: "encode_frame (cc_request cc) rq = Ok bytes"
    and rest: "try_io (timed os ''writing'' 5000 (send_frame os fd bytes)) (\<lambda>_.
       try_io (timed os ''waiting for a response'' 60000 (recv_exact os fd 4)) (\<lambda>header.
       let n = read_be32 header in
       if n > MAX_FRAME_BYTES then return_io (Err (Ce_Protocol FrameTooLarge))
       else try_io (timed os ''reading a response'' 5000 (recv_exact os fd n)) (\<lambda>body.
       return_io (try_then (map_err Ce_Protocol (decode_response_frame (cc_response cc) body))
         (response_outcome (rq_operation_id rq)))))) tr = (Inr st, tr')"
    unfolding exchange_def by (erule_tac try_io_okE) (auto simp: map_err_eq_Ok)
  from rest obtain u tr1 header tr2 where w: "timed os ''writing'' 5000 (send_frame os fd bytes) tr = (Inr u, tr1)"
    and h: "timed os ''waiting for a response'' 60000 (recv_exact os fd 4) tr1 = (Inr header, tr2)"
    and rest: "(let n = read_be32 header in
       if n > MAX_FRAME_BYTES then return_io (Err (Ce_Protocol FrameTooLarge))
       else try_io (timed os ''reading a response'' 5000 (recv_exact os fd n)) (\<lambda>body.
       return_io (try_then (map_err Ce_Protocol (decode_response_frame (cc_response cc) body))
         (response_outcome (rq_operation_id rq))))) tr2 = (Inr st, tr')"
    by (erule_tac try_io_okE, erule_tac try_io_okE) blast
  from rest obtain body where b: "timed os ''reading a response'' 5000 (recv_exact os fd (read_be32 header)) tr2 = (Inr body, tr')"
    and out: "try_then (map_err Ce_Protocol (decode_response_frame (cc_response cc) body))
         (response_outcome (rq_operation_id rq)) = Inr st"
    by (auto simp: Let_def split: if_splits elim!: try_io_okE)
  from out obtain response where response: "cc_response cc body = Some response" "rs_result response = Ok st"
    by (auto simp: try_then_eq_Inr map_err_eq_Ok decode_response_frame_Ok response_outcome_Ok)
  have "last_write fd tr2 = Some bytes" using timed_sent [OF w] timed_read [OF h] by simp
  moreover have "os tr2 (ReadExact fd (read_be32 header)) = Text body" using timed_read [OF b] by blast
  moreover have "decode_request_frame (cd_url cd) (cd_request cd) bytes = Inl code"
    using bytes codecs refused by (auto simp: encode_frame_Ok codecs_agree_def decode_request_frame_def)
  ultimately have "response = rejection cd bytes code" using peer response(1) by (auto simp: answers_like_daemon_def)
  with response(2) show False by (simp add: rejection_def reply_to_def)
qed

lemma refused_request:
  assumes "answers_like_daemon os cd cc" and "codecs_agree cd cc"
    and "\<And>i. validate_request (cd_url cd) \<lparr>rq_version = PROTOCOL_VERSION, rq_operation_id = i, rq_command = command\<rparr> = Err code"
    and "client_request os cc command c tr = ((r, c'), tr')"
  shows "\<exists>e. r = Inl e"
proof (cases r)
  case (Inr st)
  let ?rq = "\<lparr>rq_version = PROTOCOL_VERSION, rq_operation_id = dc_next_operation_id c, rq_command = command\<rparr>"
  have "fst (exchange os cc (dc_stream c) ?rq tr) = Inr st"
    using assms(4) Inr by (auto simp: client_request_def map_io_def split: prod.splits)
  then show ?thesis using refused_exchange [OF assms(1,2) assms(3)] by blast
qed blast

section \<open>The ping\<close>

lemma refused_ping:
  assumes "validate_proxy_ping_request up p = Err code"
  shows "validate_request up \<lparr>rq_version = PROTOCOL_VERSION, rq_operation_id = i, rq_command = ProxyPing p\<rparr> = Err code"
  using assms by (simp add: validate_request_def)

lemma ping_never_measures:
  assumes peer: "answers_like_daemon (dk_os dk) cd (dk_codec dk)" and codecs: "codecs_agree cd (dk_codec dk)"
    and s: "vs_raw_profile s = None" and up: "finds_host (cd_url cd)"
  shows "fst (proxy_get_ping dk s timeout_ms tr) \<noteq> Some (Ok rtt)"
proof -
  note refused = ping_requests_refused [OF s up, THEN refused_ping]
  have again: "x \<noteq> Some (Ok st)" if "ping_again dk s ports t c w = (x, w')" for ports t c w x w' st
    using that refused_request [OF peer codecs refused(2)]
    by (fastforce simp: ping_again_def asked_def map_io_def map_err_eq_Ok split: option.splits sum.splits prod.splits)
  have sent: "x \<noteq> Some (Ok st)" if "send_ping dk s ports config t c w = (x, w')" for ports config t c w x w' st
  proof -
    obtain r c' w1 where r: "client_request (dk_os dk) (dk_codec dk) (ProxyPing (ping_request dk s ports config t)) c w = ((r, c'), w1)"
      by (metis prod.collapse)
    from refused_request [OF peer codecs refused(1) r] obtain e where "r = Inl e" by blast
    with that r show ?thesis by (auto simp: send_ping_def then_io_def dest: again split: if_splits)
  qed
  then have never: "fst (send_ping dk s ports config t c w) \<noteq> Some (Ok st)" for ports config t c w st
    by (metis prod.collapse)
  show ?thesis
    by (auto simp: proxy_get_ping_def then_io_def map_io_def try_then_eq_Inr never
        split: option.splits sum.splits prod.splits dest: arg_cong [where f = fst])
qed

end
