(* ===== verification/Client_Apps.thy ===== *)
theory Client_Apps
  imports Client_Shell
begin

text \<open>
  \<open>src-tauri/src/apps.rs\<close>: the applications offered for the split, read from desktop entries, with the
  name of the process the tunnel will see and an icon.  \<open>lowercase\<close> (of the whole of Unicode) and
  \<open>b64\<close> are library functions.
\<close>

record apps_host =
  ah_os :: os
  ah_lowercase :: "string \<Rightarrow> string"
  ah_b64 :: "string \<Rightarrow> string"

record installed_app =
  ia_id :: string
  ia_name :: string
  ia_icon :: "string option"

section \<open>Paths\<close>

text \<open>\<open>file_stem\<close> and \<open>extension\<close> of a file name.\<close>

definition stem_and_extension :: "string \<Rightarrow> string \<times> string option" where
  "stem_and_extension name =
     (case rsplit_once (CHR ''.'') name of
        None \<Rightarrow> (name, None)
      | Some (b, e) \<Rightarrow> if b = [] \<or> name = ''..'' then (name, None) else (b, Some e))"

definition path_extension :: "string \<Rightarrow> string option" where
  "path_extension p =
     Option.bind (file_name p) (\<lambda>n. Option.bind (snd (stem_and_extension n)) (\<lambda>e. if valid_utf8 e then Some e else None))"

definition path_stem :: "string \<Rightarrow> string option" where
  "path_stem p = map_option (\<lambda>n. fst (stem_and_extension n)) (file_name p)"

definition path_stem_str :: "string \<Rightarrow> string option" where
  "path_stem_str p = Option.bind (path_stem p) (\<lambda>s. if valid_utf8 s then Some s else None)"

definition env_var :: "os \<Rightarrow> string \<Rightarrow> (trace, string option) io" where
  "env_var os name = map_io res_ok (ask_text os (GetEnv name))"

text \<open>\<open>Path::join\<close>: no second slash.\<close>

definition path_push :: "string \<Rightarrow> string \<Rightarrow> string" where
  "path_push dir name =
     (if is_absolute name then name
      else if dir = [] \<or> last dir = CHR ''/'' then dir @ name
      else dir @ ''/'' @ name)"

definition home_dirs :: "string option \<Rightarrow> string list \<Rightarrow> string list" where
  "home_dirs home dirs = (case home of None \<Rightarrow> [] | Some h \<Rightarrow> map (path_push h) dirs)"

definition desktop_dirs :: "os \<Rightarrow> (trace, string list) io" where
  "desktop_dirs os =
     then_io (env_var os ''HOME'') (\<lambda>home.
     map_io (\<lambda>xdg.
         [''/usr/share/applications'', ''/usr/local/share/applications'',
          ''/var/lib/flatpak/exports/share/applications'']
         @ home_dirs home [''.local/share/applications'', ''.local/share/flatpak/exports/share/applications'']
         @ (case xdg of
              None \<Rightarrow> []
            | Some x \<Rightarrow> map (\<lambda>part. path_push part ''applications'')
                         (filter (\<lambda>part. part \<noteq> []) (split_on (CHR '':'') (from_utf8_lossy x)))))
       (env_var os ''XDG_DATA_DIRS''))"

definition icon_theme_roots :: "os \<Rightarrow> (trace, string list) io" where
  "icon_theme_roots os =
     map_io (\<lambda>home.
         [''/usr/share/icons'', ''/usr/local/share/icons'', ''/var/lib/flatpak/exports/share/icons'']
         @ home_dirs home [''.local/share/icons'', ''.icons'', ''.local/share/flatpak/exports/share/icons''])
       (env_var os ''HOME'')"

section \<open>The name of the process\<close>

fun binary_of_tokens :: "string list \<Rightarrow> string option" where
  "binary_of_tokens [] = None"
| "binary_of_tokens (t # ts) =
     (if starts_with ''%'' t \<or> t = ''env'' \<or> CHR ''='' \<in> set t then binary_of_tokens ts
      else (case file_name t of
              None \<Rightarrow> None
            | Some n \<Rightarrow> if n = [] then binary_of_tokens ts else Some n))"

definition binary_from_exec :: "string \<Rightarrow> string option" where
  "binary_from_exec exec = binary_of_tokens (split_whitespace exec)"

definition LAUNCHERS :: "string list" where
  "LAUNCHERS =
     [''steam'', ''flatpak'', ''snap'', ''wine'', ''lutris'', ''gamescope'', ''heroic'', ''env'', ''sh'', ''bash'',
      ''python'', ''python3'', ''java'', ''mono'', ''dotnet'']"

definition flatpak_app_dirs :: "os \<Rightarrow> (trace, string list) io" where
  "flatpak_app_dirs os =
     map_io (\<lambda>home. ''/var/lib/flatpak/app'' # home_dirs home [''.local/share/flatpak/app'']) (env_var os ''HOME'')"

definition read_text :: "os \<Rightarrow> string \<Rightarrow> (trace, string option) io" where
  "read_text os p =
     map_io (\<lambda>r. case r of Inl _ \<Rightarrow> None | Inr t \<Rightarrow> if valid_utf8 t then Some t else None) (ask_text os (ReadFile p))"

definition base_lossy :: "string \<Rightarrow> string option" where
  "base_lossy s = map_option from_utf8_lossy (file_name s)"

text \<open>The command of the metadata, and what a wrapper script executes.\<close>

definition metadata_command :: "string \<Rightarrow> string option" where
  "metadata_command meta = map_option trim (find_map (strip_prefix ''command='') (str_lines meta))"

definition trim_begin :: "string \<Rightarrow> string" where
  "trim_begin s = concat (dropWhile is_ws (utf8_chars s))"

definition wrapped_binary :: "string \<Rightarrow> string option" where
  "wrapped_binary script =
     (if \<not> starts_with ''#!'' script then None
      else Option.bind (List.find (\<lambda>l. starts_with ''exec '' (trim_begin l)) (str_lines script)) (\<lambda>l.
           Option.bind (List.find (starts_with ''/'') (drop 1 (split_whitespace l))) base_lossy))"

fun flatpak_process_in :: "os \<Rightarrow> string \<Rightarrow> string list \<Rightarrow> (trace, string option) io" where
  "flatpak_process_in os app [] = return_io None"
| "flatpak_process_in os app (base # rest) =
     (let active = path_push (path_push base app) ''current/active'' in
      then_io (read_text os (active @ ''/metadata'')) (\<lambda>meta.
      case Option.bind meta metadata_command of
        None \<Rightarrow> flatpak_process_in os app rest
      | Some command \<Rightarrow>
          map_io (\<lambda>script.
              (case Option.bind script wrapped_binary of Some real \<Rightarrow> Some real | None \<Rightarrow> base_lossy command))
            (read_text os (path_push (active @ ''/files/bin'') command))))"

definition flatpak_process_name :: "os \<Rightarrow> string \<Rightarrow> (trace, string option) io" where
  "flatpak_process_name os app = then_io (flatpak_app_dirs os) (flatpak_process_in os app)"

definition flatpak_app_id :: "string \<Rightarrow> string option" where
  "flatpak_app_id exec =
     List.find (\<lambda>t. \<not> starts_with ''-'' t \<and> \<not> starts_with ''%'' t \<and> 2 \<le> count_list t (CHR ''.'')) (split_whitespace exec)"

definition derive_app_id :: "os \<Rightarrow> string \<Rightarrow> string \<Rightarrow> (trace, string) io" where
  "derive_app_id os exec stem =
     (let bin = (case binary_from_exec exec of None \<Rightarrow> stem | Some b \<Rightarrow> from_utf8_lossy b) in
      if bin \<notin> set LAUNCHERS then return_io bin
      else (case (if bin = ''flatpak'' then flatpak_app_id exec else None) of
              None \<Rightarrow> return_io stem
            | Some app \<Rightarrow> map_io (unwrap_or app) (flatpak_process_name os app)))"

section \<open>Icons\<close>

definition MAX_ICON_BYTES :: nat where "MAX_ICON_BYTES = 512 * 1024"
definition MAX_ICON_DIRS :: nat where "MAX_ICON_DIRS = 6000"

definition icon_mime :: "string \<Rightarrow> string option" where
  "icon_mime p =
     Option.bind (map_option to_lower (path_extension p)) (\<lambda>e.
       if e = ''svg'' then Some ''image/svg+xml'' else if e = ''png'' then Some ''image/png'' else None)"

definition read_icon_data_uri :: "apps_host \<Rightarrow> string \<Rightarrow> (trace, string option) io" where
  "read_icon_data_uri h p =
     (case icon_mime p of
        None \<Rightarrow> return_io None
      | Some mime \<Rightarrow>
          map_io (\<lambda>r. Option.bind (res_ok r) (\<lambda>bytes.
              if length bytes > MAX_ICON_BYTES then None
              else Some (''data:'' @ mime @ '';base64,'' @ ah_b64 h bytes)))
            (ask_text (ah_os h) (ReadFile p)))"

text \<open>The square sizes named in a path; a sign can only be a plus, a dash being a separator.\<close>

definition square_size :: "string \<Rightarrow> nat option" where
  "square_size seg =
     Option.bind (split_once (CHR ''x'') seg) (\<lambda>(a, b).
     Option.bind (parse_uint_radix 10 2147483647 a) (\<lambda>m.
     Option.bind (parse_uint_radix 10 2147483647 b) (\<lambda>n. if m = n then Some m else None)))"

definition icon_sizes :: "string \<Rightarrow> nat list" where
  "icon_sizes p = List.map_filter square_size (split_by (\<lambda>c. c = CHR ''/'' \<or> c = CHR ''-'') (from_utf8_lossy p))"

definition icon_score :: "string \<Rightarrow> nat" where
  "icon_score p =
     (let e = to_lower (unwrap_or [] (path_extension p)) in
      if e = ''svg'' then 100000
      else if e = ''png'' then (case icon_sizes p of [] \<Rightarrow> 64 | n # ns \<Rightarrow> min (fold max ns n) 512)
      else if e = ''xpm'' then 1 else 0)"

type_synonym icon_index = "string \<Rightarrow> (string \<times> nat) option"

definition index_icon :: "string \<Rightarrow> icon_index \<Rightarrow> icon_index" where
  "index_icon p index =
     (if to_lower (unwrap_or [] (path_extension p)) \<notin> {''png'', ''svg'', ''xpm''} then index
      else (case path_stem_str p of
              None \<Rightarrow> index
            | Some stem \<Rightarrow>
                let score = icon_score p in
                (case index stem of
                   Some (_, best) \<Rightarrow> if best \<ge> score then index else index(stem \<mapsto> (p, score))
                 | None \<Rightarrow> index(stem \<mapsto> (p, score)))))"

text \<open>One entry: a directory goes on the stack, a file into the index.\<close>

definition index_entry ::
    "os \<Rightarrow> string \<Rightarrow> string list \<times> icon_index \<Rightarrow> (trace, string list \<times> icon_index) io" where
  "index_entry os p w =
     map_io (\<lambda>r. case w of (stack, index) \<Rightarrow>
         (case r of
            Inl _ \<Rightarrow> (stack, index)
          | Inr m \<Rightarrow> if md_is_dir m then (p # stack, index) else (stack, index_icon p index)))
       (ask_meta os (Lstat p))"

text \<open>At most \<open>n\<close> directories are read.\<close>

fun index_dirs :: "os \<Rightarrow> nat \<Rightarrow> string list \<Rightarrow> icon_index \<Rightarrow> (trace, icon_index) io" where
  "index_dirs os 0 stack index = return_io index"
| "index_dirs os (Suc n) [] index = return_io index"
| "index_dirs os (Suc n) (dir # stack) index =
     then_io (ask_names os (ReadDir dir)) (\<lambda>r. case r of
       Inl _ \<Rightarrow> index_dirs os n stack index
     | Inr names \<Rightarrow>
         then_io (fold_io (index_entry os) (map (path_push dir) names) (stack, index))
           (\<lambda>(stack', index'). index_dirs os n stack' index'))"

definition build_icon_index :: "os \<Rightarrow> (trace, string \<Rightarrow> string option) io" where
  "build_icon_index os =
     then_io (icon_theme_roots os) (\<lambda>roots.
     map_io (\<lambda>index stem. map_option fst (index stem))
       (index_dirs os MAX_ICON_DIRS (rev (roots @ [''/usr/share/pixmaps''])) (\<lambda>_. None)))"

definition resolve_icon :: "apps_host \<Rightarrow> (string \<Rightarrow> string option) \<Rightarrow> string \<Rightarrow> (trace, string option) io" where
  "resolve_icon h index icon =
     then_io (if is_absolute icon then ask_flag (ah_os h) (IsFile icon) else return_io False) (\<lambda>direct.
     if direct then read_icon_data_uri h icon
     else (case (case index (unwrap_or icon (path_stem_str icon)) of None \<Rightarrow> index icon | Some p \<Rightarrow> Some p) of
             None \<Rightarrow> return_io None
           | Some p \<Rightarrow> read_icon_data_uri h p))"

section \<open>Desktop entries\<close>

record desktop_entry =
  en_here :: bool
  en_name :: "string option"
  en_exec :: "string option"
  en_icon :: "string option"
  en_no_display :: bool
  en_is_app :: bool

definition get_or_insert :: "string \<Rightarrow> string option \<Rightarrow> string option" where
  "get_or_insert v x = (case x of None \<Rightarrow> Some (trim v) | Some y \<Rightarrow> Some y)"

definition is_text :: "string \<Rightarrow> string \<Rightarrow> bool" where
  "is_text want v = eq_ignore_ascii_case (trim v) want"

definition entry_line :: "string \<Rightarrow> desktop_entry \<Rightarrow> desktop_entry" where
  "entry_line raw e =
     (let line = trim raw in
      if starts_with ''['' line then e\<lparr>en_here := (line = ''[Desktop Entry]'')\<rparr>
      else if \<not> en_here e then e
      else (case strip_prefix ''Name='' line of
              Some v \<Rightarrow> e\<lparr>en_name := get_or_insert v (en_name e)\<rparr>
            | None \<Rightarrow>
      (case strip_prefix ''Exec='' line of
              Some v \<Rightarrow> e\<lparr>en_exec := get_or_insert v (en_exec e)\<rparr>
            | None \<Rightarrow>
      (case strip_prefix ''Icon='' line of
              Some v \<Rightarrow> e\<lparr>en_icon := get_or_insert v (en_icon e)\<rparr>
            | None \<Rightarrow>
      (case strip_prefix ''NoDisplay='' line of
              Some v \<Rightarrow> e\<lparr>en_no_display := is_text ''true'' v\<rparr>
            | None \<Rightarrow>
      (case strip_prefix ''Type='' line of
              Some v \<Rightarrow> e\<lparr>en_is_app := is_text ''application'' v\<rparr>
            | None \<Rightarrow> e))))))"

definition entry_of :: "string \<Rightarrow> desktop_entry" where
  "entry_of t =
     fold entry_line (str_lines t)
       \<lparr>en_here = False, en_name = None, en_exec = None, en_icon = None, en_no_display = False, en_is_app = True\<rparr>"

definition entry_icon ::
    "apps_host \<Rightarrow> (string \<Rightarrow> string option) \<Rightarrow> desktop_entry \<Rightarrow> (trace, string option) io" where
  "entry_icon h index e = (case en_icon e of None \<Rightarrow> return_io None | Some i \<Rightarrow> resolve_icon h index i)"

text \<open>The command and the name of an entry that is shown.\<close>

definition shown_entry :: "desktop_entry \<Rightarrow> (string \<times> string) option" where
  "shown_entry e =
     (if en_no_display e \<or> \<not> en_is_app e then None
      else Option.bind (en_exec e) (\<lambda>exec.
           if str_contains ''steam://rungameid/'' exec then None
           else map_option (\<lambda>name. (exec, name)) (en_name e)))"

definition parse_desktop_entry ::
    "apps_host \<Rightarrow> (string \<Rightarrow> string option) \<Rightarrow> string \<Rightarrow> (trace, installed_app option) io" where
  "parse_desktop_entry h index p =
     then_io (read_text (ah_os h) p) (\<lambda>t.
     case Option.bind t (\<lambda>t. shown_entry (entry_of t)) of
       None \<Rightarrow> return_io None
     | Some (exec, name) \<Rightarrow>
         then_io (derive_app_id (ah_os h) exec (unwrap_or [] (path_stem_str p))) (\<lambda>i.
         map_io (\<lambda>icon. Some \<lparr>ia_id = i, ia_name = name, ia_icon = icon\<rparr>)
           (entry_icon h index (entry_of (the t)))))"

definition file_entry :: "apps_host \<Rightarrow> string \<Rightarrow> string \<Rightarrow> (trace, installed_app) io" where
  "file_entry h p t =
     (let e = entry_of t; stem = from_utf8_lossy (unwrap_or [] (path_stem p)) in
      then_io (case en_exec e of Some exec \<Rightarrow> derive_app_id (ah_os h) exec stem | None \<Rightarrow> return_io stem) (\<lambda>i.
      then_io (build_icon_index (ah_os h)) (\<lambda>index.
      map_io (\<lambda>icon. \<lparr>ia_id = i, ia_name = unwrap_or i (en_name e), ia_icon = icon\<rparr>) (entry_icon h index e))))"

definition app_from_file :: "apps_host \<Rightarrow> string \<Rightarrow> (trace, installed_app option) io" where
  "app_from_file h p =
     (if (case path_extension p of None \<Rightarrow> False | Some e \<Rightarrow> eq_ignore_ascii_case e ''desktop'')
      then then_io (read_text (ah_os h) p) (\<lambda>t. case t of
             None \<Rightarrow> return_io None
           | Some text' \<Rightarrow> map_io Some (file_entry h p text'))
      else return_io (map_option (\<lambda>b. \<lparr>ia_id = b, ia_name = b, ia_icon = None\<rparr>) (base_lossy p)))"

section \<open>The list\<close>

text \<open>The first entry of an identifier stays.\<close>

definition add_app :: "installed_app \<Rightarrow> installed_app list \<Rightarrow> installed_app list" where
  "add_app a apps = (if ia_id a \<in> ia_id ` set apps then apps else apps @ [a])"

definition add_entry ::
    "apps_host \<Rightarrow> (string \<Rightarrow> string option) \<Rightarrow> string \<Rightarrow> installed_app list \<Rightarrow> (trace, installed_app list) io" where
  "add_entry h index p apps =
     (if path_extension p \<noteq> Some ''desktop'' then return_io apps
      else map_io (\<lambda>a. case a of None \<Rightarrow> apps | Some a \<Rightarrow> add_app a apps) (parse_desktop_entry h index p))"

definition add_dir ::
    "apps_host \<Rightarrow> (string \<Rightarrow> string option) \<Rightarrow> string \<Rightarrow> installed_app list \<Rightarrow> (trace, installed_app list) io" where
  "add_dir h index dir apps =
     then_io (ask_names (ah_os h) (ReadDir dir)) (\<lambda>r. case r of
       Inl _ \<Rightarrow> return_io apps
     | Inr names \<Rightarrow> fold_io (add_entry h index) (map (path_push dir) names) apps)"

definition list_desktop_apps :: "apps_host \<Rightarrow> (trace, installed_app list) io" where
  "list_desktop_apps h =
     then_io (build_icon_index (ah_os h)) (\<lambda>index.
     then_io (desktop_dirs (ah_os h)) (\<lambda>dirs.
     map_io (\<lambda>apps. sort_key (\<lambda>a. ah_lowercase h (ia_name a)) (sort_key ia_id apps))
       (fold_io (add_dir h index) dirs [])))"

section \<open>What the list guarantees\<close>

lemma binary_of_tokens_plain:
  "binary_of_tokens ts = Some n \<Longrightarrow> n \<noteq> [] \<and> (\<exists>t \<in> set ts. file_name t = Some n)"
  by (induction ts) (auto split: if_splits option.splits)

text \<open>Reading the applications changes nothing.\<close>

definition only_reads :: "call \<Rightarrow> bool" where
  "only_reads c \<longleftrightarrow>
     (case c of ReadFile _ \<Rightarrow> True | ReadDir _ \<Rightarrow> True | Lstat _ \<Rightarrow> True | IsFile _ \<Rightarrow> True | GetEnv _ \<Rightarrow> True | _ \<Rightarrow> False)"

lemma only_reads_simps [simp]:
  "only_reads (ReadFile p)" "only_reads (ReadDir p)" "only_reads (Lstat p)" "only_reads (IsFile p)" "only_reads (GetEnv p)"
  by (simp_all add: only_reads_def)

lemma read_calls:
  "calls_only only_reads (read_text os p)" "calls_only only_reads (env_var os name)"
  "calls_only only_reads (read_icon_data_uri h p)"
  unfolding read_text_def env_var_def read_icon_data_uri_def by (intro calls_intro; simp)+

lemma flatpak_calls: "calls_only only_reads (flatpak_process_in os app dirs)"
  by (induction dirs) (auto simp: Let_def intro!: calls_intro read_calls)

lemma derive_calls: "calls_only only_reads (derive_app_id os exec stem)"
  unfolding derive_app_id_def flatpak_process_name_def flatpak_app_dirs_def Let_def
  by (intro calls_intro read_calls flatpak_calls)

lemma index_calls: "calls_only only_reads (index_dirs os n stack index)"
  by (induction os n stack index rule: index_dirs.induct)
    (auto simp: index_entry_def intro!: calls_intro)

lemma icon_index_calls: "calls_only only_reads (build_icon_index os)"
  unfolding build_icon_index_def icon_theme_roots_def by (intro calls_intro read_calls index_calls)

lemma entry_icon_calls: "calls_only only_reads (entry_icon h index e)"
  unfolding entry_icon_def resolve_icon_def by (intro calls_intro read_calls) simp_all

lemma apps_calls: "calls_only only_reads (list_desktop_apps h)" "calls_only only_reads (app_from_file h p)"
proof -
  show "calls_only only_reads (list_desktop_apps h)"
    unfolding list_desktop_apps_def desktop_dirs_def add_dir_def add_entry_def parse_desktop_entry_def
    by (intro calls_intro read_calls icon_index_calls derive_calls entry_icon_calls) simp_all
  show "calls_only only_reads (app_from_file h p)"
    unfolding app_from_file_def file_entry_def Let_def
    by (intro calls_intro read_calls icon_index_calls derive_calls entry_icon_calls)
qed

text \<open>Every identifier is listed once, and the list is sorted by name.\<close>

lemma add_app_distinct: "distinct (map ia_id apps) \<Longrightarrow> distinct (map ia_id (add_app a apps))"
  by (auto simp: add_app_def)

lemma fold_io_value:
  assumes "fold_io f xs a w = (b, w')" and "I a"
    and "\<And>x a w b w'. f x a w = (b, w') \<Longrightarrow> I a \<Longrightarrow> I b"
  shows "I b"
  using assms(1,2)
proof (induction xs arbitrary: a w)
  case (Cons x xs)
  then show ?case by (auto simp: then_io_def split: prod.splits dest: assms(3))
qed simp

lemma add_dir_distinct:
  assumes "add_dir h index dir apps w = (b, w')" and "distinct (map ia_id apps)"
  shows "distinct (map ia_id b)"
proof -
  have entry: "distinct (map ia_id b)"
    if "add_entry h index p apps w = (b, w')" and "distinct (map ia_id apps)" for p apps w b w'
    using that by (auto simp: add_entry_def map_io_def add_app_distinct split: if_splits prod.splits option.splits)
  show ?thesis
    using assms
    by (auto simp: add_dir_def then_io_def split: prod.splits sum.splits
        elim!: fold_io_value [where I = "\<lambda>a. distinct (map ia_id a)"] intro: entry)
qed

lemma listed_apps:
  assumes "list_desktop_apps h w = (apps, w')"
  shows "distinct (map ia_id apps) \<and> sorted (map (\<lambda>a. ah_lowercase h (ia_name a)) apps)"
proof -
  from assms obtain index w1 dirs w2 found where
      f: "fold_io (add_dir h index) dirs [] w2 = (found, w')"
      and apps: "apps = sort_key (\<lambda>a. ah_lowercase h (ia_name a)) (sort_key ia_id found)"
    by (auto simp: list_desktop_apps_def then_io_def map_io_def split: prod.splits)
  have "distinct (map ia_id found)"
    by (rule fold_io_value [OF f, where I = "\<lambda>a. distinct (map ia_id a)"]) (auto intro: add_dir_distinct)
  then have "distinct found" "inj_on ia_id (set found)" by (simp_all add: distinct_map)
  then show ?thesis by (simp add: apps distinct_map)
qed

end
