(* ===== verification/Client_Fetch_Props.thy ===== *)
theory Client_Fetch_Props
  imports Client_Core
begin

text \<open>
  What fetching a subscription and managing the cores guarantee: no request to an address that is
  not public, and no file outside the directory of the cores.
\<close>

section \<open>Blocked addresses\<close>

lemma octet_and:
  assumes "s AND m = (v :: u16)"
  shows "(ucast (drop_bit 8 s) :: u8) AND ucast (drop_bit 8 m) = ucast (drop_bit 8 v)"
    and "(ucast s :: u8) AND ucast m = ucast v"
  unfolding assms [symmetric] by (simp_all add: drop_bit_and unsigned_and_eq)

lemma octet_full: "(x :: u8) AND 0xff = x"
proof -
  have "(0xff :: u8) = -1" by simp
  then show ?thesis by (simp only: and.right_neutral)
qed

lemma unique_local_octet: "s AND 0xfe00 = (0xfc00 :: u16) \<Longrightarrow> (ucast (drop_bit 8 s) :: u8) AND 0xfe = 0xfc"
  using octet_and(1) [of s "0xfe00" "0xfc00"] by simp

lemma link_local_octets:
  assumes "s AND 0xffc0 = (0xfe80 :: u16)"
  shows "(ucast (drop_bit 8 s) :: u8) = 0xfe" and "(ucast s :: u8) AND 0xc0 = 0x80"
proof -
  have "(ucast (drop_bit 8 s) :: u8) AND 0xff = 0xfe"
    using octet_and(1) [OF assms] by simp
  then show "(ucast (drop_bit 8 s) :: u8) = 0xfe" by (simp only: octet_full)
  have "(ucast (0xffc0 :: u16) :: u8) = 0xc0" "(ucast (0xfe80 :: u16) :: u8) = 0x80" by simp_all
  then show "(ucast s :: u8) AND 0xc0 = 0x80" using octet_and(2) [OF assms] by (simp only:)
qed

lemma not_blocked_safe:
  assumes "\<not> is_blocked_ip a" and "ip_wf a"
  shows "is_safe_remote_dns_ip a"
proof (cases a)
  case (V4 p q r s)
  with assms(1) show ?thesis by (simp add: blocked_v4_def is_private_v4_def)
next
  case (V6 ss)
  with assms(2) have "length ss = 8" by simp
  then obtain s0 s1 s2 s3 s4 s5 s6 s7 where ss: "ss = [s0, s1, s2, s3, s4, s5, s6, s7]"
    by (auto simp: numeral_eq_Suc length_Suc_conv)
  show ?thesis
  proof (cases "s0 = 0 \<and> s1 = 0 \<and> s2 = 0 \<and> s3 = 0 \<and> s4 = 0 \<and> s5 = 0xffff")
    case True
    then show ?thesis by (simp add: V6 ss)
  next
    case False
    then have "ipv4_mapped ss = None" by (auto simp: ss ipv4_mapped_def)
    with assms(1) have *: "\<not> is_loopback a" "\<not> is_unspecified a" "\<not> is_multicast a"
      "(ucast (drop_bit 8 s0) :: u8) AND 0xfe \<noteq> 0xfc"
      "\<not> ((ucast (drop_bit 8 s0) :: u8) = 0xfe \<and> (ucast s0 :: u8) AND 0xc0 = 0x80)"
      by (simp_all add: V6 ss first_octets_def)
    have "s0 AND 0xfe00 \<noteq> 0xfc00" using *(4) unique_local_octet by blast
    moreover have "s0 AND 0xffc0 \<noteq> 0xfe80" using *(5) link_local_octets by blast
    ultimately show ?thesis using *(1-3) by (simp add: V6 ss)
  qed
qed

text \<open>An address that may be dialled.\<close>

definition public_ip :: "ip_addr \<Rightarrow> bool" where
  "public_ip a \<longleftrightarrow> \<not> is_blocked_ip a \<and> (ip_wf a \<longrightarrow> (\<forall>c \<in> set private_ranges. \<not> in_cidr a c))"

lemma not_blocked_public: "\<not> is_blocked_ip a \<Longrightarrow> public_ip a"
  unfolding public_ip_def using not_blocked_safe safe_not_private by blast

text \<open>The same holds of the IPv4 address inside a mapped one.\<close>

lemma mapped_public:
  assumes "\<not> is_blocked_ip (V6 ss)" and "ipv4_mapped ss = Some (a, b, c, d)"
  shows "public_ip (V4 a b c d)"
  using assms by (intro not_blocked_public) simp

section \<open>Requests of a fetch\<close>

text \<open>
  Every request comes right after the resolution of its host, and dials the addresses that gave,
  which are public; the host is no name or address of the machine itself.
\<close>

fun gets_checked :: "trace \<Rightarrow> bool" where
  "gets_checked [] = True"
| "gets_checked ((c, r) # tr) =
     (gets_checked tr
      \<and> (case c of
            HttpGet u headers ips \<Rightarrow>
              (case tr of
                 (ResolveHost host port, Addrs addrs) # _ \<Rightarrow>
                   \<not> is_blocked_host host \<and> ips = map snd addrs \<and> ips \<noteq> [] \<and> list_all public_ip ips
               | _ \<Rightarrow> False)
          | _ \<Rightarrow> True))"

definition gets_made :: "trace \<Rightarrow> nat" where
  "gets_made tr = length (filter (\<lambda>(c, r). case c of HttpGet _ _ _ \<Rightarrow> True | _ \<Rightarrow> False) tr)"

lemma resolve_public_trace:
  assumes "resolve_public os target tr = (x, tr')"
  shows "\<exists>r. tr' = (ResolveHost (fst target) (of_nat (snd target)), r) # tr
    \<and> (\<forall>ips. x = Inr ips \<longrightarrow> (\<exists>addrs. r = Addrs addrs \<and> ips = map snd addrs \<and> ips \<noteq> [] \<and> list_all public_ip ips))"
  using assms
  by (fastforce simp: resolve_public_def map_io_def ask_defs Let_def list_ex_iff list_all_iff intro!: not_blocked_public
      split: prod.splits sum.splits option.splits if_splits)

lemma fetch_target_Ok: "fetch_target u = Ok (host, port) \<Longrightarrow> \<not> is_blocked_host host"
  by (auto simp: fetch_target_def try_then_eq_Inr split: if_splits option.splits)

lemma fetch_one_checked:
  assumes "fetch_one os u agent device tr = (x, tr')" and "gets_checked tr"
  shows "gets_checked tr' \<and> gets_made tr' \<le> Suc (gets_made tr)"
proof (cases "fetch_target u")
  case (Inl e)
  with assms show ?thesis by (auto simp: fetch_one_def try_io_def)
next
  case (Inr target)
  obtain y tr1 where r: "resolve_public os target tr = (y, tr1)" by fastforce
  from resolve_public_trace [OF r] obtain rep where tr1: "tr1 = (ResolveHost (fst target) (of_nat (snd target)), rep) # tr"
    and ok: "\<forall>ips. y = Inr ips \<longrightarrow> (\<exists>addrs. rep = Addrs addrs \<and> ips = map snd addrs \<and> ips \<noteq> [] \<and> list_all public_ip ips)"
    by blast
  have host: "\<not> is_blocked_host (fst target)" using fetch_target_Ok Inr by (cases target) auto
  show ?thesis
  proof (cases y)
    case (Inl e)
    with assms Inr r tr1 show ?thesis by (auto simp: fetch_one_def try_io_def gets_made_def)
  next
    case (Inr ips)
    with ok obtain addrs where "rep = Addrs addrs" "ips = map snd addrs" "ips \<noteq> []" "list_all public_ip ips" by blast
    moreover have "http_get os u agent device ips tr1 = (x, tr')"
      using assms(1) \<open>fetch_target u = Inr target\<close> r Inr by (simp add: fetch_one_def try_io_def)
    ultimately show ?thesis
      using assms(2) host tr1
      by (auto simp: http_get_def map_io_def ask_defs Let_def gets_made_def)
  qed
qed

lemma fetch_from_checked:
  assumes "fetch_from os join_url agent device n u tr = (x, tr')" and "gets_checked tr"
  shows "gets_checked tr' \<and> gets_made tr' \<le> gets_made tr + Suc n"
  using assms
proof (induction n arbitrary: u tr)
  case 0
  obtain a tr1 where one: "fetch_one os u agent device tr = (a, tr1)" by fastforce
  have "tr' = tr1" using 0(1) one by (auto simp: fetch_from.simps try_io_def split: sum.splits if_splits)
  then show ?case using fetch_one_checked [OF one 0(2)] by simp
next
  case (Suc n)
  obtain a tr1 where one: "fetch_one os u agent device tr = (a, tr1)" by fastforce
  note here = fetch_one_checked [OF one Suc.prems(2)]
  from Suc.prems(1) one consider "tr' = tr1"
    | u' where "fetch_from os join_url agent device n u' tr1 = (x, tr')"
    by (auto simp: fetch_from.simps [of _ _ _ _ "Suc n"] try_io_def split: sum.splits if_splits)
  then show ?case
  proof cases
    case 1
    with here show ?thesis by simp
  next
    case 2
    from Suc.IH [OF this] here show ?thesis by auto
  qed
qed

lemma read_body_checked:
  "gets_checked tr \<Longrightarrow> gets_checked (snd (read_body os fuel buf tr)) \<and> gets_made (snd (read_body os fuel buf tr)) = gets_made tr"
proof (induction fuel arbitrary: buf tr)
  case (Suc fuel)
  obtain r where ask: "ask os HttpChunk tr = (r, (HttpChunk, r) # tr)" by (simp add: ask_def Let_def)
  have "gets_checked ((HttpChunk, r) # tr)" "gets_made ((HttpChunk, r) # tr) = gets_made tr"
    using Suc.prems by (simp_all add: gets_made_def)
  with Suc.IH ask show ?case by (cases r) (auto simp: then_io_def)
qed simp

lemma fetch_subscription_checked:
  "gets_checked (snd (fetch_subscription os pa join_url arch fuel url choice []))
   \<and> gets_made (snd (fetch_subscription os pa join_url arch fuel url choice [])) \<le> 6"
proof -
  have start: "gets_checked []" "gets_made [] = 0" by (simp_all add: gets_made_def)
  have receive: "gets_checked (snd (receive_subscription os pa fuel a tr))
      \<and> gets_made (snd (receive_subscription os pa fuel a tr)) = gets_made tr" if "gets_checked tr" for a tr
    using read_body_checked [OF that, of os fuel "[]"]
    using that by (auto simp: receive_subscription_def map_io_def split: prod.splits)
  have "gets_checked tr' \<and> gets_made tr' \<le> 6"
    if "fetch_subscription_response os join_url agent device u [] = (r, tr')" for agent device u r tr'
    using fetch_from_checked [OF that [unfolded fetch_subscription_response_def] start(1)] start(2)
    by (simp add: MAX_REDIRECTS_def)
  with receive start show ?thesis
    by (auto simp: fetch_subscription_def Let_def then_io_def split: option.splits sum.splits prod.splits)
qed

end
