(* ===== verification/Client_Core_Props.thy ===== *)
theory Client_Core_Props
  imports Client_Core
begin

text \<open>
  What managing the cores guarantees: every file it changes lies in the directory of the cores, at a
  place named by a plain component, and a version is stored only when its digest agrees.
\<close>

section \<open>Tags are plain components\<close>

definition plain_component :: "string \<Rightarrow> bool" where
  "plain_component t \<longleftrightarrow> t \<noteq> [] \<and> t \<noteq> ''.'' \<and> t \<noteq> ''..'' \<and> CHR ''/'' \<notin> set t \<and> nul \<notin> set t"

lemma tag_char_plain: "\<not> tag_char (CHR ''/'')" "\<not> tag_char nul"
  by code_simp+

lemma valid_tag_plain: "valid_tag tag \<Longrightarrow> plain_component (strip_v tag)"
  using tag_char_plain by (auto simp: valid_tag_def plain_component_def Let_def list_all_iff)

section \<open>Files\<close>

definition version_place :: "string \<Rightarrow> string \<Rightarrow> bool" where
  "version_place base p \<longleftrightarrow> (\<exists>t. plain_component t \<and> p = base @ ''/core/versions/xray/'' @ t)"

definition binary_place :: "string \<Rightarrow> string \<Rightarrow> bool" where
  "binary_place base p \<longleftrightarrow> (\<exists>d. version_place base d \<and> p = d @ ''/xray'')"

definition choice_file :: "string \<Rightarrow> string" where
  "choice_file base = base @ ''/core/active-xray.txt''"

definition legacy_files :: "string \<Rightarrow> string set" where
  "legacy_files base =
     (\<lambda>f. base @ ''/core/'' @ f) ` {''sing-box'', ''version.txt'', ''active.txt'', ''active-singbox.txt''}"

text \<open>The calls: reading is free, what changes files is bound to its place; one program is run, to ask its version.\<close>

definition core_call :: "string \<Rightarrow> call \<Rightarrow> bool" where
  "core_call base c \<longleftrightarrow>
     (case c of
        WriteFile p b \<Rightarrow> p = choice_file base \<or> (binary_place base p \<and> b = [])
      | WriteAll p b \<Rightarrow> binary_place base p
      | CopyFile src p \<Rightarrow> binary_place base p
      | SetMode p m \<Rightarrow> binary_place base p \<and> m = 493
      | MakeDirAll p \<Rightarrow> p = base @ ''/core'' \<or> p = base @ ''/core/versions/xray'' \<or> version_place base p
      | RemoveFile p \<Rightarrow> p = choice_file base \<or> p \<in> legacy_files base
      | RemoveDirAll p \<Rightarrow> version_place base p \<or> p = base @ ''/core/versions/singbox''
      | Run prog args inp \<Rightarrow> args = [''version''] \<and> inp = []
      | ReadFile _ \<Rightarrow> True
      | ReadDir _ \<Rightarrow> True
      | PathExists _ \<Rightarrow> True
      | IsFile _ \<Rightarrow> True
      | HttpGet _ headers ips \<Rightarrow> headers = [(''User-Agent'', core_agent)] \<and> ips = []
      | HttpChunk \<Rightarrow> True
      | _ \<Rightarrow> False)"

lemma core_call_simps [simp]:
  "core_call base (WriteFile p b) \<longleftrightarrow> p = choice_file base \<or> (binary_place base p \<and> b = [])"
  "core_call base (WriteAll p b) \<longleftrightarrow> binary_place base p" "core_call base (CopyFile src p) \<longleftrightarrow> binary_place base p"
  "core_call base (SetMode p m) \<longleftrightarrow> binary_place base p \<and> m = 493"
  "core_call base (MakeDirAll p) \<longleftrightarrow> p = base @ ''/core'' \<or> p = base @ ''/core/versions/xray'' \<or> version_place base p"
  "core_call base (RemoveFile p) \<longleftrightarrow> p = choice_file base \<or> p \<in> legacy_files base"
  "core_call base (RemoveDirAll p) \<longleftrightarrow> version_place base p \<or> p = base @ ''/core/versions/singbox''"
  "core_call base (Run prog args inp) \<longleftrightarrow> args = [''version''] \<and> inp = []"
  "core_call base (ReadFile p)" "core_call base (ReadDir p)" "core_call base (PathExists p)" "core_call base (IsFile p)"
  "core_call base (HttpGet u hs ips) \<longleftrightarrow> hs = [(''User-Agent'', core_agent)] \<and> ips = []" "core_call base HttpChunk"
  by (simp_all add: core_call_def)

text \<open>Code of this kind whose value, when there is one, satisfies a predicate.\<close>

definition core_gives :: "string \<Rightarrow> ('a \<Rightarrow> bool) \<Rightarrow> (trace, string + 'a) io \<Rightarrow> bool" where
  "core_gives base Q m \<longleftrightarrow> calls_only (core_call base) m \<and> (\<forall>tr a tr'. m tr = (Inr a, tr') \<longrightarrow> Q a)"

lemma core_gives_calls: "core_gives base Q m \<Longrightarrow> calls_only (core_call base) m"
  by (simp add: core_gives_def)

lemma calls_only_try_gives:
  assumes "core_gives base Q m" and "\<And>a. Q a \<Longrightarrow> calls_only (core_call base) (k a)"
  shows "calls_only (core_call base) (try_io m k)"
  unfolding calls_only_def
proof (intro allI impI)
  fix tr r tr'
  assume run: "try_io m k tr = (r, tr')"
  obtain x tr1 where m: "m tr = (x, tr1)" by fastforce
  have first: "extends_by (core_call base) tr tr1"
    using assms(1) m by (auto simp: core_gives_def dest: calls_onlyD)
  show "extends_by (core_call base) tr tr'"
  proof (cases x)
    case (Inl e)
    with run m first show ?thesis by (simp add: try_io_def)
  next
    case (Inr a)
    with assms(1) m have "Q a" by (auto simp: core_gives_def)
    with assms(2) run m Inr have "extends_by (core_call base) tr1 tr'"
      by (auto simp: try_io_def dest: calls_onlyD)
    with first show ?thesis by (rule extends_by_trans)
  qed
qed

lemma core_gives_return: "(case r of Inl e \<Rightarrow> True | Inr a \<Rightarrow> Q a) \<Longrightarrow> core_gives base Q (return_io r)"
  by (auto simp: core_gives_def calls_intro)

lemma core_gives_try:
  assumes "core_gives base Q m" and "\<And>a. Q a \<Longrightarrow> core_gives base R (k a)"
  shows "core_gives base R (try_io m k)"
  unfolding core_gives_def
proof (intro conjI allI impI)
  show "calls_only (core_call base) (try_io m k)"
    using assms by (intro calls_only_try_gives) (auto simp: core_gives_def)
  fix tr b tr'
  assume "try_io m k tr = (Inr b, tr')"
  then obtain a tr1 where "m tr = (Inr a, tr1)" "k a tr1 = (Inr b, tr')"
    by (auto simp: try_io_def split: prod.splits sum.splits)
  with assms show "R b" by (auto simp: core_gives_def)
qed

lemma core_gives_any: "calls_only (core_call base) m \<Longrightarrow> core_gives base (\<lambda>_. True) m"
  by (simp add: core_gives_def)

lemma done_or_calls: "P c \<Longrightarrow> calls_only P (done_or what os c)"
  unfolding done_or_def by (intro calls_intro)

definition core_base :: "core_host \<Rightarrow> string" where
  "core_base h = (case ch_dir h of Inl _ \<Rightarrow> [] | Inr b \<Rightarrow> b)"

abbreviation core_only :: "core_host \<Rightarrow> (trace, 'a) io \<Rightarrow> bool" where
  "core_only h \<equiv> calls_only (core_call (core_base h))"

lemma core_dir_gives: "core_gives (core_base h) (\<lambda>d. d = core_base h @ ''/core'') (core_dir h)"
proof (cases "ch_dir h")
  case (Inl e)
  then show ?thesis by (simp add: core_dir_def core_gives_return)
next
  case (Inr b)
  then show ?thesis
    unfolding core_dir_def core_base_def
    by simp (rule core_gives_try [OF core_gives_any]; auto intro!: done_or_calls core_gives_return)
qed

lemma versions_dir_gives:
  "core_gives (core_base h) (\<lambda>d. d = core_base h @ ''/core/versions/xray'') (versions_dir h)"
  unfolding versions_dir_def
  by (rule core_gives_try [OF core_dir_gives], rule core_gives_try [OF core_gives_any])
    (auto intro!: done_or_calls core_gives_return)

lemma version_dir_gives: "core_gives (core_base h) (version_place (core_base h)) (version_dir h tag)"
proof (cases "valid_tag tag")
  case True
  have "core_gives (core_base h) (version_place (core_base h))
      (try_io (versions_dir h) (\<lambda>d. return_io (Ok (d @ ''/'' @ strip_v tag))))"
    using valid_tag_plain [OF True]
    by (intro core_gives_try [OF versions_dir_gives] core_gives_return) (auto simp: version_place_def)
  with True show ?thesis by (simp add: version_dir_def)
qed (simp add: version_dir_def core_gives_return)

lemma version_binary_gives: "core_gives (core_base h) (binary_place (core_base h)) (version_binary h tag)"
  unfolding version_binary_def
  by (rule core_gives_try [OF version_dir_gives]) (auto simp: binary_place_def bin_name_def intro!: core_gives_return)

lemmas core_calls = calls_intro done_or_calls calls_only_ask_as
lemmas dir_calls = core_dir_gives [THEN core_gives_calls] versions_dir_gives [THEN core_gives_calls]
  version_dir_gives [THEN core_gives_calls] version_binary_gives [THEN core_gives_calls]

lemma active_tag_calls: "core_only h (active_tag h)"
  unfolding active_tag_def by (intro core_calls dir_calls) simp_all

lemma write_active_calls: "core_only h (write_active h tag)"
  unfolding write_active_def
  by (rule calls_only_try_gives [OF core_dir_gives]) (auto simp: active_file_def choice_file_def intro!: done_or_calls)

lemma clear_active_calls: "core_only h (clear_active h)"
  unfolding clear_active_def
  by (rule calls_only_try_gives [OF core_dir_gives], intro core_calls) (auto simp: active_file_def choice_file_def)

lemma binary_path_calls: "core_only h (binary_path h)"
  unfolding binary_path_def by (intro core_calls dir_calls active_tag_calls) simp_all

lemma first_file_calls: "core_only h (first_file os ps)"
  by (induction ps) (simp_all, intro core_calls, simp_all add: calls_intro)

lemma bundled_calls: "core_only h (bundled_core_path h)" "core_only h (core_version_of os bin)"
  "core_only h (bundled_core_tag h)"
proof -
  show p: "core_only h (bundled_core_path h)" unfolding bundled_core_path_def by (rule first_file_calls)
  show v: "core_only h (core_version_of os bin)" for os bin
    unfolding core_version_of_def by (intro core_calls) simp_all
  show "core_only h (bundled_core_tag h)" unfolding bundled_core_tag_def by (intro core_calls p v)
qed

lemma place_bundled_calls:
  "version_place (core_base h) d \<Longrightarrow> core_only h (place_bundled os src d (d @ ''/'' @ bin_name))"
  unfolding place_bundled_def
  by (intro core_calls) (auto simp: binary_place_def bin_name_def)

lemma calls_only_then_gives:
  assumes "core_gives base Q m" and "\<And>a. Q a \<Longrightarrow> calls_only (core_call base) (k (Inr a))"
    and "\<And>e. calls_only (core_call base) (k (Inl e))"
  shows "calls_only (core_call base) (then_io m k)"
  unfolding calls_only_def
proof (intro allI impI)
  fix tr r tr'
  assume run: "then_io m k tr = (r, tr')"
  obtain x tr1 where m: "m tr = (x, tr1)" by fastforce
  have first: "extends_by (core_call base) tr tr1"
    using assms(1) m by (auto simp: core_gives_def dest: calls_onlyD)
  have "calls_only (core_call base) (k x)"
  proof (cases x)
    case (Inl e)
    then show ?thesis using assms(3) by simp
  next
    case (Inr a)
    with assms(1) m have "Q a" by (auto simp: core_gives_def)
    then show ?thesis using assms(2) Inr by simp
  qed
  with run m have "extends_by (core_call base) tr1 tr'" by (auto simp: then_io_def dest: calls_onlyD)
  with first show "extends_by (core_call base) tr tr'" by (rule extends_by_trans)
qed

lemma seed_calls: "core_only h (seed_bundled_core h)"
  unfolding seed_bundled_core_def
  by (intro core_calls binary_path_calls active_tag_calls bundled_calls calls_only_then_gives [OF version_dir_gives]
      place_bundled_calls write_active_calls) simp_all

lemma migrate_calls: "core_only h (migrate_legacy_layout h)"
  unfolding migrate_legacy_layout_def
  by (rule calls_only_then_gives [OF core_dir_gives])
    (auto simp: legacy_files_def intro!: core_calls)

lemma with_binary_calls: "core_only h (with_binary os d ns)"
  by (induction ns) (simp_all, intro core_calls, simp_all add: calls_intro)

lemma installed_calls: "core_only h (installed_tags h)"
  unfolding installed_tags_def by (intro core_calls migrate_calls dir_calls with_binary_calls) simp_all

lemma read_all_calls: "core_only h (read_all os fuel buf)" "core_only h (read_core os fuel buf)"
proof -
  show "core_only h (read_all os fuel buf)"
    by (induction fuel arbitrary: buf) (auto intro!: core_calls split: reply.split)
  show "core_only h (read_core os fuel buf)"
    by (induction fuel arbitrary: buf) (auto intro!: core_calls split: reply.split)
qed

lemma fetch_json_calls: "core_only h (fetch_json h fuel what u)"
  unfolding fetch_json_def by (intro core_calls read_all_calls) simp_all

lemma write_pieces_calls: "binary_place (core_base h) dest \<Longrightarrow> core_only h (write_pieces os dest ps)"
  by (induction os dest ps rule: write_pieces.induct) (auto intro!: core_calls)

lemma extract_calls: "binary_place (core_base h) dest \<Longrightarrow> core_only h (extract_binary_zip os dest ms)"
  by (induction os dest ms rule: extract_binary_zip.induct) (auto intro!: core_calls write_pieces_calls)

lemma store_core_calls: "core_only h (store_core h tag bytes)"
  unfolding store_core_def
  by (rule calls_only_try_gives [OF version_dir_gives])
    (auto simp: binary_place_def bin_name_def intro!: core_calls extract_calls)

lemma install_calls: "core_only h (download_and_install h fuel tag release)"
  unfolding download_and_install_def
  by (intro core_calls read_all_calls store_core_calls) simp_all

lemma remove_version_calls: "valid_tag tag \<Longrightarrow> core_only h (remove_version h tag)"
  unfolding remove_version_def Let_def
  by (rule calls_only_try_gives [OF versions_dir_gives], intro core_calls)
    (auto simp: version_place_def dest: valid_tag_plain)

lemma core_commands:
  "core_only h (core_info h fuel kind)" "core_only h (core_install h fuel kind version)"
  "core_only h (core_activate h kind tag)" "core_only h (core_uninstall h kind tag)"
  "core_only h (list_core_releases h fuel kind)"
proof -
  note pieces = core_calls dir_calls seed_calls active_tag_calls bundled_calls installed_calls fetch_json_calls
    install_calls write_active_calls clear_active_calls
  show "core_only h (core_info h fuel kind)"
    unfolding core_info_def latest_version_def fetch_latest_release_def by (intro pieces)
  show "core_only h (core_install h fuel kind version)"
    unfolding core_install_def fetch_latest_release_def fetch_release_by_tag_def by (intro pieces)
  show "core_only h (core_activate h kind tag)"
    unfolding core_activate_def by (intro pieces) simp_all
  show "core_only h (core_uninstall h kind tag)"
    unfolding core_uninstall_def by (intro pieces remove_version_calls) simp_all
  show "core_only h (list_core_releases h fuel kind)"
    unfolding list_core_releases_def by (intro pieces)
qed

section \<open>Digests\<close>

text \<open>A release with a digest is stored only when the digest of what was read is that one.\<close>

definition digest_agrees :: "core_host \<Rightarrow> json \<Rightarrow> string \<Rightarrow> bool" where
  "digest_agrees h release bytes \<longleftrightarrow>
     (\<exists>u declared digest. release_asset h release = Ok (u, declared, digest)
        \<and> length bytes \<le> MAX_CORE_BYTES \<and> (digest \<noteq> None \<longrightarrow> digest = Some (ch_sha h bytes)))"

lemma read_core_bounded:
  "length buf \<le> MAX_CORE_BYTES \<Longrightarrow> read_core os fuel buf tr = (Some (Inr bytes), tr') \<Longrightarrow> length bytes \<le> MAX_CORE_BYTES"
proof (induction fuel arbitrary: buf tr)
  case (Suc fuel)
  from Suc.prems(2) consider "bytes = buf"
    | chunk tr1 where "length (buf @ chunk) \<le> MAX_CORE_BYTES" "read_core os fuel (buf @ chunk) tr1 = (Some (Inr bytes), tr')"
    by (auto simp: then_io_def ask_def Let_def not_less split: reply.splits if_splits)
  then show ?case
  proof cases
    case 1
    with Suc.prems(1) show ?thesis by simp
  next
    case 2
    then show ?thesis by (rule Suc.IH)
  qed
qed simp

lemma install_needs_digest:
  assumes "download_and_install h fuel tag release tr = (Some (Inr u), tr')"
  shows "\<exists>bytes tr1. digest_agrees h release bytes \<and> store_core h tag bytes tr1 = (Inr u, tr')"
proof -
  from assms obtain link declared digest where asset: "release_asset h release = Ok (link, declared, digest)"
    by (auto simp: download_and_install_def split: sum.splits)
  with assms obtain bytes tr0 tr1 where body: "read_core (ch_os h) fuel [] tr0 = (Some (Inr bytes), tr1)"
    and rest: "try_io (return_io (checksum_ok h digest bytes)) (\<lambda>_. store_core h tag bytes) tr1 = (Inr u, tr')"
    by (auto simp: download_and_install_def then_io_def map_io_def split: prod.splits sum.splits option.splits if_splits)
  from rest have "checksum_ok h digest bytes = Ok ()" and store: "store_core h tag bytes tr1 = (Inr u, tr')"
    by (auto simp: try_io_def split: sum.splits)
  then have "digest \<noteq> None \<longrightarrow> digest = Some (ch_sha h bytes)"
    by (auto simp: checksum_ok_def split: option.splits if_splits)
  with read_core_bounded [OF _ body] asset store show ?thesis by (auto simp: digest_agrees_def)
qed

end
