(* ===== verification/Spec2Isabelle.thy ===== *)
theory Spec2Isabelle
  imports Daemon_Props Helper_Watch Sub_Panic Gen_Dns_Props Client_Props Client_Ping Client_Refusal Client_Apps Client_Fetch_Props Client_Core_Props
begin

text \<open>
  A verification library of the Varmlen Linux client, a desktop VPN client (\<open>src/src-tauri\<close>) whose
  privileged part is a root daemon (\<open>src/daemon\<close>) and a small network helper (\<open>src/helper\<close>) around
  the Xray proxy.  The library models the daemon: what it accepts from the desktop process, how it
  brings the tunnel up and down, how it keeps DNS inside the tunnel and excluded applications
  outside, how it stores its state, recovers after a crash and keeps its log; the helper it runs:
  the kill switch, the routes into and around the tunnel, and the bypass of excluded applications;
  and the desktop: how it fetches and reads subscriptions, generates the configurations of Xray,
  talks to the daemon, and keeps the versions of Xray.

  How the parts interact.  The desktop reads locations from subscriptions and share links
  (\<open>Sub_Outbound\<close>, \<open>Sub_Uri\<close>, \<open>Sub_Body\<close>), and generates from a location and the user's split the
  configurations it asks the daemon to run (\<open>Gen_Outbound\<close>, \<open>Gen_Dns\<close>, \<open>Gen_Plan\<close>, \<open>Gen_Config\<close>).
  Its commands (\<open>Client_Vpn\<close>) send a frame over a local socket (\<open>Protocol\<close>).  A
  connect request carries Xray configurations that are checked field by field (\<open>Json\<close>,
  \<open>Xray_Doc\<close>).  The lifecycle manager (\<open>Lifecycle\<close>) drives a backend: validate, install the hold
  block (kill switch), start the data plane, activate the network, verify, release the block.
  Activation installs the DNS guard (\<open>Nft_Dns\<close>) and the split (\<open>Split_Manager\<close>, with the
  resolver \<open>Direct_Dns\<close>, the routes \<open>Split_Routing\<close>, the watcher \<open>Split_Watcher\<close> and the
  reconciler \<open>Split_Reconcile\<close>).  The backend of the daemon (\<open>System_Backend\<close>) implements those
  operations over the operating system, probes locations (\<open>Probe\<close>), is driven by the controller
  (\<open>Controller\<close>) and reached through the server (\<open>Server\<close>).  \<open>State_Store\<close> leaves a record for the next start, which
  \<open>Recovery\<close> uses to clean up.  \<open>Log_Store\<close> keeps the output of Xray.

  The daemon runs the helper as a program of its own: \<open>hold_arguments\<close> of \<open>System_Base\<close> is the
  command line, \<open>helper_main\<close> of \<open>Helper_Cli\<close> what the program does with it.  It hands rulesets to
  \<open>nft\<close> (\<open>Helper_Rules\<close> for the kill switch, \<open>Helper_Bypass\<close> and \<open>Helper_Pins\<close> for excluded
  applications) and lays routes (\<open>Helper_Route\<close>).

  Modelling.  Structures are records, enums are datatypes, \<open>Result<T, E>\<close> is the sum with the
  error on the left, machine integers are words where their width matters and naturals with
  their bounds written out elsewhere.  Strings are lists of bytes, with UTF-8 written out in
  \<open>Rust_Str\<close>.  Effects are calls (\<open>Os\<close>): one environment function answers every call from the
  history of calls and answers before it, and a theorem for every environment holds for every
  behaviour of the machine, the kernel, the external programs and the clock.  The code's own
  state is passed explicitly beside that history.  Traits are records of operations; what a
  client relies on is a locale (\<open>hold_contract\<close>, \<open>dns_contract\<close>, \<open>split_contract\<close>), and the
  provider's theory interprets it.  \<open>serde_json\<close>, the URL parser, the base64 engines and the
  addresses of the \<open>bpf\<close> program in memory are parameters (of the desktop: \<open>from_str\<close>, \<open>print\<close>,
  \<open>url_parse\<close> and the record \<open>parsers\<close>), and so is the order in which a hash set is walked
  (\<open>pick\<close>).  Where the desktop's generator may panic, its value is an option and \<open>None\<close> the panic.

  Theories.  \<open>Prelude\<close> (results, state passing, lists), \<open>Rust_Str\<close> and \<open>Net_Types\<close> (strings,
  numbers, IP addresses as in the standard library), \<open>Os\<close> (calls; which calls code makes, what it
  keeps), \<open>Protocol\<close> (\<open>protocol.rs\<close>), \<open>Lifecycle\<close>, \<open>Hold_Contract\<close>, \<open>Lifecycle_Machine\<close>,
  \<open>Lifecycle_Fake\<close> (\<open>lifecycle.rs\<close>: the manager, its contract, its runs, the recording backend), \<open>Json\<close>, \<open>Xray_Doc\<close>, \<open>Xray_Doc_Props\<close> (the document checks of
  \<open>system.rs\<close>), \<open>Nft_Dns\<close> (\<open>nft.rs\<close>, \<open>dns.rs\<close>), \<open>Direct_Dns\<close> (\<open>direct_dns.rs\<close>),
  \<open>Split_Process\<close>, \<open>Split_Routing\<close>, \<open>Split_Reconcile\<close>, \<open>Split_Reconcile_Props\<close>,
  \<open>Split_Watcher\<close>, \<open>Split_Manager\<close> (\<open>split/\<close>), \<open>State_Store\<close> (\<open>state.rs\<close>), \<open>Recovery\<close>,
  \<open>Recovery_Props\<close> (\<open>recovery.rs\<close>), \<open>Log_Store\<close> (\<open>log_store.rs\<close>), \<open>System_Base\<close>,
  \<open>System_Backend\<close>, \<open>System_Hold\<close>, \<open>System_Props\<close>, \<open>System_Refusal\<close> (the backend of
  \<open>system.rs\<close>, its interpretation of the hold contract, what stopping and starting guarantee, panics
  that do not happen), \<open>Probe\<close> (the pings of \<open>system.rs\<close>), \<open>Controller\<close> (\<open>controller.rs\<close>), \<open>Server\<close>
  (\<open>server.rs\<close>, \<open>main.rs\<close>), \<open>Daemon_Props\<close> (facts that span them).  \<open>Helper_Rules\<close>, \<open>Helper_Bypass\<close>,
  \<open>Helper_Pins\<close>, \<open>Helper_Route\<close>, \<open>Helper_Cli\<close> (\<open>helper/src/main.rs\<close>), \<open>Helper_Props\<close>,
  \<open>Helper_Safety\<close>, \<open>Helper_Moves\<close>, \<open>Helper_Watch\<close> (what its commands guarantee).  Of the desktop:
  \<open>Client_Types\<close> (the location, \<open>split.rs\<close>), \<open>Gen_Outbound\<close>, \<open>Gen_Dns\<close>, \<open>Gen_Plan\<close>, \<open>Gen_Config\<close>
  (\<open>xray.rs\<close>: outbounds, resolvers, provider profiles, configurations), \<open>Gen_Accepted\<close>, \<open>Gen_Probe\<close>
  (the daemon accepts them), \<open>Gen_Dns_Props\<close> (their resolvers), \<open>Sub_Outbound\<close>, \<open>Sub_Uri\<close>,
  \<open>Sub_Body\<close> (\<open>subscription.rs\<close>: outbounds, share links, bodies), \<open>Sub_Reimport\<close>, \<open>Sub_Typed\<close>,
  \<open>Sub_Panic\<close> (round trip, typing, the panic of an imported outbound), \<open>Client_Daemon\<close>
  (\<open>daemon_client.rs\<close>), \<open>Client_Vpn\<close> (\<open>vpn.rs\<close>), \<open>Client_Fetch\<close> (\<open>lib.rs\<close>), \<open>Client_Core\<close>
  (\<open>core.rs\<close>), \<open>Client_Shell\<close> (\<open>webview_recovery.rs\<close>, \<open>tray.rs\<close>), \<open>Client_Apps\<close> (\<open>apps.rs\<close>),
  \<open>Client_Props\<close>, \<open>Client_Ping\<close>, \<open>Client_Refusal\<close>, \<open>Client_Fetch_Props\<close>, \<open>Client_Core_Props\<close> (what the commands of the desktop ask, reach and change,
  and where the daemon refuses them).

  Lemma groups.  Each component shows what its operations do on success and on every error
  path; \<open>calls_only\<close> and \<open>keeps\<close> lemmas bound the calls a piece of code makes and the
  predicates on the history it keeps; the properties below state the guarantees that matter to
  a user: bounded requests, no injection into rulesets, only the owner's processes moved, named
  programs never run outside the bypass, atomic state, honest start, bounded log.

  Bounds and fuel.  Waiting loops run as many rounds as the code's own limits (\<open>gone_within\<close> has
  the twenty rounds of \<open>terminate_process\<close>).  The watcher of the helper runs until its parent is
  gone; its fuel is a number of turns and \<open>None\<close> says that it still runs.  The search of a
  JSON subscription carries the depth the code carries.  The body of an HTTP answer is read in as
  many pieces as its fuel allows (\<open>None\<close> says that there are more): the code's own limit counts bytes,
  and pieces without bytes have none.  No other fuel is used, and every recursive function has a termination proof (the process tree by the processes not yet found).

  Choices.  A text of \<open>/proc/net\<close> that is cut inside a character reads as no address, where the code
  would panic (the kernel prints ASCII).  A probe whose socket cannot be made is a dial that fails.
  What \<open>nft\<close> does with a ruleset is the first rule that matches, else the policy.

  Not modelled: the scheduling of threads and tasks (a reconciler or resolver task is a sequence of
  passes in an order the environment chooses), the texts of operating-system errors (the
  environment's), the windows and the tray of the user interface, the catalogue of its
  location editor (\<open>location_editor_options\<close>), the migration of old storage, the progress events of
  a download, and what is built only for Android.
\<close>

section \<open>A machine where every call succeeds\<close>





section \<open>The connection\<close>














text \<open>
  Stopping the data plane forgets the running Xray and the mode on every path, keeps the split
  exactly when it is asked to, and when it reports success nothing of the data plane is left: no
  process, no DNS table, no log task.
\<close>

lemma stop_releases:
  "case sy_stop_data_plane pf keep w of (r, w') \<Rightarrow>
     sy_xray (fst w') = None \<and> sy_mode (fst w') = None
     \<and> (if keep then sy_split (fst w') = sy_split (fst w) \<and> sy_split_apps (fst w') = sy_split_apps (fst w)
        else sy_split (fst w') = None \<and> sy_split_apps (fst w') = [])
     \<and> (if is_ok r then fully_released (fst w') else True)"
proof -
  obtain r w' where Pair: "sy_stop_data_plane pf keep w = (r, w')"
    by (cases "sy_stop_data_plane pf keep w")
  show ?thesis using stop_effect [OF Pair] unfolding Pair by simp
qed

text \<open>
  C6. Xray is only ever started from a path whose file was seen, earlier in the same history, to be
  a regular file of root that nobody else can write and that can be executed, in every run of the
  manager on the real backend.
\<close>

theorem xray_trusted_before_start:
  "spawns_trusted (snd (lm_backend
     (fold (lifecycle_event_step (system_ops pf host_of)) evs (new_manager (s, []) p))))"
  using events_spawns [of "new_manager (s, []) p" pf host_of evs]
  by (simp add: manager_spawns_ok_def spawns_ok_def new_manager_def)



text \<open>
  C9. After every command that may change the connection, and whatever its result, the state file
  says what the daemon says: the newest calls are a complete, synced, renamed write of the
  present state, or the daemon asks for recovery.
\<close>

theorem state_saved_after_command:
  "case cmd of
     LogTail \<Rightarrow> True | ClearLog \<Rightarrow> True | TcpPing _ \<Rightarrow> True | ProxyPing _ \<Rightarrow> True
   | _ \<Rightarrow> (case snd (controller_handle env cmd w) of (c, tr) \<Rightarrow>
       phase_of (ct_manager c) = RecoveryRequired
       \<or> (\<exists>bytes. dv_ser_state env (state_to_persist c) = Inr bytes
            \<and> just_written (ct_state_path c) bytes tr))"
proof -
  have "case snd (ct_change env f w) of (c, tr) \<Rightarrow> phase_of (ct_manager c) = RecoveryRequired
       \<or> (\<exists>bytes. dv_ser_state env (state_to_persist c) = Inr bytes
            \<and> just_written (ct_state_path c) bytes tr)" for f
    using change_persisted [of env f w "fst (ct_change env f w)" "snd (ct_change env f w)"]
    by (simp add: split_beta)
  then show ?thesis by (cases cmd) simp_all
qed

text \<open>
  C10. What a connection can make the daemon do: at most 32 commands, all of them from requests
  that passed every check of the protocol; a peer that is not the owner has no command run, no
  byte read and none written.
\<close>

theorem connection_is_bounded:
  "case snd (serve_connection os cd (recording handle) fd policy (([], s), tr)) of ((cmds, s'), tr') \<Rightarrow>
     length cmds \<le> 32 \<and> set cmds \<subseteq> accepted_commands cd
     \<and> (if os tr (PeerUid fd) = Number (allowed_uid policy) then True
        else cmds = [] \<and> s' = s \<and> tr' = (PeerUid fd, os tr (PeerUid fd)) # tr)"
proof -
  let ?w = "snd (serve_connection os cd (recording handle) fd policy (([], s), tr))"
  have "only_accepted cd ?w"
    using recorded.connection_keeps [of cd os handle fd policy] unfolding keeps_def
    by (auto simp: only_accepted_def)
  moreover have "length (fst (fst ?w)) \<le> 32"
    using connection_noted [of os cd handle fd policy "(([], s), tr)"]
    by (simp add: noted_def MAX_REQUESTS_PER_CONNECTION_def)
  moreover have "?w = (([], s), (PeerUid fd, os tr (PeerUid fd)) # tr)"
    if "os tr (PeerUid fd) \<noteq> Number (allowed_uid policy)"
    using stranger_refused [of os "(([], s), tr)" fd policy cd "recording handle"] that by simp
  ultimately show ?thesis by (auto simp: only_accepted_def split: prod.splits)
qed

text \<open>
  Until the daemon holds its lock it touches nothing: in the history of its start no program
  is run, no process signalled, no file moved and no \<open>bpf\<close> call made before the lock was granted.
\<close>

lemma start_acts_under_lock:
  "acts_under_lock (snd (daemon_start env []))"
  using daemon_start_under_lock [of env] unfolding keeps_def by simp

section \<open>Requests and configurations\<close>


text \<open>
  C12. The check for privileged file references is exact: a document is refused exactly when an
  object anywhere inside it, at any depth, has one of the four forbidden keys.
\<close>

theorem forbidden_keys_found_at_any_depth:
  "contains_forbidden_file_key v \<longleftrightarrow>
     (\<exists>k. k \<in> {''certificateFile'', ''keyFile'', ''certificatePath'', ''keyPath''} \<and> key_occurs k v)"
  unfolding contains_forbidden_iff by (simp add: forbidden_file_keys_def Bex_def)

text \<open>
  A probe configuration the daemon accepted stays acceptable when it is moved to other
  unprivileged ports: the move never panics, and what it prints is accepted again for the new
  ports (or printing failed, which is reported as an internal error).
\<close>

lemma moved_probe_config_revalidates:
  assumes "validate_ping_xray_document parse raw ports = Inr ()"
    and "ports_usable ports'" and "length ports' = length ports"
    and "\<And>v s. print v = Inr s \<Longrightarrow> parse s = Inr v"
  shows "(\<exists>s. validation_config_with_ports parse print raw ports' = Returned (Inr s)
              \<and> validate_ping_xray_document parse s ports' = Inr ())
         \<or> (\<exists>e. validation_config_with_ports parse print raw ports' = Returned (Inl e)
              \<and> de_code e = Internal)"
  using assms by (rule with_ports_revalidates)

definition example_inbound :: "int \<Rightarrow> json" where
  "example_inbound port =
     JObj [(''listen'', JStr ''127.0.0.1''), (''port'', JInt port), (''protocol'', JStr ''socks''),
           (''settings'', JObj [(''auth'', JStr ''noauth''), (''udp'', JBool False)]),
           (''tag'', JStr ''socks-in'')]"

definition example_probe :: "int \<Rightarrow> json" where
  "example_probe port =
     JObj [(''inbounds'', JArr [example_inbound port]),
           (''log'', JObj []),
           (''outbounds'', JArr [JObj [(''protocol'', JStr ''wireguard''), (''tag'', JStr ''proxy'')],
                                 JObj [(''protocol'', JStr ''freedom''), (''tag'', JStr ''direct'')]]),
           (''routing'', JObj [(''rules'', JArr [JObj [(''inboundTag'', JArr [JStr ''socks-in'']),
               (''network'', JStr ''tcp,udp''), (''outboundTag'', JStr ''proxy''),
               (''type'', JStr ''field'')]])])]"

lemmas example_defs =
  example_probe_def example_inbound_def obj_keys_def ping_sections_def get_object_def get_array_def
  get_str_def get_u64_def ping_inbound_ok_def ping_inbound_tag_ok_def ping_outbound_set_ok_def
  has_tag_protocol_def is_proxy_protocol_def proxy_protocols_def ping_balancer_tags_def ping_rule_ok_def
  rule_targets_def rule_inbound_matches_def forbidden_file_keys_def MAX_SERVER_IPS_def u64_max_def
  require_def ensure_def

definition example_parse :: json_parser where
  "example_parse s = (if s = ''a'' then Inr (example_probe 2000)
                      else if s = ''b'' then Inr (example_probe 3000) else Inl ''syntax'')"

definition example_print :: json_printer where
  "example_print v = (if v = example_probe 3000 then Inr ''b'' else Inl ''unexpected'')"

section \<open>The system's DNS\<close>

text \<open>
  A probe query that was built reads back: it fits in 512 bytes, begins with the identifier,
  and after its header holds exactly the labels of the domain followed by type A, class IN.  A
  domain that cannot be encoded is refused with the verification error.
\<close>

lemma dns_query_reads_back:
  "case build_dns_query ident domain of
     Inr q \<Rightarrow> length q \<le> 512 \<and> take 2 q = be16 (unat ident)
             \<and> read_labels (drop 12 q) = Some (split_on (CHR ''.'') domain, be16 1 @ be16 1)
   | Inl e \<Rightarrow> de_code e = DnsVerificationFailed"
proof (cases "build_dns_query ident domain")
  case (Inl e)
  have labels: "dns_labels ls = Inl e' \<Longrightarrow> de_code e' = DnsVerificationFailed" for ls e'
    by (induction ls) (auto simp: probe_error_def try_then_def split: if_splits sum.splits)
  show ?thesis
    using Inl labels by (auto simp: build_dns_query_def try_then_def Let_def probe_error_def split: sum.splits if_splits)
qed (use build_dns_query_read [of ident domain] in simp)

text \<open>
  C13. The guard of the system's DNS over the real backend: when it reports success the table is
  in force; when it reports failure and the table was not there before, the table is only left
  behind if \<open>nft\<close> refused to take it away again.
\<close>

theorem dns_guard_leaves_nothing:
  "case dns_guard_install (system_dns_backend os pid) tr of
     (Inr _, tr') \<Rightarrow> dns_table tr'
   | (Inl _, tr') \<Rightarrow> dns_table tr' = True \<longrightarrow> dns_table tr = False \<longrightarrow>
       (\<exists>tr2 f. remove_dns_table os tr2 = (Inl f, tr'))"
proof (cases "dns_guard_install (system_dns_backend os pid) tr")
  case (Pair r tr')
  show ?thesis
  proof (cases r)
    case (Inl e)
    have "\<exists>tr2 f. remove_dns_table os tr2 = (Inl f, tr')" if "dns_table tr'" "\<not> dns_table tr"
      by (rule system_dns.install_err [OF Pair [unfolded Inl] that]) (auto simp: system_dns_backend_def)
    with Pair Inl show ?thesis by simp
  qed (use Pair system_dns.install_ok [of os pid tr _ tr'] in simp)
qed

lemma build_probe_query: "\<exists>q. build_dns_query ident ''mullvad.net'' = Inr q"
  by (simp add: build_dns_query_def split_on_def is_ascii_def dns_header_def be16_def Let_def)

text \<open>A machine that applies rules but answers neither probes nor deletions.\<close>

definition stuck_os :: os where
  "stuck_os tr c =
     (case c of Run p a i \<Rightarrow> if a = [''-f'', ''-''] then Output \<lparr>out_success = True, out_stdout = [], out_stderr = []\<rparr>
                             else Failed 1 ''Operation not permitted''
              | _ \<Rightarrow> Failed 1 ''Operation not permitted'')"

theorem dns_guard_leaves_nothing_witness:
  "dns_table (snd (dns_guard_install (system_dns_backend stuck_os 7) []))
   \<and> (\<exists>tr2 f. remove_dns_table stuck_os tr2 = (Inl f, snd (dns_guard_install (system_dns_backend stuck_os 7) [])))"
proof -
  obtain query where query: "build_dns_query (probe_transaction_id 7) ''mullvad.net'' = Inr query"
    using build_probe_query by blast
  have on: "dns_table (snd (dns_guard_install (system_dns_backend stuck_os 7) []))"
    and off: "\<not> dns_table []"
    and err: "is_err (fst (dns_guard_install (system_dns_backend stuck_os 7) []))"
    using query
    by (simp_all add: dns_guard_install_def try_io_def then_io_def system_dns_backend_def apply_ruleset_def
          apply_ruleset_with_code_def stuck_os_def ask_defs Let_def system_dns_probe_def map_io_def
          remove_dns_table_def dns_table_def dns_up_def dns_down_def failure_of_def split: sum.splits)
  show ?thesis
    using dns_guard_leaves_nothing [where os = stuck_os and pid = 7 and tr = "[]"] on off err
    by (cases "dns_guard_install (system_dns_backend stuck_os 7) []") (auto split: sum.splits)
qed

text \<open>
  C14. The answers a TCP client gets belong to its queries: read as length-prefixed messages, they
  are one for each of an initial part of the queries, in order; each is an answer one of the
  upstreams gave for that query, with the identifier of the query and the response bit.
\<close>

theorem tcp_client_answered_in_order:
  assumes "handle_tcp_client upstreams input = (r, out)"
    and "\<And>q resp. Inr resp \<in> set (upstreams q) \<Longrightarrow> length resp \<le> 65535"
  shows "list_all2 (\<lambda>q resp. valid_dns_query q \<and> valid_direct_response q resp \<and> Inr resp \<in> set (upstreams q))
           (take (length (messages out)) (messages input)) (messages out)"
  using assms by (rule handle_tcp_client_answers)

text \<open>An upstream that refuses once and then echoes the query as a response.\<close>

definition echo_upstreams :: "string \<Rightarrow> (os_error + string) list" where
  "echo_upstreams q =
     [Inl (Os_Error 110 ''timed out''),
      Inr (take 2 q @ [char_of (129 :: nat)] @ replicate 9 (char_of (0 :: nat)))]"

definition example_query :: string where
  "example_query = be16 12 @ [CHR ''a'', CHR ''b''] @ replicate 10 (char_of (0 :: nat))"

theorem tcp_client_answered_in_order_witness:
  "messages (snd (handle_tcp_client echo_upstreams example_query)) =
     [''ab'' @ [char_of (129 :: nat)] @ replicate 9 (char_of (0 :: nat))]
   \<and> valid_direct_response (''ab'' @ replicate 10 (char_of (0 :: nat)))
       (''ab'' @ [char_of (129 :: nat)] @ replicate 9 (char_of (0 :: nat)))"
proof -
  let ?q = "''ab'' @ replicate 10 (char_of (0 :: nat))" and ?z = "replicate 9 (char_of (0 :: nat))"
  let ?r = "''ab'' @ [char_of (129 :: nat)] @ ?z"
  have size: "read_be16 example_query = 12" "length example_query = 14" "drop 2 example_query = ?q"
    by (simp_all add: example_query_def read_be16_def be16_def)
  have q: "valid_dns_query ?q" by (simp add: valid_dns_query_def byte_word_def numeral_2_eq_2)
  have out: "handle_tcp_client echo_upstreams example_query = (Inr (), be16 12 @ ?r)"
  proof -
    have rest: "handle_tcp_client echo_upstreams [] = (Inr (), [])"
      by (simp add: handle_tcp_client.simps)
    have resp: "first_response ?q (echo_upstreams ?q) = Some ?r"
      by (simp add: first_response_def echo_upstreams_def valid_direct_response_def byte_word_def)
    show ?thesis
      by (subst handle_tcp_client.simps)
         (simp add: size MAX_DNS_PACKET_def q resp rest Let_def del: replicate_Suc append_Cons)
  qed
  have bound: "Inr resp \<in> set (echo_upstreams q) \<Longrightarrow> length resp \<le> 65535" for q resp
    by (auto simp: echo_upstreams_def)
  have mo: "messages (be16 12 @ ?r) = [?r]"
    using messages_frame [of ?r "[]"] by (simp add: messages.simps)
  have mi: "messages example_query = [?q]"
    by (subst messages.simps) (simp add: size messages.simps)
  show ?thesis
    using tcp_client_answered_in_order [OF out bound] by (simp add: out mo mi del: replicate.simps append_Cons)
qed

text \<open>
  The resolver always has upstreams, all of them usable from outside the tunnel: whatever the
  resolver files hold, the list has no repeats, every entry is on port 53 at an address that is
  not loopback, unspecified or multicast, and the three fallback servers are in it.
\<close>

lemma upstreams_usable:
  "distinct (fst (discover_upstreams os tr)) \<and> list_all usable_upstream (fst (discover_upstreams os tr))
   \<and> set FALLBACK_UPSTREAMS \<subseteq> set (fst (discover_upstreams os tr))"
proof -
  obtain us tr' where d: "discover_upstreams os tr = (us, tr')" by fastforce
  obtain found where "us = push_new FALLBACK_UPSTREAMS found" "distinct found" "\<forall>u \<in> set found. usable_upstream u"
    using discover_upstreams_shape [OF d] .
  with d fallback_usable show ?thesis by (auto simp: push_new_distinct list_all_iff)
qed

section \<open>The split: rules and processes\<close>

text \<open>
  C15. Nothing can be injected into the split's ruleset: for a route that was parsed and any
  cgroup name the renderer accepts, the text has exactly the quotes, lines, braces and semicolons
  of the template.
\<close>

theorem split_ruleset_not_injectable:
  assumes "parse_default_route line = Some route" and "render_split_rules cg route = Inr rules"
  shows "structure_counts rules = [4, 11, 3, 3, 4]"
  using assms by (rule rendered_structure)

theorem split_ruleset_not_injectable_witness:
  "\<exists>rules. render_split_rules ''varmlen/user-1000/bypass'' \<lparr>pr_interface = ''eth0'', pr_gateway = None\<rparr> = Inr rules
     \<and> structure_counts rules = [4, 11, 3, 3, 4]"
proof -
  let ?r = "\<lparr>pr_interface = ''eth0'', pr_gateway = None\<rparr>"
  have p: "parse_default_route ''default dev eth0'' = Some ?r" by code_simp
  have "is_ok (render_split_rules ''varmlen/user-1000/bypass'' ?r)" by code_simp
  then obtain rules where "render_split_rules ''varmlen/user-1000/bypass'' ?r = Inr rules" by (rule is_ok_cases)
  then show ?thesis using split_ruleset_not_injectable [OF p] by blast
qed

text \<open>
  Every \<open>ip\<close> command of the split, to set up or to tear down, is about the split's own table
  102: the table is the last word of the command, after \<open>table\<close> or \<open>lookup\<close>.
\<close>

lemma split_commands_own_table:
  "list_all (\<lambda>cmd. last cmd = ''102'' \<and> last (butlast cmd) \<in> {''table'', ''lookup''})
     (routing_setup_commands route @ routing_teardown_commands)"
  using routing_commands_table [of _ route] by (auto simp: list_all_iff SPLIT_TABLE_def)

text \<open>
  The attribute blocks of the \<open>bpf\<close> calls are written without running out of their buffers,
  and the kernel reads back what was meant: the program type, the number of instructions of the
  socket program (four), the pointers, and the attach type at its offset.
\<close>

lemma bpf_attributes_laid_out:
  "\<exists>l a d. load_attributes little prog licence = Some l \<and> attach_attributes little cg fd = Some a
     \<and> detach_attributes little cg = Some d
     \<and> length l = 128 \<and> take 4 l = ne_bytes little 4 9 \<and> take 4 (drop 4 l) = ne_bytes little 4 4
     \<and> take 8 (drop 8 l) = ne_bytes little 8 prog \<and> take 8 (drop 16 l) = ne_bytes little 8 licence
     \<and> take 4 (drop 68 l) = ne_bytes little 4 2
     \<and> length a = 16 \<and> take 4 a = ne_bytes little 4 cg \<and> take 4 (drop 4 a) = ne_bytes little 4 fd
     \<and> take 4 (drop 8 a) = ne_bytes little 4 2
     \<and> length d = 16 \<and> take 4 d = ne_bytes little 4 cg \<and> take 4 (drop 8 d) = ne_bytes little 4 2"
  by (simp add: load_attributes_def attach_attributes_def detach_attributes_def put_bytes_def
        BPF_PROG_TYPE_CGROUP_SOCK_def BPF_CGROUP_INET_SOCK_CREATE_def)

text \<open>
  C16. The subtree taken out of the bypass is everything the root reaches through parent links in
  the process table, the root included, each process once; on a table with cycles too.
\<close>

theorem subtree_is_reachable_set:
  "set (subtree tree root) = {p. (root, p) \<in> (set tree)\<^sup>*} \<and> distinct (subtree tree root)"
  using subtree_reaches by blast

text \<open>
  C17. A reconciliation pass moves only processes of the owner of the cgroup: every write of a
  process id into a cgroup comes right after reading that process's status file, and that file
  named the owner as its real user.
\<close>

theorem reconcile_moves_only_owner:
  "keeps (\<lambda>w. moves_checked (bc_owner_uid cg) (snd w)) (reconcile_with os cg uid sels)"
  by (rule reconcile_with_checked)

text \<open>
  The record of moved processes has one entry per process and at most 8192 entries, whatever
  the process table shows.
\<close>

lemma owned_record_bounded:
  "keeps (\<lambda>w. distinct (map fst (fst w)) \<and> length (fst w) \<le> 8192) (reconcile_with os cg uid sels)"
  using reconcile_with_owned [of os cg uid sels] by (simp add: owned_ok_def MAX_OWNED_PIDS_def)

text \<open>
  After a pass that succeeded every process on the record was moved for a rule that is still
  in the list: what was moved for a rule the user took away is forgotten (and moved out).
\<close>

lemma record_follows_rules:
  "case reconcile_with os cg uid sels w of
     (Inr _, (owned, _)) \<Rightarrow> list_all (\<lambda>(pid, sel). in_plan sels sel) owned
   | (Inl _, _) \<Rightarrow> True"
proof -
  obtain r owned tr' where rw: "reconcile_with os cg uid sels (fst w, snd w) = (r, (owned, tr'))"
    by (metis prod.exhaust)
  then show ?thesis
    using reconcile_with_in_plan [of os cg uid sels "fst w" "snd w" _ owned tr']
    by (cases r) (auto simp: list_all_iff)
qed


text \<open>
  An edited list of applications is answered with whether the split was active; on an active
  split the update keeps the routing, and it ends with a watcher exactly when the new list is not
  empty.
\<close>

lemma split_update_keeps_routing:
  "case split_update_plan (system_split_backend os mc) plan m of (r, m') \<Rightarrow>
     sm_status m' = sm_status m
     \<and> sys_routed (sm_backend m') = sys_routed (sm_backend m)
     \<and> (r = Inr False) = (sm_status m = Disabled)
     \<and> (if r = Inr True then sys_watched (sm_backend m') = (sp_applications plan \<noteq> []) else True)"
proof (cases "split_update_plan (system_split_backend os mc) plan m")
  case (Pair r m')
  have routed: "sys_routed (sm_backend m') = sys_routed (sm_backend m)"
    using Pair unfolding split_update_plan_def
    by (auto split: prod.splits sum.splits if_splits dest: system_split.update_routed)
  show ?thesis
    using Pair routed unfolding split_update_plan_def
    by (cases "sm_status m")
       (auto split: prod.splits sum.splits if_splits dest: system_split.update_watched)
qed

text \<open>
  C19. A program the rules name runs only inside the bypass: when an owner's process is about to
  run a program a rule names, it is let through exactly when it was written into the bypass
  cgroup, and when that failed the watcher is unhealthy from then on.  Anything else is let
  through untouched.
\<close>

theorem named_programs_fail_closed:
  assumes "ask_text os (ReadLink (fd_link fd)) tr = (link, tr1)"
    and "real_uid os pid tr1 = (uid, tr2)" and "snapshot os pid tr2 = (snap, tr3)"
    and "named \<longleftrightarrow> (case uid of Inl _ \<Rightarrow> u32_max | Inr u \<Rightarrow> u) = owner
        \<and> selected sels (case link of Inl _ \<Rightarrow> [] | Inr t \<Rightarrow> t)
            (case snap of Inl _ \<Rightarrow> empty_snapshot | Inr p \<Rightarrow> p)"
    and "tr4 = (if named then (WriteFile procs (dec pid), os tr3 (WriteFile procs (dec pid))) # tr3 else tr3)"
    and "allow \<longleftrightarrow> (\<not> named \<or> os tr3 (WriteFile procs (dec pid)) = Done)"
    and "sent \<longleftrightarrow> os tr4 (FanotifyRespond fd allow) = Done"
  shows "answer_exec os owner sels procs fd pid (healthy, tr) =
           (sent, (healthy \<and> allow \<and> sent, (FanotifyRespond fd allow, os tr4 (FanotifyRespond fd allow)) # tr4))"
  using assms by (rule answer_exec_effect)

text \<open>A machine where \<open>steam\<close> of user 1000 is about to run and the cgroup cannot be written.\<close>

definition steam_os :: os where
  "steam_os tr c =
     (case c of
        ReadLink p \<Rightarrow> Text ''/usr/bin/steam''
      | ReadFile p \<Rightarrow> if p = proc_file 42 ''status'' then Text (''Uid:'' @ [CHR 0x09] @ ''1000'') else Text ''steam''
      | FanotifyRespond fd allow \<Rightarrow> Done
      | _ \<Rightarrow> Failed 13 ''Permission denied'')"

lemma example_status: "parse_real_uid (''Uid:'' @ [CHR 0x09] @ ''1000'') = Some 1000"
proof -
  let ?line = "''Uid:'' @ [CHR 0x09] @ ''1000''"
  have "str_lines ?line = [?line]" "starts_with ''Uid:'' ?line" by code_simp+
  moreover have "split_whitespace ?line = [''Uid:'', ''1000'']" by code_simp
  moreover have "parse_u32 ''1000'' = Some 1000"
  proof -
    have "dec 1000 = ''1000''" by code_simp
    then show ?thesis using parse_uint_dec [of 1000 u32_max] by (simp add: u32_max_def)
  qed
  ultimately show ?thesis by (simp add: parse_real_uid_def del: append.simps)
qed

theorem named_programs_fail_closed_witness:
  "snd (answer_exec steam_os 1000 [ProcessName ''Steam''] ''procs'' 5 42 (True, [])) =
     (False, (FanotifyRespond 5 False, Done) # (WriteFile ''procs'' ''42'', Failed 13 ''Permission denied'')
        # snd (snapshot steam_os 42 (snd (real_uid steam_os 42 (snd (ask_text steam_os (ReadLink (fd_link 5)) []))))))"
proof -
  let ?r1 = "ask_text steam_os (ReadLink (fd_link 5)) []"
  let ?r2 = "real_uid steam_os 42 (snd ?r1)"
  let ?r3 = "snapshot steam_os 42 (snd ?r2)"
  have r1: "fst ?r1 = Inr ''/usr/bin/steam''" by (simp add: ask_defs steam_os_def Let_def)
  have r2: "fst ?r2 = Inr 1000"
    by (simp add: real_uid_def read_or_def map_io_def ask_defs steam_os_def Let_def example_status [simplified])
  have "selector_matches_target (ProcessName ''Steam'') ''/usr/bin/steam''" by code_simp
  moreover have "dec 42 = ''42''" by code_simp
  ultimately show ?thesis
    using r1 r2 named_programs_fail_closed [where os = steam_os and fd = 5 and tr = "[]" and pid = 42
        and link = "Inr ''/usr/bin/steam''" and ?tr1.0 = "snd ?r1" and uid = "fst ?r2" and ?tr2.0 = "snd ?r2"
        and snap = "fst ?r3" and ?tr3.0 = "snd ?r3" and named = True and owner = 1000
        and sels = "[ProcessName ''Steam'']" and procs = "''procs''" and allow = False and sent = True
        and healthy = True and ?tr4.0 = "(WriteFile ''procs'' ''42'', Failed 13 ''Permission denied'') # snd ?r3"]
    by (simp add: prod_eq_iff selected_def steam_os_def)
qed

text \<open>
  A rule that names a program matches regardless of letter case, on a running process and
  on a program about to run.
\<close>

lemma rules_ignore_case:
  assumes "eq_ignore_ascii_case n n'"
  shows "selector_matches_process (ProcessName n) p = selector_matches_process (ProcessName n') p
         \<and> selector_matches_target (ProcessName n) t = selector_matches_target (ProcessName n') t"
  using selector_matches_case [OF assms] by blast

section \<open>State, recovery and the log\<close>

text \<open>
  C20. The state file is replaced atomically: every rename onto it moves a temporary file that
  was created exclusively, written whole with the serialized state, and synced, directly before.
\<close>

theorem state_file_replaced_atomically:
  "keeps (renames_complete path (map_err Io_Invalid_Data (ser st))) (state_write os ser pid n path st)"
  by (rule state_write_renames)

text \<open>
  A state file that is read is of the version this program writes and was at most 1 MiB; a
  larger file, another version, or content that does not parse is an error and not a state.
\<close>

lemma state_read_checked:
  "case state_read os de path tr of
     (Inr (Some st), _) \<Rightarrow> pst_version st = STATE_VERSION
        \<and> (\<exists>bytes. length bytes \<le> MAX_STATE_BYTES \<and> de bytes = Inr st)
   | _ \<Rightarrow> True"
  using state_read_Some [of os de path tr] by (auto split: prod.splits sum.splits option.splits)

text \<open>
  C21. The cleanup at start touches nothing but the program's own resources: its interface, its
  policy rules and route tables, its nftables tables, its cgroup (whose members go back to the
  parent group), its state file, and processes.
\<close>

theorem cleanup_touches_own_resources:
  "calls_only (own_call uid path) (system_remove os mc uid path r)"
  by (rule system_remove_calls)

text \<open>
  C22. The cleanup signals a process only when the state file of this owner names it and the
  process table, read directly before, still shows the same process: same id, same start time,
  same executable.
\<close>

theorem cleanup_kills_only_identified:
  "keeps (kills_match (saved_identity de uid)) (recovery_cleanup (system_cleanup_backend os mc de uid path))"
  by (rule recovery_kills)

text \<open>
  C23. The daemon starts as disconnected exactly when the cleanup ran to its end and a second
  inspection found nothing; otherwise it starts in the state that requires recovery.
\<close>

theorem startup_phase_honest:
  "case startup_phase ops b of (p, b') \<Rightarrow>
     (p = Disconnected) = (\<exists>rep. recovery_cleanup ops b = (Inr rep, b') \<and> rp_remaining rep = [])
     \<and> (if p = Disconnected then \<exists>b2. cb_inspect ops b2 = (Inr [], b') else p = RecoveryRequired)"
proof (cases "startup_phase ops b")
  case (Pair p b')
  have "\<exists>b2. cb_inspect ops b2 = (Inr [], b')" if "p = Disconnected"
    using that startup_phase_cases(1) [OF Pair] by (metis recovery_report)
  then show ?thesis using startup_phase_cases [OF Pair] Pair by auto
qed

text \<open>
  What is found at start is removed in a fixed order, each resource once, with the state
  file, which names the rest, last.
\<close>

lemma state_file_removed_last:
  "case system_inspect os de uid path tr of
     (Inr rs, _) \<Rightarrow> sorted rs \<and> distinct rs
        \<and> (\<exists>front back. rs = front @ back \<and> list_all (\<lambda>r. \<nexists>p. r = RuntimeFile p) front
              \<and> list_all (\<lambda>r. \<exists>p. r = RuntimeFile p) back)
   | (Inl _, _) \<Rightarrow> True"
proof (cases "system_inspect os de uid path tr")
  case (Pair r tr')
  show ?thesis
  proof (cases r)
    case (Inr rs)
    let ?P = "\<lambda>r. \<nexists>p. r = RuntimeFile p"
    have s: "sorted rs" "distinct rs" using system_inspect_sorted [OF Pair [unfolded Inr]] by auto
    have "x \<in> set (dropWhile ?P rs) \<Longrightarrow> \<exists>p. x = RuntimeFile p" for x
    proof -
      assume x: "x \<in> set (dropWhile ?P rs)"
      then obtain y ys where d: "dropWhile ?P rs = y # ys" by (meson list.set_cases)
      then obtain q where y: "y = RuntimeFile q" by (auto simp: dropWhile_eq_Cons_conv)
      have "sorted (dropWhile ?P rs)" using s(1) by (rule sorted_dropWhile)
      with d x y have "RuntimeFile q \<le> x" by auto
      then show ?thesis using runtime_file_greatest [of x q] by (meson leD)
    qed
    then have "rs = takeWhile ?P rs @ dropWhile ?P rs \<and> list_all ?P (takeWhile ?P rs)
        \<and> list_all (\<lambda>r. \<exists>p. r = RuntimeFile p) (dropWhile ?P rs)"
      by (auto simp: list_all_iff dest: set_takeWhileD)
    then have "\<exists>front back. rs = front @ back \<and> list_all ?P front
        \<and> list_all (\<lambda>r. \<exists>p. r = RuntimeFile p) back" by blast
    with s Pair Inr show ?thesis by simp
  qed (use Pair in simp)
qed

text \<open>
  C24. The log stays within its bounds: no append, whatever its size, leaves the current log or
  one of its rotated files above 10 MiB.
\<close>

theorem log_stays_bounded:
  "keeps (\<lambda>tr. log_bounded path (fs_after init tr)) (log_append (file_system init) path bytes)"
proof (cases "bytes = []")
  case True
  then show ?thesis by (auto simp: keeps_def log_append_def)
next
  case False
  show ?thesis
    unfolding keeps_def using log_append_files [OF False, of init path] appended_bounded
    by (metis snd_conv)
qed

text \<open>
  The tail of an existing log is at most 256 KiB (and at most what was asked for) from its
  end; it is the whole log when that fits, and otherwise starts at a line.
\<close>

lemma log_tail_is_suffix:
  assumes "fs_after init tr path = Some s"
  shows "\<exists>tr' body pre. log_tail (file_system init) path n tr = (Inr (from_utf8_lossy body), tr')
     \<and> s = pre @ body \<and> length body \<le> min n MAX_LOG_TAIL_BYTES
     \<and> (length s \<le> min n MAX_LOG_TAIL_BYTES \<longrightarrow> body = s)
     \<and> (pre = [] \<or> last pre = newline \<or> newline \<notin> set body)"
  using assms by (rule log_tail_file)

section \<open>The network helper\<close>





text \<open>
  C26. Setting up the routes is ordered and fails closed.  Whatever the machine answers, the default
  route is turned into the tunnel only after the ways out of it were laid: the table of marked
  dials and its rule, and a pin for every IPv4 server.  When the helper reports success, both
  halves of the IPv4 default are in the tunnel and both halves of IPv6 are closed; otherwise the
  newest attempt on either half of the default was to take it back.
\<close>

theorem route_up_ordered:
  "case helper_main os hm pid n (''route-up'' # args) [] of (rc, tr) \<Rightarrow>
     flips_prepared (ru_servers (route_up_args args no_options)) tr
     \<and> (if rc = Some 0 then tunnel_closed tr else not_turned tr)"
proof (cases "helper_main os hm pid n (''route-up'' # args) []")
  case (Pair rc tr)
  then show ?thesis using route_up_command [OF Pair] by simp
qed

text \<open>
  C27. Only the excluded processes are moved, whatever command the helper is given: every write it
  makes, other than of the reverse-path filter, is of the id of a process whose names were read
  directly before and match one of the applications it was told.
\<close>

theorem helper_moves_only_told:
  "moves_identified os (told_apps word args) (snd (helper_main os hm pid n (word # args) []))"
  by (rule helper_moves)

section \<open>The desktop's configurations\<close>

text \<open>
  C28. The configurations the desktop generates are those the daemon accepts.  For every location
  that is given by its fields (a share link, or one written by hand), whatever the user's split,
  mode, LAN setting, log level and MTU, the generator does not panic, and the daemon's checks
  accept what it made: the configuration of the connection, with a TUN inbound exactly when the
  mode is not the local proxy, the configuration of the connection's probe at the placeholder port,
  and those of a ping, in the present and in the older form.  The extra settings of a link must
  name no file, and the URL parser writes an \<open>https\<close> URL with its scheme and a lower-case host.
\<close>

theorem generated_documents_accepted:
  assumes "of_fields s" and "extra_clean from_str s" and "url_parser_ok url_parse"
  shows "\<exists>cfg probe ping legacy.
     build_xray_config from_str url_parse pick s sp mode XrayNative lan level mtu = Some cfg
     \<and> build_connection_probe_config from_str pick s = Some (Ok probe)
     \<and> build_ping_config from_str pick s [unat p] = Some (Ok ping)
     \<and> build_legacy_ping_config from_str pick s (unat p) = Some (Ok legacy)
     \<and> (\<forall>parse raw. parse raw = Inr cfg \<longrightarrow> validate_xray_document parse raw (mode \<noteq> ''proxy'') = Ok ())
     \<and> (\<forall>parse raw. parse raw = Inr probe \<longrightarrow>
          validate_ping_xray_document parse raw [of_nat CONNECTION_PROBE_PORT_BASE] = Ok ())
     \<and> (\<forall>parse raw. parse raw = Inr ping \<longrightarrow> validate_ping_xray_document parse raw [p] = Ok ())
     \<and> (\<forall>parse raw. parse raw = Inr legacy \<longrightarrow> validate_ping_xray_document parse raw [p] = Ok ())"
  by (rule generated_documents [OF assms, where p = p and sp = sp and lan = lan
        and mode = mode and level = level and mtu = mtu and pick = pick]) blast

text \<open>A parser that knows one resolver, and a location on a TLS server behind a web socket.\<close>

definition one_resolver :: "string \<Rightarrow> full_url option" where
  "one_resolver raw =
     (if raw = ''https://dns.google/dns-query''
      then Some \<lparr>fu_scheme = ''https'', fu_username = [], fu_password = None, fu_host = Some ''dns.google'',
                 fu_port = None, fu_fragment = None, fu_pairs = [], fu_text = ''https://dns.google/dns-query''\<rparr>
      else None)"

lemma one_resolver_ok: "url_parser_ok one_resolver"
proof -
  have "parse_ip ''https://dns.google/dns-query'' = None" by (rule no_ip) code_simp+
  moreover have "to_lower ''dns.google'' = ''dns.google''" by code_simp
  ultimately show ?thesis
    by (simp add: url_parser_ok_def one_resolver_def starts_with_def split: option.split)
qed

definition web_location :: vless_server where
  "web_location =
     (base_server ''trojan'' ''vpn.example'' 443 ''home'')
       \<lparr>vs_uuid := ''secret'', vs_password := Some ''secret'', vs_transport := ''ws'', vs_security := ''tls'',
        vs_path := Some ''/tunnel''\<rparr>"

lemma web_location_facts: "of_fields web_location" "extra_clean (\<lambda>_. None) web_location"
  by (simp_all add: web_location_def of_fields_def extra_clean_def base_server_def param_def)

theorem generated_documents_accepted_witness:
  "\<exists>cfg. build_xray_config (\<lambda>_. None) one_resolver 0 web_location
            \<lparr>sp_apps_mode = ''general'', sp_sites_mode = ''selective'', sp_apps = [''curl''], sp_sites = [''example.org'']\<rparr>
            ''tun'' XrayNative True ''warning'' 1500 = Some cfg
     \<and> validate_xray_document (\<lambda>_. Inr cfg) [] True = Ok ()"
  using generated_documents_accepted [OF web_location_facts one_resolver_ok,
      of 0 "\<lparr>sp_apps_mode = ''general'', sp_sites_mode = ''selective'', sp_apps = [''curl''], sp_sites = [''example.org'']\<rparr>"
        "''tun''" True "''warning''" 1500 1080]
  by auto



text \<open>
  C30. When generating a configuration panics.  The command fails with a panic instead of an error
  exactly for a location with an outbound of its provider that the cleaning refuses and that
  validation let through: without a profile, validation looks only at the protocol; with one, the
  profile has to be of a single proxy.  A location given by its fields never panics.
\<close>

theorem generate_panics_exactly:
  "generate_xray_config from_str url_parse print pick s sp mode lan mtu = None \<longleftrightarrow>
     (case vs_raw_outbound s of
        None \<Rightarrow> False
      | Some raw \<Rightarrow>
          is_err (sanitize_raw_outbound raw False)
          \<and> (if vs_raw_profile s = None
             then (case get_str ''protocol'' raw of None \<Rightarrow> False | Some p \<Rightarrow> is_known_protocol (to_lower p))
             else profile_plan pick s = Ok None))"
  by (rule generate_panics)

section \<open>Subscriptions\<close>







section \<open>The helper's watcher\<close>




section \<open>The desktop and the daemon\<close>








text \<open>
  C36. What the commands of the desktop touch.  Whatever the machine answers, connecting,
  disconnecting, changing the split, asking for the status or the log, clearing it, the pings and
  quitting only talk to the socket of the user's daemon, ask the resolver for endpoints, and may
  start the installed daemon through \<open>pkexec\<close>: no other program is run, no file written, no process
  signalled.
\<close>

theorem desktop_only_asks:
  "calls_only (desktop_call (dk_uid dk)) (vpn_connect dk s sp mode killswitch lan level mtu)
   \<and> calls_only (desktop_call (dk_uid dk)) (vpn_disconnect dk)
   \<and> calls_only (desktop_call (dk_uid dk)) (vpn_apply_split dk sp)
   \<and> calls_only (desktop_call (dk_uid dk)) (vpn_status dk)
   \<and> calls_only (desktop_call (dk_uid dk)) (vpn_log dk)
   \<and> calls_only (desktop_call (dk_uid dk)) (clear_vpn_log dk)
   \<and> calls_only (desktop_call (dk_uid dk)) (tcp_ping_host dk host port timeout_ms)
   \<and> calls_only (desktop_call (dk_uid dk)) (proxy_get_ping dk s timeout_ms)
   \<and> calls_only (desktop_call (dk_uid dk)) (quit_app dk)"
  by (intro conjI desktop_calls)

text \<open>
  C37. An answer belongs to its request.  When a request of the desktop gives a state, the frame of
  that request was written whole, with its length before it, and a response was read that is within
  the limit, has the version of the protocol, names the same operation, and holds that state; and
  the next request uses another number, never zero.
\<close>

theorem answers_name_their_request:
  assumes "client_request os cc command c tr = ((Inr st, c'), tr')"
  shows "answered_with cc
       \<lparr>rq_version = PROTOCOL_VERSION, rq_operation_id = dc_next_operation_id c, rq_command = command\<rparr>
       (dc_stream c) st tr'
     \<and> dc_next_operation_id c' \<noteq> 0 \<and> dc_stream c' = dc_stream c
     \<and> (dc_next_operation_id c \<noteq> 0 \<longrightarrow> dc_next_operation_id c' \<noteq> dc_next_operation_id c)"
  using assms next_operation_id_other
  by (auto simp: client_request_def map_io_def split: prod.splits dest!: exchange_ok)

theorem answers_name_their_request_witness:
  "let st = \<lparr>ds_phase = Disconnected, ds_split_active = False, ds_dns_protected = False, ds_rtt_ms = None, ds_log_tail = None\<rparr>;
       cc = \<lparr>cc_request = (\<lambda>_. Some ''q''),
             cc_response = (\<lambda>_. Some \<lparr>rs_version = PROTOCOL_VERSION, rs_operation_id = 7, rs_result = Ok st\<rparr>)\<rparr>;
       c = \<lparr>dc_stream = 3, dc_next_operation_id = 7\<rparr>
   in answered_with cc \<lparr>rq_version = PROTOCOL_VERSION, rq_operation_id = 7, rq_command = Status\<rparr> 3 st
        (snd (client_request answering cc Status c []))
    \<and> dc_next_operation_id (snd (fst (client_request answering cc Status c []))) = 8"
proof -
  let ?st = "\<lparr>ds_phase = Disconnected, ds_split_active = False, ds_dns_protected = False, ds_rtt_ms = None, ds_log_tail = None\<rparr>"
  let ?cc = "\<lparr>cc_request = (\<lambda>_. Some ''q''),
     cc_response = (\<lambda>_. Some \<lparr>rs_version = PROTOCOL_VERSION, rs_operation_id = 7, rs_result = Ok ?st\<rparr>)\<rparr>"
  let ?c = "\<lparr>dc_stream = 3, dc_next_operation_id = 7\<rparr>"
  have "client_request answering ?cc Status ?c []
      = ((Inr ?st, ?c\<lparr>dc_next_operation_id := 8\<rparr>), snd (client_request answering ?cc Status ?c []))"
    by (simp add: client_request_def exchange_def map_io_def try_io_def then_io_def timed_def send_frame_def recv_exact_def
        do_call_def ask_text_def ask_flag_def ask_as_def ask_def answering_def encode_frame_def decode_response_frame_def
        response_outcome_def be32_def read_be32_def MAX_FRAME_BYTES_def next_operation_id_def PROTOCOL_VERSION_def
        ok_or_def map_err_def max_def Let_def word_le_nat_alt)
  from answers_name_their_request [OF this] show ?thesis
    by (simp add: client_request_def next_operation_id_def map_io_def split: prod.splits)
qed
section \<open>Fetching and keeping\<close>

text \<open>
  C38. Fetching a subscription reaches only public addresses.  Whatever is pasted, wherever servers
  redirect and whatever the resolver says, every request comes right after the resolution of its
  host, dials exactly the addresses that gave, all of them public: none is refused by the check and
  none lies in a private, loopback, link-local, shared or multicast range.  The host is not the
  machine itself, and there are at most six requests.
\<close>

theorem fetch_only_public:
  "gets_checked (snd (fetch_subscription os pa join_url arch fuel url choice []))
   \<and> gets_made (snd (fetch_subscription os pa join_url arch fuel url choice [])) \<le> 6"
  by (rule fetch_subscription_checked)

text \<open>
  C39. Managing the cores stays in their directory.  Whatever tags, releases and archives are given,
  showing, installing, activating, removing and listing change only the file of the choice, a
  directory \<open>versions/xray/\<close> followed by one plain component, the binary in it, and the leftovers of
  the former core; the only program run is a binary asked for its version.
\<close>

theorem core_stays_in_place:
  "core_only h (core_info h fuel kind) \<and> core_only h (core_install h fuel kind version)
   \<and> core_only h (core_activate h kind tag) \<and> core_only h (core_uninstall h kind tag)
   \<and> core_only h (list_core_releases h fuel kind)"
  by (intro conjI core_commands)

text \<open>
  C40. A page that keeps crashing is reloaded at most three times in two minutes: of the times of the
  reloads, each is at least the window after the third before it, for every sequence of terminations
  in the order of time.  After a window without a reload the next one is granted.
\<close>

theorem reloads_bounded:
  assumes "sorted (map snd es)"
  shows "(\<forall>i. i + 3 < length (terminations es []) \<longrightarrow>
            terminations es [] ! i + 120000 \<le> terminations es [] ! (i + 3))
     \<and> ((\<forall>t \<in> set recent. t + 120000 \<le> now) \<longrightarrow> fst (budget_take now recent))"
  using terminations_spaced [OF assms, of "[]" "[]"] budget_refills [of recent now]
  by (auto simp: spaced_def MAX_RELOADS_def RELOAD_WINDOW_def)

theorem reloads_bounded_witness:
  "terminations [(Crashed, 0), (Crashed, 1000), (TerminatedByApi, 1500), (Crashed, 2000), (Crashed, 3000), (Crashed, 121000)] []
     = [0, 1000, 2000, 121000]
   \<and> (terminations [(Crashed, 0), (Crashed, 1000), (TerminatedByApi, 1500), (Crashed, 2000), (Crashed, 3000), (Crashed, 121000)] []) ! 0
        + 120000 \<le> 121000"
proof -
  let ?es = "[(Crashed, 0), (Crashed, 1000), (TerminatedByApi, 1500), (Crashed, 2000), (Crashed, 3000), (Crashed, 121000)] :: (termination_reason \<times> nat) list"
  have run: "terminations ?es [] = [0, 1000, 2000, 121000]"
    by (simp add: web_process_terminated_def budget_take_def RELOAD_WINDOW_def MAX_RELOADS_def)
  have "sorted (map snd ?es)" by simp
  from reloads_bounded [OF this, of "[]" 0] have "terminations ?es [] ! 0 + 120000 \<le> terminations ?es [] ! 3"
    unfolding run by simp
  then show ?thesis unfolding run by simp
qed
end
